(* ===== verification/Prelude.thy ===== *)
theory Prelude
  imports Main "HOL-Library.Word" "HOL-Library.Sublist" "HOL-Library.AList"
begin

text \<open>
  Shared vocabulary of the development: bytes and byte strings, the operations of Rust's
  \<open>str\<close> and integer types that the sources use, the error monad and the state-error
  monad in which the handlers are written, and the generic lemmas about all of them.

  A Rust \<open>String\<close>, \<open>&str\<close> or \<open>Vec<u8>\<close> is a list of bytes. Every pattern the
  sources search for is ASCII, so a search over the bytes of a UTF-8 string finds what the
  search over its characters finds.
\<close>

named_theorems str_simps \<open>rewriting rules for the byte-string operations\<close>
named_theorems res_simps \<open>inversion of the error monad\<close>
named_theorems preserves_rules \<open>operations that preserve an invariant\<close>
named_theorems hoare_rules \<open>composition rules of the state-error monad\<close>

type_synonym bytes = string
type_synonym u8 = "8 word"
type_synonym u16 = "16 word"
type_synonym u32 = "32 word"
type_synonym u64 = "64 word"

text \<open>A \<open>HashMap\<close>: its entries in iteration order; lookup is \<^const>\<open>map_of\<close>.\<close>
type_synonym 'v hashmap = "(string \<times> 'v) list"

section \<open>Bytes\<close>

definition byte_of :: "char \<Rightarrow> nat" where
  "byte_of c = of_char c"

definition is_ascii_digit :: "char \<Rightarrow> bool" where
  "is_ascii_digit c \<longleftrightarrow> 48 \<le> byte_of c \<and> byte_of c \<le> 57"

definition is_ascii_upper :: "char \<Rightarrow> bool" where
  "is_ascii_upper c \<longleftrightarrow> 65 \<le> byte_of c \<and> byte_of c \<le> 90"

definition is_ascii_lower :: "char \<Rightarrow> bool" where
  "is_ascii_lower c \<longleftrightarrow> 97 \<le> byte_of c \<and> byte_of c \<le> 122"

definition is_ascii_alphabetic :: "char \<Rightarrow> bool" where
  "is_ascii_alphabetic c \<longleftrightarrow> is_ascii_upper c \<or> is_ascii_lower c"

definition is_ascii_alphanumeric :: "char \<Rightarrow> bool" where
  "is_ascii_alphanumeric c \<longleftrightarrow> is_ascii_alphabetic c \<or> is_ascii_digit c"

definition is_ascii_hexdigit :: "char \<Rightarrow> bool" where
  "is_ascii_hexdigit c \<longleftrightarrow> is_ascii_digit c
     \<or> 65 \<le> byte_of c \<and> byte_of c \<le> 70 \<or> 97 \<le> byte_of c \<and> byte_of c \<le> 102"

text \<open>\<open>u8::is_ascii_whitespace\<close> (no vertical tab) and the ASCII part of
  \<open>char::is_whitespace\<close>.\<close>

definition is_ascii_whitespace :: "char \<Rightarrow> bool" where
  "is_ascii_whitespace c \<longleftrightarrow> byte_of c \<in> {9, 10, 12, 13, 32}"

definition is_whitespace :: "char \<Rightarrow> bool" where
  "is_whitespace c \<longleftrightarrow> 9 \<le> byte_of c \<and> byte_of c \<le> 13 \<or> byte_of c = 32"

definition ascii_lower :: "char \<Rightarrow> char" where
  "ascii_lower c = (if is_ascii_upper c then char_of (byte_of c + 32) else c)"

definition to_ascii_lowercase :: "string \<Rightarrow> string" where
  "to_ascii_lowercase s = map ascii_lower s"

definition eq_ignore_ascii_case :: "string \<Rightarrow> string \<Rightarrow> bool" where
  "eq_ignore_ascii_case s t \<longleftrightarrow> to_ascii_lowercase s = to_ascii_lowercase t"

lemmas byte_class_defs =
  byte_of_def is_ascii_digit_def is_ascii_upper_def is_ascii_lower_def is_ascii_alphabetic_def
  is_ascii_alphanumeric_def is_ascii_hexdigit_def is_ascii_whitespace_def is_whitespace_def

lemma byte_of_inject: "byte_of c = byte_of d \<longleftrightarrow> c = d"
  by (simp add: byte_of_def)

lemma byte_of_less [simp]: "byte_of c < 256"
  by (simp add: byte_of_def)

lemma byte_of_char_of [simp]: "n < 256 \<Longrightarrow> byte_of (char_of n) = n"
  by (simp add: byte_of_def)

lemma byte_of_ascii_lower:
  "byte_of (ascii_lower c) = (if is_ascii_upper c then byte_of c + 32 else byte_of c)"
  by (simp add: ascii_lower_def is_ascii_upper_def)

lemma ascii_lower_idem [simp]: "ascii_lower (ascii_lower c) = ascii_lower c"
  by (auto simp: ascii_lower_def is_ascii_upper_def)

lemma not_upper_ascii_lower [simp]: "\<not> is_ascii_upper (ascii_lower c)"
  by (auto simp: ascii_lower_def is_ascii_upper_def)

lemma ascii_lower_id: "\<not> is_ascii_upper c \<Longrightarrow> ascii_lower c = c"
  by (simp add: ascii_lower_def)

lemma ascii_lower_nonalpha:
  assumes "\<not> is_ascii_alphabetic d"
  shows "ascii_lower c = d \<longleftrightarrow> c = d"
proof
  assume eq: "ascii_lower c = d"
  show "c = d"
  proof (cases "is_ascii_upper c")
    case True
    then have "is_ascii_lower d"
      by (simp add: byte_of_ascii_lower is_ascii_lower_def is_ascii_upper_def flip: eq)
    with assms show ?thesis by (simp add: is_ascii_alphabetic_def)
  next
    case False
    with eq show ?thesis by (simp add: ascii_lower_id)
  qed
next
  assume "c = d"
  with assms show "ascii_lower c = d"
    by (auto intro: ascii_lower_id simp: is_ascii_alphabetic_def)
qed

lemma to_ascii_lowercase_idem [simp]:
  "to_ascii_lowercase (to_ascii_lowercase s) = to_ascii_lowercase s"
  by (simp add: to_ascii_lowercase_def)

lemma length_to_ascii_lowercase [simp]: "length (to_ascii_lowercase s) = length s"
  by (simp add: to_ascii_lowercase_def)

lemma to_ascii_lowercase_append [simp]:
  "to_ascii_lowercase (s @ t) = to_ascii_lowercase s @ to_ascii_lowercase t"
  by (simp add: to_ascii_lowercase_def)

lemma to_ascii_lowercase_id:
  "list_all (\<lambda>c. \<not> is_ascii_upper c) s \<Longrightarrow> to_ascii_lowercase s = s"
  by (induction s) (auto simp: to_ascii_lowercase_def ascii_lower_id)

lemma eq_ignore_ascii_case_refl [simp]: "eq_ignore_ascii_case s s"
  by (simp add: eq_ignore_ascii_case_def)

section \<open>Prefixes, suffixes and searches\<close>

fun strip_prefix :: "'a list \<Rightarrow> 'a list \<Rightarrow> 'a list option" where
  "strip_prefix [] s = Some s"
| "strip_prefix (p # ps) [] = None"
| "strip_prefix (p # ps) (c # cs) = (if p = c then strip_prefix ps cs else None)"

definition starts_with :: "'a list \<Rightarrow> 'a list \<Rightarrow> bool" where
  "starts_with p s \<longleftrightarrow> strip_prefix p s \<noteq> None"

definition strip_suffix :: "'a list \<Rightarrow> 'a list \<Rightarrow> 'a list option" where
  "strip_suffix p s = map_option rev (strip_prefix (rev p) (rev s))"

definition ends_with :: "'a list \<Rightarrow> 'a list \<Rightarrow> bool" where
  "ends_with p s \<longleftrightarrow> strip_suffix p s \<noteq> None"

lemma strip_prefix_Some [str_simps]: "strip_prefix p s = Some r \<longleftrightarrow> s = p @ r"
  by (induction p s rule: strip_prefix.induct) auto

lemma strip_prefix_None: "strip_prefix p s = None \<longleftrightarrow> (\<forall>r. s \<noteq> p @ r)"
  by (metis not_Some_eq strip_prefix_Some)

lemma strip_prefix_append [simp]: "strip_prefix p (p @ r) = Some r"
  by (simp add: strip_prefix_Some)

lemma starts_with_iff [str_simps]: "starts_with p s \<longleftrightarrow> (\<exists>r. s = p @ r)"
  by (auto simp: starts_with_def strip_prefix_Some)

lemma starts_with_append [simp]: "starts_with p (p @ r)"
  by (auto simp: starts_with_iff)

lemma strip_suffix_Some [str_simps]: "strip_suffix p s = Some r \<longleftrightarrow> s = r @ p"
  by (auto simp: strip_suffix_def strip_prefix_Some rev_swap)

lemma strip_suffix_append [simp]: "strip_suffix p (r @ p) = Some r"
  by (simp add: strip_suffix_Some)

lemma ends_with_iff [str_simps]: "ends_with p s \<longleftrightarrow> (\<exists>r. s = r @ p)"
  by (auto simp: ends_with_def strip_suffix_Some)

text \<open>\<open>split_once\<close>, \<open>find\<close> and \<open>position\<close> stop at the first match.\<close>

fun split_once :: "'a \<Rightarrow> 'a list \<Rightarrow> ('a list \<times> 'a list) option" where
  "split_once c [] = None"
| "split_once c (x # xs) =
     (if x = c then Some ([], xs)
      else map_option (\<lambda>(a, b). (x # a, b)) (split_once c xs))"

fun position :: "('a \<Rightarrow> bool) \<Rightarrow> 'a list \<Rightarrow> nat option" where
  "position P [] = None"
| "position P (x # xs) = (if P x then Some 0 else map_option Suc (position P xs))"

text \<open>The last occurrence of a pattern: what lies before it and after it.\<close>

fun rsplit_once :: "'a list \<Rightarrow> 'a list \<Rightarrow> ('a list \<times> 'a list) option" where
  "rsplit_once p [] = (if p = [] then Some ([], []) else None)"
| "rsplit_once p (x # xs) =
     (case rsplit_once p xs of
        Some (b, a) \<Rightarrow> Some (x # b, a)
      | None \<Rightarrow> map_option (\<lambda>r. ([], r)) (strip_prefix p (x # xs)))"

fun contains_sub :: "'a list \<Rightarrow> 'a list \<Rightarrow> bool" where
  "contains_sub p [] = (p = [])"
| "contains_sub p (x # xs) = (starts_with p (x # xs) \<or> contains_sub p xs)"

lemma split_once_Some [str_simps]:
  "split_once c s = Some (a, b) \<longleftrightarrow> s = a @ c # b \<and> c \<notin> set a"
proof (induction s arbitrary: a)
  case Nil
  then show ?case by simp
next
  case (Cons x s)
  then show ?case by (cases a) auto
qed

lemma split_once_None [str_simps]: "split_once c s = None \<longleftrightarrow> c \<notin> set s"
  by (induction s) auto

lemma split_once_append [simp]: "c \<notin> set a \<Longrightarrow> split_once c (a @ c # b) = Some (a, b)"
  by (simp add: split_once_Some)

lemma position_Some:
  "position P xs = Some i \<Longrightarrow> i < length xs \<and> P (xs ! i) \<and> (\<forall>j<i. \<not> P (xs ! j))"
proof (induction xs arbitrary: i)
  case Nil
  then show ?case by simp
next
  case (Cons x xs)
  then show ?case by (auto split: if_splits simp: less_Suc_eq_0_disj)
qed

lemma position_None [simp]: "position P xs = None \<longleftrightarrow> (\<forall>x\<in>set xs. \<not> P x)"
  by (induction xs) auto

lemma position_append_first:
  "\<forall>x\<in>set a. \<not> P x \<Longrightarrow> P y \<Longrightarrow> position P (a @ y # b) = Some (length a)"
  by (induction a) auto

lemma contains_sub_iff [str_simps]: "contains_sub p s \<longleftrightarrow> (\<exists>a b. s = a @ p @ b)"
proof (induction s)
  case Nil
  then show ?case by simp
next
  case IH: (Cons x xs)
  show ?case
  proof
    assume "contains_sub p (x # xs)"
    then consider r where "x # xs = p @ r" | a b where "xs = a @ p @ b"
      using IH by (auto simp: starts_with_iff)
    then show "\<exists>a b. x # xs = a @ p @ b"
    proof cases
      case 1
      then have "x # xs = [] @ p @ r" by simp
      then show ?thesis by blast
    next
      case 2
      then have "x # xs = (x # a) @ p @ b" by simp
      then show ?thesis by blast
    qed
  next
    assume "\<exists>a b. x # xs = a @ p @ b"
    then obtain a b where *: "x # xs = a @ p @ b" by blast
    show "contains_sub p (x # xs)"
    proof (cases a)
      case Nil
      with * have "starts_with p (x # xs)" by (auto simp: starts_with_iff)
      then show ?thesis by simp
    next
      case (Cons a1 as)
      with * have "\<exists>a b. xs = a @ p @ b" by auto
      with IH show ?thesis by simp
    qed
  qed
qed

lemma rsplit_once_None [str_simps]: "rsplit_once p s = None \<longleftrightarrow> \<not> contains_sub p s"
  by (induction s) (auto simp: starts_with_def split: option.splits)

lemma rsplit_once_SomeD:
  "rsplit_once p s = Some (b, a) \<Longrightarrow> s = b @ p @ a"
proof (induction s arbitrary: b)
  case Nil
  then show ?case by (auto split: if_splits)
next
  case (Cons x xs)
  then show ?case
    by (auto split: option.splits prod.splits simp: strip_prefix_Some)
qed

lemma rsplit_once_last:
  assumes "rsplit_once p s = Some (b, a)"
  shows "p \<noteq> [] \<Longrightarrow> \<not> contains_sub p (drop (Suc (length b)) s)"
  using assms
proof (induction s arbitrary: b)
  case Nil
  then show ?case by auto
next
  case (Cons x xs)
  then show ?case
    by (auto split: option.splits prod.splits simp: rsplit_once_None)
qed

text \<open>If the pattern occurs in \<open>b @ p @ a\<close> only at \<open>length b\<close>, that is the split found.\<close>

lemma rsplit_once_intro:
  "\<not> contains_sub p (drop 1 (p @ a)) \<Longrightarrow> p \<noteq> [] \<Longrightarrow> rsplit_once p (b @ p @ a) = Some (b, a)"
proof (induction b)
  case Nil
  then obtain y ys where p: "p = y # ys" by (cases p) auto
  with Nil have "rsplit_once p (ys @ a) = None" by (simp add: rsplit_once_None)
  with p show ?case by simp
next
  case (Cons x b)
  then show ?case by simp
qed

section \<open>Splitting, joining and trimming\<close>

fun split_on :: "'a \<Rightarrow> 'a list \<Rightarrow> 'a list list" where
  "split_on c [] = [[]]"
| "split_on c (x # xs) =
     (if x = c then [] # split_on c xs
      else (case split_on c xs of [] \<Rightarrow> [[x]] | y # ys \<Rightarrow> (x # y) # ys))"

fun join :: "'a list \<Rightarrow> 'a list list \<Rightarrow> 'a list" where
  "join sep [] = []"
| "join sep [x] = x"
| "join sep (x # y # ys) = x @ sep @ join sep (y # ys)"

definition trim_start_matches :: "('a \<Rightarrow> bool) \<Rightarrow> 'a list \<Rightarrow> 'a list" where
  "trim_start_matches P s = dropWhile P s"

definition trim_end_matches :: "('a \<Rightarrow> bool) \<Rightarrow> 'a list \<Rightarrow> 'a list" where
  "trim_end_matches P s = rev (dropWhile P (rev s))"

definition trim_matches :: "('a \<Rightarrow> bool) \<Rightarrow> 'a list \<Rightarrow> 'a list" where
  "trim_matches P s = trim_end_matches P (trim_start_matches P s)"

text \<open>\<open>str::trim\<close>: the characters of Unicode's White_Space property, in UTF-8.\<close>

definition space_encodings :: "string list" where
  "space_encodings =
     map (\<lambda>n. [char_of n]) [9, 10, 11, 12, 13, 32 :: nat] @
     map (\<lambda>n. [CHR 0xC2, char_of n]) [0x85, 0xA0 :: nat] @
     [[CHR 0xE1, CHR 0x9A, CHR 0x80]] @
     map (\<lambda>n. [CHR 0xE2, CHR 0x80, char_of n])
       [0x80, 0x81, 0x82, 0x83, 0x84, 0x85, 0x86, 0x87, 0x88, 0x89, 0x8A, 0xA8, 0xA9, 0xAF :: nat] @
     [[CHR 0xE2, CHR 0x81, CHR 0x9F], [CHR 0xE3, CHR 0x80, CHR 0x80]]"

fun strip_any :: "'a list list \<Rightarrow> 'a list \<Rightarrow> 'a list option" where
  "strip_any [] s = None"
| "strip_any (p # ps) s = (case strip_prefix p s of Some r \<Rightarrow> Some r | None \<Rightarrow> strip_any ps s)"

function trim_any :: "'a list list \<Rightarrow> 'a list \<Rightarrow> 'a list" where
  "trim_any ps s =
     (case strip_any ps s of
        None \<Rightarrow> s
      | Some r \<Rightarrow> if length r < length s then trim_any ps r else s)"
  by pat_completeness auto
termination by (relation "measure (\<lambda>(ps, s). length s)") auto

declare trim_any.simps [simp del]

definition trim :: "string \<Rightarrow> string" where
  "trim s = rev (trim_any (map rev space_encodings) (rev (trim_any space_encodings s)))"

text \<open>A string that starts and ends with visible ASCII characters is its own trimming.\<close>

definition is_ascii_graphic :: "char \<Rightarrow> bool" where
  "is_ascii_graphic c \<longleftrightarrow> 33 \<le> byte_of c \<and> byte_of c \<le> 126"

lemma strip_any_None: "(\<And>p. p \<in> set ps \<Longrightarrow> strip_prefix p s = None) \<Longrightarrow> strip_any ps s = None"
  by (induction ps) auto

lemma trim_any_fixed: "strip_any ps s = None \<Longrightarrow> trim_any ps s = s"
  by (subst trim_any.simps) simp

lemma space_encodings_graphic:
  "p \<in> set space_encodings \<Longrightarrow> p \<noteq> [] \<and> \<not> is_ascii_graphic (hd p) \<and> \<not> is_ascii_graphic (last p)"
  by (auto simp: space_encodings_def is_ascii_graphic_def byte_of_def)

lemma trim_graphic:
  assumes "s \<noteq> []" "is_ascii_graphic (hd s)" "is_ascii_graphic (last s)"
  shows "trim s = s"
proof -
  have p: "strip_prefix p s = None" if "p \<noteq> []" "hd p \<noteq> hd s" "s \<noteq> []" for p s :: string
    using that by (cases p; cases s) auto
  have "strip_any space_encodings s = None"
    using assms by (intro strip_any_None p) (auto dest: space_encodings_graphic)
  moreover have "strip_any (map rev space_encodings) (rev s) = None"
    using assms by (intro strip_any_None p) (auto simp: hd_rev dest: space_encodings_graphic)
  ultimately show ?thesis by (simp add: trim_def trim_any_fixed)
qed

lemma split_on_not_Nil [simp]: "split_on c s \<noteq> []"
  by (induction s) (auto split: list.splits)

lemma join_Cons: "ys \<noteq> [] \<Longrightarrow> join sep (x # ys) = x @ sep @ join sep ys"
  by (cases ys) auto

lemma join_split_on [simp]: "join [c] (split_on c s) = s"
proof (induction s)
  case Nil
  then show ?case by simp
next
  case (Cons x xs)
  obtain y ys where sp: "split_on c xs = y # ys"
    using split_on_not_Nil by (metis neq_Nil_conv)
  with Cons show ?case by (cases ys) auto
qed

lemma split_on_parts: "p \<in> set (split_on c s) \<Longrightarrow> c \<notin> set p"
  by (induction s arbitrary: p) (auto split: if_splits list.splits)

lemma split_on_no_sep [simp]: "c \<notin> set s \<Longrightarrow> split_on c s = [s]"
  by (induction s) auto

lemma split_on_append_sep:
  "c \<notin> set a \<Longrightarrow> split_on c (a @ c # b) = a # split_on c b"
  by (induction a) auto

lemma split_on_join:
  "ps \<noteq> [] \<Longrightarrow> \<forall>p\<in>set ps. c \<notin> set p \<Longrightarrow> split_on c (join [c] ps) = ps"
proof (induction ps)
  case Nil
  then show ?case by simp
next
  case (Cons p ps)
  then show ?case
    by (cases ps) (auto simp: split_on_append_sep)
qed

lemma set_split_on: "p \<in> set (split_on c s) \<Longrightarrow> set p \<subseteq> set s"
proof (induction s arbitrary: p)
  case Nil
  then show ?case by simp
next
  case (Cons x xs)
  then show ?case by (fastforce split: if_splits list.splits)
qed

lemma set_join: "set (join sep ps) \<subseteq> set sep \<union> (\<Union>p\<in>set ps. set p)"
  by (induction sep ps rule: join.induct) auto

lemma dropWhile_hd: "dropWhile P s = x # xs \<Longrightarrow> \<not> P x"
  by (metis hd_dropWhile list.distinct(1) list.sel(1))

lemma trim_start_matches_hd: "trim_start_matches P s \<noteq> [] \<Longrightarrow> \<not> P (hd (trim_start_matches P s))"
  by (simp add: trim_start_matches_def hd_dropWhile)

lemma trim_end_matches_last: "trim_end_matches P s \<noteq> [] \<Longrightarrow> \<not> P (last (trim_end_matches P s))"
  by (simp add: trim_end_matches_def last_rev hd_dropWhile)

lemma trim_start_matches_id: "s = [] \<or> \<not> P (hd s) \<Longrightarrow> trim_start_matches P s = s"
  by (cases s) (auto simp: trim_start_matches_def)

lemma trim_end_matches_id: "s = [] \<or> \<not> P (last s) \<Longrightarrow> trim_end_matches P s = s"
  by (cases s rule: rev_cases) (auto simp: trim_end_matches_def)

lemma trim_matches_id:
  "s = [] \<or> \<not> P (hd s) \<and> \<not> P (last s) \<Longrightarrow> trim_matches P s = s"
  by (auto simp: trim_matches_def trim_start_matches_id trim_end_matches_id)

lemma set_trim_start_matches: "set (trim_start_matches P s) \<subseteq> set s"
  by (auto simp: trim_start_matches_def dest: set_dropWhileD)

lemma set_trim_end_matches: "set (trim_end_matches P s) \<subseteq> set s"
  by (auto simp: trim_end_matches_def dest: set_dropWhileD)

lemma set_trim_matches: "set (trim_matches P s) \<subseteq> set s"
  unfolding trim_matches_def
  using set_trim_start_matches set_trim_end_matches by fastforce

section \<open>Numbers in text\<close>

text \<open>\<open>str::parse\<close> for an unsigned type: one leading plus sign is accepted, the digits
  must not be empty, and a value above the type's maximum is an error.\<close>

fun digits_val :: "nat \<Rightarrow> string \<Rightarrow> nat option" where
  "digits_val acc [] = Some acc"
| "digits_val acc (c # cs) =
     (if is_ascii_digit c then digits_val (10 * acc + (byte_of c - 48)) cs else None)"

definition parse_unsigned :: "nat \<Rightarrow> string \<Rightarrow> nat option" where
  "parse_unsigned maxv s =
     (let t = (case s of [] \<Rightarrow> [] | c # cs \<Rightarrow> if c = CHR ''+'' then cs else s)
      in if t = [] then None
         else case digits_val 0 t of
                None \<Rightarrow> None
              | Some n \<Rightarrow> if n \<le> maxv then Some n else None)"

definition u64_max :: nat where
  "u64_max = 2 ^ 64 - 1"

definition u16_max :: nat where
  "u16_max = 2 ^ 16 - 1"

definition parse_u64 :: "string \<Rightarrow> u64 option" where
  "parse_u64 s = map_option of_nat (parse_unsigned u64_max s)"

fun show_nat :: "nat \<Rightarrow> string" where
  "show_nat n = (if n < 10 then [char_of (48 + n)]
                 else show_nat (n div 10) @ [char_of (48 + n mod 10)])"

declare show_nat.simps [simp del]

definition show_u64 :: "u64 \<Rightarrow> string" where
  "show_u64 n = show_nat (unat n)"

lemma digits_val_append:
  "digits_val acc (s @ t) =
     (case digits_val acc s of None \<Rightarrow> None | Some n \<Rightarrow> digits_val n t)"
  by (induction s arbitrary: acc) auto

lemma show_nat_not_Nil [simp]: "show_nat n \<noteq> []"
  by (subst show_nat.simps) simp

lemma show_nat_digits: "\<forall>c\<in>set (show_nat n). is_ascii_digit c"
proof (induction n rule: show_nat.induct)
  case (1 n)
  show ?case
  proof (cases "n < 10")
    case True
    then show ?thesis by (subst show_nat.simps) (simp add: is_ascii_digit_def)
  next
    case False
    have "n mod 10 < 10" by simp
    with False 1 show ?thesis
      by (subst show_nat.simps) (simp add: is_ascii_digit_def)
  qed
qed

lemma digits_val_show_nat: "digits_val 0 (show_nat n) = Some n"
proof (induction n rule: show_nat.induct)
  case (1 n)
  show ?case
  proof (cases "n < 10")
    case True
    then show ?thesis by (subst show_nat.simps) (simp add: is_ascii_digit_def)
  next
    case False
    have "n mod 10 < 10" by simp
    with False 1 show ?thesis
      by (subst show_nat.simps) (simp add: digits_val_append is_ascii_digit_def)
  qed
qed

lemma parse_show_nat: "n \<le> m \<Longrightarrow> parse_unsigned m (show_nat n) = Some n"
proof -
  assume le: "n \<le> m"
  obtain c cs where s: "show_nat n = c # cs"
    using show_nat_not_Nil by (metis neq_Nil_conv)
  with show_nat_digits [of n] have "is_ascii_digit c" by simp
  then have "c \<noteq> CHR ''+''" by (auto simp: byte_class_defs)
  with s le digits_val_show_nat [of n] show ?thesis
    by (simp add: parse_unsigned_def Let_def)
qed

lemma parse_unsigned_le: "parse_unsigned m s = Some n \<Longrightarrow> n \<le> m"
  by (auto simp: parse_unsigned_def Let_def split: if_splits option.splits)

text \<open>A text between double quotes, as the messages write names.\<close>

definition quote :: "string \<Rightarrow> string" where
  "quote s = CHR 0x22 # s @ [CHR 0x22]"

section \<open>Checked and saturating arithmetic\<close>

definition checked_add :: "u64 \<Rightarrow> u64 \<Rightarrow> u64 option" where
  "checked_add a b = (if unat a + unat b < 2 ^ 64 then Some (a + b) else None)"

definition saturating_mul :: "u64 \<Rightarrow> u64 \<Rightarrow> u64" where
  "saturating_mul a b = (if unat a * unat b < 2 ^ 64 then a * b else 0xFFFFFFFFFFFFFFFF)"

definition saturating_sub :: "u64 \<Rightarrow> u64 \<Rightarrow> u64" where
  "saturating_sub a b = (if b \<le> a then a - b else 0)"

lemma checked_add_Some:
  "checked_add a b = Some c \<Longrightarrow> unat c = unat a + unat b"
  by (auto simp: checked_add_def unat_word_ariths split: if_splits)

lemma checked_add_None: "checked_add a b = None \<longleftrightarrow> 2 ^ 64 \<le> unat a + unat b"
  by (auto simp: checked_add_def)

lemma unat_saturating_mul: "unat (saturating_mul a b) = min (unat a * unat b) (2 ^ 64 - 1)"
  by (auto simp: saturating_mul_def unat_word_ariths)

lemma unat_saturating_sub: "unat (saturating_sub a b) = unat a - unat b"
  by (auto simp: saturating_sub_def unat_sub word_le_nat_alt)

lemma unat_u64_less: "unat (n :: u64) < 2 ^ 64"
  using unsigned_less [of n] by simp

lemma unat_of_length: "length xs < 2 ^ 64 \<Longrightarrow> unat (of_nat (length xs) :: u64) = length xs"
  by (simp add: unat_of_nat take_bit_nat_eq_self)

section \<open>The error monad\<close>

definition bindE :: "'e + 'a \<Rightarrow> ('a \<Rightarrow> 'e + 'b) \<Rightarrow> 'e + 'b" where
  "bindE r f = (case r of Inl e \<Rightarrow> Inl e | Inr a \<Rightarrow> f a)"

definition map_errE :: "('e \<Rightarrow> 'f) \<Rightarrow> 'e + 'a \<Rightarrow> 'f + 'a" where
  "map_errE h r = (case r of Inl e \<Rightarrow> Inl (h e) | Inr a \<Rightarrow> Inr a)"

definition ok_or :: "'e \<Rightarrow> 'a option \<Rightarrow> 'e + 'a" where
  "ok_or e x = (case x of None \<Rightarrow> Inl e | Some a \<Rightarrow> Inr a)"

definition guardE :: "bool \<Rightarrow> 'e \<Rightarrow> 'e + unit" where
  "guardE b e = (if b then Inr () else Inl e)"

definition ok :: "'e + 'a \<Rightarrow> 'a option" where
  "ok r = (case r of Inl e \<Rightarrow> None | Inr a \<Rightarrow> Some a)"

definition is_ok :: "'e + 'a \<Rightarrow> bool" where
  "is_ok r \<longleftrightarrow> (case r of Inl e \<Rightarrow> False | Inr a \<Rightarrow> True)"

lemma bindE_simps [simp]: "bindE (Inl e) f = Inl e" "bindE (Inr a) f = f a"
  by (simp_all add: bindE_def)

lemma map_errE_simps [simp]: "map_errE h (Inl e) = Inl (h e)" "map_errE h (Inr a) = Inr a"
  by (simp_all add: map_errE_def)

lemma ok_or_simps [simp]: "ok_or e None = Inl e" "ok_or e (Some a) = Inr a"
  by (simp_all add: ok_or_def)

lemma ok_simps [simp]: "ok (Inl e) = None" "ok (Inr a) = Some a"
  by (simp_all add: ok_def)

lemma is_ok_simps [simp]: "\<not> is_ok (Inl e)" "is_ok (Inr a)"
  by (simp_all add: is_ok_def)

lemma bindE_Inr [res_simps]: "bindE r f = Inr b \<longleftrightarrow> (\<exists>a. r = Inr a \<and> f a = Inr b)"
  by (cases r) auto

lemma bindE_Inl [res_simps]:
  "bindE r f = Inl e \<longleftrightarrow> r = Inl e \<or> (\<exists>a. r = Inr a \<and> f a = Inl e)"
  by (cases r) auto

lemma map_errE_Inr [res_simps]: "map_errE h r = Inr a \<longleftrightarrow> r = Inr a"
  by (cases r) auto

lemma map_errE_Inl [res_simps]: "map_errE h r = Inl e \<longleftrightarrow> (\<exists>e'. r = Inl e' \<and> e = h e')"
  by (cases r) auto

lemma ok_or_Inr [res_simps]: "ok_or e x = Inr a \<longleftrightarrow> x = Some a"
  by (cases x) auto

lemma ok_or_Inl [res_simps]: "ok_or e x = Inl e' \<longleftrightarrow> x = None \<and> e' = e"
  by (cases x) auto

lemma guardE_Inr [res_simps]: "guardE b e = Inr u \<longleftrightarrow> b"
  by (auto simp: guardE_def)

lemma guardE_Inl [res_simps]: "guardE b e = Inl e' \<longleftrightarrow> \<not> b \<and> e' = e"
  by (auto simp: guardE_def)

lemma ok_Some [res_simps]: "ok r = Some a \<longleftrightarrow> r = Inr a"
  by (cases r) auto

section \<open>The state-error monad\<close>

text \<open>A fallible operation on a state: the result and the state it leaves, on both branches,
  because a Rust \<open>?\<close> does not undo what was written before it.\<close>

type_synonym ('w, 'e, 'a) act = "'w \<Rightarrow> ('e + 'a) \<times> 'w"

definition returnA :: "'a \<Rightarrow> ('w, 'e, 'a) act" where
  "returnA a = (\<lambda>w. (Inr a, w))"

definition failA :: "'e \<Rightarrow> ('w, 'e, 'a) act" where
  "failA e = (\<lambda>w. (Inl e, w))"

definition liftA :: "'e + 'a \<Rightarrow> ('w, 'e, 'a) act" where
  "liftA r = (\<lambda>w. (r, w))"

definition bindA :: "('w, 'e, 'a) act \<Rightarrow> ('a \<Rightarrow> ('w, 'e, 'b) act) \<Rightarrow> ('w, 'e, 'b) act" where
  "bindA m f = (\<lambda>w. case m w of (Inl e, w') \<Rightarrow> (Inl e, w') | (Inr a, w') \<Rightarrow> f a w')"

definition map_errA :: "('e \<Rightarrow> 'f) \<Rightarrow> ('w, 'e, 'a) act \<Rightarrow> ('w, 'f, 'a) act" where
  "map_errA h m = (\<lambda>w. case m w of (r, w') \<Rightarrow> (map_errE h r, w'))"

text \<open>\<open>catchA m\<close> hands the result to the continuation whether it is an error or not.\<close>

definition catchA :: "('w, 'e, 'a) act \<Rightarrow> ('e + 'a \<Rightarrow> ('w, 'f, 'b) act) \<Rightarrow> ('w, 'f, 'b) act" where
  "catchA m f = (\<lambda>w. case m w of (r, w') \<Rightarrow> f r w')"

definition modifyA :: "('w \<Rightarrow> 'w) \<Rightarrow> ('w, 'e, unit) act" where
  "modifyA g = (\<lambda>w. (Inr (), g w))"

definition getA :: "('w \<Rightarrow> 'a) \<Rightarrow> ('w, 'e, 'a) act" where
  "getA g = (\<lambda>w. (Inr (g w), w))"

text \<open>Total correctness over both outcomes: from \<open>P\<close>, a result satisfies \<open>Q\<close> and an error
  satisfies \<open>E\<close>.\<close>

definition hoare ::
  "('w \<Rightarrow> bool) \<Rightarrow> ('w, 'e, 'a) act \<Rightarrow> ('a \<Rightarrow> 'w \<Rightarrow> bool) \<Rightarrow> ('e \<Rightarrow> 'w \<Rightarrow> bool) \<Rightarrow> bool" where
  "hoare P m Q E \<longleftrightarrow>
     (\<forall>w. P w \<longrightarrow> (case m w of (Inr a, w') \<Rightarrow> Q a w' | (Inl e, w') \<Rightarrow> E e w'))"

lemma hoareI:
  "(\<And>w a w'. P w \<Longrightarrow> m w = (Inr a, w') \<Longrightarrow> Q a w') \<Longrightarrow>
   (\<And>w e w'. P w \<Longrightarrow> m w = (Inl e, w') \<Longrightarrow> E e w') \<Longrightarrow> hoare P m Q E"
  by (auto simp: hoare_def split: prod.splits sum.splits)

lemma hoare_okD: "hoare P m Q E \<Longrightarrow> P w \<Longrightarrow> m w = (Inr a, w') \<Longrightarrow> Q a w'"
  by (fastforce simp: hoare_def)

lemma hoare_errD: "hoare P m Q E \<Longrightarrow> P w \<Longrightarrow> m w = (Inl e, w') \<Longrightarrow> E e w'"
  by (fastforce simp: hoare_def)

lemma hoare_conseq:
  "hoare P' m Q' E' \<Longrightarrow> (\<And>w. P w \<Longrightarrow> P' w) \<Longrightarrow> (\<And>a w. Q' a w \<Longrightarrow> Q a w) \<Longrightarrow>
   (\<And>e w. E' e w \<Longrightarrow> E e w) \<Longrightarrow> hoare P m Q E"
  by (fastforce simp: hoare_def split: prod.splits sum.splits)

lemma hoare_return [hoare_rules]: "(\<And>w. P w \<Longrightarrow> Q a w) \<Longrightarrow> hoare P (returnA a) Q E"
  by (simp add: hoare_def returnA_def)

lemma hoare_fail [hoare_rules]: "(\<And>w. P w \<Longrightarrow> E e w) \<Longrightarrow> hoare P (failA e) Q E"
  by (simp add: hoare_def failA_def)

lemma hoare_lift:
  "(\<And>a w. r = Inr a \<Longrightarrow> P w \<Longrightarrow> Q a w) \<Longrightarrow> (\<And>e w. r = Inl e \<Longrightarrow> P w \<Longrightarrow> E e w) \<Longrightarrow>
   hoare P (liftA r) Q E"
  by (cases r) (simp_all add: hoare_def liftA_def)

lemma hoare_bind:
  "hoare P m R E \<Longrightarrow> (\<And>a. hoare (R a) (f a) Q E) \<Longrightarrow> hoare P (bindA m f) Q E"
  by (fastforce simp: hoare_def bindA_def split: prod.splits sum.splits)

lemma hoare_catch:
  assumes m: "hoare P m R S"
    and okf: "\<And>a. hoare (R a) (f (Inr a)) Q E"
    and errf: "\<And>e. hoare (S e) (f (Inl e)) Q E"
  shows "hoare P (catchA m f) Q E"
  unfolding hoare_def
proof (intro allI impI)
  fix w
  assume "P w"
  show "case catchA m f w of (Inr a, w') \<Rightarrow> Q a w' | (Inl e, w') \<Rightarrow> E e w'"
  proof (cases "m w")
    case (Pair r w')
    show ?thesis
    proof (cases r)
      case (Inl e)
      with m \<open>P w\<close> Pair have "S e w'" by (auto simp: hoare_def)
      with errf [of e] Inl Pair show ?thesis by (simp add: hoare_def catchA_def)
    next
      case (Inr a)
      with m \<open>P w\<close> Pair have "R a w'" by (auto simp: hoare_def)
      with okf [of a] Inr Pair show ?thesis by (simp add: hoare_def catchA_def)
    qed
  qed
qed

lemma hoare_map_err:
  "hoare P m Q (\<lambda>e. E (h e)) \<Longrightarrow> hoare P (map_errA h m) Q E"
  by (auto simp: hoare_def map_errA_def map_errE_def split: prod.splits sum.splits)

lemma hoare_modify: "(\<And>w. P w \<Longrightarrow> Q () (g w)) \<Longrightarrow> hoare P (modifyA g) Q E"
  by (simp add: hoare_def modifyA_def)

lemma hoare_get: "(\<And>w. P w \<Longrightarrow> Q (g w) w) \<Longrightarrow> hoare P (getA g) Q E"
  by (simp add: hoare_def getA_def)

lemma hoare_if:
  "(b \<Longrightarrow> hoare P m Q E) \<Longrightarrow> (\<not> b \<Longrightarrow> hoare P n Q E) \<Longrightarrow> hoare P (if b then m else n) Q E"
  by simp

lemma bindA_Inr [res_simps]:
  "bindA m f w = (Inr b, w'') \<longleftrightarrow> (\<exists>a w'. m w = (Inr a, w') \<and> f a w' = (Inr b, w''))"
  by (auto simp: bindA_def split: prod.splits sum.splits)

lemma bindA_Inl [res_simps]:
  "bindA m f w = (Inl e, w'') \<longleftrightarrow>
     m w = (Inl e, w'') \<or> (\<exists>a w'. m w = (Inr a, w') \<and> f a w' = (Inl e, w''))"
  by (auto simp: bindA_def split: prod.splits sum.splits)

lemma bindA_InrE:
  "bindA m f w = (Inr b, w'') \<Longrightarrow>
   (\<And>a w'. m w = (Inr a, w') \<Longrightarrow> f a w' = (Inr b, w'') \<Longrightarrow> thesis) \<Longrightarrow> thesis"
  by (auto simp: bindA_Inr)

lemma bindA_run: "m w = (Inr a, w1) \<Longrightarrow> bindA m f w = f a w1"
  by (simp add: bindA_def)

lemma bindA_run_lift: "r = Inr a \<Longrightarrow> bindA (liftA r) f w = f a w"
  by (simp add: bindA_def liftA_def)

lemma map_errA_Inr [res_simps]: "map_errA h m w = (Inr a, w') \<longleftrightarrow> m w = (Inr a, w')"
  by (auto simp: map_errA_def map_errE_Inr split: prod.splits)

lemma map_errA_Inl [res_simps]:
  "map_errA h m w = (Inl e, w') \<longleftrightarrow> (\<exists>e'. m w = (Inl e', w') \<and> e = h e')"
  by (auto simp: map_errA_def map_errE_Inl split: prod.splits)

lemma act_eval [simp]:
  "returnA a w = (Inr a, w)" "failA e w = (Inl e, w)" "liftA r w = (r, w)"
  "modifyA g w = (Inr (), g w)" "getA h w = (Inr (h w), w)"
  by (simp_all add: returnA_def failA_def liftA_def modifyA_def getA_def)

text \<open>An invariant kept on both outcomes. A lifted pure step passes on what it computed.\<close>

definition preserves :: "('w \<Rightarrow> bool) \<Rightarrow> ('w, 'e, 'a) act \<Rightarrow> bool" where
  "preserves I m \<longleftrightarrow> hoare I m (\<lambda>_. I) (\<lambda>_. I)"

lemma preservesD: "preserves I m \<Longrightarrow> I w \<Longrightarrow> m w = (r, w') \<Longrightarrow> I w'"
  by (cases r) (auto simp: preserves_def hoare_def)

lemma preservesI: "(\<And>w r w'. I w \<Longrightarrow> m w = (r, w') \<Longrightarrow> I w') \<Longrightarrow> preserves I m"
  unfolding preserves_def by (intro hoareI) blast+

lemma preserves_basic [preserves_rules]:
  "preserves I (returnA a)" "preserves I (failA e)" "preserves I (liftA r)" "preserves I (getA g)"
  by (auto intro!: preservesI)

lemma preserves_bind:
  "preserves I m \<Longrightarrow> (\<And>a. preserves I (f a)) \<Longrightarrow> preserves I (bindA m f)"
  unfolding preserves_def by (rule hoare_bind)

lemma preserves_lift_bind:
  "(\<And>a. r = Inr a \<Longrightarrow> preserves I (f a)) \<Longrightarrow> preserves I (bindA (liftA r) f)"
  by (cases r) (auto simp: preserves_def hoare_def bindA_def)

lemma preserves_catch [preserves_rules]:
  "preserves I m \<Longrightarrow> (\<And>r. preserves I (f r)) \<Longrightarrow> preserves I (catchA m f)"
  unfolding preserves_def by (rule hoare_catch)

lemma preserves_map_err [preserves_rules]: "preserves I m \<Longrightarrow> preserves I (map_errA h m)"
  unfolding preserves_def by (rule hoare_map_err)

section \<open>Association lists\<close>

lemma map_of_filter_key:
  "map_of (filter (\<lambda>(k, v). P k) m) k = (if P k then map_of m k else None)"
  by (induction m) auto

lemma map_of_SomeI: "distinct (map fst m) \<Longrightarrow> (k, v) \<in> set m \<Longrightarrow> map_of m k = Some v"
  by (simp add: map_of_eq_Some_iff)

end
