(* ===== verification/Oci.thy ===== *)
theory Oci
  imports Prelude
begin

text \<open>
  \<open>crates/helmoci-core/src/oci/mod.rs\<close> and \<open>digest.rs\<close>: the OCI media types, descriptors,
  manifests and tag pointers, and the canonical digest type. SHA-256 with its hexadecimal
  encoding (crates \<open>sha2\<close> and \<open>hex\<close>) is the parameter \<open>sha\<close>.
\<close>

section \<open>Digests\<close>

datatype digest = Digest string

fun as_str :: "digest \<Rightarrow> string" where
  "as_str (Digest s) = s"

definition digest_sha256 :: "(bytes \<Rightarrow> string) \<Rightarrow> bytes \<Rightarrow> digest" where
  "digest_sha256 sha data = Digest (''sha256:'' @ sha data)"

definition is_canonical_hex :: "char \<Rightarrow> bool" where
  "is_canonical_hex b \<longleftrightarrow> is_ascii_digit b \<or> 97 \<le> byte_of b \<and> byte_of b \<le> 102"

definition digest_parse :: "string \<Rightarrow> digest option" where
  "digest_parse s =
     (case strip_prefix ''sha256:'' s of
        None \<Rightarrow> None
      | Some hex_part \<Rightarrow>
          if length hex_part = 64 \<and> list_all is_canonical_hex hex_part
          then Some (Digest s) else None)"

definition digest_try_from :: "string \<Rightarrow> string + digest" where
  "digest_try_from s = ok_or (''invalid digest: '' @ s) (digest_parse s)"

fun digest_into_string :: "digest \<Rightarrow> string" where
  "digest_into_string (Digest s) = s"

text \<open>The documented behaviour of SHA-256 in lowercase hexadecimal: 64 canonical digits.\<close>

definition sha_hex :: "(bytes \<Rightarrow> string) \<Rightarrow> bool" where
  "sha_hex sha \<longleftrightarrow> (\<forall>data. length (sha data) = 64 \<and> list_all is_canonical_hex (sha data))"

text \<open>The invariant the type's documentation states: always \<open>sha256:\<close> and 64 lowercase digits.\<close>

definition canonical :: "digest \<Rightarrow> bool" where
  "canonical d \<longleftrightarrow> (\<exists>h. as_str d = ''sha256:'' @ h \<and> length h = 64 \<and> list_all is_canonical_hex h)"

lemma as_str_inject [simp]: "as_str d = as_str e \<longleftrightarrow> d = e"
  by (cases d; cases e) simp

lemma digest_parse_Some [str_simps]:
  "digest_parse s = Some d \<longleftrightarrow> d = Digest s \<and> canonical d"
  by (auto simp: digest_parse_def canonical_def strip_prefix_Some split: option.splits)

lemma digest_parse_as_str: "canonical d \<Longrightarrow> digest_parse (as_str d) = Some d"
  by (cases d) (simp add: digest_parse_Some)

lemma digest_parseD: "digest_parse s = Some d \<Longrightarrow> as_str d = s"
  by (auto simp: digest_parse_Some)

lemma digest_parse_canonical: "digest_parse s = Some d \<Longrightarrow> canonical d"
  by (auto simp: digest_parse_Some)

lemma canonical_sha256: "sha_hex sha \<Longrightarrow> canonical (digest_sha256 sha data)"
  by (auto simp: sha_hex_def canonical_def digest_sha256_def)

lemma canonical_hex_not_upper: "is_canonical_hex c \<Longrightarrow> \<not> is_ascii_upper c"
  by (auto simp: is_canonical_hex_def byte_class_defs)

lemma canonical_lowercase: "canonical d \<Longrightarrow> to_ascii_lowercase (as_str d) = as_str d"
proof -
  assume "canonical d"
  then obtain h where h: "as_str d = ''sha256:'' @ h" "list_all is_canonical_hex h"
    by (auto simp: canonical_def)
  then have "list_all (\<lambda>c. \<not> is_ascii_upper c) h"
    by (auto simp: list_all_iff canonical_hex_not_upper)
  then have "to_ascii_lowercase h = h" by (rule to_ascii_lowercase_id)
  moreover have "to_ascii_lowercase ''sha256:'' = ''sha256:''" by code_simp
  ultimately show ?thesis by (simp only: h to_ascii_lowercase_append)
qed

lemma canonical_length: "canonical d \<Longrightarrow> length (as_str d) = 71"
  by (auto simp: canonical_def)

lemma canonical_no_slash: "canonical d \<Longrightarrow> CHR ''/'' \<notin> set (as_str d)"
  by (fastforce simp: canonical_def list_all_iff is_canonical_hex_def byte_class_defs)

section \<open>Media types, descriptors, manifests, tag pointers\<close>

definition MEDIA_TYPE_MANIFEST :: string where
  "MEDIA_TYPE_MANIFEST = ''application/vnd.oci.image.manifest.v1+json''"

definition MEDIA_TYPE_HELM_CONFIG :: string where
  "MEDIA_TYPE_HELM_CONFIG = ''application/vnd.cncf.helm.config.v1+json''"

definition MEDIA_TYPE_HELM_CHART :: string where
  "MEDIA_TYPE_HELM_CHART = ''application/vnd.cncf.helm.chart.content.v1.tar+gzip''"

record oci_descriptor =
  od_media_type :: string
  od_digest :: digest
  od_size :: u64

record oci_manifest =
  om_schema_version :: u32
  om_media_type :: string
  om_config :: oci_descriptor
  om_layers :: "oci_descriptor list"

record tag_pointer =
  tp_digest :: digest
  tp_media_type :: string
  tp_size :: u64

lemma helm_media_types_differ:
  "MEDIA_TYPE_MANIFEST \<noteq> MEDIA_TYPE_HELM_CONFIG" "MEDIA_TYPE_MANIFEST \<noteq> MEDIA_TYPE_HELM_CHART"
  "MEDIA_TYPE_HELM_CONFIG \<noteq> MEDIA_TYPE_HELM_CHART"
  by (simp_all add: MEDIA_TYPE_MANIFEST_def MEDIA_TYPE_HELM_CONFIG_def MEDIA_TYPE_HELM_CHART_def)

text \<open>A concrete function of the shape of SHA-256 in hexadecimal, for the witnesses.\<close>

definition hex_digit :: "nat \<Rightarrow> char" where
  "hex_digit n = char_of (if n mod 16 < 10 then 48 + n mod 16 else 87 + n mod 16)"

definition sample_sha :: "bytes \<Rightarrow> string" where
  "sample_sha data = replicate 63 CHR ''0'' @ [hex_digit (length data)]"

lemma canonical_hex_digit: "is_canonical_hex (hex_digit n)"
proof -
  have "n mod 16 \<le> 15" using mod_less_divisor [of 16 n] by linarith
  then show ?thesis by (simp add: hex_digit_def is_canonical_hex_def is_ascii_digit_def)
qed

lemma sample_sha_hex: "sha_hex sample_sha"
  by (simp add: sha_hex_def sample_sha_def canonical_hex_digit list_all_iff)
     (simp add: is_canonical_hex_def byte_class_defs)

section \<open>Properties\<close>

text \<open>A string parses as a digest exactly when it is \<open>sha256:\<close> followed by 64 lowercase
  hexadecimal digits, and the digest is then that string unchanged.\<close>
theorem digest_parse_exact:
  "digest_parse s = Some d \<longleftrightarrow>
     d = Digest s \<and>
     (\<exists>h. s = ''sha256:'' @ h \<and> length h = 64 \<and> list_all is_canonical_hex h)"
  by (auto simp: digest_parse_Some canonical_def)

text \<open>Round trip of the serde conversions: a computed digest is canonical, converting it to
  its string and back gives the same digest.\<close>
theorem digest_string_roundtrip:
  assumes "sha_hex sha"
  shows "digest_try_from (digest_into_string (digest_sha256 sha data)) = Inr (digest_sha256 sha data)"
proof -
  have "digest_into_string d = as_str d" for d by (cases d) simp
  with canonical_sha256 [OF assms, of data] show ?thesis
    by (simp add: digest_try_from_def digest_parse_as_str)
qed

theorem digest_string_roundtrip_witness:
  "digest_try_from (digest_into_string (digest_sha256 sample_sha ''hello''))
     = Inr (digest_sha256 sample_sha ''hello'')"
  by (rule digest_string_roundtrip [OF sample_sha_hex])

end
