(* ===== verification/Oci_Route.thy ===== *)
theory Oci_Route
  imports Oci
begin

text \<open>
  \<open>crates/helmoci-core/src/oci/route.rs\<close>: the parser of OCI Distribution paths. Percent
  decoding followed by UTF-8 validation (crate \<open>percent-encoding\<close>) is the parameter \<open>decode\<close>,
  \<open>None\<close> when the decoded bytes are not UTF-8.
\<close>

datatype oci_route =
    Api
  | Manifest string string
  | Blob string string
  | Tags string
  | NotFound

definition is_tag_head :: "char \<Rightarrow> bool" where
  "is_tag_head b \<longleftrightarrow> is_ascii_alphanumeric b \<or> b = CHR ''_''"

definition is_tag_byte :: "char \<Rightarrow> bool" where
  "is_tag_byte b \<longleftrightarrow> is_ascii_alphanumeric b \<or> b \<in> {CHR ''_'', CHR ''.'', CHR ''-''}"

definition is_valid_manifest_reference :: "string \<Rightarrow> bool" where
  "is_valid_manifest_reference reference \<longleftrightarrow>
     (if digest_parse reference \<noteq> None then True
      else case reference of
             [] \<Rightarrow> False
           | b # bs \<Rightarrow> is_tag_head b \<and> length reference \<le> 128 \<and> list_all is_tag_byte bs)"

definition manifest_route :: "string \<Rightarrow> string \<Rightarrow> oci_route" where
  "manifest_route name reference =
     (if name = [] \<or> \<not> is_valid_manifest_reference reference then NotFound
      else Manifest name reference)"

definition blob_route :: "string \<Rightarrow> string \<Rightarrow> oci_route" where
  "blob_route name digest =
     (if name = [] \<or> digest = [] \<or> CHR ''/'' \<in> set digest then NotFound else Blob name digest)"

definition tags_route :: "string \<Rightarrow> oci_route" where
  "tags_route rest =
     (case strip_suffix ''/tags/list'' rest of
        None \<Rightarrow> NotFound
      | Some name0 \<Rightarrow>
          let name = trim_end_matches (\<lambda>c. c = CHR ''/'') name0
          in if name = [] then NotFound else Tags name)"

text \<open>The part of \<open>parse_oci_path\<close> after the \<open>/v2\<close> prefix and its slashes are gone.\<close>

definition parse_oci_rest :: "string \<Rightarrow> oci_route" where
  "parse_oci_rest rest =
     (if rest = [] then Api
      else case rsplit_once ''/manifests/'' rest of
        Some (name, reference) \<Rightarrow> manifest_route name reference
      | None \<Rightarrow>
          (case rsplit_once ''/blobs/'' rest of
             Some (name, digest) \<Rightarrow> blob_route name digest
           | None \<Rightarrow> tags_route rest))"

definition parse_oci_path :: "(string \<Rightarrow> string option) \<Rightarrow> string \<Rightarrow> oci_route" where
  "parse_oci_path decode pathname =
     (case decode pathname of
        None \<Rightarrow> NotFound
      | Some path \<Rightarrow>
          (case strip_prefix ''/v2'' path of
             None \<Rightarrow> NotFound
           | Some rest \<Rightarrow>
               if rest \<noteq> [] \<and> \<not> starts_with ''/'' rest then NotFound
               else parse_oci_rest (trim_start_matches (\<lambda>c. c = CHR ''/'') rest)))"

section \<open>What a reference can be\<close>

lemma is_tag_byte_no_slash: "is_tag_byte c \<Longrightarrow> c \<noteq> CHR ''/''"
  by (auto simp: is_tag_byte_def byte_class_defs)

lemma is_tag_head_is_tag_byte: "is_tag_head c \<Longrightarrow> is_tag_byte c"
  by (auto simp: is_tag_head_def is_tag_byte_def)

lemma valid_reference_cases:
  assumes "is_valid_manifest_reference r"
  obtains d where "digest_parse r = Some d"
  | b bs where "r = b # bs" "is_tag_head b" "length r \<le> 128" "list_all is_tag_byte bs"
proof (cases "digest_parse r")
  case None
  with assms that(2) show ?thesis
    by (auto simp: is_valid_manifest_reference_def split: list.splits)
next
  case (Some d)
  then show ?thesis by (rule that(1))
qed

lemma valid_reference_no_slash: "is_valid_manifest_reference r \<Longrightarrow> CHR ''/'' \<notin> set r"
proof (erule valid_reference_cases)
  fix d assume "digest_parse r = Some d"
  then show "CHR ''/'' \<notin> set r"
    using canonical_no_slash [of d] by (auto simp: digest_parse_Some)
next
  fix b bs assume "r = b # bs" "is_tag_head b" "list_all is_tag_byte bs"
  then show "CHR ''/'' \<notin> set r"
    by (metis is_tag_byte_no_slash is_tag_head_is_tag_byte list_all_iff set_ConsD)
qed

lemma valid_reference_length: "is_valid_manifest_reference r \<Longrightarrow> 0 < length r \<and> length r \<le> 128"
  by (erule valid_reference_cases) (auto simp: digest_parse_Some dest: canonical_length)

section \<open>Where the separators are found\<close>

text \<open>A pattern that starts and ends with a slash and has none inside occurs in \<open>p @ a\<close> after
  its first byte only if \<open>a\<close> has a slash.\<close>

lemma no_later_occurrence:
  assumes m: "CHR ''/'' \<notin> set m" and a: "CHR ''/'' \<notin> set a"
  shows "\<not> contains_sub (CHR ''/'' # m @ ''/'') (m @ ''/'' @ a)"
proof
  assume "contains_sub (CHR ''/'' # m @ ''/'') (m @ ''/'' @ a)"
  then obtain u v where eq: "m @ ''/'' @ a = u @ (CHR ''/'' # m @ ''/'') @ v"
    by (auto simp: contains_sub_iff)
  then have "count_list (m @ ''/'' @ a) (CHR ''/'') = count_list (u @ (CHR ''/'' # m @ ''/'') @ v) (CHR ''/'')"
    by (rule arg_cong)
  with m a show False by simp
qed

lemma rsplit_sep:
  assumes "CHR ''/'' \<notin> set m" "CHR ''/'' \<notin> set a"
  shows "rsplit_once (CHR ''/'' # m @ ''/'') (b @ (CHR ''/'' # m @ ''/'') @ a) = Some (b, a)"
  using no_later_occurrence [OF assms] by (intro rsplit_once_intro) simp_all

lemma rsplit_manifests:
  "CHR ''/'' \<notin> set r \<Longrightarrow> rsplit_once ''/manifests/'' (n @ ''/manifests/'' @ r) = Some (n, r)"
  using rsplit_sep [of "''manifests''" r n] by simp

lemma rsplit_blobs:
  "CHR ''/'' \<notin> set r \<Longrightarrow> rsplit_once ''/blobs/'' (n @ ''/blobs/'' @ r) = Some (n, r)"
  using rsplit_sep [of "''blobs''" r n] by simp

text \<open>The path handed to the inner parser, for a name that does not start with a slash.\<close>

lemma parse_oci_path_v2:
  assumes "decode p = Some (''/v2/'' @ rest)" "rest = [] \<or> hd rest \<noteq> CHR ''/''"
  shows "parse_oci_path decode p = parse_oci_rest rest"
proof -
  have "trim_start_matches (\<lambda>c. c = CHR ''/'') (CHR ''/'' # rest) = rest"
    using assms(2) by (cases rest) (simp_all add: trim_start_matches_def)
  with assms(1) show ?thesis
    by (simp add: parse_oci_path_def starts_with_def)
qed

section \<open>Properties\<close>

text \<open>C31. Soundness of the router: whatever the path and the decoder, a manifest route has a
  non-empty name and a reference that is a canonical digest or a tag of at most 128 safe bytes,
  a blob route has a non-empty name and a non-empty digest with no slash, and a tag route has a
  non-empty name that does not end in a slash.\<close>
theorem parse_oci_path_sound:
  "case parse_oci_path decode p of
     Api \<Rightarrow> True
   | Manifest name r \<Rightarrow> name \<noteq> [] \<and> CHR ''/'' \<notin> set r \<and> 0 < length r \<and> length r \<le> 128 \<and>
       ((\<exists>d. digest_parse r = Some d) \<or> is_tag_head (hd r) \<and> list_all is_tag_byte r)
   | Blob name d \<Rightarrow> name \<noteq> [] \<and> d \<noteq> [] \<and> CHR ''/'' \<notin> set d
   | Tags name \<Rightarrow> name \<noteq> [] \<and> last name \<noteq> CHR ''/''
   | NotFound \<Rightarrow> True"
proof -
  have rest: "case parse_oci_rest s of
     Api \<Rightarrow> True
   | Manifest name r \<Rightarrow> name \<noteq> [] \<and> is_valid_manifest_reference r
   | Blob name d \<Rightarrow> name \<noteq> [] \<and> d \<noteq> [] \<and> CHR ''/'' \<notin> set d
   | Tags name \<Rightarrow> name \<noteq> [] \<and> last name \<noteq> CHR ''/''
   | NotFound \<Rightarrow> True" for s
    using trim_end_matches_last [where P = "\<lambda>c. c = CHR ''/''"]
    by (auto simp: parse_oci_rest_def manifest_route_def blob_route_def tags_route_def Let_def
             split: option.splits)
  have ref: "is_valid_manifest_reference r \<Longrightarrow>
      (\<exists>d. digest_parse r = Some d) \<or> is_tag_head (hd r) \<and> list_all is_tag_byte r" for r
    by (erule valid_reference_cases) (auto simp: is_tag_head_is_tag_byte)
  show ?thesis
    unfolding parse_oci_path_def
    using rest ref valid_reference_no_slash valid_reference_length
    by (fastforce split: option.splits oci_route.splits)
qed

text \<open>C32. Round trip: a request path that decodes to the path printed from a name and a valid
  reference is routed to exactly that manifest; one printed from a name and a digest to exactly
  that blob, provided \<open>/manifests/\<close>, which the router looks for first, does not occur in it;
  one printed from a name to exactly that tag list, under the same proviso for both separators.\<close>
theorem parse_oci_path_roundtrip:
  assumes "name \<noteq> []" and "hd name \<noteq> CHR ''/''"
  shows "(decode p = Some (''/v2/'' @ name @ ''/manifests/'' @ r) \<longrightarrow> is_valid_manifest_reference r \<longrightarrow>
      parse_oci_path decode p = Manifest name r) \<and>
    (decode p = Some (''/v2/'' @ name @ ''/blobs/'' @ d) \<longrightarrow> d \<noteq> [] \<longrightarrow> CHR ''/'' \<notin> set d \<longrightarrow>
      \<not> contains_sub ''/manifests/'' (name @ ''/blobs/'' @ d) \<longrightarrow>
      parse_oci_path decode p = Blob name d) \<and>
    (decode p = Some (''/v2/'' @ name @ ''/tags/list'') \<longrightarrow> last name \<noteq> CHR ''/'' \<longrightarrow>
      \<not> contains_sub ''/manifests/'' (name @ ''/tags/list'') \<longrightarrow>
      \<not> contains_sub ''/blobs/'' (name @ ''/tags/list'') \<longrightarrow>
      parse_oci_path decode p = Tags name)"
proof -
  have path: "parse_oci_path decode p = parse_oci_rest (name @ x)"
    if "decode p = Some (''/v2/'' @ name @ x)" for x
    using parse_oci_path_v2 [of decode p "name @ x"] that assms by simp
  have m: "parse_oci_rest (name @ ''/manifests/'' @ r) = Manifest name r"
    if "is_valid_manifest_reference r"
    using that assms(1) rsplit_manifests [OF valid_reference_no_slash [OF that]]
    by (simp add: parse_oci_rest_def manifest_route_def del: append.simps)
  have b: "parse_oci_rest (name @ ''/blobs/'' @ d) = Blob name d"
    if "d \<noteq> []" "CHR ''/'' \<notin> set d" "\<not> contains_sub ''/manifests/'' (name @ ''/blobs/'' @ d)"
    using that assms(1) rsplit_blobs [OF that(2)]
    by (simp add: parse_oci_rest_def blob_route_def del: append.simps flip: rsplit_once_None)
  have t: "parse_oci_rest (name @ ''/tags/list'') = Tags name"
    if "last name \<noteq> CHR ''/''" "\<not> contains_sub ''/manifests/'' (name @ ''/tags/list'')"
      "\<not> contains_sub ''/blobs/'' (name @ ''/tags/list'')"
    using that assms(1)
    by (simp add: parse_oci_rest_def tags_route_def trim_end_matches_id Let_def
             del: append.simps flip: rsplit_once_None)
  show ?thesis
    by (intro conjI impI; simp only: path m b t not_False_eq_True)
qed

theorem parse_oci_path_roundtrip_witness:
  "parse_oci_path Some ''/v2/a.io/b/manifests/1.0.0'' = Manifest ''a.io/b'' ''1.0.0''
   \<and> parse_oci_path Some ''/v2/a.io/b/blobs/x'' = Blob ''a.io/b'' ''x''
   \<and> parse_oci_path Some ''/v2/a.io/b/tags/list'' = Tags ''a.io/b''"
proof -
  have n: "''a.io/b'' \<noteq> []" "hd ''a.io/b'' \<noteq> CHR ''/''" by simp_all
  have r: "is_valid_manifest_reference ''1.0.0''" by code_simp
  have s: "\<not> contains_sub ''/manifests/'' (''a.io/b'' @ ''/blobs/'' @ ''x'')"
    "\<not> contains_sub ''/manifests/'' (''a.io/b'' @ ''/tags/list'')"
    "\<not> contains_sub ''/blobs/'' (''a.io/b'' @ ''/tags/list'')"
    by code_simp+
  note rt = parse_oci_path_roundtrip [OF n, where decode = Some and r = "''1.0.0''" and d = "''x''"]
  have m: "parse_oci_path Some ''/v2/a.io/b/manifests/1.0.0'' = Manifest ''a.io/b'' ''1.0.0''"
    by (rule rt [THEN conjunct1, rule_format]) (simp_all only: append.simps r)
  have b: "parse_oci_path Some ''/v2/a.io/b/blobs/x'' = Blob ''a.io/b'' ''x''"
    by (rule rt [THEN conjunct2, THEN conjunct1, rule_format, OF _ _ _ s(1)]) simp_all
  have t: "parse_oci_path Some ''/v2/a.io/b/tags/list'' = Tags ''a.io/b''"
    by (rule rt [THEN conjunct2, THEN conjunct2, rule_format, OF _ _ s(2,3)]) simp_all
  from m b t show ?thesis by (intro conjI)
qed

end
