(* ===== verification/Std_Net.thy ===== *)
theory Std_Net
  imports Prelude
begin

text \<open>
  The part of \<open>std::net\<close> the server uses: addresses, their octets and segments, the classes of the
  standard library, and the parsers of \<open>Ipv4Addr\<close> and \<open>Ipv6Addr\<close>.
\<close>

unbundle bit_operations_syntax

section \<open>Addresses\<close>

datatype ip_addr = V4 u32 | V6 "128 word"

definition octet :: "u32 \<Rightarrow> nat \<Rightarrow> nat" where
  "octet ip i = unat ip div 256 ^ (3 - i) mod 256"

definition segment :: "128 word \<Rightarrow> nat \<Rightarrow> nat" where
  "segment ip i = unat ip div 65536 ^ (7 - i) mod 65536"

definition is_private :: "u32 \<Rightarrow> bool" where
  "is_private ip \<longleftrightarrow> octet ip 0 = 10 \<or> octet ip 0 = 172 \<and> 16 \<le> octet ip 1 \<and> octet ip 1 \<le> 31
     \<or> octet ip 0 = 192 \<and> octet ip 1 = 168"

definition is_loopback_v4 :: "u32 \<Rightarrow> bool" where
  "is_loopback_v4 ip \<longleftrightarrow> octet ip 0 = 127"

definition is_link_local :: "u32 \<Rightarrow> bool" where
  "is_link_local ip \<longleftrightarrow> octet ip 0 = 169 \<and> octet ip 1 = 254"

definition is_documentation :: "u32 \<Rightarrow> bool" where
  "is_documentation ip \<longleftrightarrow> octet ip 0 = 192 \<and> octet ip 1 = 0 \<and> octet ip 2 = 2
     \<or> octet ip 0 = 198 \<and> octet ip 1 = 51 \<and> octet ip 2 = 100
     \<or> octet ip 0 = 203 \<and> octet ip 1 = 0 \<and> octet ip 2 = 113"

definition is_broadcast :: "u32 \<Rightarrow> bool" where
  "is_broadcast ip \<longleftrightarrow> unat ip = 0xFFFFFFFF"

definition is_multicast_v4 :: "u32 \<Rightarrow> bool" where
  "is_multicast_v4 ip \<longleftrightarrow> 224 \<le> octet ip 0 \<and> octet ip 0 \<le> 239"

definition is_unspecified_v6 :: "128 word \<Rightarrow> bool" where
  "is_unspecified_v6 ip \<longleftrightarrow> ip = 0"

definition is_loopback_v6 :: "128 word \<Rightarrow> bool" where
  "is_loopback_v6 ip \<longleftrightarrow> ip = 1"

definition is_multicast_v6 :: "128 word \<Rightarrow> bool" where
  "is_multicast_v6 ip \<longleftrightarrow> segment ip 0 div 256 = 0xFF"

section \<open>Parsing\<close>

text \<open>A parser takes the remaining input and returns a value and what is left; a failed parser
  consumes nothing (\<open>read_atomically\<close>).\<close>

type_synonym 'a std_parser = "string \<Rightarrow> ('a \<times> string) option"

definition digit_in :: "nat \<Rightarrow> char \<Rightarrow> nat option" where
  "digit_in radix c =
     (let d = (if is_ascii_digit c then byte_of c - 48
               else if 97 \<le> byte_of c \<and> byte_of c \<le> 102 then byte_of c - 87
               else if 65 \<le> byte_of c \<and> byte_of c \<le> 70 then byte_of c - 55
               else 36)
      in if d < radix then Some d else None)"

text \<open>Digits as long as there are any; more than \<open>max_digits\<close> of them is an error.\<close>

fun read_digits :: "nat \<Rightarrow> nat \<Rightarrow> nat \<Rightarrow> nat \<Rightarrow> string \<Rightarrow> (nat \<times> nat \<times> string) option" where
  "read_digits radix max_digits count acc [] = Some (acc, count, [])"
| "read_digits radix max_digits count acc (c # cs) =
     (case digit_in radix c of
        None \<Rightarrow> Some (acc, count, c # cs)
      | Some d \<Rightarrow> if max_digits < count + 1 then None
                  else read_digits radix max_digits (count + 1) (acc * radix + d) cs)"

definition read_number :: "nat \<Rightarrow> nat \<Rightarrow> nat \<Rightarrow> bool \<Rightarrow> nat std_parser" where
  "read_number radix max_digits limit allow_zero_prefix s =
     (case read_digits radix max_digits 0 0 s of
        None \<Rightarrow> None
      | Some (n, count, rest) \<Rightarrow>
          if count = 0 then None
          else if \<not> allow_zero_prefix \<and> starts_with ''0'' s \<and> 1 < count then None
          else if limit < n then None else Some (n, rest))"

text \<open>\<open>read_separator\<close>: nothing before the first item, the separator before every other.\<close>

definition read_separator :: "char \<Rightarrow> nat \<Rightarrow> 'a std_parser \<Rightarrow> 'a std_parser" where
  "read_separator sep index p s =
     (if index = 0 then p s
      else case s of [] \<Rightarrow> None | c # cs \<Rightarrow> if c = sep then p cs else None)"

fun read_octets :: "nat \<Rightarrow> nat \<Rightarrow> nat list std_parser" where
  "read_octets 0 index s = Some ([], s)"
| "read_octets (Suc k) index s =
     (case read_separator (CHR ''.'') index (read_number 10 3 255 False) s of
        None \<Rightarrow> None
      | Some (n, rest) \<Rightarrow>
          (case read_octets k (index + 1) rest of
             None \<Rightarrow> None
           | Some (ns, rest') \<Rightarrow> Some (n # ns, rest')))"

definition read_ipv4_addr :: "nat list std_parser" where
  "read_ipv4_addr s = read_octets 4 0 s"

text \<open>\<open>read_groups\<close> on \<open>left\<close> free slots: the groups read and whether they end in an IPv4 address.\<close>

fun read_groups :: "nat \<Rightarrow> nat \<Rightarrow> string \<Rightarrow> nat list \<times> bool \<times> string" where
  "read_groups 0 index s = ([], False, s)"
| "read_groups (Suc left) index s =
     (case (if left \<noteq> 0 then read_separator (CHR '':'') index read_ipv4_addr s else None) of
        Some (os, rest) \<Rightarrow> ([os ! 0 * 256 + os ! 1, os ! 2 * 256 + os ! 3], True, rest)
      | None \<Rightarrow>
          (case read_separator (CHR '':'') index (read_number 16 4 65535 True) s of
             None \<Rightarrow> ([], False, s)
           | Some (g, rest) \<Rightarrow>
               (case read_groups left (index + 1) rest of (gs, v4, rest') \<Rightarrow> (g # gs, v4, rest'))))"

definition read_ipv6_addr :: "nat list std_parser" where
  "read_ipv6_addr s =
     (case read_groups 8 0 s of (head, head_ipv4, rest) \<Rightarrow>
        if length head = 8 then Some (head, rest)
        else if head_ipv4 then None
        else case strip_prefix ''::'' rest of
          None \<Rightarrow> None
        | Some rest1 \<Rightarrow>
            (case read_groups (8 - (length head + 1)) 0 rest1 of (tail, _, rest2) \<Rightarrow>
               Some (head @ replicate (8 - length head - length tail) 0 @ tail, rest2)))"

definition parse_ipv4 :: "string \<Rightarrow> nat list option" where
  "parse_ipv4 s =
     (if 15 < length s then None
      else case read_ipv4_addr s of Some (os, []) \<Rightarrow> Some os | _ \<Rightarrow> None)"

definition parse_ipv6 :: "string \<Rightarrow> nat list option" where
  "parse_ipv6 s = (case read_ipv6_addr s of Some (gs, []) \<Rightarrow> Some gs | _ \<Rightarrow> None)"

section \<open>Bytes of a literal\<close>

definition is_addr_byte :: "char \<Rightarrow> bool" where
  "is_addr_byte c \<longleftrightarrow> is_ascii_hexdigit c \<or> c = CHR '':'' \<or> c = CHR ''.''"

definition eats_addr :: "'a std_parser \<Rightarrow> bool" where
  "eats_addr p \<longleftrightarrow> (\<forall>s v rest. p s = Some (v, rest) \<longrightarrow> (\<exists>pre. s = pre @ rest \<and> list_all is_addr_byte pre))"

lemma digit_in_addr: "digit_in radix c = Some d \<Longrightarrow> radix \<le> 16 \<Longrightarrow> is_addr_byte c"
  by (auto simp: digit_in_def is_addr_byte_def is_ascii_hexdigit_def Let_def split: if_splits)

lemma read_digits_addr:
  "radix \<le> 16 \<Longrightarrow> read_digits radix m count acc s = Some (n, count', rest) \<Longrightarrow>
   \<exists>pre. s = pre @ rest \<and> list_all is_addr_byte pre"
proof (induction radix m count acc s rule: read_digits.induct)
  case (1 radix m count acc)
  then show ?case by simp
next
  case (2 radix m count acc c cs)
  show ?case
  proof (cases "digit_in radix c")
    case None
    with 2 show ?thesis by simp
  next
    case (Some d)
    with 2 obtain pre where "cs = pre @ rest" "list_all is_addr_byte pre"
      by (auto split: if_splits)
    with digit_in_addr [OF Some 2(2)] have "c # cs = (c # pre) @ rest" "list_all is_addr_byte (c # pre)"
      by simp_all
    then show ?thesis by blast
  qed
qed

lemma eats_read_number: "radix \<le> 16 \<Longrightarrow> eats_addr (read_number radix m limit z)"
  by (auto simp: eats_addr_def read_number_def split: option.splits if_splits dest: read_digits_addr)

lemma eats_separator: "is_addr_byte sep \<Longrightarrow> eats_addr p \<Longrightarrow> eats_addr (read_separator sep i p)"
  unfolding eats_addr_def read_separator_def
  by (auto split: if_splits list.splits) (metis append_Cons list.pred_inject(2))

lemma eats_read_octets: "eats_addr (read_octets k i)"
proof (induction k arbitrary: i)
  case 0
  then show ?case by (simp add: eats_addr_def)
next
  case (Suc k)
  have sep: "eats_addr (read_separator (CHR ''.'') i (read_number 10 3 255 False))"
    by (intro eats_separator eats_read_number) (simp_all add: is_addr_byte_def)
  show ?case
    unfolding eats_addr_def
  proof (intro allI impI)
    fix s v rest
    assume "read_octets (Suc k) i s = Some (v, rest)"
    then obtain n r ns where "read_separator (CHR ''.'') i (read_number 10 3 255 False) s = Some (n, r)"
      "read_octets k (i + 1) r = Some (ns, rest)"
      by (auto split: option.splits)
    with sep Suc [of "i + 1"] obtain p q where "s = p @ r" "list_all is_addr_byte p"
      "r = q @ rest" "list_all is_addr_byte q"
      unfolding eats_addr_def by meson
    then have "s = (p @ q) @ rest" "list_all is_addr_byte (p @ q)" by simp_all
    then show "\<exists>pre. s = pre @ rest \<and> list_all is_addr_byte pre" by blast
  qed
qed

lemma read_groups_addr:
  "read_groups k i s = (gs, v4, rest) \<Longrightarrow> \<exists>pre. s = pre @ rest \<and> list_all is_addr_byte pre"
proof (induction k i s arbitrary: gs v4 rest rule: read_groups.induct)
  case (1 i s)
  then show ?case by simp
next
  case (2 left i s)
  have v4: "eats_addr (read_separator (CHR '':'') i read_ipv4_addr)"
    using eats_read_octets [of 4 0] unfolding read_ipv4_addr_def [abs_def]
    by (intro eats_separator) (simp_all add: is_addr_byte_def)
  have num: "eats_addr (read_separator (CHR '':'') i (read_number 16 4 65535 True))"
    by (intro eats_separator eats_read_number) (simp_all add: is_addr_byte_def)
  consider os where "read_separator (CHR '':'') i read_ipv4_addr s = Some (os, rest)"
    | "s = rest"
    | g r gs' where "read_separator (CHR '':'') i (read_number 16 4 65535 True) s = Some (g, r)"
        "read_groups left (i + 1) r = (gs', v4, rest)"
        "(if left \<noteq> 0 then read_separator (CHR '':'') i read_ipv4_addr s else None) = None"
    using 2(2) by (auto split: option.splits prod.splits if_splits)
  then show ?case
  proof cases
    case 1
    with v4 show ?thesis unfolding eats_addr_def by blast
  next
    case 2
    then show ?thesis by simp
  next
    case 3
    from num 3(1) obtain p where p: "s = p @ r" "list_all is_addr_byte p"
      unfolding eats_addr_def by blast
    from "2.IH" [OF 3(3,1) refl 3(2)] obtain q where "r = q @ rest" "list_all is_addr_byte q" by blast
    note p this
    then have "s = (p @ q) @ rest" "list_all is_addr_byte (p @ q)" by simp_all
    then show ?thesis by blast
  qed
qed

lemma parse_ipv6_bytes:
  assumes "parse_ipv6 s = Some gs"
  shows "list_all is_addr_byte s"
proof -
  from assms obtain head h4 rest where "read_groups 8 0 s = (head, h4, rest)"
    "rest = [] \<or> (\<exists>rest1 k tail t4. rest = ''::'' @ rest1 \<and> read_groups k 0 rest1 = (tail, t4, []))"
    by (auto simp: parse_ipv6_def read_ipv6_addr_def strip_prefix_Some
        split: option.splits prod.splits list.splits if_splits)
  then obtain pre where "s = pre @ rest" "list_all is_addr_byte pre" "list_all is_addr_byte rest"
    using read_groups_addr [of 8 0 s head h4 rest] read_groups_addr [of _ 0]
    by (fastforce simp: is_addr_byte_def)
  then show ?thesis by simp
qed

end
