(* ===== verification/Http.thy ===== *)
theory Http
  imports Prelude
begin

text \<open>
  The HTTP vocabulary of the server (crates \<open>http\<close>, \<open>axum\<close>, \<open>serde_json\<close>): headers in order, with
  lowercase names; responses; and JSON values. What these crates decide is the parameter
  \<open>http_lib\<close>: which strings are legal header values, and the printing of a JSON value.
\<close>

type_synonym headers = "(string \<times> string) list"

definition header_get :: "string \<Rightarrow> headers \<Rightarrow> string option" where
  "header_get name hs = map_of hs name"

definition header_get_all :: "string \<Rightarrow> headers \<Rightarrow> string list" where
  "header_get_all name hs = map snd (filter (\<lambda>(n, v). n = name) hs)"

text \<open>\<open>HeaderMap::insert\<close> replaces every value of the name; the builder's \<open>header\<close> appends.\<close>

definition header_insert :: "string \<Rightarrow> string \<Rightarrow> headers \<Rightarrow> headers" where
  "header_insert name value hs = filter (\<lambda>(n, v). n \<noteq> name) hs @ [(name, value)]"

lemma header_get_insert [simp]:
  "header_get n (header_insert m v hs) = (if n = m then Some v else header_get n hs)"
  by (induction hs) (auto simp: header_get_def header_insert_def)

datatype http_method = GET | HEAD | OtherMethod string

datatype json =
    JNull | JBool bool | JNum string | JStr string | JArr "json list" | JObj "(string \<times> json) list"

record http_lib =
  hl_header_ok :: "string \<Rightarrow> bool"
  hl_json_to_string :: "json \<Rightarrow> string"

text \<open>A response. The body is the list of chunks that would be sent, up to a read error; whoever
  produced it may have asked for the bytes to be counted as they leave, under the label \<open>rs_meter\<close>.\<close>

record 'm response =
  rs_status :: nat
  rs_headers :: headers
  rs_body :: "(string + bytes) list"
  rs_meter :: "'m option"

text \<open>The response builder: a header whose value is not legal makes the final \<open>body\<close> fail.\<close>

record builder =
  bd_status :: nat
  bd_headers :: headers
  bd_failed :: bool

definition builder_new :: "nat \<Rightarrow> builder" where
  "builder_new status = \<lparr>bd_status = status, bd_headers = [], bd_failed = False\<rparr>"

definition builder_header :: "http_lib \<Rightarrow> string \<Rightarrow> string \<Rightarrow> builder \<Rightarrow> builder" where
  "builder_header H name value b =
     (if bd_failed b then b
      else if hl_header_ok H value then b\<lparr>bd_headers := bd_headers b @ [(name, value)]\<rparr>
      else b\<lparr>bd_failed := True\<rparr>)"

text \<open>The tuple response \<open>(status, text)\<close> of \<open>axum\<close>.\<close>

definition text_response :: "nat \<Rightarrow> string \<Rightarrow> 'm response" where
  "text_response status s =
     \<lparr>rs_status = status, rs_headers = [(''content-type'', ''text/plain; charset=utf-8'')],
      rs_body = [Inr s], rs_meter = None\<rparr>"

text \<open>A library for the witnesses.\<close>

definition sample_http :: http_lib where
  "sample_http = \<lparr>hl_header_ok = (\<lambda>_. True), hl_json_to_string = (\<lambda>_. ''{}'')\<rparr>"

end
