(* ===== verification/Storage.thy ===== *)
theory Storage
  imports Oci
begin

text \<open>
  \<open>crates/helmoci-storage/src/lib.rs\<close>: the storage errors, blobs, tag scopes and key layout, and
  the \<open>Storage\<close> trait. The trait is the locale \<open>storage\<close>: its laws say what a caller may rely on
  (what is read was stored; an operation never invents a blob or a pointer; a write adds at most
  what it was given), and its lemmas are the store invariants proved once for every
  implementation. Nothing is promised about presence, since a backend may evict or fail.
\<close>

section \<open>Errors and blobs\<close>

datatype storage_op = BlobRead | BlobStat | BlobWrite | TagRead | TagWrite

fun storage_op_display :: "storage_op \<Rightarrow> string" where
  "storage_op_display BlobRead = ''blob read''"
| "storage_op_display BlobStat = ''blob stat''"
| "storage_op_display BlobWrite = ''blob write''"
| "storage_op_display TagRead = ''tag pointer read''"
| "storage_op_display TagWrite = ''tag pointer write''"

text \<open>The boxed source error is kept as its text, for operators only.\<close>

datatype storage_error = Backend storage_op string

fun storage_error_display :: "storage_error \<Rightarrow> string" where
  "storage_error_display (Backend op src) = ''storage backend error ('' @ storage_op_display op @ '')''"

record blob_meta =
  bm_size :: u64
  bm_content_type :: "string option"

text \<open>The body stream of a blob: its chunks up to the end or to the first error.\<close>

record blob =
  bl_meta :: blob_meta
  bl_data :: "(storage_error + bytes) list"

record tag_scope =
  ts_proxy_host :: string
  ts_full_name :: string

definition blob_key :: "digest \<Rightarrow> string" where
  "blob_key d = ''blobs/'' @ as_str d"

definition tag_key :: "tag_scope \<Rightarrow> string \<Rightarrow> string" where
  "tag_key scope tag = ''tags/'' @ ts_proxy_host scope @ ''/'' @ ts_full_name scope @ ''/'' @ tag"

section \<open>Streams\<close>

text \<open>Collecting a stream with \<open>?\<close>: all chunks, or the first error.\<close>

fun collect_chunks :: "('e + bytes) list \<Rightarrow> 'e + bytes" where
  "collect_chunks [] = Inr []"
| "collect_chunks (Inl e # cs) = Inl e"
| "collect_chunks (Inr c # cs) = bindE (collect_chunks cs) (\<lambda>rest. Inr (c @ rest))"

text \<open>What a client has received when the stream ends or breaks.\<close>

fun delivered :: "('e + bytes) list \<Rightarrow> bytes" where
  "delivered [] = []"
| "delivered (Inl e # cs) = []"
| "delivered (Inr c # cs) = c @ delivered cs"

text \<open>A stream serves \<open>data\<close>: it delivers a prefix of it, and all of it if it ends without error.\<close>

definition streams :: "('e + bytes) list \<Rightarrow> bytes \<Rightarrow> bool" where
  "streams cs data \<longleftrightarrow> prefix (delivered cs) data \<and>
     (list_all is_ok cs \<longrightarrow> delivered cs = data)"

definition serves :: "blob \<Rightarrow> bytes \<Rightarrow> bool" where
  "serves b data \<longleftrightarrow> bm_size (bl_meta b) = of_nat (length data) \<and> streams (bl_data b) data"

lemma collect_chunks_Inr: "collect_chunks cs = Inr data \<longleftrightarrow> list_all is_ok cs \<and> delivered cs = data"
  by (induction cs arbitrary: data rule: collect_chunks.induct) (auto simp: res_simps)

lemma streams_collect: "streams cs data \<Longrightarrow> collect_chunks cs = Inr x \<Longrightarrow> x = data"
  by (auto simp: streams_def collect_chunks_Inr)

lemma streams_single [simp]: "streams [Inr data] data"
  by (simp add: streams_def)

section \<open>Keys\<close>

text \<open>A tag that can be part of a key: \<open>is_valid_manifest_reference\<close> admits no other.\<close>

definition plain_tag :: "string \<Rightarrow> bool" where
  "plain_tag tag \<longleftrightarrow> tag \<noteq> [] \<and> CHR ''/'' \<notin> set tag"

lemma append_sep_inject:
  "c \<notin> set a \<Longrightarrow> c \<notin> set a' \<Longrightarrow> a @ c # b = a' @ c # b' \<longleftrightarrow> a = a' \<and> b = b'"
  by (metis append_Cons option.inject prod.inject split_once_append)

lemma append_last_sep_inject:
  assumes "c \<notin> set b" "c \<notin> set b'"
  shows "a @ c # b = a' @ c # b' \<longleftrightarrow> a = a' \<and> b = b'"
proof -
  have "a @ c # b = a' @ c # b' \<longleftrightarrow> rev b @ c # rev a = rev b' @ c # rev a'"
    by (metis (no_types, lifting) append.assoc append_Cons append_Nil rev.simps(2) rev_append rev_rev_ident)
  with assms show ?thesis by (auto simp: append_sep_inject)
qed

lemma tag_key_cons: "tag_key scope tag = ''tags/'' @ (ts_proxy_host scope @ CHR ''/'' # ts_full_name scope) @ CHR ''/'' # tag"
  by (simp add: tag_key_def)

lemma tag_key_inject:
  assumes "plain_tag t" "plain_tag t'" "CHR ''/'' \<notin> set (ts_proxy_host sc)" "CHR ''/'' \<notin> set (ts_proxy_host sc')"
  shows "tag_key sc t = tag_key sc' t' \<longleftrightarrow> sc = sc' \<and> t = t'"
  using assms
  by (cases sc; cases sc')
     (auto simp: tag_key_cons same_append_eq append_last_sep_inject append_sep_inject plain_tag_def
           simp del: append_assoc)

lemma blob_key_inject [simp]: "blob_key d = blob_key e \<longleftrightarrow> d = e"
  by (simp add: blob_key_def)

lemma blob_key_not_tag_key [simp]: "blob_key d \<noteq> tag_key sc t" "tag_key sc t \<noteq> blob_key d"
  by (simp_all add: blob_key_def tag_key_def)

text \<open>Which keys belong to tag pointers.\<close>

definition is_tag_key :: "string \<Rightarrow> bool" where
  "is_tag_key key \<longleftrightarrow> starts_with ''tags/'' key"

lemma is_tag_key_simps [simp]: "is_tag_key (tag_key sc t)" "\<not> is_tag_key (blob_key d)"
  by (auto simp: is_tag_key_def tag_key_def blob_key_def starts_with_iff)

text \<open>\<open>serde_json\<close> on tag pointers, with its documented round trip.\<close>

record pointer_json =
  pj_to_vec :: "tag_pointer \<Rightarrow> string + bytes"
  pj_from_slice :: "bytes \<Rightarrow> tag_pointer option"

definition pointer_json_roundtrip :: "pointer_json \<Rightarrow> bool" where
  "pointer_json_roundtrip J \<longleftrightarrow> (\<forall>p b. pj_to_vec J p = Inr b \<longrightarrow> pj_from_slice J b = Some p)"

section \<open>The interface\<close>

text \<open>An implementation of the trait on a state \<open>'s\<close>, with its effects and errors explicit.\<close>

record 's storage_ops =
  so_get_blob :: "digest \<Rightarrow> ('s, storage_error, blob option) act"
  so_head_blob :: "digest \<Rightarrow> ('s, storage_error, blob_meta option) act"
  so_put_blob :: "digest \<Rightarrow> string \<Rightarrow> bytes \<Rightarrow> ('s, storage_error, unit) act"
  so_get_tag_pointer :: "tag_scope \<Rightarrow> string \<Rightarrow> ('s, storage_error, tag_pointer option) act"
  so_put_tag_pointer :: "tag_scope \<Rightarrow> string \<Rightarrow> tag_pointer \<Rightarrow> ('s, storage_error, unit) act"

text \<open>\<open>view_blob\<close> and \<open>view_tag\<close> are what the store holds, a tag pointer under its key;
  \<open>good\<close> is the condition under which the laws hold.\<close>

locale storage =
  fixes ops :: "'s storage_ops"
    and view_blob :: "'s \<Rightarrow> digest \<Rightarrow> bytes option"
    and view_tag :: "'s \<Rightarrow> string \<Rightarrow> tag_pointer option"
    and good :: "'s \<Rightarrow> bool"
  assumes get_blob_frame: "good s \<Longrightarrow> so_get_blob ops d s = (r, s') \<Longrightarrow>
      good s' \<and> view_blob s' \<subseteq>\<^sub>m view_blob s \<and> view_tag s' \<subseteq>\<^sub>m view_tag s"
    and get_blob_serves: "good s \<Longrightarrow> so_get_blob ops d s = (Inr (Some b), s') \<Longrightarrow>
      \<exists>data. view_blob s d = Some data \<and> serves b data"
    and head_blob_frame: "good s \<Longrightarrow> so_head_blob ops d s = (r', s') \<Longrightarrow>
      good s' \<and> view_blob s' \<subseteq>\<^sub>m view_blob s \<and> view_tag s' \<subseteq>\<^sub>m view_tag s"
    and head_blob_size: "good s \<Longrightarrow> so_head_blob ops d s = (Inr (Some m), s') \<Longrightarrow>
      \<exists>data. view_blob s d = Some data \<and> bm_size m = of_nat (length data)"
    and put_blob_adds: "good s \<Longrightarrow> canonical d \<Longrightarrow> so_put_blob ops d ct data s = (u, s') \<Longrightarrow>
      good s' \<and> view_tag s' \<subseteq>\<^sub>m view_tag s \<and>
      (\<forall>e x. canonical e \<longrightarrow> view_blob s' e = Some x \<longrightarrow> view_blob s e = Some x \<or> e = d \<and> x = data)"
    and get_tag_frame: "good s \<Longrightarrow> so_get_tag_pointer ops sc t s = (q, s') \<Longrightarrow>
      good s' \<and> view_blob s' \<subseteq>\<^sub>m view_blob s \<and> view_tag s' \<subseteq>\<^sub>m view_tag s"
    and get_tag_stored: "good s \<Longrightarrow> so_get_tag_pointer ops sc t s = (Inr (Some p), s') \<Longrightarrow>
      view_tag s (tag_key sc t) = Some p"
    and put_tag_adds: "good s \<Longrightarrow> plain_tag t \<Longrightarrow> so_put_tag_pointer ops sc t p s = (u, s') \<Longrightarrow>
      good s' \<and>
      (\<forall>e x. canonical e \<longrightarrow> view_blob s' e = Some x \<longrightarrow> view_blob s e = Some x) \<and>
      (\<forall>sc' t' x. plain_tag t' \<longrightarrow> view_tag s' (tag_key sc' t') = Some x \<longrightarrow>
         view_tag s (tag_key sc' t') = Some x \<or> tag_key sc' t' = tag_key sc t \<and> x = p)"
begin

text \<open>Every blob in the store has the digest it is stored under.\<close>

definition intact :: "(bytes \<Rightarrow> string) \<Rightarrow> 's \<Rightarrow> bool" where
  "intact sha s \<longleftrightarrow> good s \<and>
     (\<forall>d data. canonical d \<longrightarrow> view_blob s d = Some data \<longrightarrow> d = digest_sha256 sha data)"

text \<open>Every tag pointer in the store satisfies \<open>P\<close> at its scope and tag.\<close>

definition tags_satisfy :: "(tag_scope \<Rightarrow> string \<Rightarrow> tag_pointer \<Rightarrow> bool) \<Rightarrow> 's \<Rightarrow> bool" where
  "tags_satisfy P s \<longleftrightarrow> good s \<and>
     (\<forall>sc t p. plain_tag t \<longrightarrow> view_tag s (tag_key sc t) = Some p \<longrightarrow> P sc t p)"

lemma intact_good: "intact sha s \<Longrightarrow> good s"
  by (simp add: intact_def)

lemma intact_shrink:
  "intact sha s \<Longrightarrow> good s' \<Longrightarrow> view_blob s' \<subseteq>\<^sub>m view_blob s \<Longrightarrow> intact sha s'"
  unfolding intact_def map_le_def by (metis domI)

lemma tags_satisfy_shrink:
  "tags_satisfy P s \<Longrightarrow> good s' \<Longrightarrow> view_tag s' \<subseteq>\<^sub>m view_tag s \<Longrightarrow> tags_satisfy P s'"
  unfolding tags_satisfy_def map_le_def by (metis domI)

lemma intact_get_blob:
  "hoare (intact sha) (so_get_blob ops d) (\<lambda>r s'. intact sha s') (\<lambda>e. intact sha)"
  using get_blob_frame intact_shrink intact_good by (intro hoareI) blast+

lemma intact_head_blob:
  "hoare (intact sha) (so_head_blob ops d) (\<lambda>r s'. intact sha s') (\<lambda>e. intact sha)"
  using head_blob_frame intact_shrink intact_good by (intro hoareI) blast+

lemma intact_get_tag:
  "hoare (intact sha) (so_get_tag_pointer ops sc t) (\<lambda>r s'. intact sha s') (\<lambda>e. intact sha)"
  using get_tag_frame intact_shrink intact_good by (intro hoareI) blast+

lemma intact_put_tag:
  assumes "plain_tag t"
  shows "hoare (intact sha) (so_put_tag_pointer ops sc t p) (\<lambda>r s'. intact sha s') (\<lambda>e. intact sha)"
proof -
  have "intact sha s'" if "intact sha s" "so_put_tag_pointer ops sc t p s = (r, s')" for s r s'
    using that(1) put_tag_adds [OF intact_good [OF that(1)] assms that(2)]
    unfolding intact_def by blast
  then show ?thesis by (intro hoareI) blast+
qed

text \<open>A write of bytes under their own digest keeps the store intact, whether it succeeds or not.\<close>

lemma intact_put_blob:
  assumes "canonical d" and "d = digest_sha256 sha data"
  shows "hoare (intact sha) (so_put_blob ops d ct data) (\<lambda>r s'. intact sha s') (\<lambda>e. intact sha)"
proof -
  have "intact sha s'" if "intact sha s" "so_put_blob ops d ct data s = (r, s')" for s r s'
    using that(1) put_blob_adds [OF intact_good [OF that(1)] assms(1) that(2)] assms(2)
    unfolding intact_def by blast
  then show ?thesis by (intro hoareI) blast+
qed

text \<open>What an intact store serves under a digest has that digest.\<close>

lemma intact_serves:
  assumes "intact sha s" "canonical d" "so_get_blob ops d s = (Inr (Some b), s')"
  obtains data where "d = digest_sha256 sha data" "serves b data"
proof -
  from get_blob_serves [OF intact_good [OF assms(1)] assms(3)]
  obtain data where "view_blob s d = Some data" "serves b data" by blast
  with assms(1,2) that show thesis by (auto simp: intact_def)
qed

lemma tags_put_tag:
  assumes "plain_tag t" and "\<And>sc' t'. plain_tag t' \<Longrightarrow> tag_key sc' t' = tag_key sc t \<Longrightarrow> P sc' t' p"
  shows "hoare (tags_satisfy P) (so_put_tag_pointer ops sc t p) (\<lambda>r. tags_satisfy P) (\<lambda>e. tags_satisfy P)"
proof -
  have "tags_satisfy P s'" if "tags_satisfy P s" "so_put_tag_pointer ops sc t p s = (r, s')" for s r s'
    using that(1) put_tag_adds [OF _ assms(1) that(2)] assms(2)
    unfolding tags_satisfy_def by blast
  then show ?thesis by (intro hoareI) blast+
qed

lemma tags_put_blob:
  assumes "canonical d"
  shows "hoare (tags_satisfy P) (so_put_blob ops d ct data) (\<lambda>r. tags_satisfy P) (\<lambda>e. tags_satisfy P)"
proof -
  have "tags_satisfy P s'" if "tags_satisfy P s" "so_put_blob ops d ct data s = (r, s')" for s r s'
    using tags_satisfy_shrink [OF that(1)] put_blob_adds [OF _ assms that(2)] that(1)
    unfolding tags_satisfy_def by blast
  then show ?thesis by (intro hoareI) blast+
qed

end

section \<open>A store inside a larger state\<close>

text \<open>The state a handler runs in holds two stores; an operation on one leaves the rest alone.\<close>

definition on_part :: "('w \<Rightarrow> 's) \<Rightarrow> ('s \<Rightarrow> 'w \<Rightarrow> 'w) \<Rightarrow> ('s, 'e, 'a) act \<Rightarrow> ('w, 'e, 'a) act" where
  "on_part get put m = (\<lambda>w. case m (get w) of (r, s) \<Rightarrow> (r, put s w))"

definition lift_ops :: "('w \<Rightarrow> 's) \<Rightarrow> ('s \<Rightarrow> 'w \<Rightarrow> 'w) \<Rightarrow> 's storage_ops \<Rightarrow> 'w storage_ops" where
  "lift_ops get put ops = \<lparr>
     so_get_blob = (\<lambda>d. on_part get put (so_get_blob ops d)),
     so_head_blob = (\<lambda>d. on_part get put (so_head_blob ops d)),
     so_put_blob = (\<lambda>d ct data. on_part get put (so_put_blob ops d ct data)),
     so_get_tag_pointer = (\<lambda>sc t. on_part get put (so_get_tag_pointer ops sc t)),
     so_put_tag_pointer = (\<lambda>sc t p. on_part get put (so_put_tag_pointer ops sc t p))\<rparr>"

lemma on_part_eq: "on_part get put m w = (r, w') \<longleftrightarrow> (\<exists>s. m (get w) = (r, s) \<and> w' = put s w)"
  by (auto simp: on_part_def split: prod.splits)

lemma storage_lift:
  assumes "storage ops vb vt good" and lens: "\<And>s w. get (put s w) = s"
  shows "storage (lift_ops get put ops) (vb \<circ> get) (vt \<circ> get) (good \<circ> get)"
proof (rule storage.intro, unfold lift_ops_def storage_ops.simps on_part_eq o_def, goal_cases)
  case (1 s d r s')
  then obtain s1 where "s' = put s1 s" and c: "so_get_blob ops d (get s) = (r, s1)"
    by blast
  with storage.get_blob_frame [OF assms(1) 1(1) c] show ?case by (simp add: lens)
next
  case (2 s d b s')
  then obtain s1 where "s' = put s1 s" and c: "so_get_blob ops d (get s) = (Inr (Some b), s1)"
    by blast
  with storage.get_blob_serves [OF assms(1) 2(1) c] show ?case by (simp add: lens)
next
  case (3 s d r' s')
  then obtain s1 where "s' = put s1 s" and c: "so_head_blob ops d (get s) = (r', s1)"
    by blast
  with storage.head_blob_frame [OF assms(1) 3(1) c] show ?case by (simp add: lens)
next
  case (4 s d m s')
  then obtain s1 where "s' = put s1 s" and c: "so_head_blob ops d (get s) = (Inr (Some m), s1)"
    by blast
  with storage.head_blob_size [OF assms(1) 4(1) c] show ?case by (simp add: lens)
next
  case (5 s d ct data u s')
  then obtain s1 where "s' = put s1 s" and c: "so_put_blob ops d ct data (get s) = (u, s1)"
    by blast
  with storage.put_blob_adds [OF assms(1) 5(1) 5(2) c] show ?case by (simp add: lens)
next
  case (6 s sc t q s')
  then obtain s1 where "s' = put s1 s" and c: "so_get_tag_pointer ops sc t (get s) = (q, s1)"
    by blast
  with storage.get_tag_frame [OF assms(1) 6(1) c] show ?case by (simp add: lens)
next
  case (7 s sc t p s')
  then obtain s1 where "s' = put s1 s" and c: "so_get_tag_pointer ops sc t (get s) = (Inr (Some p), s1)"
    by blast
  with storage.get_tag_stored [OF assms(1) 7(1) c] show ?case by (simp add: lens)
next
  case (8 s t sc p u s')
  then obtain s1 where "s' = put s1 s" and c: "so_put_tag_pointer ops sc t p (get s) = (u, s1)"
    by blast
  with storage.put_tag_adds [OF assms(1) 8(1) 8(2) c] show ?case by (simp add: lens)
qed

section \<open>Properties\<close>

text \<open>The key layout is unambiguous: a tag's key determines its proxy host, name and tag (a proxy
  host and a tag have no slash, a name may have many), a blob's key determines its digest, and
  no blob key is a tag key, so tags of one scope can never overwrite another scope's or a blob.\<close>
theorem storage_keys_injective:
  assumes "plain_tag t" "plain_tag t'"
    and "CHR ''/'' \<notin> set (ts_proxy_host sc)" "CHR ''/'' \<notin> set (ts_proxy_host sc')"
  shows "(tag_key sc t = tag_key sc' t' \<longrightarrow> sc = sc' \<and> t = t')
    \<and> (blob_key d = blob_key d' \<longrightarrow> d = d') \<and> blob_key d \<noteq> tag_key sc t"
  using tag_key_inject [OF assms] by simp

theorem storage_keys_injective_witness:
  "tag_key \<lparr>ts_proxy_host = ''h'', ts_full_name = ''a/b''\<rparr> ''c''
     \<noteq> tag_key \<lparr>ts_proxy_host = ''h'', ts_full_name = ''a''\<rparr> ''c''"
  using storage_keys_injective [of "''c''" "''c''" "\<lparr>ts_proxy_host = ''h'', ts_full_name = ''a/b''\<rparr>"
      "\<lparr>ts_proxy_host = ''h'', ts_full_name = ''a''\<rparr>"]
  by (auto simp: plain_tag_def)

end
