(* ===== verification/Ext_Lib.thy ===== *)
theory Ext_Lib
  imports Prelude
begin

text \<open>
  The third-party libraries the sources call are parameters of the model. This theory declares
  the records of operations through which they are passed: the \<open>url\<close> crate here; the smaller
  libraries (SHA-256, percent decoding, YAML, JSON, gzip, tar, the object store, the cache) are
  declared in the theory of the component that calls them.

  A component type \<open>'u\<close> stands for \<open>url::Url\<close>. Nothing is assumed of the operations; a lemma
  that needs a documented law names it as a hypothesis.
\<close>

text \<open>\<open>url::Host\<close>.\<close>
datatype url_host = HostDomain string | HostIpv4 u32 | HostIpv6 "128 word"

text \<open>\<open>url::Origin\<close>: opaque origins are equal only to themselves.\<close>
datatype url_origin = OriginOpaque nat | OriginTuple string url_host u16

text \<open>
  The operations of \<open>url::Url\<close> the sources use. \<open>ul_parse\<close> and \<open>ul_join\<close> return the rendered
  error on failure; the setters return the updated value; \<open>ul_set_username\<close> and
  \<open>ul_set_password\<close> fail on a URL that cannot have userinfo. \<open>ul_push_segments\<close> is
  \<open>path_segments_mut\<close> with \<open>pop_if_empty\<close> and then one \<open>push\<close> per segment;
  \<open>ul_append_pair\<close> is \<open>query_pairs_mut().append_pair\<close>.
\<close>
record 'u url_lib =
  ul_parse :: "string \<Rightarrow> string + 'u"
  ul_join :: "'u \<Rightarrow> string \<Rightarrow> string + 'u"
  ul_to_string :: "'u \<Rightarrow> string"
  ul_scheme :: "'u \<Rightarrow> string"
  ul_username :: "'u \<Rightarrow> string"
  ul_password :: "'u \<Rightarrow> string option"
  ul_host :: "'u \<Rightarrow> url_host option"
  ul_host_str :: "'u \<Rightarrow> string option"
  ul_port :: "'u \<Rightarrow> u16 option"
  ul_port_or_known_default :: "'u \<Rightarrow> u16 option"
  ul_path :: "'u \<Rightarrow> string"
  ul_query :: "'u \<Rightarrow> string option"
  ul_fragment :: "'u \<Rightarrow> string option"
  ul_origin :: "'u \<Rightarrow> url_origin"
  ul_set_query :: "string option \<Rightarrow> 'u \<Rightarrow> 'u"
  ul_set_fragment :: "string option \<Rightarrow> 'u \<Rightarrow> 'u"
  ul_set_username :: "string \<Rightarrow> 'u \<Rightarrow> 'u option"
  ul_set_password :: "string option \<Rightarrow> 'u \<Rightarrow> 'u option"
  ul_set_path :: "string \<Rightarrow> 'u \<Rightarrow> 'u"
  ul_push_segments :: "string list \<Rightarrow> 'u \<Rightarrow> 'u option"
  ul_append_pair :: "string \<Rightarrow> string \<Rightarrow> 'u \<Rightarrow> 'u"
  ul_host_parse :: "string \<Rightarrow> url_host option"

text \<open>
  A concrete instance for the witnesses: a URL is its scheme, host, port, path and query, and
  the parser reads \<open>scheme://host[:port][/path][?query]\<close> without percent-encoding.
\<close>
record sample_url =
  su_scheme :: string
  su_host :: string
  su_port :: "u16 option"
  su_path :: string
  su_query :: "string option"

definition sample_default_port :: "string \<Rightarrow> u16 option" where
  "sample_default_port scheme =
     (if scheme = ''https'' then Some 443 else if scheme = ''http'' then Some 80 else None)"

definition sample_url_parse :: "string \<Rightarrow> string + sample_url" where
  "sample_url_parse s =
     (case split_once (CHR '':'') s of
        None \<Rightarrow> Inl ''relative URL without a base''
      | Some (scheme, rest0) \<Rightarrow>
          (case strip_prefix ''//'' rest0 of
             None \<Rightarrow> Inl ''relative URL without a base''
           | Some rest \<Rightarrow>
               let (body, query) = (case split_once (CHR ''?'') rest of
                                      None \<Rightarrow> (rest, None) | Some (b, q) \<Rightarrow> (b, Some q));
                   (auth, path) = (case split_once (CHR ''/'') body of
                                     None \<Rightarrow> (body, ''/'') | Some (a, p) \<Rightarrow> (a, CHR ''/'' # p));
                   (host, port) = (case split_once (CHR '':'') auth of
                                     None \<Rightarrow> (auth, None)
                                   | Some (h, p) \<Rightarrow> (h, map_option of_nat (parse_unsigned u16_max p)))
               in if host = [] then Inl ''empty host''
                  else Inr \<lparr>su_scheme = scheme, su_host = host,
                            su_port = (if port = sample_default_port scheme then None else port),
                            su_path = path, su_query = query\<rparr>))"

definition sample_url_string :: "sample_url \<Rightarrow> string" where
  "sample_url_string u = su_scheme u @ ''://'' @ su_host u
     @ (case su_port u of None \<Rightarrow> [] | Some p \<Rightarrow> CHR '':'' # show_nat (unat p))
     @ su_path u @ (case su_query u of None \<Rightarrow> [] | Some q \<Rightarrow> CHR ''?'' # q)"

definition sample_port_or_default :: "sample_url \<Rightarrow> u16 option" where
  "sample_port_or_default u =
     (case su_port u of None \<Rightarrow> sample_default_port (su_scheme u) | Some p \<Rightarrow> Some p)"

definition sample_url_join :: "sample_url \<Rightarrow> string \<Rightarrow> string + sample_url" where
  "sample_url_join u s =
     (case sample_url_parse s of
        Inr v \<Rightarrow> Inr v
      | Inl _ \<Rightarrow> if starts_with ''/'' s then Inr (u\<lparr>su_path := s, su_query := None\<rparr>)
                 else Inr (u\<lparr>su_path := su_path u @ s, su_query := None\<rparr>))"

definition sample_push_segments :: "string list \<Rightarrow> sample_url \<Rightarrow> sample_url option" where
  "sample_push_segments segs u =
     Some (u\<lparr>su_path := trim_end_matches (\<lambda>c. c = CHR ''/'') (su_path u) @ ''/'' @ join ''/'' segs\<rparr>)"

definition sample_append_pair :: "string \<Rightarrow> string \<Rightarrow> sample_url \<Rightarrow> sample_url" where
  "sample_append_pair k v u = u\<lparr>su_query := Some
     ((case su_query u of None \<Rightarrow> [] | Some q \<Rightarrow> q @ ''&'') @ k @ ''='' @ v)\<rparr>"

definition sample_url_lib :: "sample_url url_lib" where
  "sample_url_lib = \<lparr>
     ul_parse = sample_url_parse, ul_join = sample_url_join, ul_to_string = sample_url_string,
     ul_scheme = su_scheme, ul_username = (\<lambda>_. []), ul_password = (\<lambda>_. None),
     ul_host = (\<lambda>u. Some (HostDomain (su_host u))), ul_host_str = (\<lambda>u. Some (su_host u)),
     ul_port = su_port, ul_port_or_known_default = sample_port_or_default,
     ul_path = su_path, ul_query = su_query, ul_fragment = (\<lambda>_. None),
     ul_origin = (\<lambda>u. OriginTuple (su_scheme u) (HostDomain (su_host u))
        (case sample_port_or_default u of None \<Rightarrow> 0 | Some p \<Rightarrow> p)),
     ul_set_query = (\<lambda>q u. u\<lparr>su_query := q\<rparr>), ul_set_fragment = (\<lambda>_ u. u),
     ul_set_username = (\<lambda>_ u. Some u), ul_set_password = (\<lambda>_ u. Some u),
     ul_set_path = (\<lambda>p u. u\<lparr>su_path := p\<rparr>), ul_push_segments = sample_push_segments,
     ul_append_pair = sample_append_pair, ul_host_parse = (\<lambda>s. Some (HostDomain s))\<rparr>"

lemma sample_url_lib_simps [simp]:
  "ul_parse sample_url_lib = sample_url_parse"
  "ul_join sample_url_lib = sample_url_join"
  "ul_to_string sample_url_lib = sample_url_string"
  "ul_scheme sample_url_lib = su_scheme"
  "ul_username sample_url_lib u = []"
  "ul_password sample_url_lib u = None"
  "ul_host sample_url_lib u = Some (HostDomain (su_host u))"
  "ul_host_str sample_url_lib u = Some (su_host u)"
  "ul_port sample_url_lib = su_port"
  "ul_path sample_url_lib = su_path"
  "ul_query sample_url_lib = su_query"
  "ul_fragment sample_url_lib u = None"
  "ul_push_segments sample_url_lib = sample_push_segments"
  "ul_append_pair sample_url_lib = sample_append_pair"
  "ul_host_parse sample_url_lib s = Some (HostDomain s)"
  by (simp_all add: sample_url_lib_def)

end
