(* ===== verification/Hostname.thy ===== *)
theory Hostname
  imports Ext_Lib
begin

text \<open>
  \<open>crates/helmoci-core/src/resolver/hostname.rs\<close>: which host names may be contacted on behalf of
  an anonymous client. \<open>url::Host::parse\<close> is the parameter \<open>host_parse\<close>.
\<close>

definition is_numeric_label :: "string \<Rightarrow> bool" where
  "is_numeric_label label \<longleftrightarrow>
     (case strip_prefix ''0x'' label of
        Some hex \<Rightarrow> hex \<noteq> [] \<and> list_all is_ascii_hexdigit hex
      | None \<Rightarrow> label \<noteq> [] \<and> list_all is_ascii_digit label)"

definition is_ip_host :: "url_host option \<Rightarrow> bool" where
  "is_ip_host r \<longleftrightarrow>
     (case r of Some (HostIpv4 _) \<Rightarrow> True | Some (HostIpv6 _) \<Rightarrow> True | _ \<Rightarrow> False)"

definition is_dns_byte :: "char \<Rightarrow> bool" where
  "is_dns_byte b \<longleftrightarrow> is_ascii_alphanumeric b \<or> b = CHR ''-''"

definition is_dns_label :: "string \<Rightarrow> bool" where
  "is_dns_label label \<longleftrightarrow> label \<noteq> [] \<and> list_all is_dns_byte label
     \<and> \<not> starts_with ''-'' label \<and> \<not> ends_with ''-'' label"

definition is_public_hostname :: "(string \<Rightarrow> url_host option) \<Rightarrow> string \<Rightarrow> bool" where
  "is_public_hostname host_parse host =
     (let h = to_ascii_lowercase host in
      if h = [] \<or> length h > 253 then False
      else if h = ''localhost'' \<or> ends_with ''.localhost'' h \<or> ends_with ''.local'' h then False
      else if CHR '':'' \<in> set h \<or> CHR '' '' \<in> set h then False
      else if is_ip_host (host_parse h) then False
      else let labels = split_on (CHR ''.'') h in
           if list_all is_numeric_label labels then False
           else if length labels < 2 then False
           else list_all is_dns_label labels)"

section \<open>What a public host name looks like\<close>

definition is_host_byte :: "char \<Rightarrow> bool" where
  "is_host_byte b \<longleftrightarrow> is_dns_byte b \<or> b = CHR ''.''"

lemma is_host_byte_safe:
  "is_host_byte b \<Longrightarrow> b \<notin> {CHR ''/'', CHR '':'', CHR ''@'', CHR ''?'', CHR ''#'', CHR '' '', CHR ''%'', CHR 0x5C}"
  by (auto simp: is_host_byte_def is_dns_byte_def byte_class_defs)

lemma dns_labels_bytes:
  assumes "list_all is_dns_label (split_on (CHR ''.'') h)"
  shows "list_all is_host_byte h"
proof -
  have "set h \<subseteq> set ''.'' \<union> (\<Union>p\<in>set (split_on (CHR ''.'') h). set p)"
    using set_join [of "''.''" "split_on (CHR ''.'') h"] by simp
  moreover have "is_host_byte c" if "p \<in> set (split_on (CHR ''.'') h)" "c \<in> set p" for p c
    using assms that by (auto simp: list_all_iff is_dns_label_def is_host_byte_def)
  ultimately show ?thesis by (auto simp: list_all_iff is_host_byte_def)
qed

lemma is_public_hostnameD:
  assumes "is_public_hostname host_parse host"
  defines "h \<equiv> to_ascii_lowercase host"
  shows "h \<noteq> []" "length h \<le> 253" "h \<noteq> ''localhost''" "\<not> ends_with ''.localhost'' h"
    "\<not> ends_with ''.local'' h" "\<not> is_ip_host (host_parse h)"
    "2 \<le> length (split_on (CHR ''.'') h)" "list_all is_dns_label (split_on (CHR ''.'') h)"
    "\<not> list_all is_numeric_label (split_on (CHR ''.'') h)" "list_all is_host_byte h"
  using assms dns_labels_bytes [of h]
  by (auto simp: is_public_hostname_def Let_def h_def split: if_splits)

lemma is_host_byte_lower: "is_host_byte (ascii_lower c) = is_host_byte c"
  by (auto simp: is_host_byte_def is_dns_byte_def ascii_lower_def byte_class_defs)

lemma public_hostname_bytes:
  "is_public_hostname host_parse host \<Longrightarrow> list_all is_host_byte host"
  using is_public_hostnameD(10) [of host_parse host]
  by (simp add: to_ascii_lowercase_def list_all_iff is_host_byte_lower)

lemma public_hostname_lower [simp]:
  "is_public_hostname host_parse (to_ascii_lowercase host) = is_public_hostname host_parse host"
  by (simp add: is_public_hostname_def)

lemma public_hostname_not_Nil: "is_public_hostname host_parse host \<Longrightarrow> host \<noteq> []"
  using is_public_hostnameD(1) by (auto simp: to_ascii_lowercase_def)

lemma public_hostname_no_slash:
  "is_public_hostname host_parse host \<Longrightarrow> CHR ''/'' \<notin> set host"
  using public_hostname_bytes [of host_parse host] is_host_byte_safe [of "CHR ''/''"]
  by (auto simp: list_all_iff)

section \<open>Properties\<close>

text \<open>A host accepted as public is at most 253 bytes of letters, digits, hyphens and dots with
  at least two well-formed labels; it is not \<open>localhost\<close> nor under \<open>.localhost\<close> or \<open>.local\<close>,
  the URL library does not read it as an IP address, and its labels are not all numeric, so no
  short, octal or hexadecimal IPv4 form is accepted; the decision does not depend on case.\<close>
theorem public_hostname_sound:
  assumes "is_public_hostname host_parse host"
  shows "length host \<le> 253 \<and> list_all is_host_byte host
    \<and> 2 \<le> length (split_on (CHR ''.'') (to_ascii_lowercase host))
    \<and> list_all is_dns_label (split_on (CHR ''.'') (to_ascii_lowercase host))
    \<and> to_ascii_lowercase host \<noteq> ''localhost''
    \<and> \<not> ends_with ''.localhost'' (to_ascii_lowercase host)
    \<and> \<not> ends_with ''.local'' (to_ascii_lowercase host)
    \<and> \<not> is_ip_host (host_parse (to_ascii_lowercase host))
    \<and> (\<exists>label \<in> set (split_on (CHR ''.'') (to_ascii_lowercase host)). \<not> is_numeric_label label)
    \<and> is_public_hostname host_parse (to_ascii_lowercase host)"
  using is_public_hostnameD [OF assms] public_hostname_bytes [OF assms] assms
  by (auto simp: list_all_iff)

theorem public_hostname_sound_witness:
  "is_public_hostname (\<lambda>s. Some (HostDomain s)) ''Argo.GitHub.io''
   \<and> list_all is_host_byte ''Argo.GitHub.io''"
proof -
  have p: "is_public_hostname (\<lambda>s. Some (HostDomain s)) ''Argo.GitHub.io''" by code_simp
  with public_hostname_sound [OF p] show ?thesis by (intro conjI) (rule p, elim conjE)
qed

end
