(* ===== verification/Resolver.thy ===== *)
theory Resolver
  imports Hostname
begin

text \<open>
  \<open>crates/helmoci-core/src/resolver/mod.rs\<close>: from the name in a registry path to the upstream
  it stands for. The alias table is the \<open>HashMap\<close> of the configuration.
\<close>

datatype upstream_auth_kind = AuthNone | AuthGcp

datatype alias_upstream =
    UpClassic (repo_url_of: string)
  | UpOci (registry_of: string) (repo_of: string)

record alias_entry =
  al_upstream :: alias_upstream
  al_store :: bool
  al_auth :: upstream_auth_kind
  al_plain_http :: bool

datatype classic_source = ConfiguredAlias | HostPath

record classic_chart =
  cc_repo_url :: string
  cc_chart_name :: string
  cc_full_name :: string
  cc_ephemeral :: bool
  cc_source :: classic_source

record oci_target =
  ot_registry :: string
  ot_repo :: string
  ot_full_name :: string
  ot_store :: bool
  ot_auth :: upstream_auth_kind
  ot_plain_http :: bool

datatype resolved = ResClassic classic_chart | ResOci oci_target

definition is_name_byte :: "char \<Rightarrow> bool" where
  "is_name_byte b \<longleftrightarrow> is_ascii_alphanumeric b \<or> b = CHR ''.'' \<or> b = CHR ''_'' \<or> b = CHR ''-''"

fun is_valid_chart_name :: "string \<Rightarrow> bool" where
  "is_valid_chart_name [] = False"
| "is_valid_chart_name (b # bs) = (is_ascii_alphanumeric b \<and> list_all is_name_byte bs)"

definition is_valid_oci_repo_segment :: "string \<Rightarrow> bool" where
  "is_valid_oci_repo_segment s = is_valid_chart_name s"

definition is_alias_byte :: "char \<Rightarrow> bool" where
  "is_alias_byte b \<longleftrightarrow> is_ascii_alphanumeric b \<or> b = CHR ''_'' \<or> b = CHR ''-''"

fun is_valid_alias_name :: "string \<Rightarrow> bool" where
  "is_valid_alias_name [] = False"
| "is_valid_alias_name (b # bs) = (is_ascii_alphanumeric b \<and> list_all is_alias_byte bs)"

definition is_slash :: "char \<Rightarrow> bool" where
  "is_slash c \<longleftrightarrow> c = CHR ''/''"

definition parse_alias_upstream :: "'u url_lib \<Rightarrow> string \<Rightarrow> string + alias_upstream" where
  "parse_alias_upstream U s =
     (case strip_prefix ''oci://'' s of
        Some rest0 \<Rightarrow>
          (case split_once (CHR ''/'') (trim_matches is_slash rest0) of
             None \<Rightarrow> Inl (''oci upstream needs a repo path: '' @ s)
           | Some (registry, repo) \<Rightarrow>
               if registry = [] \<or> repo = [] then Inl (''invalid oci upstream: '' @ s)
               else Inr (UpOci registry (trim_matches is_slash repo)))
      | None \<Rightarrow>
          if starts_with ''https://'' s \<or> starts_with ''http://'' s then
            (case ul_parse U s of
               Inl e \<Rightarrow> Inl (''invalid upstream url '' @ s @ '': '' @ e)
             | Inr parsed \<Rightarrow>
                 (case ul_host_str U parsed of
                    None \<Rightarrow> Inl (''upstream url has no host: '' @ s)
                  | Some _ \<Rightarrow> Inr (UpClassic (trim_end_matches is_slash s))))
          else Inl (''alias upstream must start with oci://, https:// or http://: '' @ s))"

definition normalize_repo_key :: "'u url_lib \<Rightarrow> string \<Rightarrow> string option" where
  "normalize_repo_key U url_str =
     (case ul_parse U url_str of
        Inl _ \<Rightarrow> None
      | Inr parsed \<Rightarrow>
          if ul_port U parsed \<noteq> None then None
          else case ul_host_str U parsed of
                 None \<Rightarrow> None
               | Some host0 \<Rightarrow>
                   let host = to_ascii_lowercase host0;
                       path = trim_matches is_slash (ul_path U parsed)
                   in Some (if path = [] then host else host @ ''/'' @ path))"

text \<open>Collecting into a \<open>HashMap\<close> inserts the pairs in iteration order: a later pair with the
  same key replaces the earlier value.\<close>

definition collect_map :: "(string \<times> 'v) list \<Rightarrow> 'v hashmap" where
  "collect_map kvs = fold (\<lambda>(k, v). AList.update k v) kvs []"

definition classic_alias_entry :: "'u url_lib \<Rightarrow> string \<times> alias_entry \<Rightarrow> (string \<times> string) option" where
  "classic_alias_entry U entry =
     (case entry of (name, al) \<Rightarrow>
        (case al_upstream al of
           UpClassic repo_url \<Rightarrow>
             (case normalize_repo_key U repo_url of None \<Rightarrow> None | Some key \<Rightarrow> Some (key, name))
         | UpOci _ _ \<Rightarrow> None))"

definition classic_alias_rewrite_map :: "'u url_lib \<Rightarrow> alias_entry hashmap \<Rightarrow> string hashmap" where
  "classic_alias_rewrite_map U aliases = collect_map (List.map_filter (classic_alias_entry U) aliases)"

definition resolve_host_path ::
  "(string \<Rightarrow> url_host option) \<Rightarrow> string list \<Rightarrow> string \<Rightarrow> resolved option" where
  "resolve_host_path host_parse segments name =
     (if length segments < 2 then None
      else let host = segments ! 0 in
        if \<not> is_public_hostname host_parse host then None
        else let chart_name = segments ! (length segments - 1) in
          if \<not> is_valid_chart_name chart_name then None
          else let repo_path = take (length segments - 2) (drop 1 segments) in
            if \<not> list_all is_valid_chart_name repo_path then None
            else let repo_url = (if repo_path = [] then ''https://'' @ host
                                 else ''https://'' @ host @ ''/'' @ join ''/'' repo_path)
              in Some (ResClassic \<lparr>cc_repo_url = repo_url, cc_chart_name = chart_name,
                        cc_full_name = name, cc_ephemeral = False, cc_source = HostPath\<rparr>))"

definition resolve_name ::
  "(string \<Rightarrow> url_host option) \<Rightarrow> string \<Rightarrow> alias_entry hashmap \<Rightarrow> resolved option" where
  "resolve_name host_parse name aliases =
     (let segments = filter (\<lambda>s. s \<noteq> []) (split_on (CHR ''/'') name) in
      case segments of
        [] \<Rightarrow> None
      | first # rest \<Rightarrow>
          (case map_of aliases first of
             Some al \<Rightarrow>
               (case al_upstream al of
                  UpClassic repo_url \<Rightarrow>
                    if length segments \<noteq> 2 \<or> \<not> is_valid_chart_name (segments ! 1) then None
                    else Some (ResClassic \<lparr>cc_repo_url = repo_url, cc_chart_name = segments ! 1,
                           cc_full_name = name, cc_ephemeral = (\<not> al_store al),
                           cc_source = ConfiguredAlias\<rparr>)
                | UpOci registry repo \<Rightarrow>
                    if length segments < 2 \<or> \<not> list_all is_valid_oci_repo_segment rest then None
                    else Some (ResOci \<lparr>ot_registry = registry, ot_repo = repo @ ''/'' @ join ''/'' rest,
                           ot_full_name = name, ot_store = al_store al, ot_auth = al_auth al,
                           ot_plain_http = al_plain_http al\<rparr>))
           | None \<Rightarrow> resolve_host_path host_parse segments name))"

section \<open>Names and segments\<close>

lemma is_name_byte_no_slash: "is_name_byte c \<Longrightarrow> c \<noteq> CHR ''/''"
  by (auto simp: is_name_byte_def byte_class_defs)

lemma alnum_is_name_byte: "is_ascii_alphanumeric c \<Longrightarrow> is_name_byte c"
  by (simp add: is_name_byte_def)

lemma valid_chart_name_bytes: "is_valid_chart_name s \<Longrightarrow> list_all is_name_byte s"
  by (cases s) (auto simp: alnum_is_name_byte)

lemma valid_chart_name_no_slash: "is_valid_chart_name s \<Longrightarrow> CHR ''/'' \<notin> set s"
  using valid_chart_name_bytes is_name_byte_no_slash by (auto simp: list_all_iff)

lemma valid_chart_name_not_dots: "is_valid_chart_name s \<Longrightarrow> s \<noteq> [] \<and> s \<noteq> ''.'' \<and> s \<noteq> ''..''"
  by (cases s) (auto simp: byte_class_defs)

lemma alias_name_not_host:
  assumes "is_valid_alias_name s"
  shows "CHR ''.'' \<notin> set s"
proof -
  have "c \<noteq> CHR ''.''" if "is_alias_byte c" for c
    using that by (auto simp: is_alias_byte_def byte_class_defs)
  moreover have "is_alias_byte c" if "is_ascii_alphanumeric c" for c
    using that by (simp add: is_alias_byte_def)
  ultimately show ?thesis
    using assms by (cases s) (auto simp: list_all_iff)
qed

lemma public_hostname_has_dot:
  assumes "is_public_hostname hp h"
  shows "CHR ''.'' \<in> set h"
proof (rule ccontr)
  assume no: "CHR ''.'' \<notin> set h"
  have "ascii_lower c = CHR ''.'' \<longleftrightarrow> c = CHR ''.''" for c
    by (rule ascii_lower_nonalpha) (simp add: byte_class_defs)
  with no have "CHR ''.'' \<notin> set (to_ascii_lowercase h)"
    unfolding to_ascii_lowercase_def set_map by (metis imageE)
  then have "split_on (CHR ''.'') (to_ascii_lowercase h) = [to_ascii_lowercase h]"
    by simp
  with is_public_hostnameD(7) [OF assms] show False by simp
qed

lemma segments_join:
  "ps \<noteq> [] \<Longrightarrow> \<forall>p\<in>set ps. p \<noteq> [] \<and> CHR ''/'' \<notin> set p \<Longrightarrow>
   filter (\<lambda>s. s \<noteq> []) (split_on (CHR ''/'') (join ''/'' ps)) = ps"
  by (simp add: split_on_join filter_id_conv)

section \<open>The host-path form\<close>

lemma middle_segments:
  "take (length (h # ps @ [c]) - 2) (drop 1 (h # ps @ [c])) = ps"
  by simp

lemma resolve_host_path_Some:
  assumes "resolve_host_path hp segs name = Some r"
  obtains host path chart where "segs = host # path @ [chart]"
    "is_public_hostname hp host" "is_valid_chart_name chart" "list_all is_valid_chart_name path"
    "r = ResClassic \<lparr>cc_repo_url = ''https://'' @ join ''/'' (host # path), cc_chart_name = chart,
           cc_full_name = name, cc_ephemeral = False, cc_source = HostPath\<rparr>"
proof -
  from assms have len: "2 \<le> length segs"
    by (auto simp: resolve_host_path_def split: if_splits)
  then obtain host rest where "segs = host # rest" "rest \<noteq> []"
    by (cases segs; cases "tl segs") auto
  then obtain path chart where segs: "segs = host # path @ [chart]"
    by (metis append_butlast_last_id)
  then have "segs ! (length segs - 1) = chart" "segs ! 0 = host"
    "take (length segs - 2) (drop 1 segs) = path"
    by (simp_all add: nth_append)
  with assms len have "is_public_hostname hp host" "is_valid_chart_name chart"
    "list_all is_valid_chart_name path"
    "r = ResClassic \<lparr>cc_repo_url = (if path = [] then ''https://'' @ host
           else ''https://'' @ host @ ''/'' @ join ''/'' path), cc_chart_name = chart,
           cc_full_name = name, cc_ephemeral = False, cc_source = HostPath\<rparr>"
    by (auto simp: resolve_host_path_def Let_def split: if_splits)
  with segs that show thesis by (auto simp: join_Cons)
qed

lemma resolve_host_path_intro:
  assumes "is_public_hostname hp host" "is_valid_chart_name chart" "list_all is_valid_chart_name path"
  shows "resolve_host_path hp (host # path @ [chart]) name =
    Some (ResClassic \<lparr>cc_repo_url = ''https://'' @ join ''/'' (host # path), cc_chart_name = chart,
      cc_full_name = name, cc_ephemeral = False, cc_source = HostPath\<rparr>)"
  using assms by (auto simp: resolve_host_path_def Let_def nth_append join_Cons)

lemma set_map_filter: "x \<in> set (List.map_filter f xs) \<longleftrightarrow> (\<exists>a\<in>set xs. f a = Some x)"
  by (induction xs) (auto simp: List.map_filter_def split: option.splits)

lemma map_of_collect_map: "map_of (collect_map kvs) k = map_of (rev kvs) k"
proof -
  have "map_of (fold (\<lambda>(k, v). AList.update k v) kvs m) k
        = (case map_of (rev kvs) k of None \<Rightarrow> map_of m k | Some v \<Rightarrow> Some v)" for m
  proof (induction kvs arbitrary: m)
    case Nil
    then show ?case by simp
  next
    case (Cons kv kvs)
    obtain a v where "kv = (a, v)" by (cases kv)
    with Cons show ?case
      by (auto simp: update_conv' map_add_def split: option.splits)
  qed
  then show ?thesis by (simp add: collect_map_def split: option.splits)
qed

section \<open>Properties\<close>

text \<open>C29. Host-path resolution is confined: when the first non-empty segment of a name is no alias,
  whatever the later segments are, the name resolves only to a classic repository whose URL is
  \<open>https://\<close>, that first segment as a public host and the valid path segments between it and the
  chart name, in their order; the chart is the last segment, and it is never served from the
  ephemeral store.\<close>
theorem resolve_without_alias_is_public_https:
  assumes "resolve_name hp name aliases = Some r"
    and "filter (\<lambda>s. s \<noteq> []) (split_on (CHR ''/'') name) = first # rest"
    and "map_of aliases first = None"
  shows "\<exists>path chart. rest = path @ [chart] \<and>
    is_public_hostname hp first \<and> list_all is_valid_chart_name rest \<and>
    r = ResClassic \<lparr>cc_repo_url = ''https://'' @ join ''/'' (first # path), cc_chart_name = chart,
          cc_full_name = name, cc_ephemeral = False, cc_source = HostPath\<rparr>"
proof -
  from assms have "resolve_host_path hp (first # rest) name = Some r"
    by (simp add: resolve_name_def Let_def)
  then obtain host path chart where "first # rest = host # path @ [chart]"
    "is_public_hostname hp host" "is_valid_chart_name chart" "list_all is_valid_chart_name path"
    "r = ResClassic \<lparr>cc_repo_url = ''https://'' @ join ''/'' (host # path), cc_chart_name = chart,
          cc_full_name = name, cc_ephemeral = False, cc_source = HostPath\<rparr>"
    by (rule resolve_host_path_Some)
  then show ?thesis by auto
qed

text \<open>The witness has an alias under the name of the second segment, which is not looked up.\<close>

theorem resolve_without_alias_is_public_https_witness:
  "\<exists>r. resolve_name (\<lambda>s. Some (HostDomain s)) ''a.io/argo/x'' [(''argo'', \<lparr>al_upstream = UpOci ''r.dev'' ''p'',
       al_store = True, al_auth = AuthNone, al_plain_http = False\<rparr>)] = Some r \<and>
     (\<exists>path chart. [''argo'', ''x''] = path @ [chart] \<and>
        r = ResClassic \<lparr>cc_repo_url = ''https://'' @ join ''/'' (''a.io'' # path), cc_chart_name = chart,
          cc_full_name = ''a.io/argo/x'', cc_ephemeral = False, cc_source = HostPath\<rparr>)"
proof -
  let ?aliases = "[(''argo'', \<lparr>al_upstream = UpOci ''r.dev'' ''p'',
       al_store = True, al_auth = AuthNone, al_plain_http = False\<rparr>)]"
  have r: "resolve_name (\<lambda>s. Some (HostDomain s)) ''a.io/argo/x'' ?aliases =
     Some (ResClassic \<lparr>cc_repo_url = ''https://a.io/argo'', cc_chart_name = ''x'',
       cc_full_name = ''a.io/argo/x'', cc_ephemeral = False, cc_source = HostPath\<rparr>)"
    by code_simp
  have s: "filter (\<lambda>s. s \<noteq> []) (split_on (CHR ''/'') ''a.io/argo/x'') = [''a.io'', ''argo'', ''x'']"
    by code_simp
  have "map_of ?aliases ''a.io'' = None" by simp
  from resolve_without_alias_is_public_https [OF r s this] r show ?thesis by blast
qed

text \<open>C28. Round trip of the host-path form: the name printed from a public host, valid path
  segments and a valid chart name, when the host is no alias, resolves to exactly those.\<close>
theorem resolve_host_path_roundtrip:
  assumes "is_public_hostname hp host" "list_all is_valid_chart_name path" "is_valid_chart_name chart"
    and "map_of aliases host = None"
  shows "resolve_name hp (join ''/'' (host # path @ [chart])) aliases =
    Some (ResClassic \<lparr>cc_repo_url = ''https://'' @ join ''/'' (host # path), cc_chart_name = chart,
      cc_full_name = join ''/'' (host # path @ [chart]), cc_ephemeral = False, cc_source = HostPath\<rparr>)"
proof -
  let ?segs = "host # path @ [chart]"
  have "\<forall>p\<in>set ?segs. p \<noteq> [] \<and> CHR ''/'' \<notin> set p"
    using assms valid_chart_name_no_slash valid_chart_name_not_dots
      public_hostname_no_slash public_hostname_not_Nil
    by (auto simp: list_all_iff)
  then have "filter (\<lambda>s. s \<noteq> []) (split_on (CHR ''/'') (join ''/'' ?segs)) = ?segs"
    by (intro segments_join) auto
  with assms(4) resolve_host_path_intro [OF assms(1,3,2)] show ?thesis
    by (simp add: resolve_name_def Let_def)
qed

theorem resolve_host_path_roundtrip_witness:
  "resolve_name (\<lambda>s. Some (HostDomain s)) (join ''/'' (''a.io'' # [''b''] @ [''c''])) [] =
    Some (ResClassic \<lparr>cc_repo_url = ''https://'' @ join ''/'' (''a.io'' # [''b'']), cc_chart_name = ''c'',
      cc_full_name = join ''/'' (''a.io'' # [''b''] @ [''c'']), cc_ephemeral = False,
      cc_source = HostPath\<rparr>)"
  by (rule resolve_host_path_roundtrip) code_simp+

text \<open>C30. Alias resolution cannot leave the alias: when a name resolves to an OCI target, the alias
  is the one its first non-empty segment names, the target keeps that alias's registry,
  authentication, scheme and store setting, and its repository is the alias's repository followed
  by a slash and exactly the remaining segments of the name, in order, none of which is \<open>.\<close> or \<open>..\<close>
  or contains a byte outside the name alphabet.\<close>
theorem resolve_oci_alias_confined:
  assumes "resolve_name hp name aliases = Some (ResOci t)"
  shows "\<exists>first al registry repo rest.
    filter (\<lambda>s. s \<noteq> []) (split_on (CHR ''/'') name) = first # rest \<and>
    map_of aliases first = Some al \<and> al_upstream al = UpOci registry repo \<and>
    ot_registry t = registry \<and> ot_auth t = al_auth al \<and> ot_plain_http t = al_plain_http al \<and>
    ot_store t = al_store al \<and> ot_full_name t = name \<and>
    rest \<noteq> [] \<and> ot_repo t = repo @ ''/'' @ join ''/'' rest \<and>
    (\<forall>s\<in>set rest. s \<notin> {[], ''.'', ''..''} \<and> list_all is_name_byte s)"
proof -
  define segs where "segs = filter (\<lambda>s. s \<noteq> []) (split_on (CHR ''/'') name)"
  from assms obtain first rest where segs: "segs = first # rest"
    by (auto simp: resolve_name_def Let_def segs_def split: list.splits)
  show ?thesis
  proof (cases "map_of aliases first")
    case None
    with assms segs have "resolve_host_path hp segs name = Some (ResOci t)"
      by (simp add: resolve_name_def Let_def segs_def [symmetric])
    then show ?thesis by (rule resolve_host_path_Some) simp
  next
    case (Some al)
    with assms segs obtain registry repo where
      "al_upstream al = UpOci registry repo" "rest \<noteq> []" "list_all is_valid_oci_repo_segment rest"
      "t = \<lparr>ot_registry = registry, ot_repo = repo @ ''/'' @ join ''/'' rest, ot_full_name = name,
            ot_store = al_store al, ot_auth = al_auth al, ot_plain_http = al_plain_http al\<rparr>"
      by (auto simp: resolve_name_def Let_def segs_def [symmetric]
               split: alias_upstream.splits if_splits)
    moreover from this(3) have "\<forall>s\<in>set rest. s \<notin> {[], ''.'', ''..''} \<and> list_all is_name_byte s"
      using valid_chart_name_not_dots valid_chart_name_bytes
      by (auto simp: list_all_iff is_valid_oci_repo_segment_def)
    ultimately show ?thesis
      using Some segs unfolding segs_def
      by (intro exI [of _ first] exI [of _ al] exI [of _ registry] exI [of _ repo]
        exI [of _ rest]) simp
  qed
qed

theorem resolve_oci_alias_confined_witness:
  "\<exists>t. resolve_name (\<lambda>s. Some (HostDomain s)) ''acme/team/app''
       [(''team'', \<lparr>al_upstream = UpOci ''t.dev'' ''q'', al_store = True, al_auth = AuthNone, al_plain_http = True\<rparr>),
        (''acme'', \<lparr>al_upstream = UpOci ''r.dev'' ''p/charts'', al_store = False, al_auth = AuthGcp, al_plain_http = False\<rparr>)]
       = Some (ResOci t)
     \<and> ot_registry t = ''r.dev'' \<and> ot_auth t = AuthGcp \<and> ot_repo t = ''p/charts/team/app''"
proof -
  let ?al = "\<lparr>al_upstream = UpOci ''r.dev'' ''p/charts'', al_store = False, al_auth = AuthGcp,
              al_plain_http = False\<rparr>"
  let ?aliases = "[(''team'', \<lparr>al_upstream = UpOci ''t.dev'' ''q'', al_store = True, al_auth = AuthNone,
              al_plain_http = True\<rparr>), (''acme'', ?al)]"
  have "resolve_name (\<lambda>s. Some (HostDomain s)) ''acme/team/app'' ?aliases =
    Some (ResOci \<lparr>ot_registry = ''r.dev'', ot_repo = ''p/charts/team/app'', ot_full_name = ''acme/team/app'',
      ot_store = False, ot_auth = AuthGcp, ot_plain_http = False\<rparr>)"
    by code_simp
  then obtain t where r: "resolve_name (\<lambda>s. Some (HostDomain s)) ''acme/team/app'' ?aliases = Some (ResOci t)"
    by blast
  have s: "filter (\<lambda>s. s \<noteq> []) (split_on (CHR ''/'') ''acme/team/app'') = [''acme'', ''team'', ''app'']"
    by code_simp
  from resolve_oci_alias_confined [OF r] r show ?thesis
    unfolding s by (intro exI [of _ t]) (auto simp: join_Cons)
qed

text \<open>The dependency rewrite map only names aliases that exist, are classic and have that
  very repository key; a classic alias whose upstream carries a port is never in it.\<close>
theorem rewrite_map_sound:
  assumes "map_of (classic_alias_rewrite_map U aliases) key = Some name"
  shows "\<exists>al repo_url. (name, al) \<in> set aliases \<and> al_upstream al = UpClassic repo_url \<and>
    normalize_repo_key U repo_url = Some key \<and>
    (\<forall>u. ul_parse U repo_url = Inr u \<longrightarrow> ul_port U u = None)"
proof -
  from assms have "(key, name) \<in> set (List.map_filter (classic_alias_entry U) aliases)"
    by (auto simp: classic_alias_rewrite_map_def map_of_collect_map dest: map_of_SomeD)
  then obtain nm al where "(nm, al) \<in> set aliases" "classic_alias_entry U (nm, al) = Some (key, name)"
    by (auto simp: set_map_filter)
  then obtain repo_url where up: "nm = name" "al_upstream al = UpClassic repo_url"
    "normalize_repo_key U repo_url = Some key"
    by (auto simp: classic_alias_entry_def split: alias_upstream.splits option.splits)
  moreover from this(3) have "\<forall>u. ul_parse U repo_url = Inr u \<longrightarrow> ul_port U u = None"
    by (auto simp: normalize_repo_key_def split: if_splits)
  ultimately show ?thesis using \<open>(nm, al) \<in> set aliases\<close> by blast
qed

theorem rewrite_map_sound_witness:
  "\<exists>al repo_url. (''argo'', al) \<in> {(''argo'', \<lparr>al_upstream = UpClassic ''https://a.io/x'',
      al_store = True, al_auth = AuthNone, al_plain_http = False\<rparr>)} \<and>
    al_upstream al = UpClassic repo_url"
proof -
  let ?m = "[(''argo'', \<lparr>al_upstream = UpClassic ''https://a.io/x'',
      al_store = True, al_auth = AuthNone, al_plain_http = False\<rparr>)]"
  have r: "map_of (classic_alias_rewrite_map sample_url_lib ?m) ''a.io/x'' = Some ''argo''"
    by code_simp
  from rewrite_map_sound [OF r] show ?thesis by auto
qed

end
