(* ===== verification/Helm_Index.thy ===== *)
theory Helm_Index
  imports Resolver "HOL-Library.Char_ord" "HOL-Library.List_Lexorder"
begin

text \<open>
  \<open>crates/helmoci-core/src/helm/mod.rs\<close> (the error type) and \<open>helm/index.rs\<close>: looking a chart up in
  a repository's \<open>index.yaml\<close>. Deserialising the YAML text is the parameter \<open>yaml_index\<close>,
  \<open>None\<close> when it is not a chart index.
\<close>

datatype helm_error =
    HelmNotFound string
  | InvalidIndex string
  | InvalidChart string
  | ChartTooLarge string

record chart_entry =
  ce_version :: "string option"
  ce_urls :: "string list option"

record chart_index =
  ci_entries :: "chart_entry list hashmap option"

type_synonym yaml_index = "string \<Rightarrow> chart_index option"

definition sanitized_repo :: "'u url_lib \<Rightarrow> string \<Rightarrow> string option" where
  "sanitized_repo U repo_url =
     (case ul_parse U repo_url of
        Inl _ \<Rightarrow> None
      | Inr u0 \<Rightarrow>
          let u1 = ul_set_fragment U None (ul_set_query U None u0) in
          (case ul_set_username U [] u1 of
             None \<Rightarrow> None
           | Some u2 \<Rightarrow>
               (case ul_set_password U None u2 of
                  None \<Rightarrow> None
                | Some u3 \<Rightarrow> Some (ul_to_string U u3))))"

datatype disclosure = ClientSupplied | Hidden

record index_repo =
  ir_url :: string
  ir_disclosure :: disclosure

definition client_supplied :: "string \<Rightarrow> index_repo" where
  "client_supplied url = \<lparr>ir_url = url, ir_disclosure = ClientSupplied\<rparr>"

definition hidden :: "string \<Rightarrow> index_repo" where
  "hidden url = \<lparr>ir_url = url, ir_disclosure = Hidden\<rparr>"

definition suffix_of :: "'u url_lib \<Rightarrow> index_repo \<Rightarrow> string" where
  "suffix_of U repo =
     (case ir_disclosure repo of
        Hidden \<Rightarrow> []
      | ClientSupplied \<Rightarrow>
          (case sanitized_repo U (ir_url repo) of None \<Rightarrow> [] | Some r \<Rightarrow> '' at '' @ r))"

definition msg_not_an_index :: "string \<Rightarrow> string" where
  "msg_not_an_index sfx = ''Upstream'' @ sfx @
     '' did not return a valid Helm index.yaml. Check that the path maps to a classic Helm repo.''"

definition msg_no_entries :: "string \<Rightarrow> string" where
  "msg_no_entries sfx =
     ''Upstream index.yaml'' @ sfx @ '' did not contain an '' @ quote ''entries'' @ '' map.''"

definition msg_chart_not_found :: "string \<Rightarrow> string \<Rightarrow> string \<Rightarrow> string" where
  "msg_chart_not_found chart_name sfx hint =
     ''Chart '' @ quote chart_name @ '' was not found'' @ sfx @ ''.'' @ hint @
     '' The chart name is the last path segment.''"

definition chart_hint :: "string list \<Rightarrow> string" where
  "chart_hint available =
     (let shown = take 8 available in
      if shown = [] then []
      else '' Charts in this repo include: '' @ join '', '' shown
           @ (if length available > 8 then '', '' @ [CHR 0xE2, CHR 0x80, CHR 0xA6] else [])
           @ ''.'')"

definition chart_entries ::
  "'u url_lib \<Rightarrow> yaml_index \<Rightarrow> string \<Rightarrow> index_repo \<Rightarrow> string \<Rightarrow> helm_error + chart_entry list" where
  "chart_entries U yaml_index index_text repo chart_name =
     (case yaml_index index_text of
        None \<Rightarrow> Inl (InvalidIndex (msg_not_an_index (suffix_of U repo)))
      | Some index \<Rightarrow>
          (case ci_entries index of
             None \<Rightarrow> Inl (InvalidIndex (msg_no_entries (suffix_of U repo)))
           | Some entries \<Rightarrow>
               let not_found = HelmNotFound (msg_chart_not_found chart_name (suffix_of U repo)
                     (chart_hint (sort (map fst entries))))
               in (case map_of entries chart_name of
                     None \<Rightarrow> Inl not_found
                   | Some list \<Rightarrow> if list \<noteq> [] then Inr list else Inl not_found)))"

text \<open>The loop of \<open>list_versions\<close>: \<open>seen\<close> is the \<open>HashSet\<close>.\<close>

fun collect_versions :: "string set \<Rightarrow> chart_entry list \<Rightarrow> string list" where
  "collect_versions seen [] = []"
| "collect_versions seen (entry # entries) =
     (case ce_version entry of
        None \<Rightarrow> collect_versions seen entries
      | Some v \<Rightarrow> if v \<in> seen then collect_versions seen entries
                  else v # collect_versions (insert v seen) entries)"

definition list_versions ::
  "'u url_lib \<Rightarrow> yaml_index \<Rightarrow> string \<Rightarrow> index_repo \<Rightarrow> string \<Rightarrow> helm_error + string list" where
  "list_versions U yaml_index index_text repo chart_name =
     bindE (chart_entries U yaml_index index_text repo chart_name)
       (\<lambda>entries. Inr (collect_versions {} entries))"

definition msg_version_not_found :: "string \<Rightarrow> string \<Rightarrow> string \<Rightarrow> string" where
  "msg_version_not_found version chart_name sfx =
     ''Version '' @ quote version @ '' was not found for chart '' @ quote chart_name @ sfx @
     ''. List available versions: GET /v2/<name>/tags/list''"

definition msg_no_download_url :: "string \<Rightarrow> string \<Rightarrow> string \<Rightarrow> string" where
  "msg_no_download_url chart_name version sfx =
     ''Chart '' @ quote chart_name @ '' version '' @ quote version @ sfx @
     '' has no download URL in index.yaml.''"

definition msg_invalid_download_url :: "string \<Rightarrow> string \<Rightarrow> string" where
  "msg_invalid_download_url chart_name version =
     ''Chart '' @ quote chart_name @ '' version '' @ quote version @ '' has an invalid download URL''"

definition msg_download_other_host :: "string \<Rightarrow> string \<Rightarrow> string" where
  "msg_download_other_host chart_name version =
     ''Chart '' @ quote chart_name @ '' version '' @ quote version @
     '' has a relative download URL that points at a different host''"

definition msg_repo_url_invalid :: string where
  "msg_repo_url_invalid = ''Configured Helm repository URL is invalid''"

definition resolve_download_url ::
  "'u url_lib \<Rightarrow> string \<Rightarrow> string \<Rightarrow> string \<Rightarrow> string \<Rightarrow> helm_error + string" where
  "resolve_download_url U repo_url raw chart_name version =
     (case ul_parse U raw of
        Inr absolute \<Rightarrow> Inr (ul_to_string U absolute)
      | Inl _ \<Rightarrow>
          bindE (map_errE (\<lambda>_. InvalidIndex msg_repo_url_invalid) (ul_parse U repo_url)) (\<lambda>base0.
          let base = (if ends_with ''/'' (ul_path U base0) then base0
                      else ul_set_path U (ul_path U base0 @ ''/'') base0) in
          bindE (map_errE (\<lambda>_. InvalidIndex (msg_invalid_download_url chart_name version))
                   (ul_join U base raw)) (\<lambda>resolved.
          if ul_scheme U resolved \<noteq> ul_scheme U base
             \<or> ul_host U resolved \<noteq> ul_host U base
             \<or> ul_port_or_known_default U resolved \<noteq> ul_port_or_known_default U base
          then Inl (InvalidIndex (msg_download_other_host chart_name version))
          else Inr (ul_to_string U resolved))))"

definition resolve_chart_url ::
  "'u url_lib \<Rightarrow> yaml_index \<Rightarrow> string \<Rightarrow> index_repo \<Rightarrow> string \<Rightarrow> string \<Rightarrow> helm_error + string" where
  "resolve_chart_url U yaml_index index_text repo chart_name version =
     bindE (chart_entries U yaml_index index_text repo chart_name) (\<lambda>entries.
     bindE (ok_or (HelmNotFound (msg_version_not_found version chart_name (suffix_of U repo)))
              (List.find (\<lambda>e. ce_version e = Some version) entries)) (\<lambda>entry.
     bindE (ok_or (HelmNotFound (msg_no_download_url chart_name version (suffix_of U repo)))
              (case ce_urls entry of None \<Rightarrow> None | Some [] \<Rightarrow> None | Some (u # us) \<Rightarrow> Some u)) (\<lambda>raw.
     resolve_download_url U (ir_url repo) raw chart_name version)))"

section \<open>Versions are listed once, in publication order\<close>

lemma collect_versions_set:
  "set (collect_versions seen es) = {v. \<exists>e\<in>set es. ce_version e = Some v} - seen"
  by (induction seen es rule: collect_versions.induct) (auto split: option.splits)

lemma collect_versions_distinct: "distinct (collect_versions seen es)"
  by (induction seen es rule: collect_versions.induct)
     (auto split: option.splits simp: collect_versions_set)

lemma collect_versions_subseq:
  "subseq (collect_versions seen es) (List.map_filter ce_version es)"
proof (induction seen es rule: collect_versions.induct)
  case (1 seen)
  then show ?case by simp
next
  case (2 seen e es)
  then show ?case
    by (cases "ce_version e") (auto simp: List.map_filter_simps intro: subseq_Cons')
qed

text \<open>The reference for the order: \<open>rev (remdups (rev xs))\<close> keeps the first occurrence of each element.\<close>

lemma remdups_snoc: "remdups (xs @ [x]) = filter (\<lambda>y. y \<noteq> x) (remdups xs) @ [x]"
  by (induction xs) auto

lemma firsts_Cons:
  "rev (remdups (rev (x # xs))) = x # filter (\<lambda>y. y \<noteq> x) (rev (remdups (rev xs)))"
  by (simp add: remdups_snoc rev_filter)

lemma collect_versions_firsts:
  "collect_versions seen es
     = filter (\<lambda>v. v \<notin> seen) (rev (remdups (rev (List.map_filter ce_version es))))"
proof (induction seen es rule: collect_versions.induct)
  case (1 seen)
  then show ?case by simp
next
  case (2 seen e es)
  show ?case
  proof (cases "ce_version e")
    case None
    with 2 show ?thesis by (simp add: List.map_filter_simps)
  next
    case (Some v)
    have "(\<lambda>y. y \<noteq> v \<and> y \<notin> seen) = (\<lambda>y. y \<notin> insert v seen)" by auto
    moreover have "filter (\<lambda>y. y \<notin> seen) (filter (\<lambda>y. y \<noteq> v) vs) = filter (\<lambda>y. y \<notin> seen) vs" if "v \<in> seen" for vs
      using that by (induction vs) auto
    ultimately show ?thesis
      using 2 Some by (simp add: List.map_filter_simps firsts_Cons del: rev.simps)
  qed
qed

lemma chart_entries_Inr:
  "chart_entries U yi text repo name = Inr es \<longleftrightarrow>
     (\<exists>index entries. yi text = Some index \<and> ci_entries index = Some entries \<and>
        map_of entries name = Some es \<and> es \<noteq> [])"
  by (auto simp: chart_entries_def Let_def split: option.splits)

lemma suffix_hidden [simp]: "suffix_of U (hidden url) = []"
  by (simp add: suffix_of_def hidden_def)

lemma resolve_download_url_relative:
  assumes "resolve_download_url U repo_url raw n v = Inr s" and "ul_parse U raw = Inl e"
  obtains base0 base resolved where "ul_parse U repo_url = Inr base0"
    "base = (if ends_with ''/'' (ul_path U base0) then base0
             else ul_set_path U (ul_path U base0 @ ''/'') base0)"
    "ul_join U base raw = Inr resolved" "s = ul_to_string U resolved"
    "ul_scheme U resolved = ul_scheme U base" "ul_host U resolved = ul_host U base"
    "ul_port_or_known_default U resolved = ul_port_or_known_default U base"
proof -
  from assms obtain base0 where p: "ul_parse U repo_url = Inr base0"
    by (auto simp: resolve_download_url_def res_simps)
  define base where "base = (if ends_with ''/'' (ul_path U base0) then base0
             else ul_set_path U (ul_path U base0 @ ''/'') base0)"
  from assms p obtain resolved where "ul_join U base raw = Inr resolved"
    "s = ul_to_string U resolved" "ul_scheme U resolved = ul_scheme U base"
    "ul_host U resolved = ul_host U base"
    "ul_port_or_known_default U resolved = ul_port_or_known_default U base"
    by (auto simp: resolve_download_url_def res_simps Let_def base_def [symmetric]
             split: if_split_asm)
  with p base_def that show thesis by blast
qed

section \<open>Properties\<close>

text \<open>C33. The tag list of a chart is the list of the versions its index entries publish, each at its
  first publication and never again: the published versions in order, with every repetition after
  the first removed. It is an error exactly when the chart has no entry.\<close>
theorem list_versions_spec:
  "(\<exists>tags. list_versions U yi text repo name = Inr tags) =
     (\<exists>index entries es. yi text = Some index \<and> ci_entries index = Some entries \<and>
        map_of entries name = Some es \<and> es \<noteq> [])
   \<and> (\<forall>tags. list_versions U yi text repo name = Inr tags \<longrightarrow>
       (\<exists>es. chart_entries U yi text repo name = Inr es \<and>
          tags = rev (remdups (rev (List.map_filter ce_version es))) \<and> distinct tags \<and>
          set tags = {v. \<exists>e\<in>set es. ce_version e = Some v} \<and>
          subseq tags (List.map_filter ce_version es)))"
  using collect_versions_distinct [of "{}"] collect_versions_set [of "{}"]
    collect_versions_subseq [of "{}"] collect_versions_firsts [of "{}"]
  by (auto simp: list_versions_def res_simps chart_entries_Inr)

text \<open>Versions 2, 1, 2 are listed as 2, 1.\<close>

theorem list_versions_spec_witness:
  "list_versions sample_url_lib (\<lambda>_. Some \<lparr>ci_entries = Some [(''c'',
       [\<lparr>ce_version = Some ''2'', ce_urls = None\<rparr>, \<lparr>ce_version = Some ''1'', ce_urls = None\<rparr>,
        \<lparr>ce_version = Some ''2'', ce_urls = None\<rparr>])]\<rparr>) [] (hidden []) ''c'' = Inr [''2'', ''1'']"
proof -
  let ?es = "[\<lparr>ce_version = Some ''2'', ce_urls = None\<rparr>, \<lparr>ce_version = Some ''1'', ce_urls = None\<rparr>,
             \<lparr>ce_version = Some ''2'', ce_urls = None\<rparr>]"
  let ?yi = "\<lambda>_. Some \<lparr>ci_entries = Some [(''c'', ?es)]\<rparr>"
  have c: "chart_entries sample_url_lib ?yi [] (hidden []) ''c'' = Inr ?es"
    by (simp add: chart_entries_def)
  have "\<exists>tags. list_versions sample_url_lib ?yi [] (hidden []) ''c'' = Inr tags"
    unfolding conjunct1 [OF list_versions_spec] by simp
  then obtain tags where l: "list_versions sample_url_lib ?yi [] (hidden []) ''c'' = Inr tags" by blast
  from conjunct2 [OF list_versions_spec, rule_format, OF l] c
  have "tags = rev (remdups (rev (List.map_filter ce_version ?es)))" by auto
  also have "\<dots> = [''2'', ''1'']" by (simp add: List.map_filter_simps)
  finally show ?thesis using l by simp
qed

text \<open>C34. The upstream behind an alias is never disclosed: for a hidden repository the entries and
  the tag list, errors included, are the same whatever its URL is. A chart lookup first computes an
  outcome that does not depend on the URL, and only when that succeeds is the URL resolved: a failure
  before the URL is used is the same failure for every other URL, and a failure after it is one of
  three messages made of the chart's name and version alone.\<close>
theorem hidden_repo_not_disclosed:
  "chart_entries U yi text (hidden url) name = chart_entries U yi text (hidden url') name
   \<and> list_versions U yi text (hidden url) name = list_versions U yi text (hidden url') name
   \<and> (\<exists>lookup. \<forall>any_url. resolve_chart_url U yi text (hidden any_url) name v =
        (case lookup of Inl e \<Rightarrow> Inl e | Inr raw \<Rightarrow> resolve_download_url U any_url raw name v))
   \<and> (\<forall>e. resolve_chart_url U yi text (hidden url) name v = Inl e \<longrightarrow>
        resolve_chart_url U yi text (hidden url') name v = Inl e \<or>
        e \<in> {InvalidIndex ''Configured Helm repository URL is invalid'',
          InvalidIndex (''Chart '' @ quote name @ '' version '' @ quote v @ '' has an invalid download URL''),
          InvalidIndex (''Chart '' @ quote name @ '' version '' @ quote v @
            '' has a relative download URL that points at a different host'')})"
    (is "?entries \<and> ?tags \<and> ?factors \<and> (\<forall>e. _ \<longrightarrow> _ \<or> e \<in> ?messages)")
proof -
  have c: "chart_entries U yi text (hidden url) name = chart_entries U yi text (hidden url') name" for url url'
    unfolding chart_entries_def suffix_hidden by (rule refl)
  have d: "e \<in> ?messages" if "resolve_download_url U u raw name v = Inl e" for u raw e
    using that by (auto simp: resolve_download_url_def Let_def res_simps msg_repo_url_invalid_def
      msg_invalid_download_url_def msg_download_other_host_def split: if_splits sum.splits)
  define lookup where "lookup =
     bindE (chart_entries U yi text (hidden []) name) (\<lambda>entries.
     bindE (ok_or (HelmNotFound (msg_version_not_found v name []))
              (List.find (\<lambda>e. ce_version e = Some v) entries)) (\<lambda>entry.
     ok_or (HelmNotFound (msg_no_download_url name v []))
              (case ce_urls entry of None \<Rightarrow> None | Some [] \<Rightarrow> None | Some (u # us) \<Rightarrow> Some u)))"
  have f: "resolve_chart_url U yi text (hidden u) name v =
      (case lookup of Inl e \<Rightarrow> Inl e | Inr raw \<Rightarrow> resolve_download_url U u raw name v)" for u
    unfolding resolve_chart_url_def lookup_def c [of u "[]"]
    by (simp add: bindE_def hidden_def suffix_of_def split: sum.splits)
  have "resolve_chart_url U yi text (hidden url') name v = Inl e \<or> e \<in> ?messages"
    if "resolve_chart_url U yi text (hidden url) name v = Inl e" for e
    using that d unfolding f by (cases lookup) auto
  moreover have ?tags unfolding list_versions_def c [of url url'] by (rule refl)
  moreover have ?factors by (rule exI [of _ lookup]) (rule allI, rule f)
  ultimately show ?thesis using c [of url url'] by blast
qed

text \<open>A version that is not published fails alike behind another URL.\<close>

theorem hidden_repo_not_disclosed_witness:
  "resolve_chart_url sample_url_lib (\<lambda>_. Some \<lparr>ci_entries = Some [(''c'',
      [\<lparr>ce_version = Some ''1'', ce_urls = None\<rparr>])]\<rparr>) [] (hidden ''https://other.corp'') ''c'' ''2''
   = Inl (HelmNotFound (msg_version_not_found ''2'' ''c'' []))"
proof -
  let ?yi = "\<lambda>_. Some \<lparr>ci_entries = Some [(''c'', [\<lparr>ce_version = Some ''1'', ce_urls = None\<rparr>])]\<rparr>"
  have "resolve_chart_url sample_url_lib ?yi [] (hidden ''https://secret.corp'') ''c'' ''2''
      = Inl (HelmNotFound (msg_version_not_found ''2'' ''c'' []))"
    by (simp add: resolve_chart_url_def chart_entries_def bindE_def)
  with hidden_repo_not_disclosed [of sample_url_lib ?yi "[]" "''https://secret.corp''" "''c''"
      "''https://other.corp''" "''2''"]
  show ?thesis by auto
qed

text \<open>C35. A relative download URL never leaves the origin of its repository: what is returned is
  the printed form of a URL with the scheme, host and effective port of the repository's URL.\<close>
theorem relative_download_stays_on_origin:
  assumes "resolve_download_url U repo_url raw n v = Inr s" and "ul_parse U raw = Inl e"
    and "\<And>p u. ul_scheme U (ul_set_path U p u) = ul_scheme U u \<and>
      ul_host U (ul_set_path U p u) = ul_host U u \<and>
      ul_port_or_known_default U (ul_set_path U p u) = ul_port_or_known_default U u"
  shows "\<exists>repo r. ul_parse U repo_url = Inr repo \<and> s = ul_to_string U r \<and>
    ul_scheme U r = ul_scheme U repo \<and> ul_host U r = ul_host U repo \<and>
    ul_port_or_known_default U r = ul_port_or_known_default U repo"
  using assms(1,2)
proof (rule resolve_download_url_relative)
  fix base0 base resolved
  assume "ul_parse U repo_url = Inr base0" "s = ul_to_string U resolved"
    "base = (if ends_with ''/'' (ul_path U base0) then base0
             else ul_set_path U (ul_path U base0 @ ''/'') base0)"
    "ul_scheme U resolved = ul_scheme U base" "ul_host U resolved = ul_host U base"
    "ul_port_or_known_default U resolved = ul_port_or_known_default U base"
  then show ?thesis
    using assms(3) [of "ul_path U base0 @ ''/''" base0]
    by (intro exI [of _ base0] exI [of _ resolved]) (simp split: if_splits)
qed

theorem relative_download_stays_on_origin_witness:
  "\<exists>repo r. sample_url_parse ''https://a.io/x'' = Inr repo \<and>
     ''https://a.io/x/c-1.tgz'' = sample_url_string r \<and> su_scheme r = su_scheme repo"
proof -
  have r: "resolve_download_url sample_url_lib ''https://a.io/x'' ''c-1.tgz'' [] []
      = Inr ''https://a.io/x/c-1.tgz''"
    by code_simp
  have p: "ul_parse sample_url_lib ''c-1.tgz'' = Inl ''relative URL without a base''"
    by code_simp
  have l: "ul_scheme sample_url_lib (ul_set_path sample_url_lib p u) = ul_scheme sample_url_lib u \<and>
      ul_host sample_url_lib (ul_set_path sample_url_lib p u) = ul_host sample_url_lib u \<and>
      ul_port_or_known_default sample_url_lib (ul_set_path sample_url_lib p u)
        = ul_port_or_known_default sample_url_lib u" for p u
    by (cases "su_port u") (simp_all add: sample_url_lib_def sample_port_or_default_def)
  from relative_download_stays_on_origin [OF r p l] show ?thesis by auto
qed

end
