(* ===== verification/App_Error.thy ===== *)
theory App_Error
  imports Http Storage Helm_Index
begin

text \<open>
  \<open>bins/helmoci/src/error.rs\<close>: the error type of the handlers, its HTTP status and OCI error code,
  the conversions into it, and the response it becomes.
\<close>

datatype app_error =
    NameInvalid string
  | NameUnknown string
  | ManifestUnknown string
  | BlobUnknown string
  | Upstream string
  | TooLarge string
  | Unauthorized
  | Unsupported string
  | Internal string

fun error_parts :: "app_error \<Rightarrow> nat \<times> string \<times> string" where
  "error_parts (NameInvalid m) = (400, ''NAME_INVALID'', m)"
| "error_parts (NameUnknown m) = (404, ''NAME_UNKNOWN'', m)"
| "error_parts (ManifestUnknown m) = (404, ''MANIFEST_UNKNOWN'', m)"
| "error_parts (BlobUnknown m) = (404, ''BLOB_UNKNOWN'', m)"
| "error_parts (Upstream m) = (502, ''DENIED'', m)"
| "error_parts (TooLarge m) = (413, ''DENIED'', m)"
| "error_parts Unauthorized = (401, ''UNAUTHORIZED'', ''authentication required'')"
| "error_parts (Unsupported m) = (405, ''UNSUPPORTED'', m)"
| "error_parts (Internal m) = (500, ''DENIED'', m)"

fun from_helm_for_manifest :: "helm_error \<Rightarrow> app_error" where
  "from_helm_for_manifest (HelmNotFound m) = ManifestUnknown m"
| "from_helm_for_manifest (InvalidIndex m) = Upstream m"
| "from_helm_for_manifest (InvalidChart m) = Upstream m"
| "from_helm_for_manifest (ChartTooLarge m) = TooLarge m"

fun from_helm_for_tags :: "helm_error \<Rightarrow> app_error" where
  "from_helm_for_tags (HelmNotFound m) = NameUnknown m"
| "from_helm_for_tags (InvalidIndex m) = Upstream m"
| "from_helm_for_tags (InvalidChart m) = Upstream m"
| "from_helm_for_tags (ChartTooLarge m) = TooLarge m"

text \<open>\<open>SourceChain\<close>: the loop that renders the causes of an error for the operators' log, over what the
  \<open>source()\<close> chain displays; \<open>written\<close> is its flag.\<close>

fun source_chain_loop :: "string list \<Rightarrow> bool \<Rightarrow> string" where
  "source_chain_loop [] written = (if written then [] else ''<none>'')"
| "source_chain_loop (e # es) written = (if written then '': '' else []) @ e @ source_chain_loop es True"

definition source_chain :: "string list \<Rightarrow> string" where
  "source_chain sources = source_chain_loop sources False"

lemma source_chain_join: "source_chain sources = (if sources = [] then ''<none>'' else join '': '' sources)"
proof -
  have "source_chain_loop es True = concat (map (\<lambda>e. '': '' @ e) es)" for es
    by (induction es) simp_all
  moreover have "join '': '' (e # es) = e @ concat (map (\<lambda>e. '': '' @ e) es)" for e es
    by (induction es arbitrary: e) simp_all
  ultimately show ?thesis by (cases sources) (simp_all add: source_chain_def)
qed

text \<open>The chain goes to the log only; the message is the redacted display.\<close>

definition from_storage_error :: "storage_error \<Rightarrow> app_error" where
  "from_storage_error e = Internal (storage_error_display e)"

definition error_response :: "http_lib \<Rightarrow> app_error \<Rightarrow> 'm response" where
  "error_response H e =
     (case error_parts e of (status, code, message) \<Rightarrow>
        let body = hl_json_to_string H
              (JObj [(''errors'', JArr [JObj [(''code'', JStr code), (''message'', JStr message)]])]);
            resp = text_response status body
        in resp\<lparr>rs_headers :=
             header_insert ''cache-control'' ''no-store''
              (header_insert ''docker-distribution-api-version'' ''registry/2.0''
                (header_insert ''content-type'' ''application/json'' (rs_headers resp)))\<rparr>)"

lemma error_response_simps [simp]:
  "rs_status (error_response H e) = fst (error_parts e)"
  "header_get ''cache-control'' (rs_headers (error_response H e)) = Some ''no-store''"
  "header_get ''content-type'' (rs_headers (error_response H e)) = Some ''application/json''"
  "rs_meter (error_response H e) = None"
  by (simp_all add: error_response_def text_response_def Let_def split: prod.split)

lemma error_status: "fst (error_parts e) \<in> {400, 401, 404, 405, 413, 500, 502}"
  by (cases e) simp_all

section \<open>Properties\<close>

text \<open>Redaction: whatever a storage backend reported, the response the client gets is the same
  for every error of the same operation, is a 500 that may not be cached, and names only the
  operation.\<close>
theorem storage_errors_redacted:
  "error_response H (from_storage_error (Backend op detail))
     = error_response H (from_storage_error (Backend op detail'))
   \<and> rs_status (error_response H (from_storage_error (Backend op detail))) = 500
   \<and> header_get ''cache-control'' (rs_headers (error_response H (from_storage_error (Backend op detail))))
       = Some ''no-store''
   \<and> snd (snd (error_parts (from_storage_error (Backend op detail))))
       = ''storage backend error ('' @ storage_op_display op @ '')''"
  by (simp add: from_storage_error_def)

end
