(* ===== verification/Utf8.thy ===== *)
theory Utf8
  imports Prelude
begin

text \<open>
  UTF-8 as Rust's standard library reads it: \<open>String::from_utf8\<close> (\<^emph>\<open>from_utf8\<close>) and
  \<open>String::from_utf8_lossy\<close>, which replaces every maximal ill-formed prefix by U+FFFD.
\<close>

definition is_cont :: "char \<Rightarrow> bool" where
  "is_cont b \<longleftrightarrow> 0x80 \<le> byte_of b \<and> byte_of b \<le> 0xBF"

text \<open>The bytes allowed after the first byte of a three- or four-byte sequence.\<close>

definition second_of_3 :: "nat \<Rightarrow> nat \<Rightarrow> bool" where
  "second_of_3 b c \<longleftrightarrow>
     (b = 0xE0 \<and> 0xA0 \<le> c \<and> c \<le> 0xBF) \<or> (0xE1 \<le> b \<and> b \<le> 0xEC \<and> 0x80 \<le> c \<and> c \<le> 0xBF)
     \<or> (b = 0xED \<and> 0x80 \<le> c \<and> c \<le> 0x9F) \<or> (0xEE \<le> b \<and> b \<le> 0xEF \<and> 0x80 \<le> c \<and> c \<le> 0xBF)"

definition second_of_4 :: "nat \<Rightarrow> nat \<Rightarrow> bool" where
  "second_of_4 b c \<longleftrightarrow>
     (b = 0xF0 \<and> 0x90 \<le> c \<and> c \<le> 0xBF) \<or> (0xF1 \<le> b \<and> b \<le> 0xF3 \<and> 0x80 \<le> c \<and> c \<le> 0xBF)
     \<or> (b = 0xF4 \<and> 0x80 \<le> c \<and> c \<le> 0x8F)"

text \<open>The number of bytes the decoder consumes at the start of a non-empty input, and whether
  they are a well-formed character.\<close>

definition utf8_step :: "char \<Rightarrow> bytes \<Rightarrow> bool \<times> nat" where
  "utf8_step b0 rest =
     (let b = byte_of b0;
          cont = (\<lambda>i. i < length rest \<and> is_cont (rest ! i));
          second = (\<lambda>f. 0 < length rest \<and> f b (byte_of (rest ! 0))) in
      if b < 0x80 then (True, 1)
      else if 0xC2 \<le> b \<and> b \<le> 0xDF then (if cont 0 then (True, 2) else (False, 1))
      else if 0xE0 \<le> b \<and> b \<le> 0xEF then
        (if \<not> second second_of_3 then (False, 1)
         else if cont 1 then (True, 3) else (False, 2))
      else if 0xF0 \<le> b \<and> b \<le> 0xF4 then
        (if \<not> second second_of_4 then (False, 1)
         else if \<not> cont 1 then (False, 2)
         else if cont 2 then (True, 4) else (False, 3))
      else (False, 1))"

lemma utf8_step_pos: "utf8_step b rest = (v, n) \<Longrightarrow> 0 < n"
  by (auto simp: utf8_step_def Let_def split: if_splits)

lemma utf8_step_len: "utf8_step b rest = (v, n) \<Longrightarrow> n \<le> Suc (length rest)"
  by (cases rest; cases "tl rest"; cases "tl (tl rest)")
     (auto simp: utf8_step_def Let_def split: if_splits)

function utf8_valid :: "bytes \<Rightarrow> bool" where
  "utf8_valid [] = True"
| "utf8_valid (b # rest) =
     (case utf8_step b rest of (v, n) \<Rightarrow> v \<and> utf8_valid (drop n (b # rest)))"
  by pat_completeness auto
termination
  by (relation "measure length") (auto dest: utf8_step_pos [OF sym])

definition replacement_char :: bytes where
  "replacement_char = [CHR 0xEF, CHR 0xBF, CHR 0xBD]"

function from_utf8_lossy :: "bytes \<Rightarrow> string" where
  "from_utf8_lossy [] = []"
| "from_utf8_lossy (b # rest) =
     (case utf8_step b rest of
        (v, n) \<Rightarrow> (if v then take n (b # rest) else replacement_char)
                  @ from_utf8_lossy (drop n (b # rest)))"
  by pat_completeness auto
termination
  by (relation "measure length") (auto dest: utf8_step_pos [OF sym])

declare utf8_valid.simps(2) [simp del] from_utf8_lossy.simps(2) [simp del]

definition from_utf8 :: "bytes \<Rightarrow> string option" where
  "from_utf8 b = (if utf8_valid b then Some b else None)"

lemma from_utf8_Some [str_simps]: "from_utf8 b = Some s \<longleftrightarrow> utf8_valid b \<and> s = b"
  by (auto simp: from_utf8_def)

text \<open>On well-formed input nothing is replaced, and what comes out is always well-formed text
  of at most three bytes per input byte.\<close>

lemma from_utf8_lossy_valid: "utf8_valid b \<Longrightarrow> from_utf8_lossy b = b"
proof (induction b rule: utf8_valid.induct)
  case 1
  then show ?case by simp
next
  case (2 b rest)
  obtain v n where vn: "utf8_step b rest = (v, n)" by fastforce
  with 2 have "v" "from_utf8_lossy (drop n (b # rest)) = drop n (b # rest)"
    by (auto simp: utf8_valid.simps(2))
  with vn show ?case by (simp add: from_utf8_lossy.simps(2) del: drop_Cons)
qed

lemma length_from_utf8_lossy: "length (from_utf8_lossy b) \<le> 3 * length b"
proof (induction b rule: from_utf8_lossy.induct)
  case 1
  then show ?case by simp
next
  case (2 b rest)
  obtain v n where vn: "utf8_step b rest = (v, n)" by fastforce
  then have n: "0 < n" "n \<le> length (b # rest)"
    using utf8_step_pos utf8_step_len by fastforce+
  from 2 vn have "length (from_utf8_lossy (drop n (b # rest))) \<le> 3 * (length (b # rest) - n)"
    by (metis length_drop)
  with vn n show ?case
    by (auto simp: from_utf8_lossy.simps(2) replacement_char_def)
qed

lemma ascii_utf8_valid: "list_all (\<lambda>c. byte_of c < 128) s \<Longrightarrow> utf8_valid s"
  by (induction s) (auto simp: utf8_valid.simps(2) utf8_step_def Let_def)

end
