(* ===== verification/Tgz.thy ===== *)
theory Tgz
  imports Helm_Index Utf8
begin

text \<open>
  \<open>crates/helmoci-core/src/helm/tgz.rs\<close>: expanding a chart archive within limits, and packing it
  again. Gzip and the tar reader are the parameter \<open>tar_entries\<close>: the decoded archive as the
  list its raw entry iterator yields, \<open>Inl\<close> being a read error. What the operating system may
  refuse, an allocation, is the parameter \<open>platform\<close>. The target has 64-bit \<open>usize\<close>.
\<close>

section \<open>Limits\<close>

record archive_limits =
  max_expanded_bytes :: u64
  max_file_bytes :: u64
  max_files :: u64

definition DEFAULT_EXPANSION_MULTIPLIER :: u64 where
  "DEFAULT_EXPANSION_MULTIPLIER = 10"

definition DEFAULT_MAX_FILES :: u64 where
  "DEFAULT_MAX_FILES = 10000"

definition limits_new :: "u64 \<Rightarrow> u64 \<Rightarrow> u64 \<Rightarrow> archive_limits" where
  "limits_new expanded file files =
     \<lparr>max_expanded_bytes = expanded, max_file_bytes = file, max_files = files\<rparr>"

definition for_expanded_bytes :: "u64 \<Rightarrow> archive_limits" where
  "for_expanded_bytes n = limits_new n n DEFAULT_MAX_FILES"

definition for_chart_bytes :: "u64 \<Rightarrow> archive_limits" where
  "for_chart_bytes n = for_expanded_bytes (saturating_mul n DEFAULT_EXPANSION_MULTIPLIER)"

definition for_chart_bytes_with_expansion :: "u64 \<Rightarrow> u64 \<Rightarrow> archive_limits" where
  "for_chart_bytes_with_expansion max_chart expanded =
     for_expanded_bytes (if expanded < max_chart then max_chart else expanded)"

section \<open>Files and entries\<close>

record tgz_file =
  tf_name :: string
  tf_data :: bytes
  tf_mode :: u32
  tf_mtime :: u64

datatype entry_type =
    Regular | Link | Symlink | CharDevice | Block | Directory | Fifo | Continuous
  | GNULongName | GNULongLink | GNUSparse | XGlobalHeader | XHeader | OtherEntry u8

record raw_entry =
  re_type :: entry_type
  re_size :: u64
  re_path :: "string + string"
  re_mode :: "u32 option"
  re_mtime :: "u64 option"
  re_payload :: "string + bytes"

type_synonym tar_reader = "bytes \<Rightarrow> string + (string + raw_entry) list"

record platform =
  pf_alloc :: "u64 \<Rightarrow> bool"
  pf_reserve :: "nat \<Rightarrow> bool"

definition invalid_archive :: "string \<Rightarrow> helm_error" where
  "invalid_archive e = InvalidChart (''invalid chart archive: '' @ e)"

definition too_large :: "string \<Rightarrow> helm_error" where
  "too_large e = ChartTooLarge (''invalid chart archive: '' @ e)"

record pending_metadata =
  pm_long_name :: "bytes option"
  pm_pax_seen :: bool
  pm_pax_path :: "bytes option"
  pm_pax_size :: "u64 option"

definition no_pending :: pending_metadata where
  "no_pending = \<lparr>pm_long_name = None, pm_pax_seen = False, pm_pax_path = None, pm_pax_size = None\<rparr>"

definition pending_is_empty :: "pending_metadata \<Rightarrow> bool" where
  "pending_is_empty p \<longleftrightarrow> pm_long_name p = None \<and> \<not> pm_pax_seen p"

definition path_override :: "pending_metadata \<Rightarrow> bytes option" where
  "path_override p = (case pm_pax_path p of Some x \<Rightarrow> Some x | None \<Rightarrow> pm_long_name p)"

definition is_metadata_entry :: "entry_type \<Rightarrow> bool" where
  "is_metadata_entry t \<longleftrightarrow> t = GNULongName \<or> t = GNULongLink \<or> t = XHeader \<or> t = XGlobalHeader"

definition trim_trailing_nuls :: "bytes \<Rightarrow> bytes" where
  "trim_trailing_nuls b = trim_end_matches (\<lambda>c. c = CHR 0x00) b"

definition read_entry_payload ::
  "platform \<Rightarrow> string + bytes \<Rightarrow> u64 \<Rightarrow> string \<Rightarrow> helm_error + bytes" where
  "read_entry_payload pf payload declared_size what =
     (if \<not> pf_alloc pf declared_size
      then Inl (invalid_archive (what @ '' could not be allocated within limits''))
      else bindE (map_errE invalid_archive payload) (\<lambda>data.
        let actual_size = of_nat (length data) :: u64 in
        if actual_size \<noteq> declared_size
        then Inl (invalid_archive (what @ '' size differs from header ('' @ show_u64 actual_size @
               '' != '' @ show_u64 declared_size @ '' bytes)''))
        else Inr data))"

section \<open>PAX records\<close>

text \<open>One record \<open><len> <key>=<value>\n\<close> at the start of \<open>rest\<close>: its key, its value and its length.\<close>

definition pax_record :: "bytes \<Rightarrow> helm_error + (bytes \<times> bytes \<times> nat)" where
  "pax_record rest =
     (case position (\<lambda>b. b = CHR '' '') rest of
        None \<Rightarrow> Inl (invalid_archive ''malformed PAX record: no length separator'')
      | Some space \<Rightarrow>
          (case Option.bind (from_utf8 (take space rest)) (parse_unsigned u64_max) of
             None \<Rightarrow> Inl (invalid_archive ''malformed PAX record: invalid length'')
           | Some len \<Rightarrow>
               if \<not> (space + 1 < len \<and> len \<le> length rest)
               then Inl (invalid_archive ''malformed PAX record: invalid length'')
               else (case strip_suffix [CHR 0x0A] (drop (space + 1) (take len rest)) of
                   None \<Rightarrow> Inl (invalid_archive ''malformed PAX record: no terminator'')
                 | Some record \<Rightarrow>
                     (case position (\<lambda>b. b = CHR ''='') record of
                        None \<Rightarrow> Inl (invalid_archive ''malformed PAX record: no key separator'')
                      | Some equals \<Rightarrow>
                          Inr (take equals record, drop (equals + 1) record, len)))))"

definition apply_pax_pair :: "bytes \<Rightarrow> bytes \<Rightarrow> pending_metadata \<Rightarrow> helm_error + pending_metadata" where
  "apply_pax_pair key value pending =
     (if starts_with ''GNU.sparse.'' key
      then Inl (invalid_archive ''unsupported tar extension entry: PAX sparse'')
      else if key = ''path'' \<and> value \<noteq> [] then Inr (pending\<lparr>pm_pax_path := Some value\<rparr>)
      else if key = ''size'' then
        (case Option.bind (from_utf8 value) parse_u64 of
           None \<Rightarrow> Inl (invalid_archive ''malformed PAX record: invalid size'')
         | Some n \<Rightarrow> Inr (pending\<lparr>pm_pax_size := Some n\<rparr>))
      else Inr pending)"

lemma pax_record_len: "pax_record rest = Inr (k, v, len) \<Longrightarrow> 1 < len \<and> len \<le> length rest"
  by (auto simp: pax_record_def split: option.splits if_splits)

function apply_pax_records :: "bytes \<Rightarrow> pending_metadata \<Rightarrow> helm_error + pending_metadata" where
  "apply_pax_records rest pending =
     (if rest = [] \<or> list_all (\<lambda>b. b = CHR 0x00) rest then Inr pending
      else case pax_record rest of
             Inl e \<Rightarrow> Inl e
           | Inr (key, value, len) \<Rightarrow>
               (case apply_pax_pair key value pending of
                  Inl e \<Rightarrow> Inl e
                | Inr pending' \<Rightarrow> apply_pax_records (drop len rest) pending'))"
  by pat_completeness auto
termination
  by (relation "measure (\<lambda>(rest, _). length rest)") (auto dest: pax_record_len)

declare apply_pax_records.simps [simp del]

section \<open>The unpacking loop\<close>

record unpack_state =
  us_files :: "tgz_file list"
  us_expanded :: u64
  us_count :: u64
  us_pending :: pending_metadata

definition check_entry ::
  "archive_limits \<Rightarrow> raw_entry \<Rightarrow> unpack_state \<Rightarrow> helm_error + (u64 \<times> unpack_state)" where
  "check_entry limits entry st =
     bindE (ok_or (invalid_archive ''archive entry count overflow'') (checked_add (us_count st) 1))
       (\<lambda>next_count.
     if max_files limits < next_count
     then Inl (too_large (''archive entry count exceeds limit ('' @ show_u64 next_count @ '' > '' @
            show_u64 (max_files limits) @ '')''))
     else
     let entry_size = (if is_metadata_entry (re_type entry) then re_size entry
                       else case pm_pax_size (us_pending st) of
                              Some n \<Rightarrow> n | None \<Rightarrow> re_size entry) in
     if max_file_bytes limits < entry_size
     then Inl (if re_type entry \<noteq> Regular
               then too_large (''archive entry exceeds per-entry limit ('' @ show_u64 entry_size @
                      '' > '' @ show_u64 (max_file_bytes limits) @ '' bytes)'')
               else too_large (''regular file exceeds per-file limit ('' @ show_u64 entry_size @
                      '' > '' @ show_u64 (max_file_bytes limits) @ '' bytes)''))
     else
     bindE (ok_or (invalid_archive ''expanded archive entry byte count overflow'')
              (checked_add (us_expanded st) entry_size)) (\<lambda>next_expanded.
     if max_expanded_bytes limits < next_expanded
     then Inl (too_large (''expanded archive entries exceed limit ('' @ show_u64 next_expanded @
            '' > '' @ show_u64 (max_expanded_bytes limits) @ '' bytes)''))
     else Inr (entry_size, st\<lparr>us_count := next_count, us_expanded := next_expanded\<rparr>)))"

definition apply_metadata ::
  "entry_type \<Rightarrow> bytes \<Rightarrow> pending_metadata \<Rightarrow> helm_error + pending_metadata" where
  "apply_metadata t payload pending =
     (if t = GNULongName then
        (if pm_long_name pending \<noteq> None then Inl (invalid_archive ''duplicate GNU long-name entry'')
         else Inr (pending\<lparr>pm_long_name := Some payload\<rparr>))
      else if t = XHeader then
        (if pm_pax_seen pending then Inl (invalid_archive ''duplicate local PAX entry'')
         else apply_pax_records payload (pending\<lparr>pm_pax_seen := True\<rparr>))
      else Inr pending)"

definition entry_name :: "pending_metadata \<Rightarrow> raw_entry \<Rightarrow> helm_error + string" where
  "entry_name metadata entry =
     (case path_override metadata of
        Some path \<Rightarrow> Inr (from_utf8_lossy (trim_trailing_nuls path))
      | None \<Rightarrow> map_errE invalid_archive (re_path entry))"

definition unpack_entry ::
  "platform \<Rightarrow> archive_limits \<Rightarrow> raw_entry \<Rightarrow> unpack_state \<Rightarrow> helm_error + unpack_state" where
  "unpack_entry pf limits entry st0 =
     bindE (check_entry limits entry st0) (\<lambda>(entry_size, st).
     if re_type entry = GNUSparse
     then Inl (invalid_archive ''unsupported tar extension entry: GNU sparse'')
     else if is_metadata_entry (re_type entry) then
       bindE (read_entry_payload pf (re_payload entry) entry_size ''tar extension entry'') (\<lambda>payload.
       bindE (apply_metadata (re_type entry) payload (us_pending st)) (\<lambda>pending.
       Inr (st\<lparr>us_pending := pending\<rparr>)))
     else
       let metadata = us_pending st; st = st\<lparr>us_pending := no_pending\<rparr> in
       if re_type entry \<noteq> Regular then Inr st
       else if \<not> pf_reserve pf (length (us_files st))
       then Inl (invalid_archive ''regular file list could not be allocated within limits'')
       else
         bindE (entry_name metadata entry) (\<lambda>name.
         let mode = (case re_mode entry of Some m \<Rightarrow> m | None \<Rightarrow> 420);
             mtime = (case re_mtime entry of Some t \<Rightarrow> t | None \<Rightarrow> 0) in
         bindE (read_entry_payload pf (re_payload entry) entry_size ''regular file'') (\<lambda>data.
         Inr (st\<lparr>us_files := us_files st @
                  [\<lparr>tf_name = name, tf_data = data, tf_mode = mode, tf_mtime = mtime\<rparr>]\<rparr>))))"

fun unpack_loop ::
  "platform \<Rightarrow> archive_limits \<Rightarrow> (string + raw_entry) list \<Rightarrow> unpack_state \<Rightarrow> helm_error + unpack_state" where
  "unpack_loop pf limits [] st = Inr st"
| "unpack_loop pf limits (Inl e # entries) st = Inl (invalid_archive e)"
| "unpack_loop pf limits (Inr entry # entries) st =
     bindE (unpack_entry pf limits entry st) (unpack_loop pf limits entries)"

definition unpack_start :: unpack_state where
  "unpack_start = \<lparr>us_files = [], us_expanded = 0, us_count = 0, us_pending = no_pending\<rparr>"

definition unpack_tgz_with_limits ::
  "platform \<Rightarrow> tar_reader \<Rightarrow> bytes \<Rightarrow> archive_limits \<Rightarrow> helm_error + tgz_file list" where
  "unpack_tgz_with_limits pf tar_entries tgz limits =
     bindE (map_errE invalid_archive (tar_entries tgz)) (\<lambda>entries.
     bindE (unpack_loop pf limits entries unpack_start) (\<lambda>st.
     if \<not> pending_is_empty (us_pending st)
     then Inl (invalid_archive ''tar extension entry has no member to describe'')
     else Inr (us_files st)))"

section \<open>Packing\<close>

record tar_header =
  th_size :: u64
  th_mode :: u32
  th_mtime :: u64

text \<open>The tar builder and the gzip encoder: \<open>tw_append\<close> is \<open>append_data\<close> on a ustar header with
  its checksum set, \<open>tw_finish\<close> the trailer, \<open>tw_gzip\<close> the compressed bytes.\<close>

record tar_writer =
  tw_append :: "tar_header \<Rightarrow> string \<Rightarrow> bytes \<Rightarrow> bytes \<Rightarrow> string + bytes"
  tw_finish :: "bytes \<Rightarrow> string + bytes"
  tw_gzip :: "bytes \<Rightarrow> string + bytes"

fun pack_files :: "tar_writer \<Rightarrow> tgz_file list \<Rightarrow> bytes \<Rightarrow> helm_error + bytes" where
  "pack_files tw [] tar_bytes = map_errE invalid_archive (tw_finish tw tar_bytes)"
| "pack_files tw (f # fs) tar_bytes =
     bindE (map_errE invalid_archive
              (tw_append tw \<lparr>th_size = of_nat (length (tf_data f)), th_mode = tf_mode f,
                 th_mtime = tf_mtime f\<rparr> (tf_name f) (tf_data f) tar_bytes))
       (pack_files tw fs)"

definition pack_tgz :: "tar_writer \<Rightarrow> tgz_file list \<Rightarrow> helm_error + bytes" where
  "pack_tgz tw files =
     bindE (pack_files tw files []) (\<lambda>tar_bytes. map_errE invalid_archive (tw_gzip tw tar_bytes))"

definition is_root_chart_file :: "string \<Rightarrow> string \<Rightarrow> bool" where
  "is_root_chart_file name basename =
     (case filter (\<lambda>p. p \<noteq> []) (split_on (CHR ''/'') name) of
        [only] \<Rightarrow> only = basename
      | [dir, file] \<Rightarrow> file = basename \<and> dir \<noteq> ''charts''
      | _ \<Rightarrow> False)"

section \<open>Lemmas about one entry\<close>

text \<open>No \<open>Vec\<close> exceeds \<open>isize::MAX\<close> bytes, so a payload that was read has a length a \<open>u64\<close> holds.\<close>

definition vec_sized :: "(string + raw_entry) list \<Rightarrow> bool" where
  "vec_sized entries \<longleftrightarrow>
     (\<forall>e d. Inr e \<in> set entries \<longrightarrow> re_payload e = Inr d \<longrightarrow> length d < 2 ^ 63)"

lemma vec_sized_Cons: "vec_sized (x # xs) \<longleftrightarrow> vec_sized xs \<and>
    (\<forall>e d. x = Inr e \<longrightarrow> re_payload e = Inr d \<longrightarrow> length d < 2 ^ 63)"
  by (auto simp: vec_sized_def)

lemma read_entry_payload_Inr [res_simps]:
  "read_entry_payload pf payload n what = Inr d \<longleftrightarrow>
     pf_alloc pf n \<and> payload = Inr d \<and> of_nat (length d) = n"
  by (auto simp: read_entry_payload_def Let_def res_simps)

lemma check_entry_Inr:
  assumes "check_entry limits e st = Inr (n, st')"
  shows "n \<le> max_file_bytes limits"
    and "unat (us_expanded st') = unat (us_expanded st) + unat n"
    and "us_expanded st' \<le> max_expanded_bytes limits"
    and "unat (us_count st') = Suc (unat (us_count st))"
    and "us_count st' \<le> max_files limits"
    and "us_files st' = us_files st" and "us_pending st' = us_pending st"
  using assms checked_add_Some [of "us_expanded st"] checked_add_Some [of "us_count st" 1]
  by (auto simp: check_entry_def Let_def res_simps not_less split: if_splits)

text \<open>What one successful step does to the list of files: at most one more, of the size charged.\<close>

lemma unpack_entry_files:
  assumes "unpack_entry pf limits e st = Inr st'"
  obtains (kept) "us_files st' = us_files st"
  | (added) f n d where "us_files st' = us_files st @ [f]" "tf_data f = d" "re_payload e = Inr d"
      "of_nat (length d) = n" "n \<le> max_file_bytes limits"
      "unat (us_expanded st') = unat (us_expanded st) + unat n" "re_type e = Regular"
proof -
  from assms obtain n st1 where c: "check_entry limits e st = Inr (n, st1)"
    by (auto simp: unpack_entry_def res_simps)
  from assms check_entry_Inr [OF c] that show thesis
    by (auto simp: unpack_entry_def Let_def res_simps c split: if_splits)
qed

lemma unpack_entry_counters:
  assumes "unpack_entry pf limits e st = Inr st'"
  shows "unat (us_expanded st) \<le> unat (us_expanded st')"
    and "us_expanded st' \<le> max_expanded_bytes limits"
    and "unat (us_count st') = Suc (unat (us_count st))" and "us_count st' \<le> max_files limits"
proof -
  from assms obtain n st1 where c: "check_entry limits e st = Inr (n, st1)"
    by (auto simp: unpack_entry_def res_simps)
  with assms have "us_expanded st' = us_expanded st1" "us_count st' = us_count st1"
    by (auto simp: unpack_entry_def Let_def res_simps split: if_splits)
  with check_entry_Inr [OF c]
  show "unat (us_expanded st) \<le> unat (us_expanded st')"
    "us_expanded st' \<le> max_expanded_bytes limits"
    "unat (us_count st') = Suc (unat (us_count st))" "us_count st' \<le> max_files limits"
    by simp_all
qed

section \<open>The invariant of the loop\<close>

definition unpack_inv :: "archive_limits \<Rightarrow> unpack_state \<Rightarrow> bool" where
  "unpack_inv limits st \<longleftrightarrow>
     sum_list (map (length \<circ> tf_data) (us_files st)) \<le> unat (us_expanded st) \<and>
     us_expanded st \<le> max_expanded_bytes limits \<and>
     length (us_files st) \<le> unat (us_count st) \<and> us_count st \<le> max_files limits \<and>
     (\<forall>f\<in>set (us_files st). length (tf_data f) \<le> unat (max_file_bytes limits))"

lemma unpack_inv_start: "unpack_inv limits unpack_start"
  by (simp add: unpack_inv_def unpack_start_def)

lemma unpack_entry_inv:
  assumes "unpack_inv limits st" "unpack_entry pf limits e st = Inr st'"
    and "\<And>d. re_payload e = Inr d \<Longrightarrow> length d < 2 ^ 63"
  shows "unpack_inv limits st'"
  using assms(2)
proof (cases rule: unpack_entry_files)
  case kept
  with assms(1) unpack_entry_counters [OF assms(2)] show ?thesis
    by (auto simp: unpack_inv_def)
next
  case (added f n d)
  from added(3) assms(3) have "length d < 2 ^ 63" by blast
  then have "unat n = length d"
    using added(4) unat_of_length [of d] by auto
  with assms(1) added unpack_entry_counters [OF assms(2)] show ?thesis
    by (auto simp: unpack_inv_def word_le_nat_alt)
qed

lemma unpack_loop_inv:
  "unpack_inv limits st \<Longrightarrow> vec_sized entries \<Longrightarrow>
   unpack_loop pf limits entries st = Inr st' \<Longrightarrow> unpack_inv limits st'"
proof (induction pf limits entries st rule: unpack_loop.induct)
  case (3 pf limits entry entries st)
  then show ?case
    using unpack_entry_inv [of limits st pf entry]
    by (auto simp: res_simps vec_sized_Cons)
qed simp_all

section \<open>Archives of plain files\<close>

definition file_entry :: "tgz_file \<Rightarrow> raw_entry" where
  "file_entry f = \<lparr>re_type = Regular, re_size = of_nat (length (tf_data f)), re_path = Inr (tf_name f),
     re_mode = Some (tf_mode f), re_mtime = Some (tf_mtime f), re_payload = Inr (tf_data f)\<rparr>"

text \<open>What a file system that never refuses an allocation looks like.\<close>
definition ample_platform :: platform where
  "ample_platform = \<lparr>pf_alloc = (\<lambda>_. True), pf_reserve = (\<lambda>_. True)\<rparr>"

lemma unpack_file_entry:
  assumes "us_pending st = no_pending" "unat (us_count st) < unat (max_files limits)"
    and "length (tf_data f) \<le> unat (max_file_bytes limits)"
    and "unat (us_expanded st) + length (tf_data f) \<le> unat (max_expanded_bytes limits)"
  shows "unpack_entry ample_platform limits (file_entry f) st =
    Inr (st\<lparr>us_files := us_files st @ [f], us_count := us_count st + 1,
            us_expanded := us_expanded st + of_nat (length (tf_data f))\<rparr>)"
proof -
  let ?n = "of_nat (length (tf_data f)) :: u64"
  have lt: "length (tf_data f) < 2 ^ 64"
    using assms(3) unat_u64_less [of "max_file_bytes limits"] by simp
  note n = unat_of_length [OF lt]
  have c: "checked_add (us_count st) 1 = Some (us_count st + 1)"
    using assms(2) unat_u64_less [of "max_files limits"] by (simp add: checked_add_def)
  have x: "checked_add (us_expanded st) ?n = Some (us_expanded st + ?n)"
    using assms(4) unat_u64_less [of "max_expanded_bytes limits"] n by (simp add: checked_add_def)
  have "\<not> max_files limits < us_count st + 1"
    using assms(2) checked_add_Some [OF c] by (simp add: word_less_nat_alt)
  moreover have "\<not> max_file_bytes limits < ?n"
    using assms(3) n by (simp add: word_less_nat_alt)
  moreover have "\<not> max_expanded_bytes limits < us_expanded st + ?n"
    using assms(4) checked_add_Some [OF x] n by (simp add: word_less_nat_alt)
  ultimately have "check_entry limits (file_entry f) st =
      Inr (?n, st\<lparr>us_count := us_count st + 1, us_expanded := us_expanded st + ?n\<rparr>)"
    using c x assms(1)
    by (simp add: check_entry_def file_entry_def is_metadata_entry_def no_pending_def Let_def)
  then show ?thesis
    using assms(1)
    by (cases f; cases st)
       (simp add: unpack_entry_def file_entry_def is_metadata_entry_def Let_def entry_name_def
          path_override_def no_pending_def ample_platform_def read_entry_payload_def)
qed

lemma unpack_loop_files:
  "us_pending st = no_pending \<Longrightarrow> unat (us_count st) + length fs \<le> unat (max_files limits) \<Longrightarrow>
   \<forall>f\<in>set fs. length (tf_data f) \<le> unat (max_file_bytes limits) \<Longrightarrow>
   unat (us_expanded st) + sum_list (map (length \<circ> tf_data) fs) \<le> unat (max_expanded_bytes limits) \<Longrightarrow>
   \<exists>st'. unpack_loop ample_platform limits (map (\<lambda>f. Inr (file_entry f)) fs) st = Inr st' \<and>
     us_files st' = us_files st @ fs \<and> us_pending st' = no_pending"
proof (induction fs arbitrary: st)
  case Nil
  then show ?case by simp
next
  case (Cons f fs)
  let ?st = "st\<lparr>us_files := us_files st @ [f], us_count := us_count st + 1,
            us_expanded := us_expanded st + of_nat (length (tf_data f))\<rparr>"
  have step: "unpack_entry ample_platform limits (file_entry f) st = Inr ?st"
    using Cons.prems by (intro unpack_file_entry) auto
  have "unat (us_count ?st) = Suc (unat (us_count st))"
    "unat (us_expanded ?st) \<le> unat (us_expanded st) + length (tf_data f)"
    using unpack_entry_counters(3) [OF step]
    by (simp_all add: unat_word_ariths unat_of_nat take_bit_eq_mod)
  then have "\<exists>st'. unpack_loop ample_platform limits (map (\<lambda>f. Inr (file_entry f)) fs) ?st = Inr st' \<and>
     us_files st' = us_files ?st @ fs \<and> us_pending st' = no_pending"
    using Cons.prems by (intro Cons.IH) auto
  with step show ?case by simp
qed

section \<open>Encoded PAX records\<close>

definition pax_encode :: "bytes \<Rightarrow> bytes \<Rightarrow> nat \<Rightarrow> bytes" where
  "pax_encode key value n = show_nat n @ '' '' @ key @ ''='' @ value @ [CHR 0x0A]"

lemma pax_record_encode:
  assumes "length (pax_encode key value n) = n" "n \<le> u64_max" "CHR ''='' \<notin> set key"
  shows "pax_record (pax_encode key value n @ rest) = Inr (key, value, n)"
proof -
  let ?ds = "show_nat n" and ?body = "key @ ''='' @ value"
  have sp: "position (\<lambda>b. b = CHR '' '') (pax_encode key value n @ rest) = Some (length ?ds)"
    using show_nat_digits [of n]
    by (auto simp: pax_encode_def byte_class_defs intro!: position_append_first)
  have u: "from_utf8 ?ds = Some ?ds"
    using show_nat_digits [of n]
    by (fastforce simp: from_utf8_Some list_all_iff byte_class_defs intro!: ascii_utf8_valid)
  have "take n (pax_encode key value n @ rest) = pax_encode key value n"
    using assms(1) by (metis append_eq_conv_conj)
  then have tk: "take n (pax_encode key value n @ rest) = ?ds @ '' '' @ ?body @ [CHR 0x0A]"
    by (simp add: pax_encode_def)
  have eq: "position (\<lambda>b. b = CHR ''='') ?body = Some (length key)"
    using assms(3) by (auto intro!: position_append_first)
  have "length ?ds + 1 < n" using assms(1) by (simp add: pax_encode_def)
  moreover have "n \<le> length (pax_encode key value n @ rest)" using assms(1) by simp
  moreover have "drop (length ?ds + 1) (take n (pax_encode key value n @ rest)) = ?body @ [CHR 0x0A]"
    unfolding tk by simp
  moreover have "take (length ?ds) (pax_encode key value n @ rest) = ?ds"
    by (simp add: pax_encode_def)
  moreover have "strip_suffix [CHR 0x0A] (?body @ [CHR 0x0A]) = Some ?body"
    by (rule strip_suffix_append)
  ultimately show ?thesis
    using eq unfolding pax_record_def sp
    by (simp add: u parse_show_nat [OF assms(2)] del: append.simps append_assoc)
qed

section \<open>Properties\<close>

text \<open>C20. Whatever the archive, unpacking that succeeds stays within the limits: at most
  \<open>max_files\<close> files, none over \<open>max_file_bytes\<close>, and together at most
  \<open>max_expanded_bytes\<close> bytes, with no wrap-around of the 64-bit counters.\<close>
theorem unpack_within_limits:
  assumes "unpack_tgz_with_limits pf tar_entries tgz limits = Inr files"
    and "\<And>entries. tar_entries tgz = Inr entries \<Longrightarrow> vec_sized entries"
  shows "length files \<le> unat (max_files limits)
    \<and> (\<forall>f\<in>set files. length (tf_data f) \<le> unat (max_file_bytes limits))
    \<and> sum_list (map (length \<circ> tf_data) files) \<le> unat (max_expanded_bytes limits)"
proof -
  from assms obtain entries st where "vec_sized entries"
    "unpack_loop pf limits entries unpack_start = Inr st" "files = us_files st"
    by (auto simp: unpack_tgz_with_limits_def res_simps split: if_splits)
  with unpack_loop_inv [OF unpack_inv_start] have "unpack_inv limits st" by blast
  with \<open>files = us_files st\<close> show ?thesis
    by (auto simp: unpack_inv_def word_le_nat_alt)
qed

theorem unpack_within_limits_witness:
  "let f = \<lparr>tf_name = ''d/Chart.yaml'', tf_data = ''name: d'', tf_mode = 420, tf_mtime = 0\<rparr> in
   length [f] \<le> unat (max_files (limits_new 64 16 8))
   \<and> sum_list (map (length \<circ> tf_data) [f]) \<le> unat (max_expanded_bytes (limits_new 64 16 8))"
proof -
  let ?f = "\<lparr>tf_name = ''d/Chart.yaml'', tf_data = ''name: d'', tf_mode = 420, tf_mtime = 0\<rparr>"
  let ?r = "\<lambda>_::bytes. Inr [Inr (file_entry ?f)] :: string + (string + raw_entry) list"
  have u: "unpack_tgz_with_limits ample_platform ?r [] (limits_new 64 16 8) = Inr [?f]"
    by (simp add: unpack_tgz_with_limits_def unpack_file_entry unpack_start_def limits_new_def
          no_pending_def pending_is_empty_def)
  have v: "?r [] = Inr entries \<Longrightarrow> vec_sized entries" for entries
    by (auto simp: vec_sized_def file_entry_def)
  from unpack_within_limits [OF u v] show ?thesis unfolding Let_def by blast
qed

text \<open>C23. A plain archive of regular files that fits the limits is unpacked to exactly those
  files, in order, with their names, modes, times and contents.\<close>
theorem unpack_plain_archive:
  assumes "tar_entries tgz = Inr (map (\<lambda>f. Inr (file_entry f)) files)"
    and "length files \<le> unat (max_files limits)"
    and "\<forall>f\<in>set files. length (tf_data f) \<le> unat (max_file_bytes limits)"
    and "sum_list (map (length \<circ> tf_data) files) \<le> unat (max_expanded_bytes limits)"
  shows "unpack_tgz_with_limits ample_platform tar_entries tgz limits = Inr files"
proof -
  have "us_pending unpack_start = no_pending" by (simp add: unpack_start_def)
  then obtain st where "unpack_loop ample_platform limits (map (\<lambda>f. Inr (file_entry f)) files) unpack_start = Inr st"
    "us_files st = files" "us_pending st = no_pending"
    using unpack_loop_files [of unpack_start files limits] assms(2-)
    by (auto simp: unpack_start_def)
  with assms(1) show ?thesis
    by (simp add: unpack_tgz_with_limits_def pending_is_empty_def no_pending_def)
qed

theorem unpack_plain_archive_witness:
  "unpack_tgz_with_limits ample_platform
     (\<lambda>_. Inr (map (\<lambda>f. Inr (file_entry f))
        [\<lparr>tf_name = ''a'', tf_data = ''xyz'', tf_mode = 420, tf_mtime = 7\<rparr>])) [] (limits_new 3 3 1)
   = Inr [\<lparr>tf_name = ''a'', tf_data = ''xyz'', tf_mode = 420, tf_mtime = 7\<rparr>]"
  by (rule unpack_plain_archive [OF refl]) (simp_all add: limits_new_def)

text \<open>C24. Round trip of PAX records: a record written as the format defines it, its decimal length
  counting itself, is read back as its key and value whatever follows it, and the loop goes on
  with what follows; in particular a \<open>path\<close> record becomes the member's path override.\<close>
theorem pax_record_roundtrip:
  assumes "length (pax_encode key value n) = n" and "n \<le> u64_max" and "CHR ''='' \<notin> set key"
  shows "apply_pax_records (pax_encode key value n @ rest) pending =
      bindE (apply_pax_pair key value pending) (apply_pax_records rest)
    \<and> (key = ''path'' \<longrightarrow> value \<noteq> [] \<longrightarrow>
        apply_pax_records (pax_encode key value n) pending = Inr (pending\<lparr>pm_pax_path := Some value\<rparr>))"
proof -
  have ne: "\<not> (pax_encode key value n @ r = [] \<or> list_all (\<lambda>b. b = CHR 0x00) (pax_encode key value n @ r))" for r
    by (simp add: pax_encode_def)
  have dr: "drop n (pax_encode key value n @ r) = r" for r
    using assms(1) by (metis append_eq_conv_conj)
  have step: "apply_pax_records (pax_encode key value n @ r) pending =
      bindE (apply_pax_pair key value pending) (apply_pax_records r)" for r
    unfolding apply_pax_records.simps [of "pax_encode key value n @ r"]
    using ne [of r] by (simp only: pax_record_encode [OF assms] dr bindE_def sum.case prod.case if_False)
  have "apply_pax_records (pax_encode key value n) pending = Inr (pending\<lparr>pm_pax_path := Some value\<rparr>)"
    if "key = ''path''" "value \<noteq> []"
  proof -
    have "apply_pax_pair key value pending = Inr (pending\<lparr>pm_pax_path := Some value\<rparr>)"
      using that by (simp add: apply_pax_pair_def starts_with_def)
    moreover have "apply_pax_records [] p = Inr p" for p
      by (simp add: apply_pax_records.simps)
    ultimately show ?thesis using step [of "[]"] by simp
  qed
  with step show ?thesis by blast
qed

theorem pax_record_roundtrip_witness:
  "apply_pax_records ''12 path=a/b\<newline>'' no_pending = Inr (no_pending\<lparr>pm_pax_path := Some ''a/b''\<rparr>)"
proof -
  have e: "pax_encode ''path'' ''a/b'' 12 = ''12 path=a/b\<newline>''" by code_simp
  have l: "length (pax_encode ''path'' ''a/b'' 12) = 12" by (simp add: e)
  have m: "12 \<le> u64_max" "CHR ''='' \<notin> set ''path''" by (simp_all add: u64_max_def)
  from conjunct2 [OF pax_record_roundtrip [OF l m]] e show ?thesis by simp
qed

end
