(* ===== verification/Config.thy ===== *)
theory Config
  imports Tgz
begin

text \<open>
  \<open>bins/helmoci/src/config.rs\<close>: the configuration and its validation into the runtime
  configuration, the backend it selects, and the choice of log levels and format. The YAML
  reader, the environment expansion and the object-store builders are parameters; so are the
  Unicode tables (\<open>char::is_alphanumeric\<close> above ASCII, the debug form of a string).
\<close>

section \<open>Settings\<close>

definition MAX_CACHE_TTL_SECS :: u64 where
  "MAX_CACHE_TTL_SECS = 1000 * 365 * 24 * 60 * 60"

definition DEFAULT_S3_REGION :: string where
  "DEFAULT_S3_REGION = ''auto''"

definition default_listen :: string where
  "default_listen = ''0.0.0.0:8080''"

definition default_max_chart_bytes :: u64 where
  "default_max_chart_bytes = 50 * 1024 * 1024"

definition default_max_expanded_chart_bytes :: u64 where
  "default_max_expanded_chart_bytes = 500 * 1024 * 1024"

definition default_max_index_bytes :: u64 where
  "default_max_index_bytes = 64 * 1024 * 1024"

definition default_index_ttl :: u64 where
  "default_index_ttl = 600"

definition default_ephemeral_max_bytes :: u64 where
  "default_ephemeral_max_bytes = 256 * 1024 * 1024"

definition default_ephemeral_ttl :: u64 where
  "default_ephemeral_ttl = 1800"

record ephemeral_cache_config =
  ec_max_bytes :: u64
  ec_ttl_secs :: u64

definition default_ephemeral_cache :: ephemeral_cache_config where
  "default_ephemeral_cache =
     \<lparr>ec_max_bytes = default_ephemeral_max_bytes, ec_ttl_secs = default_ephemeral_ttl\<rparr>"

datatype log_format = Compact | Full | Json | Pretty

record logging =
  lg_level :: "string option"
  lg_format :: "log_format option"

record s3_config =
  s3_endpoint :: "string option"
  s3_bucket :: string
  s3_region :: "string option"
  s3_access_key_id :: string
  s3_secret_access_key :: string

record gcs_config =
  gcs_bucket :: string
  gcs_service_account_key :: "string option"

datatype backend = S3 s3_config | Gcs gcs_config | Local string | Memory

record auth_config =
  ac_enabled :: bool
  ac_tokens :: "string list"

record alias_config =
  acf_upstream :: string
  acf_store :: bool
  acf_auth :: upstream_auth_kind
  acf_plain_http :: bool

record settings =
  st_listen :: string
  st_log :: logging
  st_max_chart_bytes :: u64
  st_max_expanded_chart_bytes :: u64
  st_max_index_bytes :: u64
  st_index_cache_ttl_secs :: u64
  st_ephemeral_cache :: ephemeral_cache_config
  st_storage :: backend
  st_auth :: auth_config
  st_allow_public_private_upstreams :: bool
  st_aliases :: "alias_config hashmap"

record runtime_config =
  rt_settings :: settings
  rt_aliases :: "alias_entry hashmap"
  rt_classic_alias_by_repo :: "string hashmap"

section \<open>Secrets\<close>

text \<open>\<open>match_indices\<close>: what follows each occurrence of a pattern, without overlaps; \<open>skip\<close> counts
  the bytes of a match still to be passed.\<close>

fun after_matches :: "string \<Rightarrow> nat \<Rightarrow> string \<Rightarrow> string list" where
  "after_matches p skip [] = []"
| "after_matches p (Suc skip) (c # cs) = after_matches p skip cs"
| "after_matches p 0 (c # cs) =
     (case strip_prefix p (c # cs) of
        Some rest \<Rightarrow> rest # after_matches p (length p - 1) cs
      | None \<Rightarrow> after_matches p 0 cs)"

text \<open>\<open>uni_alnum\<close> decides whether the non-ASCII character a text starts with is alphanumeric.\<close>

definition next_not_name :: "(string \<Rightarrow> bool) \<Rightarrow> string \<Rightarrow> bool" where
  "next_not_name uni_alnum rest =
     (case rest of
        [] \<Rightarrow> True
      | c # cs \<Rightarrow> \<not> ((if byte_of c < 128 then is_ascii_alphanumeric c else uni_alnum rest) \<or> c = CHR ''_''))"

definition references_missing_var :: "(string \<Rightarrow> bool) \<Rightarrow> string \<Rightarrow> string \<Rightarrow> bool" where
  "references_missing_var uni_alnum value var =
     (if contains_sub (''${'' @ var @ ''}'') value then True
      else list_ex (next_not_name uni_alnum) (after_matches (CHR ''$'' # var) 0 value))"

definition msg_unexpanded :: "string \<Rightarrow> string \<Rightarrow> string" where
  "msg_unexpanded field var = field @ '' still references environment variable '' @ var @
     '', which is not set: helmoci refuses to use the literal reference as a credential. Set '' @ var @
     '' before starting helmoci.''"

text \<open>\<open>missing_vars\<close> is the \<open>BTreeSet\<close> as its sorted list.\<close>

fun reject_unexpanded_secret ::
  "(string \<Rightarrow> bool) \<Rightarrow> string \<Rightarrow> string \<Rightarrow> string list \<Rightarrow> string + unit" where
  "reject_unexpanded_secret ua field value [] = Inr ()"
| "reject_unexpanded_secret ua field value (var # vars) =
     (if references_missing_var ua value var then Inl (msg_unexpanded field var)
      else reject_unexpanded_secret ua field value vars)"

fun reject_tokens :: "(string \<Rightarrow> bool) \<Rightarrow> nat \<Rightarrow> string list \<Rightarrow> string list \<Rightarrow> string + unit" where
  "reject_tokens ua index [] vars = Inr ()"
| "reject_tokens ua index (token # tokens) vars =
     bindE (reject_unexpanded_secret ua (''auth.tokens['' @ show_nat index @ '']'') token vars)
       (\<lambda>_. reject_tokens ua (index + 1) tokens vars)"

definition reject_backend :: "(string \<Rightarrow> bool) \<Rightarrow> backend \<Rightarrow> string list \<Rightarrow> string + unit" where
  "reject_backend ua storage vars =
     (case storage of
        S3 s3 \<Rightarrow>
          bindE (reject_unexpanded_secret ua ''storage.settings.access_key_id'' (s3_access_key_id s3) vars)
            (\<lambda>_. reject_unexpanded_secret ua ''storage.settings.secret_access_key''
               (s3_secret_access_key s3) vars)
      | Gcs gcs \<Rightarrow>
          (case gcs_service_account_key gcs of
             None \<Rightarrow> Inr ()
           | Some key \<Rightarrow> reject_unexpanded_secret ua ''storage.settings.service_account_key'' key vars)
      | Local _ \<Rightarrow> Inr ()
      | Memory \<Rightarrow> Inr ())"

section \<open>Validation\<close>

definition check_limits :: "settings \<Rightarrow> string + unit" where
  "check_limits s =
     (if MAX_CACHE_TTL_SECS < st_index_cache_ttl_secs s
      then Inl (''index_cache_ttl_secs must not exceed '' @ show_u64 MAX_CACHE_TTL_SECS @ '' seconds (1000 years)'')
      else if MAX_CACHE_TTL_SECS < ec_ttl_secs (st_ephemeral_cache s)
      then Inl (''ephemeral_cache.ttl_secs must not exceed '' @ show_u64 MAX_CACHE_TTL_SECS @ '' seconds (1000 years)'')
      else if st_max_expanded_chart_bytes s = 0
      then Inl ''max_expanded_chart_bytes must be greater than zero''
      else if st_max_expanded_chart_bytes s < st_max_chart_bytes s
      then Inl (''max_expanded_chart_bytes ('' @ show_u64 (st_max_expanded_chart_bytes s) @
             '') must be at least max_chart_bytes ('' @ show_u64 (st_max_chart_bytes s) @
             ''): charts expand to more bytes than they download as'')
      else if st_max_index_bytes s = 0
      then Inl ''max_index_bytes must be greater than zero''
      else if ec_max_bytes (st_ephemeral_cache s) < st_max_chart_bytes s
      then Inl (''ephemeral_cache.max_bytes ('' @ show_u64 (ec_max_bytes (st_ephemeral_cache s)) @
             '') must hold at least one max_chart_bytes ('' @ show_u64 (st_max_chart_bytes s) @
             '') artifact, otherwise nothing is ever retained and every pull rebuilds the chart'')
      else if ac_enabled (st_auth s) \<and> \<not> list_ex (\<lambda>token. token \<noteq> []) (ac_tokens (st_auth s))
      then Inl ''auth.enabled is true but auth.tokens has no non-empty token''
      else case st_storage s of
        S3 s3 \<Rightarrow>
          if s3_endpoint s3 = None \<and> s3_region s3 = None
          then Inl (''storage.settings needs either region (AWS S3, whose endpoint is derived from it) '' @
                 ''or endpoint (an S3-compatible service such as Cloudflare R2 or MinIO)'')
          else Inr ()
      | _ \<Rightarrow> Inr ())"

definition alias_of_config ::
  "'u url_lib \<Rightarrow> (string \<Rightarrow> string) \<Rightarrow> string \<Rightarrow> alias_config \<Rightarrow> string + alias_entry" where
  "alias_of_config U debug name cfg =
     (if \<not> is_valid_alias_name name
      then Inl (''invalid alias name '' @ debug name @ '': alphanumeric, '' @ [CHR 0x27] @ ''-'' @ [CHR 0x27]
             @ '', '' @ [CHR 0x27] @ ''_'' @ [CHR 0x27] @ '' only (no dots)'')
      else
        bindE (map_errE (\<lambda>e. ''alias '' @ name @ '': '' @ e) (parse_alias_upstream U (acf_upstream cfg)))
          (\<lambda>upstream.
        case upstream of
          UpClassic _ \<Rightarrow>
            if acf_auth cfg = AuthGcp
            then Inl (''alias '' @ name @ '': auth: gcp is only supported for oci:// upstreams'')
            else Inr \<lparr>al_upstream = upstream, al_store = acf_store cfg, al_auth = acf_auth cfg,
                      al_plain_http = acf_plain_http cfg\<rparr>
        | UpOci _ _ \<Rightarrow>
            Inr \<lparr>al_upstream = upstream, al_store = acf_store cfg, al_auth = acf_auth cfg,
                 al_plain_http = acf_plain_http cfg\<rparr>))"

fun build_aliases ::
  "'u url_lib \<Rightarrow> (string \<Rightarrow> string) \<Rightarrow> alias_config hashmap \<Rightarrow> alias_entry hashmap \<Rightarrow>
   string + alias_entry hashmap" where
  "build_aliases U debug [] aliases = Inr aliases"
| "build_aliases U debug ((name, cfg) # cfgs) aliases =
     bindE (alias_of_config U debug name cfg)
       (\<lambda>a. build_aliases U debug cfgs (AList.update name a aliases))"

definition msg_credentialed :: "string list \<Rightarrow> string" where
  "msg_credentialed names = ''aliases ['' @ join '', '' names @
     ''] authenticate to their upstream while auth.enabled is false: helmoci holds those upstream '' @
     ''credentials, so it would republish private upstream content to anonymous clients. Enable '' @
     ''auth.enabled with at least one auth.tokens entry, or set allow_public_private_upstreams: true '' @
     ''to accept that (unsafe: only for mirroring private charts onto a trusted network).''"

definition credentialed_names :: "alias_entry hashmap \<Rightarrow> string list" where
  "credentialed_names aliases = sort (map fst (filter (\<lambda>(name, a). al_auth a \<noteq> AuthNone) aliases))"

definition validate ::
  "'u url_lib \<Rightarrow> (string \<Rightarrow> string) \<Rightarrow> (string \<Rightarrow> bool) \<Rightarrow> settings \<Rightarrow> string list \<Rightarrow>
   string + runtime_config" where
  "validate U debug ua s missing_vars =
     bindE (check_limits s) (\<lambda>_.
     bindE (if missing_vars = [] then Inr ()
            else bindE (reject_tokens ua 0 (ac_tokens (st_auth s)) missing_vars)
                   (\<lambda>_. reject_backend ua (st_storage s) missing_vars)) (\<lambda>_.
     bindE (build_aliases U debug (st_aliases s) []) (\<lambda>aliases.
     if \<not> ac_enabled (st_auth s) \<and> \<not> st_allow_public_private_upstreams s
        \<and> credentialed_names aliases \<noteq> []
     then Inl (msg_credentialed (credentialed_names aliases))
     else Inr \<lparr>rt_settings = s, rt_aliases = aliases,
               rt_classic_alias_by_repo = classic_alias_rewrite_map U aliases\<rparr>)))"

text \<open>\<open>parse_config\<close>: \<open>expand\<close> is \<open>shellexpand\<close> with the names it found unset, \<open>read_yaml\<close> the
  deserialisation; both return their error with its context.\<close>

definition parse_config ::
  "'u url_lib \<Rightarrow> (string \<Rightarrow> string) \<Rightarrow> (string \<Rightarrow> bool) \<Rightarrow> (string \<Rightarrow> string + (string \<times> string list)) \<Rightarrow>
   (string \<Rightarrow> string + settings) \<Rightarrow> string \<Rightarrow> string + runtime_config" where
  "parse_config U debug ua expand read_yaml raw_yaml =
     bindE (expand raw_yaml) (\<lambda>(expanded, missing_vars).
     bindE (read_yaml expanded) (\<lambda>s. validate U debug ua s missing_vars))"

section \<open>The backend\<close>

datatype store_client =
    S3Client string string string string "string option" bool
  | GcsClient string "string option"
  | LocalClient string
  | MemoryClient

text \<open>What the builder of each backend is given; \<open>build\<close> is its fallible construction, which for
  a local store begins with creating the directory. An S3 client has its bucket, credentials,
  region, endpoint and whether buckets are addressed virtual-hosted style.\<close>

definition store_client_of :: "backend \<Rightarrow> store_client" where
  "store_client_of cfg =
     (case cfg of
        S3 s3 \<Rightarrow> S3Client (s3_bucket s3) (s3_access_key_id s3) (s3_secret_access_key s3)
                  (case s3_region s3 of Some r \<Rightarrow> r | None \<Rightarrow> DEFAULT_S3_REGION)
                  (s3_endpoint s3) (s3_endpoint s3 = None)
      | Gcs gcs \<Rightarrow> GcsClient (gcs_bucket gcs) (gcs_service_account_key gcs)
      | Local path \<Rightarrow> LocalClient path
      | Memory \<Rightarrow> MemoryClient)"

definition build_storage :: "(store_client \<Rightarrow> string + 'b) \<Rightarrow> backend \<Rightarrow> string + 'b" where
  "build_storage build cfg = build (store_client_of cfg)"

section \<open>Logging\<close>

definition non_empty :: "string \<Rightarrow> string option" where
  "non_empty value = (let trimmed = trim value in if trimmed = [] then None else Some trimmed)"

definition env_override :: "(string \<Rightarrow> string option) \<Rightarrow> string \<Rightarrow> string option" where
  "env_override env key = Option.bind (env key) non_empty"

record 't log_lib =
  ll_level :: "string \<Rightarrow> 't option"
  ll_targets :: "string \<Rightarrow> string + 't"
  ll_default :: 't

definition parse_targets :: "'t log_lib \<Rightarrow> string \<Rightarrow> string + 't" where
  "parse_targets L spec =
     (if \<not> (CHR ''='' \<in> set spec \<or> CHR '','' \<in> set spec)
      then ok_or ''expected a level such as off, warn, info, debug or trace'' (ll_level L spec)
      else ll_targets L spec)"

fun first_targets :: "'t log_lib \<Rightarrow> string option list \<Rightarrow> 't" where
  "first_targets L [] = ll_default L"
| "first_targets L (None # specs) = first_targets L specs"
| "first_targets L (Some spec # specs) =
     (case parse_targets L spec of Inr targets \<Rightarrow> targets | Inl _ \<Rightarrow> first_targets L specs)"

definition resolve_targets :: "'t log_lib \<Rightarrow> (string \<Rightarrow> string option) \<Rightarrow> logging \<Rightarrow> 't" where
  "resolve_targets L env config =
     first_targets L [env_override env ''LOG_LEVEL'', env_override env ''RUST_LOG'',
                      Option.bind (lg_level config) non_empty]"

definition log_format_from_str :: "string \<Rightarrow> log_format option" where
  "log_format_from_str s =
     (let t = to_ascii_lowercase (trim s) in
      if t = ''compact'' then Some Compact else if t = ''full'' then Some Full
      else if t = ''json'' then Some Json else if t = ''pretty'' then Some Pretty else None)"

definition resolve_format :: "(string \<Rightarrow> string option) \<Rightarrow> logging \<Rightarrow> log_format" where
  "resolve_format env config =
     (let configured = (case lg_format config of Some f \<Rightarrow> f | None \<Rightarrow> Compact) in
      case env_override env ''LOG_FORMAT'' of
        Some raw \<Rightarrow> (case log_format_from_str raw of Some f \<Rightarrow> f | None \<Rightarrow> configured)
      | None \<Rightarrow> configured)"

section \<open>What validation guarantees\<close>

lemma check_limits_ok:
  assumes "check_limits s = Inr ()"
  shows "0 < st_max_expanded_chart_bytes s" "st_max_chart_bytes s \<le> st_max_expanded_chart_bytes s"
    "0 < st_max_index_bytes s" "st_max_chart_bytes s \<le> ec_max_bytes (st_ephemeral_cache s)"
    "ac_enabled (st_auth s) \<Longrightarrow> \<exists>token\<in>set (ac_tokens (st_auth s)). token \<noteq> []"
  using assms
  by (auto simp: check_limits_def not_less word_neq_0_conv list_ex_iff split: if_splits)

definition good_alias :: "string \<Rightarrow> alias_entry \<Rightarrow> bool" where
  "good_alias name a \<longleftrightarrow> is_valid_alias_name name \<and>
     (al_auth a = AuthGcp \<longrightarrow> (\<exists>registry repo. al_upstream a = UpOci registry repo))"

lemma alias_of_config_good: "alias_of_config U debug name cfg = Inr a \<Longrightarrow> good_alias name a"
  by (auto simp: alias_of_config_def good_alias_def res_simps split: if_splits alias_upstream.splits)

lemma build_aliases_good:
  "build_aliases U debug cfgs aliases = Inr aliases' \<Longrightarrow> distinct (map fst aliases) \<Longrightarrow>
   \<forall>(name, a)\<in>set aliases. good_alias name a \<Longrightarrow>
   distinct (map fst aliases') \<and> (\<forall>(name, a)\<in>set aliases'. good_alias name a)
     \<and> fst ` set aliases' = fst ` set aliases \<union> fst ` set cfgs"
proof (induction U debug cfgs aliases rule: build_aliases.induct)
  case (1 U debug aliases)
  then show ?case by simp
next
  case (2 U debug name cfg cfgs aliases)
  then obtain a where a: "alias_of_config U debug name cfg = Inr a"
    "build_aliases U debug cfgs (AList.update name a aliases) = Inr aliases'"
    by (auto simp: bindE_Inr)
  have d: "distinct (map fst (AList.update name a aliases))"
    using 2(3) by (rule distinct_update)
  have mem: "good_alias n b" if "(n, b) \<in> set (AList.update name a aliases)" for n b
  proof -
    have "map_of (AList.update name a aliases) n = Some b" using d that by (rule map_of_SomeI)
    then have "n = name \<and> b = a \<or> map_of aliases n = Some b"
      by (auto simp: update_conv' split: if_splits)
    then show ?thesis
      using 2(4) alias_of_config_good [OF a(1)] by (auto dest: map_of_SomeD)
  qed
  have keys: "fst ` set (AList.update name a aliases) = insert name (fst ` set aliases)"
    using dom_update [of name a aliases] by (simp add: dom_map_of_conv_image_fst)
  from mem have "\<forall>(n, b)\<in>set (AList.update name a aliases). good_alias n b" by blast
  from 2(1) [OF a(2) d this] keys show ?case by auto
qed

lemma build_aliases_entry:
  "build_aliases U debug cfgs aliases = Inr aliases' \<Longrightarrow> map_of aliases' name = Some a \<Longrightarrow>
   map_of aliases name = Some a \<or> (\<exists>cfg. (name, cfg) \<in> set cfgs \<and> alias_of_config U debug name cfg = Inr a)"
proof (induction U debug cfgs aliases rule: build_aliases.induct)
  case (1 U debug aliases)
  then show ?case by simp
next
  case (2 U debug n cfg cfgs aliases)
  from 2(2) obtain b where b: "alias_of_config U debug n cfg = Inr b"
    "build_aliases U debug cfgs (AList.update n b aliases) = Inr aliases'"
    by (auto simp: bindE_Inr)
  from 2(1) [OF b(2) 2(3)] b(1) show ?case
    by (cases "name = n") (auto simp: update_conv')
qed

lemma reject_unexpanded_ok:
  "reject_unexpanded_secret ua field value vars = Inr () \<longleftrightarrow> (\<forall>var\<in>set vars. \<not> references_missing_var ua value var)"
  by (induction vars) auto

lemma reject_tokens_ok:
  "reject_tokens ua i tokens vars = Inr () \<Longrightarrow>
   \<forall>token\<in>set tokens. \<forall>var\<in>set vars. \<not> references_missing_var ua token var"
  by (induction tokens arbitrary: i) (auto simp: bindE_Inr reject_unexpanded_ok)

lemma validate_Inr:
  assumes "validate U debug ua s missing_vars = Inr rc"
  obtains aliases where "check_limits s = Inr ()"
    "build_aliases U debug (st_aliases s) [] = Inr aliases"
    "rc = \<lparr>rt_settings = s, rt_aliases = aliases, rt_classic_alias_by_repo = classic_alias_rewrite_map U aliases\<rparr>"
    "ac_enabled (st_auth s) \<or> st_allow_public_private_upstreams s \<or> credentialed_names aliases = []"
    "missing_vars \<noteq> [] \<Longrightarrow> reject_tokens ua 0 (ac_tokens (st_auth s)) missing_vars = Inr ()"
    "missing_vars \<noteq> [] \<Longrightarrow> reject_backend ua (st_storage s) missing_vars = Inr ()"
  using assms by (auto simp: validate_def bindE_Inr split: if_splits)

section \<open>Properties\<close>

text \<open>C15. A configuration that validates cannot leak a private upstream by accident: if any alias
  authenticates upstream then pull authentication is on with a non-empty token, or the operator
  opted out explicitly; alias names never look like host names, credentials are only attached to
  OCI upstreams; the alias names are exactly the configured ones, and each alias is what its own
  configuration entry parses to.\<close>
theorem validate_no_accidental_republish:
  assumes "validate U debug ua s missing_vars = Inr rc"
  shows "((\<exists>name a. map_of (rt_aliases rc) name = Some a \<and> al_auth a \<noteq> AuthNone) \<longrightarrow>
      st_allow_public_private_upstreams s \<or>
      ac_enabled (st_auth s) \<and> (\<exists>token\<in>set (ac_tokens (st_auth s)). token \<noteq> []))
    \<and> (\<forall>name a. map_of (rt_aliases rc) name = Some a \<longrightarrow>
         is_valid_alias_name name \<and>
         (al_auth a = AuthGcp \<longrightarrow> (\<exists>registry repo. al_upstream a = UpOci registry repo)))
    \<and> dom (map_of (rt_aliases rc)) = fst ` set (st_aliases s)
    \<and> (\<forall>name a. map_of (rt_aliases rc) name = Some a \<longrightarrow>
         (\<exists>cfg. (name, cfg) \<in> set (st_aliases s) \<and> alias_of_config U debug name cfg = Inr a))"
proof -
  from assms obtain aliases where v: "check_limits s = Inr ()"
    "build_aliases U debug (st_aliases s) [] = Inr aliases" "rt_aliases rc = aliases"
    "ac_enabled (st_auth s) \<or> st_allow_public_private_upstreams s \<or> credentialed_names aliases = []"
    by (elim validate_Inr) simp
  from build_aliases_good [OF v(2)] have g: "\<forall>(name, a)\<in>set aliases. good_alias name a"
    "fst ` set aliases = fst ` set (st_aliases s)" by simp_all
  have "credentialed_names aliases \<noteq> []" if "map_of aliases name = Some a" "al_auth a \<noteq> AuthNone" for name a
  proof -
    from that have "(name, a) \<in> set (filter (\<lambda>(name, a). al_auth a \<noteq> AuthNone) aliases)"
      by (auto dest: map_of_SomeD)
    then have "set (credentialed_names aliases) \<noteq> {}"
      unfolding credentialed_names_def set_sort by fastforce
    then show ?thesis by auto
  qed
  with v(4) check_limits_ok(5) [OF v(1)] have "(\<exists>name a. map_of aliases name = Some a \<and> al_auth a \<noteq> AuthNone) \<longrightarrow>
      st_allow_public_private_upstreams s \<or>
      ac_enabled (st_auth s) \<and> (\<exists>token\<in>set (ac_tokens (st_auth s)). token \<noteq> [])"
    by blast
  moreover have "\<forall>name a. map_of aliases name = Some a \<longrightarrow> good_alias name a"
    using g(1) by (auto dest: map_of_SomeD)
  moreover have "dom (map_of aliases) = fst ` set (st_aliases s)"
    using g(2) by (simp add: dom_map_of_conv_image_fst)
  moreover have "\<exists>cfg. (name, cfg) \<in> set (st_aliases s) \<and> alias_of_config U debug name cfg = Inr a"
    if "map_of aliases name = Some a" for name a
    using build_aliases_entry [OF v(2) that] by simp
  ultimately show ?thesis unfolding v(3) good_alias_def by blast
qed

definition sample_settings :: settings where
  "sample_settings = \<lparr>
     st_listen = default_listen, st_log = \<lparr>lg_level = None, lg_format = None\<rparr>,
     st_max_chart_bytes = 10, st_max_expanded_chart_bytes = 100, st_max_index_bytes = 100,
     st_index_cache_ttl_secs = 60, st_ephemeral_cache = \<lparr>ec_max_bytes = 20, ec_ttl_secs = 60\<rparr>,
     st_storage = Memory, st_auth = \<lparr>ac_enabled = True, ac_tokens = [''t0ken'']\<rparr>,
     st_allow_public_private_upstreams = False,
     st_aliases = [(''priv'', \<lparr>acf_upstream = ''oci://r.io/p'', acf_store = True, acf_auth = AuthGcp,
                               acf_plain_http = False\<rparr>)]\<rparr>"

definition sample_aliases :: "alias_entry hashmap" where
  "sample_aliases = [(''priv'', \<lparr>al_upstream = UpOci ''r.io'' ''p'', al_store = True, al_auth = AuthGcp,
     al_plain_http = False\<rparr>)]"

lemma sample_validate:
  "validate sample_url_lib quote (\<lambda>_. False) sample_settings [''VAR''] = Inr
     \<lparr>rt_settings = sample_settings, rt_aliases = sample_aliases, rt_classic_alias_by_repo = []\<rparr>"
proof -
  have limits: "check_limits sample_settings = Inr ()"
    by (simp add: check_limits_def sample_settings_def MAX_CACHE_TTL_SECS_def)
  have secrets: "reject_tokens (\<lambda>_. False) 0 (ac_tokens (st_auth sample_settings)) [''VAR''] = Inr ()"
    "reject_backend (\<lambda>_. False) (st_storage sample_settings) [''VAR''] = Inr ()"
    by (simp_all add: sample_settings_def references_missing_var_def reject_backend_def starts_with_def)
  have aliases: "build_aliases sample_url_lib quote (st_aliases sample_settings) [] = Inr sample_aliases"
    by code_simp
  have rewrite: "classic_alias_rewrite_map sample_url_lib sample_aliases = []"
    by code_simp
  have "ac_enabled (st_auth sample_settings)" by (simp add: sample_settings_def)
  then show ?thesis
    by (simp only: validate_def limits secrets aliases rewrite bindE_simps if_False list.distinct simp_thms)
qed

theorem validate_no_accidental_republish_witness:
  "\<exists>rc. validate sample_url_lib quote (\<lambda>_. False) sample_settings [''VAR''] = Inr rc
     \<and> (\<exists>a. map_of (rt_aliases rc) ''priv'' = Some a \<and> al_auth a = AuthGcp)
     \<and> ac_enabled (st_auth sample_settings)"
proof -
  let ?rc = "\<lparr>rt_settings = sample_settings, rt_aliases = sample_aliases, rt_classic_alias_by_repo = []\<rparr>"
  have a: "\<exists>a. map_of (rt_aliases ?rc) ''priv'' = Some a \<and> al_auth a = AuthGcp"
    by (simp add: sample_aliases_def)
  then have "\<exists>name a. map_of (rt_aliases ?rc) name = Some a \<and> al_auth a \<noteq> AuthNone" by force
  with conjunct1 [OF validate_no_accidental_republish [OF sample_validate]]
  have "ac_enabled (st_auth sample_settings)" by (simp add: sample_settings_def)
  with a sample_validate show ?thesis by blast
qed

text \<open>The limits of a validated configuration fit together, so that what may be downloaded may
  also be expanded, indexed and retained; and no secret in use still contains a reference to an
  environment variable that was not set.\<close>
theorem validate_limits_and_secrets:
  assumes "validate U debug ua s missing_vars = Inr rc"
  shows "rt_settings rc = s
    \<and> 0 < st_max_index_bytes s \<and> 0 < st_max_expanded_chart_bytes s
    \<and> st_max_chart_bytes s \<le> st_max_expanded_chart_bytes s
    \<and> st_max_chart_bytes s \<le> ec_max_bytes (st_ephemeral_cache s)
    \<and> max_expanded_bytes (for_chart_bytes_with_expansion (st_max_chart_bytes s) (st_max_expanded_chart_bytes s))
        = st_max_expanded_chart_bytes s
    \<and> (\<forall>var\<in>set missing_vars.
         (\<forall>token\<in>set (ac_tokens (st_auth s)). \<not> references_missing_var ua token var) \<and>
         (\<forall>s3. st_storage s = S3 s3 \<longrightarrow> \<not> references_missing_var ua (s3_access_key_id s3) var
            \<and> \<not> references_missing_var ua (s3_secret_access_key s3) var))"
proof -
  from assms have l: "check_limits s = Inr ()" and rc: "rt_settings rc = s"
    and t: "missing_vars \<noteq> [] \<Longrightarrow> reject_tokens ua 0 (ac_tokens (st_auth s)) missing_vars = Inr ()"
    and b: "missing_vars \<noteq> [] \<Longrightarrow> reject_backend ua (st_storage s) missing_vars = Inr ()"
    by (auto elim: validate_Inr)
  have "max_expanded_bytes (for_chart_bytes_with_expansion (st_max_chart_bytes s) (st_max_expanded_chart_bytes s))
      = st_max_expanded_chart_bytes s"
    using leD [OF check_limits_ok(2) [OF l]]
    by (simp add: for_chart_bytes_with_expansion_def for_expanded_bytes_def limits_new_def)
  moreover have "\<forall>token\<in>set (ac_tokens (st_auth s)). \<not> references_missing_var ua token var"
    if "var \<in> set missing_vars" for var
    using that t reject_tokens_ok by (metis empty_iff list.set(1))
  moreover have "\<not> references_missing_var ua (s3_access_key_id s3) var
            \<and> \<not> references_missing_var ua (s3_secret_access_key s3) var"
    if "var \<in> set missing_vars" "st_storage s = S3 s3" for var s3
  proof -
    from that(1) have "missing_vars \<noteq> []" by auto
    from b [OF this] that show ?thesis by (simp add: reject_backend_def bindE_Inr reject_unexpanded_ok)
  qed
  ultimately show ?thesis using rc check_limits_ok [OF l] by blast
qed

theorem validate_limits_and_secrets_witness:
  "\<exists>rc. validate sample_url_lib quote (\<lambda>_. False) sample_settings [''VAR''] = Inr rc
     \<and> \<not> references_missing_var (\<lambda>_. False) ''t0ken'' ''VAR''"
  using validate_limits_and_secrets [OF sample_validate] sample_validate
  by (auto simp: sample_settings_def)

end
