(* ===== verification/Auth.thy ===== *)
theory Auth
  imports App_Error Config Utf8
begin

text \<open>
  \<open>bins/helmoci/src/auth.rs\<close>: the pull authentication in front of every route. Base64 decoding
  (crate \<open>base64\<close>) is the parameter \<open>b64\<close>; \<open>constant_time_eq\<close> is equality. A header value is
  \<open>Some\<close> text when \<open>to_str\<close> accepts it.
\<close>

definition PUBLIC_PATHS :: "string list" where
  "PUBLIC_PATHS = [''/'', ''/healthz'', ''/metrics'']"

definition extract_token :: "(string \<Rightarrow> bytes option) \<Rightarrow> string \<Rightarrow> string option" where
  "extract_token b64 header_value =
     (case split_once (CHR '' '') header_value of
        None \<Rightarrow> None
      | Some (scheme, credentials) \<Rightarrow>
          if credentials = [] \<or> list_ex is_ascii_whitespace credentials then None
          else if eq_ignore_ascii_case scheme ''Bearer'' then Some credentials
          else if \<not> eq_ignore_ascii_case scheme ''Basic'' then None
          else case b64 credentials of
            None \<Rightarrow> None
          | Some raw \<Rightarrow>
              (case from_utf8 raw of
                 None \<Rightarrow> None
               | Some decoded \<Rightarrow>
                   (case split_once (CHR '':'') decoded of
                      None \<Rightarrow> None
                    | Some (_, password) \<Rightarrow> if password \<noteq> [] then Some password else None)))"

text \<open>The token a request presents: exactly one \<open>Authorization\<close> header, readable, well formed.\<close>

definition presented_token :: "(string \<Rightarrow> bytes option) \<Rightarrow> string option list \<Rightarrow> string option" where
  "presented_token b64 authorization =
     (case authorization of
        [Some value] \<Rightarrow> extract_token b64 value
      | _ \<Rightarrow> None)"

definition token_accepted :: "string list \<Rightarrow> string option \<Rightarrow> bool" where
  "token_accepted tokens presented =
     (case presented of
        None \<Rightarrow> False
      | Some token \<Rightarrow> list_ex (\<lambda>expected. expected = token) (filter (\<lambda>expected. expected \<noteq> []) tokens))"

definition unauthorized :: "http_lib \<Rightarrow> 'm response" where
  "unauthorized H =
     (let r = error_response H Unauthorized
      in r\<lparr>rs_headers := header_insert ''www-authenticate'' (''Basic realm='' @ quote ''helmoci'') (rs_headers r)\<rparr>)"

text \<open>The middleware: \<open>next\<close> is the rest of the server.\<close>

definition require_pull_auth ::
  "http_lib \<Rightarrow> (string \<Rightarrow> bytes option) \<Rightarrow> auth_config \<Rightarrow> string \<Rightarrow> string option list \<Rightarrow>
   ('w \<Rightarrow> 'm response \<times> 'w) \<Rightarrow> 'w \<Rightarrow> 'm response \<times> 'w" where
  "require_pull_auth H b64 auth path authorization nxt w =
     (if \<not> ac_enabled auth \<or> path \<in> set PUBLIC_PATHS then nxt w
      else if token_accepted (ac_tokens auth) (presented_token b64 authorization) then nxt w
      else (unauthorized H, w))"

section \<open>Lemmas\<close>

lemma extract_token_not_empty: "extract_token b64 v = Some t \<Longrightarrow> t \<noteq> []"
  by (auto simp: extract_token_def split: option.splits if_splits)

lemma presented_tokenD:
  "presented_token b64 hs = Some t \<Longrightarrow> \<exists>v. hs = [Some v] \<and> extract_token b64 v = Some t"
  by (auto simp: presented_token_def split: list.splits option.splits)

lemma token_acceptedD:
  "token_accepted tokens p \<Longrightarrow> \<exists>t. p = Some t \<and> t \<in> set tokens \<and> t \<noteq> []"
  by (auto simp: token_accepted_def list_ex_iff split: option.splits)

section \<open>Properties\<close>

text \<open>C17. With authentication enabled, the server behind the middleware runs, and its state can only
  change, for a public path or for a request whose single readable Authorization header carries a
  configured non-empty token; every other request gets a 401 with a challenge and no effect.\<close>
theorem pull_auth_gate:
  assumes "ac_enabled auth" and "path \<notin> set PUBLIC_PATHS"
  shows "(require_pull_auth H b64 auth path authorization nxt w = nxt w
      \<and> (\<exists>value token. authorization = [Some value] \<and> extract_token b64 value = Some token
           \<and> token \<in> set (ac_tokens auth) \<and> token \<noteq> []))
    \<or> (\<exists>r. require_pull_auth H b64 auth path authorization nxt w = (r, w) \<and> rs_status r = 401
         \<and> header_get ''www-authenticate'' (rs_headers r) = Some (''Basic realm='' @ quote ''helmoci'')
         \<and> \<not> (\<exists>value token. authorization = [Some value] \<and> extract_token b64 value = Some token
           \<and> token \<in> set (ac_tokens auth)))"
proof (cases "token_accepted (ac_tokens auth) (presented_token b64 authorization)")
  case True
  with assms show ?thesis
    using token_acceptedD [OF True] by (auto simp: require_pull_auth_def dest!: presented_tokenD)
next
  case False
  have "\<not> (\<exists>value token. authorization = [Some value] \<and> extract_token b64 value = Some token
           \<and> token \<in> set (ac_tokens auth))"
    using False extract_token_not_empty
    by (fastforce simp: token_accepted_def presented_token_def list_ex_iff)
  with False assms show ?thesis
    by (simp add: require_pull_auth_def unauthorized_def Let_def)
qed

theorem pull_auth_gate_witness:
  "rs_status (fst (require_pull_auth sample_http (\<lambda>_. None) \<lparr>ac_enabled = True, ac_tokens = [''s'', []]\<rparr>
     ''/v2/'' [Some ''Bearer x''] (\<lambda>w. (text_response 200 [] :: unit response, w)) ())) = 401"
proof -
  let ?auth = "\<lparr>ac_enabled = True, ac_tokens = [''s'', []]\<rparr>"
  have e: "extract_token (\<lambda>_. None) ''Bearer x'' = Some ''x''" by code_simp
  have "ac_enabled ?auth" "''/v2/'' \<notin> set PUBLIC_PATHS" by (simp_all add: PUBLIC_PATHS_def)
  from pull_auth_gate [OF this, of sample_http "\<lambda>_. None" "[Some ''Bearer x'']"
      "\<lambda>w. (text_response 200 [] :: unit response, w)" "()"] e
  show ?thesis by auto
qed

end
