(* ===== verification/Helm_Rewrite.thy ===== *)
theory Helm_Rewrite
  imports Tgz
begin

text \<open>
  \<open>crates/helmoci-core/src/helm/rewrite.rs\<close> and \<open>helm/chart.rs\<close>: rewriting the dependency
  repositories of a chart to \<open>oci://\<close> URLs of the proxy, and the config blob of a chart.
\<close>

section \<open>YAML values and the libraries\<close>

text \<open>\<open>serde_yaml_ng::Value\<close>; a number is kept as its text, and a mapping in insertion order.\<close>

datatype yaml =
    YNull | YBool bool | YNumber string | YString string
  | YSeq "yaml list" | YMap "(yaml \<times> yaml) list" | YTagged string yaml

text \<open>\<open>yl_as_mapping\<close> is \<open>as_mapping_mut\<close>: the entries, and the value in which those entries have
  been replaced. \<open>yl_to_json\<close> is \<open>serde_json::to_vec\<close> on a YAML value.\<close>

record yaml_lib =
  yl_from_str :: "string \<Rightarrow> string + yaml"
  yl_to_string :: "yaml \<Rightarrow> string + string"
  yl_as_mapping :: "yaml \<Rightarrow> ((yaml \<times> yaml) list \<times> ((yaml \<times> yaml) list \<Rightarrow> yaml)) option"
  yl_is_mapping :: "yaml \<Rightarrow> bool"
  yl_as_str :: "yaml \<Rightarrow> string option"
  yl_to_json :: "yaml \<Rightarrow> string + bytes"

text \<open>The libraries the chart pipeline uses.\<close>

record 'u helm_env =
  he_url :: "'u url_lib"
  he_platform :: platform
  he_tar :: tar_reader
  he_writer :: tar_writer
  he_yaml :: yaml_lib

text \<open>The documented law of \<open>as_mapping_mut\<close>: what is written through the reference is read back.\<close>

definition yaml_lens :: "yaml_lib \<Rightarrow> bool" where
  "yaml_lens Y \<longleftrightarrow> (\<forall>v kvs put kvs'. yl_as_mapping Y v = Some (kvs, put) \<longrightarrow>
     yl_as_mapping Y (put kvs') = Some (kvs', put))"

section \<open>One dependency\<close>

record rewrite =
  rw_name :: string
  rw_from :: string
  rw_to :: string

record rewrite_result =
  rr_tgz :: bytes
  rr_modified :: bool
  rr_rewrites :: "rewrite list"

record rewrite_context =
  rc_proxy_host :: string
  rc_classic_alias_by_repo :: "string hashmap"

definition rewrite_dependency_url :: "'u url_lib \<Rightarrow> string \<Rightarrow> rewrite_context \<Rightarrow> string option" where
  "rewrite_dependency_url U repo_url ctx =
     (if repo_url = [] \<or> starts_with ''@'' repo_url \<or> starts_with ''alias:'' repo_url
         \<or> starts_with ''file:'' repo_url \<or> starts_with ''oci://'' repo_url
      then None
      else case ul_parse U repo_url of
        Inl _ \<Rightarrow> None
      | Inr parsed \<Rightarrow>
          if ul_scheme U parsed \<noteq> ''http'' \<and> ul_scheme U parsed \<noteq> ''https'' then None
          else case ul_host_str U parsed of
            None \<Rightarrow> None
          | Some host \<Rightarrow>
              if \<not> is_public_hostname (ul_host_parse U) host then None
              else case normalize_repo_key U repo_url of
                None \<Rightarrow> None
              | Some key \<Rightarrow>
                  (case map_of (rc_classic_alias_by_repo ctx) key of
                     Some al \<Rightarrow> Some (''oci://'' @ rc_proxy_host ctx @ ''/'' @ al)
                   | None \<Rightarrow> Some (''oci://'' @ rc_proxy_host ctx @ ''/'' @ key)))"

definition rewrite_dep ::
  "'u helm_env \<Rightarrow> rewrite_context \<Rightarrow> yaml \<Rightarrow> yaml \<times> rewrite option" where
  "rewrite_dep E ctx dep =
     (case yl_as_mapping (he_yaml E) dep of
        None \<Rightarrow> (dep, None)
      | Some (kvs, put) \<Rightarrow>
          (case map_of kvs (YString ''repository'') of
             Some (YString repo) \<Rightarrow>
               (case rewrite_dependency_url (he_url E) repo ctx of
                  None \<Rightarrow> (dep, None)
                | Some nxt \<Rightarrow>
                    if nxt = repo then (dep, None)
                    else
                      let name = (case Option.bind (map_of kvs (YString ''name''))
                                         (yl_as_str (he_yaml E)) of
                                    None \<Rightarrow> [] | Some n \<Rightarrow> n)
                      in (put (AList.update (YString ''repository'') (YString nxt) kvs),
                          Some \<lparr>rw_name = name, rw_from = repo, rw_to = nxt\<rparr>))
           | _ \<Rightarrow> (dep, None)))"

text \<open>The value under \<open>dependencies\<close> (the \<open>Option<&mut Value>\<close> of the source) afterwards, and the
  rewrites made; \<open>modified\<close> is that list being non-empty.\<close>

definition rewrite_deps_list ::
  "'u helm_env \<Rightarrow> rewrite_context \<Rightarrow> yaml option \<Rightarrow> yaml option \<times> rewrite list" where
  "rewrite_deps_list E ctx deps =
     (case deps of
        Some (YSeq seq) \<Rightarrow>
          (Some (YSeq (map (fst \<circ> rewrite_dep E ctx) seq)),
           List.map_filter (snd \<circ> rewrite_dep E ctx) seq)
      | _ \<Rightarrow> (deps, []))"

text \<open>A document: its mapping, if it is one, with the dependency list rewritten in place.\<close>

definition rewrite_document ::
  "'u helm_env \<Rightarrow> rewrite_context \<Rightarrow> yaml \<Rightarrow> yaml \<times> rewrite list" where
  "rewrite_document E ctx value =
     (case yl_as_mapping (he_yaml E) value of
        None \<Rightarrow> (value, [])
      | Some (kvs, put) \<Rightarrow>
          (case rewrite_deps_list E ctx (map_of kvs (YString ''dependencies'')) of
             (Some deps, rs) \<Rightarrow> (put (AList.update (YString ''dependencies'') deps kvs), rs)
           | (None, rs) \<Rightarrow> (value, rs)))"

section \<open>The archive\<close>

definition set_data :: "nat \<Rightarrow> bytes \<Rightarrow> tgz_file list \<Rightarrow> tgz_file list" where
  "set_data i data files = files[i := (files ! i)\<lparr>tf_data := data\<rparr>]"

definition rewrite_lock ::
  "'u helm_env \<Rightarrow> rewrite_context \<Rightarrow> tgz_file list \<Rightarrow> tgz_file list" where
  "rewrite_lock E ctx files =
     (case position (\<lambda>f. is_root_chart_file (tf_name f) ''Chart.lock'') files of
        None \<Rightarrow> files
      | Some lock_idx \<Rightarrow>
          (case yl_from_str (he_yaml E) (from_utf8_lossy (tf_data (files ! lock_idx))) of
             Inl _ \<Rightarrow> files
           | Inr lock_value \<Rightarrow>
               (case rewrite_document E ctx lock_value of (lock_value', rs) \<Rightarrow>
                  if rs \<noteq> [] then
                    (case yl_to_string (he_yaml E) lock_value' of
                       Inl _ \<Rightarrow> files
                     | Inr new_text \<Rightarrow> set_data lock_idx new_text files)
                  else files)))"

text \<open>The files after rewriting, \<open>None\<close> where the source returns the archive unmodified.\<close>

definition rewrite_files ::
  "'u helm_env \<Rightarrow> rewrite_context \<Rightarrow> tgz_file list \<Rightarrow>
   helm_error + (tgz_file list \<times> rewrite list) option" where
  "rewrite_files E ctx files =
     (case position (\<lambda>f. is_root_chart_file (tf_name f) ''Chart.yaml'') files of
        None \<Rightarrow> Inr None
      | Some chart_idx \<Rightarrow>
          (case yl_from_str (he_yaml E) (from_utf8_lossy (tf_data (files ! chart_idx))) of
             Inl _ \<Rightarrow> Inr None
           | Inr chart_value \<Rightarrow>
               (case rewrite_document E ctx chart_value of (chart_value', rs) \<Rightarrow>
                  if rs = [] then Inr None
                  else bindE (map_errE (\<lambda>e. InvalidChart (''failed to re-encode Chart.yaml: '' @ e))
                                (yl_to_string (he_yaml E) chart_value')) (\<lambda>new_text.
                       Inr (Some (rewrite_lock E ctx (set_data chart_idx new_text files), rs))))))"

definition unmodified :: "bytes \<Rightarrow> rewrite_result" where
  "unmodified tgz = \<lparr>rr_tgz = tgz, rr_modified = False, rr_rewrites = []\<rparr>"

definition rewrite_chart_dependencies_with_limits ::
  "'u helm_env \<Rightarrow> bytes \<Rightarrow> rewrite_context \<Rightarrow> archive_limits \<Rightarrow> helm_error + rewrite_result" where
  "rewrite_chart_dependencies_with_limits E tgz ctx limits =
     (if rc_proxy_host ctx = [] then Inr (unmodified tgz)
      else
        bindE (unpack_tgz_with_limits (he_platform E) (he_tar E) tgz limits) (\<lambda>files.
        bindE (rewrite_files E ctx files) (\<lambda>res.
        case res of
          None \<Rightarrow> Inr (unmodified tgz)
        | Some (files', rewrites) \<Rightarrow>
            bindE (pack_tgz (he_writer E) files') (\<lambda>packed.
            Inr \<lparr>rr_tgz = packed, rr_modified = True, rr_rewrites = rewrites\<rparr>))))"

section \<open>The config blob\<close>

definition chart_config_from_tgz_with_limits ::
  "'u helm_env \<Rightarrow> bytes \<Rightarrow> archive_limits \<Rightarrow> helm_error + bytes" where
  "chart_config_from_tgz_with_limits E tgz limits =
     bindE (unpack_tgz_with_limits (he_platform E) (he_tar E) tgz limits) (\<lambda>files.
     bindE (ok_or (InvalidChart ''Chart.yaml not found in chart archive'')
              (List.find (\<lambda>f. is_root_chart_file (tf_name f) ''Chart.yaml'') files)) (\<lambda>chart.
     bindE (map_errE (\<lambda>e. InvalidChart (''Chart.yaml is not valid YAML: '' @ e))
              (yl_from_str (he_yaml E) (from_utf8_lossy (tf_data chart)))) (\<lambda>value.
     if \<not> yl_is_mapping (he_yaml E) value
     then Inl (InvalidChart ''Chart.yaml did not parse to an object'')
     else map_errE (\<lambda>e. InvalidChart (''Chart.yaml could not be encoded as JSON: '' @ e))
            (yl_to_json (he_yaml E) value))))"

section \<open>Lemmas\<close>

lemma rewrite_dependency_url_Some:
  assumes "rewrite_dependency_url U repo ctx = Some nxt"
  obtains parsed host key where "ul_parse U repo = Inr parsed" "ul_host_str U parsed = Some host"
    "ul_scheme U parsed = ''http'' \<or> ul_scheme U parsed = ''https''"
    "is_public_hostname (ul_host_parse U) host" "normalize_repo_key U repo = Some key"
    "nxt = ''oci://'' @ rc_proxy_host ctx @ ''/'' @
       (case map_of (rc_classic_alias_by_repo ctx) key of Some al \<Rightarrow> al | None \<Rightarrow> key)"
    "\<not> starts_with ''oci://'' repo"
  using assms
  by (auto simp: rewrite_dependency_url_def split: if_split_asm sum.split_asm option.split_asm)

lemma rewrite_dependency_url_oci [simp]:
  "rewrite_dependency_url U (''oci://'' @ s) ctx = None"
  by (simp only: rewrite_dependency_url_def starts_with_append simp_thms if_True)

lemma rewrite_dependency_url_twice:
  "rewrite_dependency_url U repo ctx = Some nxt \<Longrightarrow> rewrite_dependency_url U nxt ctx' = None"
  by (elim rewrite_dependency_url_Some) (simp only: rewrite_dependency_url_oci)

lemma rewrite_dep_None: "snd (rewrite_dep E ctx dep) = None \<Longrightarrow> fst (rewrite_dep E ctx dep) = dep"
  by (auto simp: rewrite_dep_def Let_def split: option.splits yaml.splits)

lemma rewrite_dep_SomeD:
  assumes "snd (rewrite_dep E ctx dep) = Some r"
  obtains kvs put where "yl_as_mapping (he_yaml E) dep = Some (kvs, put)"
    "map_of kvs (YString ''repository'') = Some (YString (rw_from r))"
    "rewrite_dependency_url (he_url E) (rw_from r) ctx = Some (rw_to r)"
    "fst (rewrite_dep E ctx dep) = put (AList.update (YString ''repository'') (YString (rw_to r)) kvs)"
  using assms
  by (auto simp: rewrite_dep_def Let_def split: option.split_asm yaml.split_asm prod.split_asm if_split_asm)

text \<open>A dependency that has been rewritten is left alone by any later rewriting.\<close>

lemma rewrite_dep_twice:
  assumes "yaml_lens (he_yaml E)"
  shows "rewrite_dep E ctx' (fst (rewrite_dep E ctx dep)) = (fst (rewrite_dep E ctx dep), None)
    \<or> snd (rewrite_dep E ctx dep) = None"
proof (cases "snd (rewrite_dep E ctx dep)")
  case (Some r)
  then obtain kvs put where d: "yl_as_mapping (he_yaml E) dep = Some (kvs, put)"
    "rewrite_dependency_url (he_url E) (rw_from r) ctx = Some (rw_to r)"
    "fst (rewrite_dep E ctx dep) = put (AList.update (YString ''repository'') (YString (rw_to r)) kvs)"
    by (elim rewrite_dep_SomeD)
  from assms d(1) have m: "yl_as_mapping (he_yaml E) (put kvs') = Some (kvs', put)" for kvs'
    unfolding yaml_lens_def by blast
  have "map_of (AList.update k v kvs) k = Some v" for k v :: yaml
    by (simp add: update_conv')
  with m rewrite_dependency_url_twice [OF d(2)] show ?thesis
    unfolding d(3) by (simp add: rewrite_dep_def)
qed simp

lemma length_set_data [simp]: "length (set_data i d fs) = length fs"
  by (simp add: set_data_def)

lemma nth_set_data: "j \<noteq> i \<Longrightarrow> set_data i d fs ! j = fs ! j"
  by (simp add: set_data_def)

lemma set_data_names: "map tf_name (set_data i d fs) = map tf_name fs"
proof (cases "i < length fs")
  case True
  then show ?thesis
    by (auto simp: set_data_def intro!: nth_equalityI simp: nth_list_update)
next
  case False
  then show ?thesis by (simp add: set_data_def list_update_beyond)
qed

definition same_but_data :: "tgz_file \<Rightarrow> tgz_file \<Rightarrow> bool" where
  "same_but_data f g \<longleftrightarrow> tf_name f = tf_name g \<and> tf_mode f = tf_mode g \<and> tf_mtime f = tf_mtime g"

definition is_rewritten_name :: "string \<Rightarrow> bool" where
  "is_rewritten_name n \<longleftrightarrow> is_root_chart_file n ''Chart.yaml'' \<or> is_root_chart_file n ''Chart.lock''"

text \<open>What a rewriting may do to the list of files: replace the contents of root chart files.\<close>

definition files_frame :: "tgz_file list \<Rightarrow> tgz_file list \<Rightarrow> bool" where
  "files_frame fs gs \<longleftrightarrow> list_all2 (\<lambda>f g. same_but_data f g \<and> (\<not> is_rewritten_name (tf_name f) \<longrightarrow> f = g)) fs gs"

lemma files_frame_refl [simp]: "files_frame fs fs"
  by (auto simp: files_frame_def same_but_data_def intro: list_all2_refl)

lemma files_frame_trans:
  assumes "files_frame fs gs" "files_frame gs hs"
  shows "files_frame fs hs"
  unfolding files_frame_def
proof (rule list_all2_trans [OF _ assms [unfolded files_frame_def]])
  fix f g h
  assume fg: "same_but_data f g \<and> (\<not> is_rewritten_name (tf_name f) \<longrightarrow> f = g)"
    and gh: "same_but_data g h \<and> (\<not> is_rewritten_name (tf_name g) \<longrightarrow> g = h)"
  show "same_but_data f h \<and> (\<not> is_rewritten_name (tf_name f) \<longrightarrow> f = h)"
    using fg gh unfolding same_but_data_def by metis
qed

lemma files_frame_set_data:
  "i < length fs \<Longrightarrow> is_rewritten_name (tf_name (fs ! i)) \<Longrightarrow> files_frame fs (set_data i d fs)"
  by (auto simp: files_frame_def list_all2_conv_all_nth set_data_def nth_list_update same_but_data_def)

lemma rewrite_lock_frame: "files_frame fs (rewrite_lock E ctx fs)"
  using position_Some [of "\<lambda>f. is_root_chart_file (tf_name f) ''Chart.lock''" fs]
  by (auto simp: rewrite_lock_def is_rewritten_name_def intro!: files_frame_set_data
           split: option.splits sum.splits prod.splits)

lemma rewrite_files_frame:
  assumes "rewrite_files E ctx fs = Inr (Some (gs, rs))"
  shows "files_frame fs gs \<and> rs \<noteq> []"
proof -
  from assms obtain i new_text where i: "position (\<lambda>f. is_root_chart_file (tf_name f) ''Chart.yaml'') fs = Some i"
    "gs = rewrite_lock E ctx (set_data i new_text fs)" "rs \<noteq> []"
    by (auto simp: rewrite_files_def res_simps split: option.splits sum.splits prod.splits if_splits)
  with position_Some [OF i(1)] have "files_frame fs (set_data i new_text fs)"
    by (intro files_frame_set_data) (auto simp: is_rewritten_name_def)
  with i rewrite_lock_frame files_frame_trans show ?thesis by blast
qed

lemma rewrite_modified:
  assumes "rewrite_chart_dependencies_with_limits E tgz ctx limits = Inr r"
  shows "rr_modified r \<longleftrightarrow> rr_rewrites r \<noteq> []"
proof (cases "rc_proxy_host ctx = []")
  case True
  with assms show ?thesis
    by (auto simp: rewrite_chart_dependencies_with_limits_def unmodified_def)
next
  case False
  with assms obtain files res where
    "rewrite_files E ctx files = Inr res"
    "(case res of None \<Rightarrow> Inr (unmodified tgz)
        | Some (files', rewrites) \<Rightarrow>
            bindE (pack_tgz (he_writer E) files') (\<lambda>packed.
            Inr \<lparr>rr_tgz = packed, rr_modified = True, rr_rewrites = rewrites\<rparr>)) = Inr r"
    by (auto simp: rewrite_chart_dependencies_with_limits_def res_simps)
  then show ?thesis
    using rewrite_files_frame [of E ctx files]
    by (auto simp: unmodified_def res_simps split: option.splits prod.splits)
qed

section \<open>Properties\<close>

text \<open>C25. A dependency URL is only ever rewritten to \<open>oci://<proxy>/<alias or key>\<close>; this happens
  only for an HTTP(S) URL with a public host and no explicit port, never for an \<open>oci://\<close>,
  \<open>file:\<close>, \<open>alias:\<close> or \<open>@\<close> reference, and the result is never rewritten again.\<close>
theorem rewrite_dependency_url_sound:
  assumes "rewrite_dependency_url U repo ctx = Some nxt"
  shows "(\<exists>u host key. ul_parse U repo = Inr u \<and> ul_host_str U u = Some host \<and> ul_port U u = None \<and>
      (ul_scheme U u = ''http'' \<or> ul_scheme U u = ''https'') \<and>
      is_public_hostname (ul_host_parse U) host \<and> normalize_repo_key U repo = Some key \<and>
      nxt = ''oci://'' @ rc_proxy_host ctx @ ''/'' @
        (case map_of (rc_classic_alias_by_repo ctx) key of Some al \<Rightarrow> al | None \<Rightarrow> key))
    \<and> \<not> starts_with ''oci://'' repo \<and> rewrite_dependency_url U nxt ctx' = None"
proof -
  from assms obtain u host key where *: "ul_parse U repo = Inr u" "ul_host_str U u = Some host"
    "ul_scheme U u = ''http'' \<or> ul_scheme U u = ''https''" "is_public_hostname (ul_host_parse U) host"
    "normalize_repo_key U repo = Some key"
    "nxt = ''oci://'' @ rc_proxy_host ctx @ ''/'' @
       (case map_of (rc_classic_alias_by_repo ctx) key of Some al \<Rightarrow> al | None \<Rightarrow> key)"
    "\<not> starts_with ''oci://'' repo"
    by (elim rewrite_dependency_url_Some)
  from *(1,5) have "ul_port U u = None"
    by (auto simp: normalize_repo_key_def split: if_split_asm)
  with * rewrite_dependency_url_twice [OF assms, of ctx'] show ?thesis
    by (intro conjI exI [of _ u] exI [of _ host] exI [of _ key])
qed

theorem rewrite_dependency_url_sound_witness:
  "rewrite_dependency_url sample_url_lib ''https://a.io/x''
     \<lparr>rc_proxy_host = ''p.test'', rc_classic_alias_by_repo = []\<rparr> = Some ''oci://p.test/a.io/x''
   \<and> rewrite_dependency_url sample_url_lib ''oci://p.test/a.io/x''
     \<lparr>rc_proxy_host = ''p.test'', rc_classic_alias_by_repo = []\<rparr> = None"
proof -
  let ?ctx = "\<lparr>rc_proxy_host = ''p.test'', rc_classic_alias_by_repo = []\<rparr>"
  have r: "rewrite_dependency_url sample_url_lib ''https://a.io/x'' ?ctx = Some ''oci://p.test/a.io/x''"
    by code_simp
  from rewrite_dependency_url_sound [OF r, of ?ctx] r show ?thesis by blast
qed

text \<open>C26. Rewriting is idempotent: in a dependency list that has been rewritten, a second
  rewriting, whatever its proxy host and aliases, finds every rewritten dependency untouched.\<close>
theorem rewrite_deps_idempotent:
  assumes "yaml_lens (he_yaml E)"
  shows "rewrite_deps_list E ctx (fst (rewrite_deps_list E ctx deps))
     = (fst (rewrite_deps_list E ctx deps), [])"
proof -
  have dep: "rewrite_dep E ctx (fst (rewrite_dep E ctx d)) = (fst (rewrite_dep E ctx d), None)" for d
    using rewrite_dep_twice [OF assms, of ctx ctx d] rewrite_dep_None [of E ctx d]
    by (metis prod.collapse)
  have "map (fst \<circ> rewrite_dep E ctx) (map (fst \<circ> rewrite_dep E ctx) seq)
        = map (fst \<circ> rewrite_dep E ctx) seq" for seq
    by (simp add: dep comp_def)
  moreover have "List.map_filter (snd \<circ> rewrite_dep E ctx) (map (fst \<circ> rewrite_dep E ctx) seq) = []"
    for seq
    by (induction seq) (simp_all add: List.map_filter_simps dep)
  ultimately show ?thesis
    by (auto simp: rewrite_deps_list_def split: option.splits yaml.splits)
qed

text \<open>C27. Frame of the archive rewriting: either the archive comes back byte for byte, or the
  packed files are those of the archive with their order, names, modes and times, and only the
  contents of a root \<open>Chart.yaml\<close> or \<open>Chart.lock\<close> differ.\<close>
theorem rewrite_archive_frame:
  assumes "rewrite_chart_dependencies_with_limits E tgz ctx limits = Inr r"
  shows "(rr_modified r = False \<and> rr_tgz r = tgz \<and> rr_rewrites r = [])
    \<or> (rr_modified r \<and> rr_rewrites r \<noteq> [] \<and>
       (\<exists>files files'. unpack_tgz_with_limits (he_platform E) (he_tar E) tgz limits = Inr files \<and>
          pack_tgz (he_writer E) files' = Inr (rr_tgz r) \<and> files_frame files files'))"
proof (cases "rc_proxy_host ctx = []")
  case True
  with assms show ?thesis
    by (auto simp: rewrite_chart_dependencies_with_limits_def unmodified_def)
next
  case False
  with assms obtain files res where
    "unpack_tgz_with_limits (he_platform E) (he_tar E) tgz limits = Inr files"
    "rewrite_files E ctx files = Inr res"
    "(case res of None \<Rightarrow> Inr (unmodified tgz)
        | Some (files', rewrites) \<Rightarrow>
            bindE (pack_tgz (he_writer E) files') (\<lambda>packed.
            Inr \<lparr>rr_tgz = packed, rr_modified = True, rr_rewrites = rewrites\<rparr>)) = Inr r"
    by (auto simp: rewrite_chart_dependencies_with_limits_def res_simps)
  then show ?thesis
    using rewrite_files_frame [of E ctx files]
    by (auto simp: unmodified_def res_simps split: option.splits prod.splits)
qed

section \<open>A sample environment\<close>

definition sample_yaml_lib :: "yaml \<Rightarrow> yaml_lib" where
  "sample_yaml_lib doc = \<lparr>
     yl_from_str = (\<lambda>_. Inr doc), yl_to_string = (\<lambda>_. Inr ''rewritten''),
     yl_as_mapping = (\<lambda>v. case v of YMap kvs \<Rightarrow> Some (kvs, YMap) | _ \<Rightarrow> None),
     yl_is_mapping = (\<lambda>v. case v of YMap kvs \<Rightarrow> True | _ \<Rightarrow> False),
     yl_as_str = (\<lambda>v. case v of YString s \<Rightarrow> Some s | _ \<Rightarrow> None),
     yl_to_json = (\<lambda>_. Inr ''{}'')\<rparr>"

definition sample_helm_env :: "yaml \<Rightarrow> tgz_file list \<Rightarrow> sample_url helm_env" where
  "sample_helm_env doc files = \<lparr>
     he_url = sample_url_lib, he_platform = ample_platform,
     he_tar = (\<lambda>_. Inr (map (\<lambda>f. Inr (file_entry f)) files)),
     he_writer = \<lparr>tw_append = (\<lambda>_ n d b. Inr (b @ n @ d)), tw_finish = Inr, tw_gzip = Inr\<rparr>,
     he_yaml = sample_yaml_lib doc\<rparr>"

definition sample_dependencies :: yaml where
  "sample_dependencies =
     YSeq [YMap [(YString ''name'', YString ''redis''), (YString ''repository'', YString ''https://a.io/x'')]]"

definition sample_chart_yaml :: yaml where
  "sample_chart_yaml = YMap [(YString ''dependencies'', sample_dependencies)]"

definition sample_rewrite_context :: rewrite_context where
  "sample_rewrite_context = \<lparr>rc_proxy_host = ''p.test'', rc_classic_alias_by_repo = []\<rparr>"

lemma sample_yaml_lens: "yaml_lens (he_yaml (sample_helm_env doc files))"
  by (auto simp: yaml_lens_def sample_helm_env_def sample_yaml_lib_def split: yaml.splits)

theorem rewrite_deps_idempotent_witness:
  "let E = sample_helm_env YNull []; ctx = sample_rewrite_context;
       first = rewrite_deps_list E ctx (Some sample_dependencies)
   in snd first = [\<lparr>rw_name = ''redis'', rw_from = ''https://a.io/x'', rw_to = ''oci://p.test/a.io/x''\<rparr>]
      \<and> rewrite_deps_list E ctx (fst first) = (fst first, [])"
proof -
  have "snd (rewrite_deps_list (sample_helm_env YNull []) sample_rewrite_context (Some sample_dependencies))
    = [\<lparr>rw_name = ''redis'', rw_from = ''https://a.io/x'', rw_to = ''oci://p.test/a.io/x''\<rparr>]"
    by code_simp
  then show ?thesis
    unfolding Let_def
    by (rule conjI) (rule rewrite_deps_idempotent [OF sample_yaml_lens])
qed

definition sample_chart_file :: tgz_file where
  "sample_chart_file = \<lparr>tf_name = ''d/Chart.yaml'', tf_data = ''name: d'', tf_mode = 420, tf_mtime = 0\<rparr>"

lemma sample_unpack:
  "unpack_tgz_with_limits ample_platform (he_tar (sample_helm_env doc [sample_chart_file])) tgz
     (limits_new 64 16 8) = Inr [sample_chart_file]"
  by (simp add: unpack_tgz_with_limits_def unpack_file_entry unpack_start_def limits_new_def
        no_pending_def pending_is_empty_def sample_helm_env_def sample_chart_file_def)

text \<open>A whole archive rewritten: the frame theorem applied to a chart with one dependency.\<close>

theorem rewrite_archive_frame_witness:
  "\<exists>r. rewrite_chart_dependencies_with_limits (sample_helm_env sample_chart_yaml [sample_chart_file])
       ''gz'' sample_rewrite_context (limits_new 64 16 8) = Inr r
     \<and> rr_modified r \<and> length (rr_rewrites r) = 1
     \<and> (\<exists>f. pack_tgz (he_writer (sample_helm_env sample_chart_yaml [sample_chart_file])) [f] = Inr (rr_tgz r)
          \<and> same_but_data sample_chart_file f)"
proof -
  let ?E = "sample_helm_env sample_chart_yaml [sample_chart_file]"
  have files: "rewrite_files ?E sample_rewrite_context [sample_chart_file]
      = Inr (Some ([sample_chart_file\<lparr>tf_data := ''rewritten''\<rparr>],
          [\<lparr>rw_name = ''redis'', rw_from = ''https://a.io/x'', rw_to = ''oci://p.test/a.io/x''\<rparr>]))"
    by code_simp
  obtain packed where p: "pack_tgz (he_writer ?E) [sample_chart_file\<lparr>tf_data := ''rewritten''\<rparr>] = Inr packed"
    by (simp add: pack_tgz_def sample_helm_env_def)
  have env: "he_platform ?E = ample_platform" "rc_proxy_host sample_rewrite_context \<noteq> []"
    by (simp_all add: sample_helm_env_def sample_rewrite_context_def)
  obtain r where r: "rewrite_chart_dependencies_with_limits ?E ''gz'' sample_rewrite_context
      (limits_new 64 16 8) = Inr r" "rr_modified r" "length (rr_rewrites r) = 1"
    by (simp add: rewrite_chart_dependencies_with_limits_def env sample_unpack files p)
  from rewrite_archive_frame [OF r(1)] r(2) obtain files' where
    "pack_tgz (he_writer ?E) files' = Inr (rr_tgz r)" "files_frame [sample_chart_file] files'"
    by (auto simp: env sample_unpack)
  then obtain f where "pack_tgz (he_writer ?E) [f] = Inr (rr_tgz r)" "same_but_data sample_chart_file f"
    by (auto simp: files_frame_def list_all2_Cons1)
  with r show ?thesis by blast
qed

end
