(* ===== verification/Oci_Build.thy ===== *)
theory Oci_Build
  imports Oci Helm_Rewrite
begin

text \<open>
  \<open>crates/helmoci-core/src/oci/build.rs\<close>: turning a classic chart archive into the three
  content-addressed blobs of an OCI artifact (config, layer, manifest) and its tag pointer.
  \<open>sha\<close> is SHA-256 in hexadecimal and \<open>manifest_json\<close> is \<open>serde_json::to_vec\<close> on a manifest.
\<close>

section \<open>The artifact\<close>

record built_chart =
  bc_manifest_bytes :: bytes
  bc_manifest_digest :: digest
  bc_config_bytes :: bytes
  bc_config_digest :: digest
  bc_layer_bytes :: bytes
  bc_layer_digest :: digest
  bc_pointer :: tag_pointer
  bc_rewrites :: "rewrite list"

definition helm_manifest :: "digest \<Rightarrow> bytes \<Rightarrow> digest \<Rightarrow> bytes \<Rightarrow> oci_manifest" where
  "helm_manifest config_digest config_bytes layer_digest layer_bytes =
     \<lparr>om_schema_version = 2, om_media_type = MEDIA_TYPE_MANIFEST,
      om_config = \<lparr>od_media_type = MEDIA_TYPE_HELM_CONFIG, od_digest = config_digest,
                   od_size = of_nat (length config_bytes)\<rparr>,
      om_layers = [\<lparr>od_media_type = MEDIA_TYPE_HELM_CHART, od_digest = layer_digest,
                    od_size = of_nat (length layer_bytes)\<rparr>]\<rparr>"

definition build_helm_oci_chart_with_limits ::
  "'u helm_env \<Rightarrow> (bytes \<Rightarrow> string) \<Rightarrow> (oci_manifest \<Rightarrow> string + bytes) \<Rightarrow>
   bytes \<Rightarrow> rewrite_context \<Rightarrow> archive_limits \<Rightarrow> helm_error + built_chart" where
  "build_helm_oci_chart_with_limits E sha manifest_json chart_tgz ctx limits =
     bindE (rewrite_chart_dependencies_with_limits E chart_tgz ctx limits) (\<lambda>rewritten.
     let layer_bytes = (if rr_modified rewritten then rr_tgz rewritten else chart_tgz) in
     bindE (chart_config_from_tgz_with_limits E layer_bytes limits) (\<lambda>config_bytes.
     let config_digest = digest_sha256 sha config_bytes;
         layer_digest = digest_sha256 sha layer_bytes;
         manifest = helm_manifest config_digest config_bytes layer_digest layer_bytes in
     bindE (map_errE (\<lambda>e. InvalidChart (''failed to encode manifest: '' @ e)) (manifest_json manifest))
       (\<lambda>manifest_bytes.
     let manifest_digest = digest_sha256 sha manifest_bytes in
     Inr \<lparr>bc_manifest_bytes = manifest_bytes, bc_manifest_digest = manifest_digest,
          bc_config_bytes = config_bytes, bc_config_digest = config_digest,
          bc_layer_bytes = layer_bytes, bc_layer_digest = layer_digest,
          bc_pointer = \<lparr>tp_digest = manifest_digest, tp_media_type = MEDIA_TYPE_MANIFEST,
                        tp_size = of_nat (length manifest_bytes)\<rparr>,
          bc_rewrites = rr_rewrites rewritten\<rparr>)))"

section \<open>Lemmas\<close>

text \<open>The three blobs of an artifact, as the handlers store them.\<close>

definition built_blobs :: "built_chart \<Rightarrow> (digest \<times> bytes) list" where
  "built_blobs b = [(bc_layer_digest b, bc_layer_bytes b), (bc_config_digest b, bc_config_bytes b),
     (bc_manifest_digest b, bc_manifest_bytes b)]"

lemma build_Inr:
  assumes "build_helm_oci_chart_with_limits E sha manifest_json chart_tgz ctx limits = Inr b"
  obtains rewritten where
    "rewrite_chart_dependencies_with_limits E chart_tgz ctx limits = Inr rewritten"
    "bc_layer_bytes b = (if rr_modified rewritten then rr_tgz rewritten else chart_tgz)"
    "chart_config_from_tgz_with_limits E (bc_layer_bytes b) limits = Inr (bc_config_bytes b)"
    "bc_config_digest b = digest_sha256 sha (bc_config_bytes b)"
    "bc_layer_digest b = digest_sha256 sha (bc_layer_bytes b)"
    "bc_manifest_digest b = digest_sha256 sha (bc_manifest_bytes b)"
    "manifest_json (helm_manifest (bc_config_digest b) (bc_config_bytes b) (bc_layer_digest b)
       (bc_layer_bytes b)) = Inr (bc_manifest_bytes b)"
    "bc_pointer b = \<lparr>tp_digest = bc_manifest_digest b, tp_media_type = MEDIA_TYPE_MANIFEST,
       tp_size = of_nat (length (bc_manifest_bytes b))\<rparr>"
    "bc_rewrites b = rr_rewrites rewritten"
proof -
  from assms obtain rewritten config_bytes manifest_bytes where
    r: "rewrite_chart_dependencies_with_limits E chart_tgz ctx limits = Inr rewritten" and
    c: "chart_config_from_tgz_with_limits E
          (if rr_modified rewritten then rr_tgz rewritten else chart_tgz) limits = Inr config_bytes" and
    m: "manifest_json (helm_manifest (digest_sha256 sha config_bytes) config_bytes
          (digest_sha256 sha (if rr_modified rewritten then rr_tgz rewritten else chart_tgz))
          (if rr_modified rewritten then rr_tgz rewritten else chart_tgz)) = Inr manifest_bytes"
    unfolding build_helm_oci_chart_with_limits_def Let_def bindE_Inr map_errE_Inr by blast
  from assms have b: "b = \<lparr>bc_manifest_bytes = manifest_bytes,
      bc_manifest_digest = digest_sha256 sha manifest_bytes,
      bc_config_bytes = config_bytes, bc_config_digest = digest_sha256 sha config_bytes,
      bc_layer_bytes = (if rr_modified rewritten then rr_tgz rewritten else chart_tgz),
      bc_layer_digest = digest_sha256 sha
        (if rr_modified rewritten then rr_tgz rewritten else chart_tgz),
      bc_pointer = \<lparr>tp_digest = digest_sha256 sha manifest_bytes,
         tp_media_type = MEDIA_TYPE_MANIFEST, tp_size = of_nat (length manifest_bytes)\<rparr>,
      bc_rewrites = rr_rewrites rewritten\<rparr>"
    by (simp only: build_helm_oci_chart_with_limits_def Let_def r c m bindE_simps map_errE_simps
          sum.inject)
  show thesis
    by (rule that [OF r]; simp only: b built_chart.simps) (fact c m)+
qed

lemma build_blobs_hashed:
  "build_helm_oci_chart_with_limits E sha manifest_json chart_tgz ctx limits = Inr b \<Longrightarrow>
   (d, data) \<in> set (built_blobs b) \<Longrightarrow> d = digest_sha256 sha data"
  by (erule build_Inr) (auto simp: built_blobs_def)

section \<open>Properties\<close>

text \<open>C8. A built artifact is consistent: each of its three blobs carries the digest of its own
  bytes, the manifest is the encoding of descriptors that name exactly the stored config and
  layer with their lengths, the tag pointer names the manifest, and when nothing was rewritten
  the layer is the archive as downloaded.\<close>
theorem built_chart_consistent:
  assumes "build_helm_oci_chart_with_limits E sha manifest_json chart_tgz ctx limits = Inr b"
  shows "bc_config_digest b = digest_sha256 sha (bc_config_bytes b)
    \<and> bc_layer_digest b = digest_sha256 sha (bc_layer_bytes b)
    \<and> bc_manifest_digest b = digest_sha256 sha (bc_manifest_bytes b)
    \<and> (\<exists>m. manifest_json m = Inr (bc_manifest_bytes b)
         \<and> od_digest (om_config m) = bc_config_digest b
         \<and> od_size (om_config m) = of_nat (length (bc_config_bytes b))
         \<and> map od_digest (om_layers m) = [bc_layer_digest b]
         \<and> map od_size (om_layers m) = [of_nat (length (bc_layer_bytes b))])
    \<and> tp_digest (bc_pointer b) = bc_manifest_digest b
    \<and> tp_size (bc_pointer b) = of_nat (length (bc_manifest_bytes b))
    \<and> (bc_rewrites b = [] \<longrightarrow> bc_layer_bytes b = chart_tgz)"
proof -
  from assms obtain rewritten where r:
    "rewrite_chart_dependencies_with_limits E chart_tgz ctx limits = Inr rewritten"
    "bc_layer_bytes b = (if rr_modified rewritten then rr_tgz rewritten else chart_tgz)"
    "bc_config_digest b = digest_sha256 sha (bc_config_bytes b)"
    "bc_layer_digest b = digest_sha256 sha (bc_layer_bytes b)"
    "bc_manifest_digest b = digest_sha256 sha (bc_manifest_bytes b)"
    "manifest_json (helm_manifest (bc_config_digest b) (bc_config_bytes b) (bc_layer_digest b)
       (bc_layer_bytes b)) = Inr (bc_manifest_bytes b)"
    "bc_pointer b = \<lparr>tp_digest = bc_manifest_digest b, tp_media_type = MEDIA_TYPE_MANIFEST,
       tp_size = of_nat (length (bc_manifest_bytes b))\<rparr>"
    "bc_rewrites b = rr_rewrites rewritten"
    by (rule build_Inr)
  from r(1,2,8) rewrite_modified [OF r(1)] have "bc_rewrites b = [] \<longrightarrow> bc_layer_bytes b = chart_tgz"
    by simp
  with r show ?thesis
    by (intro conjI exI [of _ "helm_manifest (bc_config_digest b) (bc_config_bytes b)
         (bc_layer_digest b) (bc_layer_bytes b)"]) (simp_all add: helm_manifest_def)
qed

definition sample_manifest_json :: "oci_manifest \<Rightarrow> string + bytes" where
  "sample_manifest_json m = Inr (as_str (od_digest (om_config m)) @ concat (map (as_str \<circ> od_digest) (om_layers m)))"

theorem built_chart_consistent_witness:
  "\<exists>b. build_helm_oci_chart_with_limits (sample_helm_env (YMap []) [sample_chart_file]) sample_sha
       sample_manifest_json ''gz'' sample_rewrite_context (limits_new 64 16 8) = Inr b
     \<and> bc_layer_bytes b = ''gz'' \<and> bc_manifest_digest b = digest_sha256 sample_sha (bc_manifest_bytes b)"
proof -
  let ?E = "sample_helm_env (YMap []) [sample_chart_file]"
  have files: "rewrite_files ?E sample_rewrite_context [sample_chart_file] = Inr None"
    by code_simp
  have env: "he_platform ?E = ample_platform" "rc_proxy_host sample_rewrite_context \<noteq> []"
    by (simp_all add: sample_helm_env_def sample_rewrite_context_def)
  have r: "rewrite_chart_dependencies_with_limits ?E ''gz'' sample_rewrite_context (limits_new 64 16 8)
    = Inr (unmodified ''gz'')"
    by (simp add: rewrite_chart_dependencies_with_limits_def env sample_unpack files)
  have find: "List.find (\<lambda>f. is_root_chart_file (tf_name f) ''Chart.yaml'') [sample_chart_file] = Some sample_chart_file"
    by code_simp
  have c: "chart_config_from_tgz_with_limits ?E ''gz'' (limits_new 64 16 8) = Inr ''{}''"
    by (simp only: chart_config_from_tgz_with_limits_def env sample_unpack bindE_simps find ok_or_simps)
       (simp add: sample_helm_env_def sample_yaml_lib_def)
  obtain b where b: "build_helm_oci_chart_with_limits ?E sample_sha sample_manifest_json ''gz''
      sample_rewrite_context (limits_new 64 16 8) = Inr b" "bc_rewrites b = []"
    by (simp add: build_helm_oci_chart_with_limits_def r c unmodified_def sample_manifest_json_def Let_def)
  with built_chart_consistent [OF b(1)] show ?thesis by blast
qed

end
