(* ===== verification/Objstore.thy ===== *)
theory Objstore
  imports Storage
begin

text \<open>
  \<open>crates/helmoci-storage/src/objstore.rs\<close>: storage on an object store. The \<open>object_store\<close> crate is
  a parameter: its four operations on a backend state \<open>'s\<close>, which may fail in any of the ways its
  error type has, and its path parser. \<open>object_store_laws\<close> states its documented behaviour: reads
  return what is stored, a write touches one path and stores all of the bytes or nothing, and
  \<open>PutMode::Create\<close> never replaces an object.
\<close>

section \<open>The object store\<close>

datatype os_error =
    OsNotFound string | OsAlreadyExists string | OsNotSupported string | OsNotImplemented
  | OsGeneric string | OsOther string

datatype attribute = AttrContentType | AttrMetadata string

type_synonym attributes = "(attribute \<times> string) list"

datatype put_mode = Create | Overwrite

record get_result =
  gr_size :: u64
  gr_attributes :: attributes
  gr_chunks :: "(os_error + bytes) list"

record 's object_store =
  os_head :: "string \<Rightarrow> ('s, os_error, u64) act"
  os_get :: "string \<Rightarrow> ('s, os_error, get_result) act"
  os_put_opts :: "string \<Rightarrow> bytes \<Rightarrow> put_mode \<Rightarrow> attributes \<Rightarrow> ('s, os_error, unit) act"
  os_put :: "string \<Rightarrow> bytes \<Rightarrow> ('s, os_error, unit) act"
  os_path_parse :: "string \<Rightarrow> string + string"
  os_error_text :: "os_error \<Rightarrow> string"

definition MAX_TAG_POINTER_BYTES :: nat where
  "MAX_TAG_POINTER_BYTES = 8 * 1024"

section \<open>Writing\<close>

definition os_path :: "'s object_store \<Rightarrow> storage_op \<Rightarrow> string \<Rightarrow> storage_error + string" where
  "os_path B op key = map_errE (\<lambda>source. Backend op (''invalid key '' @ key @ '': '' @ source))
     (os_path_parse B key)"

definition already_stored :: "'s object_store \<Rightarrow> string \<Rightarrow> ('s, 'e, bool) act" where
  "already_stored B path = catchA (os_head B path) (\<lambda>r.
     case r of
       Inr _ \<Rightarrow> returnA True
     | Inl (OsNotFound _) \<Rightarrow> returnA False
     | Inl _ \<Rightarrow> returnA False)"

definition put_once ::
  "'s object_store \<Rightarrow> string \<Rightarrow> bytes \<Rightarrow> attributes \<Rightarrow> put_mode \<Rightarrow> ('s, os_error, unit) act" where
  "put_once B path data attributes mode = catchA (os_put_opts B path data mode attributes) (\<lambda>r.
     case r of
       Inr _ \<Rightarrow> returnA ()
     | Inl (OsAlreadyExists _) \<Rightarrow> returnA ()
     | Inl e \<Rightarrow> failA e)"

fun unsupported_capability :: "os_error \<Rightarrow> bool" where
  "unsupported_capability (OsNotSupported _) = True"
| "unsupported_capability OsNotImplemented = True"
| "unsupported_capability _ = False"

fun conditional_create_unsupported :: "os_error \<Rightarrow> bool" where
  "conditional_create_unsupported (OsGeneric _) = True"
| "conditional_create_unsupported e = unsupported_capability e"

text \<open>The ladder is never empty (the source panics there), so the empty list has no equation.\<close>

fun put_rungs ::
  "'s object_store \<Rightarrow> string \<Rightarrow> bytes \<Rightarrow> attributes list \<Rightarrow> put_mode \<Rightarrow> ('s, os_error, unit) act" where
  "put_rungs B path data [last_attributes] mode = put_once B path data last_attributes mode"
| "put_rungs B path data (attributes # nxt # rungs) mode =
     catchA (put_once B path data attributes mode) (\<lambda>r.
       case r of
         Inr _ \<Rightarrow> returnA ()
       | Inl e \<Rightarrow> if unsupported_capability e then put_rungs B path data (nxt # rungs) mode
                  else failA e)"

definition blob_attribute_rungs :: "digest \<Rightarrow> string \<Rightarrow> attributes list" where
  "blob_attribute_rungs d content_type =
     [[(AttrContentType, content_type), (AttrMetadata ''docker-content-digest'', as_str d)],
      [(AttrContentType, content_type)],
      []]"

definition objstore_put_blob ::
  "'s object_store \<Rightarrow> digest \<Rightarrow> string \<Rightarrow> bytes \<Rightarrow> ('s, storage_error, unit) act" where
  "objstore_put_blob B d content_type data =
     bindA (liftA (os_path B BlobWrite (blob_key d))) (\<lambda>path.
     bindA (already_stored B path) (\<lambda>stored.
     if stored then returnA ()
     else
       let rungs = blob_attribute_rungs d content_type in
       catchA (put_rungs B path data rungs Create) (\<lambda>r.
         case r of
           Inr _ \<Rightarrow> returnA ()
         | Inl e \<Rightarrow>
             if conditional_create_unsupported e then
               bindA (already_stored B path) (\<lambda>stored.
               if stored then returnA ()
               else map_errA (\<lambda>e. Backend BlobWrite (os_error_text B e))
                      (put_rungs B path data rungs Overwrite))
             else failA (Backend BlobWrite (os_error_text B e)))))"

definition objstore_put_tag_pointer ::
  "'s object_store \<Rightarrow> pointer_json \<Rightarrow> tag_scope \<Rightarrow> string \<Rightarrow> tag_pointer \<Rightarrow> ('s, storage_error, unit) act" where
  "objstore_put_tag_pointer B J scope tag ptr =
     bindA (liftA (os_path B TagWrite (tag_key scope tag))) (\<lambda>path.
     bindA (map_errA (Backend TagWrite) (liftA (pj_to_vec J ptr))) (\<lambda>data.
     map_errA (\<lambda>e. Backend TagWrite (os_error_text B e)) (os_put B path data)))"

section \<open>Reading\<close>

definition objstore_get_blob :: "'s object_store \<Rightarrow> digest \<Rightarrow> ('s, storage_error, blob option) act" where
  "objstore_get_blob B d =
     bindA (liftA (os_path B BlobRead (blob_key d))) (\<lambda>path.
     catchA (os_get B path) (\<lambda>r.
       case r of
         Inr result \<Rightarrow>
           returnA (Some \<lparr>bl_meta = \<lparr>bm_size = gr_size result,
                                     bm_content_type = map_of (gr_attributes result) AttrContentType\<rparr>,
                          bl_data = map (map_errE (\<lambda>e. Backend BlobRead (os_error_text B e)))
                                      (gr_chunks result)\<rparr>)
       | Inl (OsNotFound _) \<Rightarrow> returnA None
       | Inl e \<Rightarrow> failA (Backend BlobRead (os_error_text B e))))"

definition objstore_head_blob :: "'s object_store \<Rightarrow> digest \<Rightarrow> ('s, storage_error, blob_meta option) act" where
  "objstore_head_blob B d =
     bindA (liftA (os_path B BlobStat (blob_key d))) (\<lambda>path.
     catchA (os_head B path) (\<lambda>r.
       case r of
         Inr sz \<Rightarrow> returnA (Some \<lparr>bm_size = sz, bm_content_type = None\<rparr>)
       | Inl (OsNotFound _) \<Rightarrow> returnA None
       | Inl e \<Rightarrow> failA (Backend BlobStat (os_error_text B e))))"

text \<open>The bounded loop over the stream: \<open>Inr None\<close> when the bound is exceeded.\<close>

fun read_pointer_bytes :: "bytes \<Rightarrow> (os_error + bytes) list \<Rightarrow> os_error + bytes option" where
  "read_pointer_bytes acc [] = Inr (Some acc)"
| "read_pointer_bytes acc (Inl e # chunks) = Inl e"
| "read_pointer_bytes acc (Inr chunk # chunks) =
     (if MAX_TAG_POINTER_BYTES < length acc + length chunk then Inr None
      else read_pointer_bytes (acc @ chunk) chunks)"

definition objstore_get_tag_pointer ::
  "'s object_store \<Rightarrow> pointer_json \<Rightarrow> tag_scope \<Rightarrow> string \<Rightarrow> ('s, storage_error, tag_pointer option) act" where
  "objstore_get_tag_pointer B J scope tag =
     bindA (liftA (os_path B TagRead (tag_key scope tag))) (\<lambda>path.
     catchA (os_get B path) (\<lambda>r.
       case r of
         Inr result \<Rightarrow>
           if of_nat MAX_TAG_POINTER_BYTES < gr_size result then returnA None
           else bindA (map_errA (\<lambda>e. Backend TagRead (os_error_text B e))
                         (liftA (read_pointer_bytes [] (gr_chunks result)))) (\<lambda>bytes.
                returnA (Option.bind bytes (pj_from_slice J)))
       | Inl (OsNotFound _) \<Rightarrow> returnA None
       | Inl e \<Rightarrow> failA (Backend TagRead (os_error_text B e))))"

definition objstore_ops :: "'s object_store \<Rightarrow> pointer_json \<Rightarrow> 's storage_ops" where
  "objstore_ops B J = \<lparr>
     so_get_blob = objstore_get_blob B, so_head_blob = objstore_head_blob B,
     so_put_blob = objstore_put_blob B, so_get_tag_pointer = objstore_get_tag_pointer B J,
     so_put_tag_pointer = objstore_put_tag_pointer B J\<rparr>"

section \<open>The documented behaviour of the backend\<close>

text \<open>\<open>Path::parse\<close> drops one leading and one trailing slash and keeps the rest.\<close>

definition path_raw :: "string \<Rightarrow> string" where
  "path_raw s =
     (let t = (case strip_prefix ''/'' s of Some r \<Rightarrow> r | None \<Rightarrow> s)
      in case strip_suffix ''/'' t of Some r \<Rightarrow> r | None \<Rightarrow> t)"

text \<open>A write at \<open>path\<close> that returned \<open>r\<close>: other paths keep their objects, and this one holds what
  it held before or the new bytes, certainly the new bytes when an unconditional write succeeded.\<close>

definition write_effect ::
  "('s \<Rightarrow> string \<Rightarrow> bytes option) \<Rightarrow> string \<Rightarrow> bytes \<Rightarrow> 's \<Rightarrow> os_error + unit \<Rightarrow> 's \<Rightarrow> bool" where
  "write_effect contents path data s r s' \<longleftrightarrow>
     (\<forall>p. p \<noteq> path \<longrightarrow> contents s' p = contents s p) \<and>
     (contents s' path = contents s path \<or> contents s' path = Some data) \<and>
     (is_ok r \<longrightarrow> contents s' path = Some data)"

definition head_law :: "'s object_store \<Rightarrow> ('s \<Rightarrow> string \<Rightarrow> bytes option) \<Rightarrow> bool" where
  "head_law B contents \<longleftrightarrow> (\<forall>p s r s'. os_head B p s = (r, s') \<longrightarrow> contents s' = contents s \<and>
     (\<forall>n. r = Inr n \<longrightarrow> (\<exists>data. contents s p = Some data \<and> n = of_nat (length data))))"

definition get_law :: "'s object_store \<Rightarrow> ('s \<Rightarrow> string \<Rightarrow> bytes option) \<Rightarrow> bool" where
  "get_law B contents \<longleftrightarrow> (\<forall>p s r s'. os_get B p s = (r, s') \<longrightarrow> contents s' = contents s \<and>
     (\<forall>g. r = Inr g \<longrightarrow> (\<exists>data. contents s p = Some data \<and> gr_size g = of_nat (length data)
        \<and> streams (gr_chunks g) data)))"

definition put_opts_law :: "'s object_store \<Rightarrow> ('s \<Rightarrow> string \<Rightarrow> bytes option) \<Rightarrow> bool" where
  "put_opts_law B contents \<longleftrightarrow> (\<forall>p data mode attrs s r s'. os_put_opts B p data mode attrs s = (r, s') \<longrightarrow>
     write_effect contents p data s r s' \<and>
     (mode = Create \<longrightarrow> contents s p \<noteq> None \<longrightarrow> contents s' p = contents s p \<and> \<not> is_ok r) \<and>
     (\<forall>e. r = Inl (OsAlreadyExists e) \<longrightarrow> contents s p \<noteq> None))"

definition put_law :: "'s object_store \<Rightarrow> ('s \<Rightarrow> string \<Rightarrow> bytes option) \<Rightarrow> bool" where
  "put_law B contents \<longleftrightarrow>
     (\<forall>p data s r s'. os_put B p data s = (r, s') \<longrightarrow> write_effect contents p data s r s')"

definition path_law :: "'s object_store \<Rightarrow> bool" where
  "path_law B \<longleftrightarrow> (\<forall>s p. os_path_parse B s = Inr p \<longrightarrow> p = path_raw s)"

definition object_store_laws :: "'s object_store \<Rightarrow> ('s \<Rightarrow> string \<Rightarrow> bytes option) \<Rightarrow> bool" where
  "object_store_laws B contents \<longleftrightarrow> head_law B contents \<and> get_law B contents
     \<and> put_opts_law B contents \<and> put_law B contents \<and> path_law B"

section \<open>Paths of keys\<close>

lemma path_raw_plain:
  "s \<noteq> [] \<Longrightarrow> hd s \<noteq> CHR ''/'' \<Longrightarrow> last s \<noteq> CHR ''/'' \<Longrightarrow> path_raw s = s"
proof -
  assume s: "s \<noteq> []" "hd s \<noteq> CHR ''/''" "last s \<noteq> CHR ''/''"
  then have "strip_prefix ''/'' s = None" by (cases s) simp_all
  moreover have "strip_suffix ''/'' s = None"
    using s(3) by (cases "strip_suffix ''/'' s") (auto simp: strip_suffix_Some)
  ultimately show ?thesis by (simp add: path_raw_def)
qed

lemma path_raw_blob_key: "canonical d \<Longrightarrow> path_raw (blob_key d) = blob_key d"
proof (rule path_raw_plain)
  assume "canonical d"
  with canonical_no_slash canonical_length have "last (as_str d) \<noteq> CHR ''/''" "as_str d \<noteq> []"
    by (metis last_in_set list.size(3) zero_neq_numeral, fastforce)
  then show "last (blob_key d) \<noteq> CHR ''/''" by (simp add: blob_key_def)
qed (simp_all add: blob_key_def)

lemma path_raw_tag_key: "plain_tag t \<Longrightarrow> path_raw (tag_key sc t) = tag_key sc t"
  by (rule path_raw_plain) (auto simp: tag_key_def plain_tag_def dest: last_in_set)

lemma hd_path_raw_tag:
  assumes "is_tag_key key"
  shows "\<exists>r. path_raw key = CHR ''t'' # r"
proof -
  from assms obtain r where key: "key = CHR ''t'' # CHR ''a'' # r"
    by (auto simp: is_tag_key_def starts_with_iff)
  show ?thesis
  proof (cases "strip_suffix ''/'' key")
    case None
    with key show ?thesis by (simp add: path_raw_def)
  next
    case (Some q)
    then have "key = q @ ''/''" by (simp add: strip_suffix_Some)
    with key have "\<exists>r. q = CHR ''t'' # r" by (cases q) auto
    with Some key show ?thesis by (simp add: path_raw_def)
  qed
qed

lemma path_raw_tag_not_blob: "is_tag_key key \<Longrightarrow> path_raw key \<noteq> blob_key d"
  using hd_path_raw_tag [of key] by (auto simp: blob_key_def)

section \<open>What a write can do\<close>

definition put_effect ::
  "('s \<Rightarrow> string \<Rightarrow> bytes option) \<Rightarrow> string \<Rightarrow> bytes \<Rightarrow> 's \<Rightarrow> 'e + unit \<Rightarrow> 's \<Rightarrow> bool" where
  "put_effect contents path data s r s' \<longleftrightarrow>
     (\<forall>p. p \<noteq> path \<longrightarrow> contents s' p = contents s p) \<and>
     (contents s' path = contents s path \<or> contents s' path = Some data) \<and>
     (is_ok r \<longrightarrow> contents s' path \<noteq> None)"

lemma put_effect_trans:
  "put_effect contents path data s r s' \<Longrightarrow> put_effect contents path data s' r' s'' \<Longrightarrow>
   put_effect contents path data s r' s''"
  unfolding put_effect_def by metis

lemma put_effect_same:
  "contents s' = contents s \<Longrightarrow> (is_ok r \<Longrightarrow> contents s path \<noteq> None) \<Longrightarrow>
   put_effect contents path data s r s'"
  by (simp add: put_effect_def)

lemma put_effect_err: "put_effect contents path data s r s' \<Longrightarrow> put_effect contents path data s (Inl e) s'"
  by (simp add: put_effect_def)

lemma put_opts_laws:
  "object_store_laws B contents \<Longrightarrow> os_put_opts B p data mode attrs s = (r, s') \<Longrightarrow>
   write_effect contents p data s r s' \<and>
   (mode = Create \<longrightarrow> contents s p \<noteq> None \<longrightarrow> contents s' p = contents s p \<and> \<not> is_ok r) \<and>
   (\<forall>e. r = Inl (OsAlreadyExists e) \<longrightarrow> contents s p \<noteq> None)"
  by (simp add: object_store_laws_def put_opts_law_def)

lemma os_put_laws:
  "object_store_laws B contents \<Longrightarrow> os_put B p data s = (r, s') \<Longrightarrow> write_effect contents p data s r s'"
  by (simp add: object_store_laws_def put_law_def)

lemma os_head_laws:
  "object_store_laws B contents \<Longrightarrow> os_head B p s = (r, s') \<Longrightarrow> contents s' = contents s \<and>
   (\<forall>n. r = Inr n \<longrightarrow> (\<exists>data. contents s p = Some data \<and> n = of_nat (length data)))"
  by (simp add: object_store_laws_def head_law_def)

lemma os_get_laws:
  "object_store_laws B contents \<Longrightarrow> os_get B p s = (r, s') \<Longrightarrow> contents s' = contents s \<and>
   (\<forall>g. r = Inr g \<longrightarrow> (\<exists>data. contents s p = Some data \<and> gr_size g = of_nat (length data)
      \<and> streams (gr_chunks g) data))"
  by (simp add: object_store_laws_def get_law_def)

lemma os_path_laws:
  "object_store_laws B contents \<Longrightarrow> os_path_parse B s = Inr p \<Longrightarrow> p = path_raw s"
  by (simp add: object_store_laws_def path_law_def)

lemma put_once_effect:
  assumes "object_store_laws B contents" "put_once B path data attrs mode s = (r, s')"
  shows "put_effect contents path data s r s' \<and>
    (mode = Create \<longrightarrow> contents s path \<noteq> None \<longrightarrow> contents s' path = contents s path)"
proof -
  obtain r0 where p: "os_put_opts B path data mode attrs s = (r0, s')"
    and r: "r = (case r0 of Inr _ \<Rightarrow> Inr () | Inl (OsAlreadyExists _) \<Rightarrow> Inr () | Inl e \<Rightarrow> Inl e)"
    using assms(2)
    by (cases "os_put_opts B path data mode attrs s")
       (auto simp: put_once_def catchA_def split: sum.splits os_error.splits)
  from put_opts_laws [OF assms(1) p] show ?thesis
    unfolding put_effect_def write_effect_def r
    by (auto split: sum.splits os_error.splits)
qed

lemma already_stored_effect:
  assumes "object_store_laws B contents" "already_stored B path s = (r, s')"
  shows "contents s' = contents s \<and> (\<exists>b. r = Inr b \<and> (b \<longrightarrow> contents s path \<noteq> None))"
proof -
  obtain r0 where p: "os_head B path s = (r0, s')" and r: "r = Inr (is_ok r0)"
    using assms(2)
    by (cases "os_head B path s")
       (auto simp: already_stored_def catchA_def split: sum.splits os_error.splits)
  from os_head_laws [OF assms(1) p] r show ?thesis by (cases r0) auto
qed

lemma put_rungs_effect:
  assumes "object_store_laws B contents"
  shows "rungs \<noteq> [] \<Longrightarrow> put_rungs B path data rungs mode s = (r, s') \<Longrightarrow>
    put_effect contents path data s r s'
    \<and> (mode = Create \<longrightarrow> contents s path \<noteq> None \<longrightarrow> contents s' path = contents s path)"
proof (induction rungs arbitrary: s)
  case Nil
  then show ?case by simp
next
  case (Cons a rungs)
  show ?case
  proof (cases rungs)
    case Nil
    with Cons.prems put_once_effect [OF assms] show ?thesis by simp
  next
    case (Cons nxt more)
    obtain r1 s1 where p: "put_once B path data a mode s = (r1, s1)" by fastforce
    note e1 = put_once_effect [OF assms p]
    show ?thesis
    proof (cases "\<exists>e. r1 = Inl e \<and> unsupported_capability e")
      case True
      with Cons.prems p Cons have "put_rungs B path data rungs mode s1 = (r, s')"
        by (auto simp: catchA_def)
      from Cons.IH [OF _ this] Cons e1 show ?thesis by (auto intro: put_effect_trans)
    next
      case False
      with Cons.prems p Cons have "r = r1 \<and> s' = s1"
        by (auto simp: catchA_def split: sum.splits if_splits)
      with e1 show ?thesis by simp
    qed
  qed
qed

lemma objstore_put_blob_effect:
  assumes "object_store_laws B contents" "canonical d" "objstore_put_blob B d ct data s = (u, s')"
  shows "put_effect contents (blob_key d) data s u s'"
proof (cases "os_path_parse B (blob_key d)")
  case (Inl e)
  with assms(3) show ?thesis
    by (auto simp: objstore_put_blob_def bindA_def os_path_def put_effect_def)
next
  case (Inr path)
  with os_path_laws [OF assms(1)] path_raw_blob_key [OF assms(2)] have path: "path = blob_key d" by metis
  note rungs = put_rungs_effect [OF assms(1), of "blob_attribute_rungs d ct" path data]
  obtain r1 :: "storage_error + bool" and s1 where a1: "already_stored B path s = (r1, s1)" by fastforce
  from already_stored_effect [OF assms(1) a1] obtain b1
    where b1: "contents s1 = contents s" "r1 = Inr b1" "b1 \<longrightarrow> contents s path \<noteq> None" by blast
  obtain r2 s2 where p2: "put_rungs B path data (blob_attribute_rungs d ct) Create s1 = (r2, s2)" by fastforce
  have e2: "put_effect contents path data s r2 s2"
    using rungs [OF _ p2] b1(1) by (simp add: blob_attribute_rungs_def put_effect_def)
  obtain r3 :: "storage_error + bool" and s3 where a3: "already_stored B path s2 = (r3, s3)" by fastforce
  from already_stored_effect [OF assms(1) a3] obtain b3
    where b3: "contents s3 = contents s2" "r3 = Inr b3" "b3 \<longrightarrow> contents s2 path \<noteq> None" by blast
  obtain r4 s4 where p4: "put_rungs B path data (blob_attribute_rungs d ct) Overwrite s3 = (r4, s4)" by fastforce
  have e4: "put_effect contents path data s r4 s4"
    using rungs [OF _ p4] b3(1) by (intro put_effect_trans [OF e2]) (simp add: blob_attribute_rungs_def put_effect_def)
  consider "b1" "u = Inr ()" "s' = s1" | "\<not> b1" "is_ok r2" "u = Inr ()" "s' = s2"
    | e where "\<not> b1" "r2 = Inl e" "u = Inl (Backend BlobWrite (os_error_text B e))" "s' = s2"
    | e where "\<not> b1" "r2 = Inl e" "b3" "u = Inr ()" "s' = s3"
    | e where "\<not> b1" "r2 = Inl e" "\<not> b3"
        "u = map_errE (\<lambda>e. Backend BlobWrite (os_error_text B e)) r4" "s' = s4"
    using assms(3) Inr a1 b1(2) p2 a3 b3(2) p4
    by (auto simp: objstore_put_blob_def bindA_def catchA_def os_path_def map_errA_def Let_def
        split: if_splits sum.splits)
  then show ?thesis
  proof cases
    case 1
    with b1 show ?thesis by (auto simp: put_effect_def path)
  next
    case 2
    with e2 show ?thesis by (simp add: put_effect_def path)
  next
    case 3
    with e2 show ?thesis by (simp add: put_effect_def path)
  next
    case 4
    with e2 b3 show ?thesis by (simp add: put_effect_def path)
  next
    case 5
    with e4 show ?thesis by (cases r4) (simp_all add: put_effect_def path)
  qed
qed

section \<open>It implements the interface\<close>

definition object_blobs :: "'s object_store \<Rightarrow> ('s \<Rightarrow> string \<Rightarrow> bytes option) \<Rightarrow> 's \<Rightarrow> digest \<Rightarrow> bytes option" where
  "object_blobs B contents s d =
     (case os_path_parse B (blob_key d) of Inl _ \<Rightarrow> None | Inr path \<Rightarrow> contents s path)"

definition object_tags ::
  "'s object_store \<Rightarrow> pointer_json \<Rightarrow> ('s \<Rightarrow> string \<Rightarrow> bytes option) \<Rightarrow> 's \<Rightarrow> string \<Rightarrow> tag_pointer option" where
  "object_tags B J contents s key =
     (if is_tag_key key then
        (case os_path_parse B key of
           Inl _ \<Rightarrow> None
         | Inr path \<Rightarrow> Option.bind (contents s path) (pj_from_slice J))
      else None)"

definition objects_good ::
  "'s object_store \<Rightarrow> pointer_json \<Rightarrow> ('s \<Rightarrow> string \<Rightarrow> bytes option) \<Rightarrow> 's \<Rightarrow> bool" where
  "objects_good B J contents s \<longleftrightarrow> object_store_laws B contents \<and> pointer_json_roundtrip J"

lemma is_ok_map_errE [simp]: "is_ok (map_errE f r) = is_ok r"
  by (cases r) simp_all

lemma delivered_map_err: "delivered (map (map_errE f) cs) = delivered cs"
  by (induction cs rule: delivered.induct) simp_all

lemma streams_map_err [simp]: "streams (map (map_errE f) cs) data = streams cs data"
  by (simp add: streams_def delivered_map_err list.pred_map comp_def)

lemma read_pointer_bytes_Some:
  "read_pointer_bytes acc cs = Inr (Some b) \<Longrightarrow>
   list_all is_ok cs \<and> b = acc @ delivered cs \<and> (cs \<noteq> [] \<longrightarrow> length b \<le> MAX_TAG_POINTER_BYTES)"
proof (induction acc cs rule: read_pointer_bytes.induct)
  case (3 acc chunk chunks)
  then have "\<not> MAX_TAG_POINTER_BYTES < length acc + length chunk"
    "read_pointer_bytes (acc @ chunk) chunks = Inr (Some b)"
    by (auto split: if_splits)
  with 3(1) show ?case by (cases chunks) auto
qed auto

lemma views_same:
  "contents s' = contents s \<Longrightarrow> object_blobs B contents s' = object_blobs B contents s"
  "contents s' = contents s \<Longrightarrow> object_tags B J contents s' = object_tags B J contents s"
  by (auto simp: object_blobs_def object_tags_def intro!: ext split: sum.splits)

lemma objstore_get_blob_cases:
  assumes "object_store_laws B contents" "objstore_get_blob B d s = (r, s')"
  shows "contents s' = contents s \<and>
    (\<forall>b. r = Inr (Some b) \<longrightarrow> (\<exists>data. object_blobs B contents s d = Some data \<and> serves b data))"
proof (cases "os_path_parse B (blob_key d)")
  case (Inl e)
  with assms(2) show ?thesis by (auto simp: objstore_get_blob_def bindA_def os_path_def)
next
  case (Inr path)
  obtain g s1 where g: "os_get B path s = (g, s1)" by fastforce
  with assms(2) Inr have "s' = s1" "r = Inr (Some b) \<Longrightarrow> \<exists>result. g = Inr result \<and>
      bm_size (bl_meta b) = gr_size result \<and>
      bl_data b = map (map_errE (\<lambda>e. Backend BlobRead (os_error_text B e))) (gr_chunks result)" for b
    by (auto simp: objstore_get_blob_def bindA_def catchA_def os_path_def
        split: sum.splits os_error.splits)
  with os_get_laws [OF assms(1) g] Inr show ?thesis
    by (fastforce simp: object_blobs_def serves_def)
qed

lemma objstore_head_blob_cases:
  assumes "object_store_laws B contents" "objstore_head_blob B d s = (r, s')"
  shows "contents s' = contents s \<and>
    (\<forall>m. r = Inr (Some m) \<longrightarrow> (\<exists>data. object_blobs B contents s d = Some data \<and> bm_size m = of_nat (length data)))"
proof (cases "os_path_parse B (blob_key d)")
  case (Inl e)
  with assms(2) show ?thesis by (auto simp: objstore_head_blob_def bindA_def os_path_def)
next
  case (Inr path)
  obtain g s1 where g: "os_head B path s = (g, s1)" by fastforce
  with assms(2) Inr have "s' = s1" "r = Inr (Some m) \<Longrightarrow> g = Inr (bm_size m)" for m
    by (auto simp: objstore_head_blob_def bindA_def catchA_def os_path_def
        split: sum.splits os_error.splits)
  with os_head_laws [OF assms(1) g] Inr show ?thesis by (fastforce simp: object_blobs_def)
qed

lemma objstore_get_tag_cases:
  assumes "object_store_laws B contents" "objstore_get_tag_pointer B J sc t s = (r, s')"
  shows "contents s' = contents s \<and>
    (\<forall>p. r = Inr (Some p) \<longrightarrow> object_tags B J contents s (tag_key sc t) = Some p \<and>
       (\<exists>data. contents s (path_raw (tag_key sc t)) = Some data \<and> pj_from_slice J data = Some p
          \<and> length data \<le> MAX_TAG_POINTER_BYTES))"
proof (cases "os_path_parse B (tag_key sc t)")
  case (Inl e)
  with assms(2) show ?thesis by (auto simp: objstore_get_tag_pointer_def bindA_def os_path_def)
next
  case (Inr path)
  obtain g s1 where g: "os_get B path s = (g, s1)" by fastforce
  have "s' = s1 \<and> (\<forall>p. r = Inr (Some p) \<longrightarrow> (\<exists>result data. g = Inr result \<and>
      read_pointer_bytes [] (gr_chunks result) = Inr (Some data) \<and> pj_from_slice J data = Some p))"
    using assms(2) Inr g
    by (auto simp: objstore_get_tag_pointer_def bindA_def catchA_def os_path_def map_errA_def
          bind_eq_Some_conv res_simps
        split: sum.splits os_error.splits if_splits prod.splits option.splits)
  then show ?thesis
    using os_get_laws [OF assms(1) g] Inr os_path_laws [OF assms(1) Inr]
    by (fastforce simp: object_tags_def streams_def MAX_TAG_POINTER_BYTES_def
        dest!: read_pointer_bytes_Some)
qed

lemma objstore_put_tag_effect:
  assumes "object_store_laws B contents" "plain_tag t" "objstore_put_tag_pointer B J sc t p s = (u, s')"
  shows "contents s' = contents s \<or>
    (\<exists>data. pj_to_vec J p = Inr data \<and> contents s' (tag_key sc t) = Some data \<and>
       (\<forall>k. k \<noteq> tag_key sc t \<longrightarrow> contents s' k = contents s k))"
proof (cases "os_path_parse B (tag_key sc t)")
  case (Inl e)
  with assms(3) show ?thesis by (auto simp: objstore_put_tag_pointer_def bindA_def os_path_def)
next
  case (Inr path)
  with os_path_laws [OF assms(1)] path_raw_tag_key [OF assms(2)] have path: "path = tag_key sc t" by metis
  show ?thesis
  proof (cases "pj_to_vec J p")
    case (Inl e)
    with assms(3) Inr show ?thesis
      by (auto simp: objstore_put_tag_pointer_def bindA_def os_path_def map_errA_def)
  next
    case data: (Inr data)
    obtain g s1 where g: "os_put B path data s = (g, s1)" by fastforce
    with assms(3) Inr data have "s' = s1"
      by (auto simp: objstore_put_tag_pointer_def bindA_def os_path_def map_errA_def)
    with os_put_laws [OF assms(1) g] data show ?thesis
      unfolding write_effect_def path by (metis ext)
  qed
qed

lemma objstore_put_tag_ok:
  assumes "object_store_laws B contents" "plain_tag t" "objstore_put_tag_pointer B J sc t p s = (Inr u, s')"
  shows "\<exists>data. pj_to_vec J p = Inr data \<and> contents s' (tag_key sc t) = Some data \<and>
    (\<forall>k. k \<noteq> tag_key sc t \<longrightarrow> contents s' k = contents s k)"
proof -
  from assms(3) obtain path data where p: "os_path_parse B (tag_key sc t) = Inr path"
    and d: "pj_to_vec J p = Inr data" and w: "os_put B path data s = (Inr u, s')"
    by (auto simp: objstore_put_tag_pointer_def os_path_def res_simps)
  from p os_path_laws [OF assms(1)] path_raw_tag_key [OF assms(2)] have "path = tag_key sc t" by metis
  with os_put_laws [OF assms(1) w] d show ?thesis by (auto simp: write_effect_def)
qed

text \<open>Where an object of the two views lies.\<close>

lemma object_blob_at:
  assumes "object_store_laws B contents" "canonical e" "object_blobs B contents s e = Some x"
  shows "os_path_parse B (blob_key e) = Inr (blob_key e)" "contents s (blob_key e) = Some x"
proof -
  from assms(3) obtain p where p: "os_path_parse B (blob_key e) = Inr p" "contents s p = Some x"
    by (auto simp: object_blobs_def split: sum.splits)
  with os_path_laws [OF assms(1)] path_raw_blob_key [OF assms(2)] have "p = blob_key e" by metis
  with p show "os_path_parse B (blob_key e) = Inr (blob_key e)" "contents s (blob_key e) = Some x" by simp_all
qed

lemma object_tag_at:
  assumes "object_store_laws B contents" "plain_tag t" "object_tags B J contents s (tag_key sc t) = Some x"
  obtains y where "os_path_parse B (tag_key sc t) = Inr (tag_key sc t)" "contents s (tag_key sc t) = Some y"
    "pj_from_slice J y = Some x"
proof -
  from assms(3) obtain q y where q: "os_path_parse B (tag_key sc t) = Inr q" "contents s q = Some y" "pj_from_slice J y = Some x"
    by (auto simp: object_tags_def bind_eq_Some_conv split: sum.splits)
  with os_path_laws [OF assms(1)] path_raw_tag_key [OF assms(2)] have "q = tag_key sc t" by metis
  with q show thesis by (intro that) simp_all
qed

lemma objstore_put_blob_adds:
  assumes laws: "object_store_laws B contents" and eff: "put_effect contents (blob_key d) data s u s'"
  shows "object_tags B J contents s' = object_tags B J contents s"
    and "canonical e \<Longrightarrow> object_blobs B contents s' e = Some x \<Longrightarrow> object_blobs B contents s e = Some x \<or> e = d \<and> x = data"
proof -
  have "object_tags B J contents s' k = object_tags B J contents s k" for k
  proof (cases "is_tag_key k \<and> is_ok (os_path_parse B k)")
    case True
    then obtain p where p: "os_path_parse B k = Inr p" by (cases "os_path_parse B k") auto
    with os_path_laws [OF laws] True have "p \<noteq> blob_key d" using path_raw_tag_not_blob by metis
    with eff p show ?thesis by (simp add: object_tags_def put_effect_def)
  next
    case False
    then show ?thesis by (cases "os_path_parse B k") (auto simp: object_tags_def)
  qed
  then show "object_tags B J contents s' = object_tags B J contents s" by (rule ext)
  assume e: "canonical e" "object_blobs B contents s' e = Some x"
  with object_blob_at [OF laws e] eff show "object_blobs B contents s e = Some x \<or> e = d \<and> x = data"
    by (cases "e = d") (auto simp: object_blobs_def put_effect_def)
qed

lemma objstore_put_tag_adds:
  assumes laws: "object_store_laws B contents" "pj_from_slice J data = Some p"
    and eff: "contents s' (tag_key sc t) = Some data" "\<forall>k. k \<noteq> tag_key sc t \<longrightarrow> contents s' k = contents s k"
  shows "canonical e \<Longrightarrow> object_blobs B contents s' e = Some x \<Longrightarrow> object_blobs B contents s e = Some x"
    and "plain_tag t' \<Longrightarrow> object_tags B J contents s' (tag_key sc' t') = Some q \<Longrightarrow>
      object_tags B J contents s (tag_key sc' t') = Some q \<or> tag_key sc' t' = tag_key sc t \<and> q = p"
proof -
  show "object_blobs B contents s e = Some x" if e: "canonical e" "object_blobs B contents s' e = Some x"
    using object_blob_at [OF laws(1) e] eff(2) by (simp add: object_blobs_def)
  assume t': "plain_tag t'" "object_tags B J contents s' (tag_key sc' t') = Some q"
  from object_tag_at [OF laws(1) t'] obtain y where "os_path_parse B (tag_key sc' t') = Inr (tag_key sc' t')"
    "contents s' (tag_key sc' t') = Some y" "pj_from_slice J y = Some q" .
  with eff laws(2) show "object_tags B J contents s (tag_key sc' t') = Some q \<or> tag_key sc' t' = tag_key sc t \<and> q = p"
    by (cases "tag_key sc' t' = tag_key sc t") (simp_all add: object_tags_def)
qed

lemma objstore_storage:
  "storage (objstore_ops B J) (object_blobs B contents) (object_tags B J contents) (objects_good B J contents)"
proof (rule storage.intro, unfold objstore_ops_def storage_ops.simps objects_good_def, goal_cases)
  case (1 s d r s')
  then show ?case using objstore_get_blob_cases [of B contents d s r s'] by (simp add: views_same [of contents s' s])
next
  case (2 s d b s')
  then show ?case using objstore_get_blob_cases [of B contents d s "Inr (Some b)" s'] by simp
next
  case (3 s d r' s')
  then show ?case using objstore_head_blob_cases [of B contents d s r' s'] by (simp add: views_same [of contents s' s])
next
  case (4 s d m s')
  then show ?case using objstore_head_blob_cases [of B contents d s "Inr (Some m)" s'] by simp
next
  case (5 s d ct data u s')
  then have "put_effect contents (blob_key d) data s u s'"
    by (intro objstore_put_blob_effect) auto
  with 5 objstore_put_blob_adds [of B contents d data s u s'] show ?case by simp
next
  case (6 s sc t q s')
  then show ?case using objstore_get_tag_cases [of B contents J sc t s q s'] by (simp add: views_same [of contents s' s])
next
  case (7 s sc t p s')
  then show ?case using objstore_get_tag_cases [of B contents J sc t s "Inr (Some p)" s'] by simp
next
  case (8 s t sc p u s')
  have laws: "object_store_laws B contents" "pointer_json_roundtrip J" using 8 by simp_all
  from objstore_put_tag_effect [OF laws(1) 8(2,3)]
  consider "contents s' = contents s" | data where "pj_to_vec J p = Inr data"
    "contents s' (tag_key sc t) = Some data" "\<forall>k. k \<noteq> tag_key sc t \<longrightarrow> contents s' k = contents s k"
    by blast
  then show ?case
  proof cases
    case 1
    with laws show ?thesis by (simp add: views_same [of contents s' s])
  next
    case 2
    from 2(1) laws(2) have "pj_from_slice J data = Some p" by (simp add: pointer_json_roundtrip_def)
    with objstore_put_tag_adds [OF laws(1) this 2(2,3)] laws show ?thesis by blast
  qed
qed

interpretation obj: storage "objstore_ops B J" "object_blobs B contents" "object_tags B J contents"
    "objects_good B J contents" for B :: "'s object_store" and J contents
  by (rule objstore_storage)

section \<open>An in-memory backend for the witnesses\<close>

definition memory_put ::
  "string \<Rightarrow> bytes \<Rightarrow> put_mode \<Rightarrow> attributes \<Rightarrow> ((string \<Rightarrow> bytes option), os_error, unit) act" where
  "memory_put p data mode attrs = (\<lambda>s.
     if mode = Create \<and> s p \<noteq> None then (Inl (OsAlreadyExists p), s) else (Inr (), s(p \<mapsto> data)))"

definition memory_store :: "(string \<Rightarrow> bytes option) object_store" where
  "memory_store = \<lparr>
     os_head = (\<lambda>p s. (case s p of None \<Rightarrow> Inl (OsNotFound p) | Some data \<Rightarrow> Inr (of_nat (length data)), s)),
     os_get = (\<lambda>p s. (case s p of None \<Rightarrow> Inl (OsNotFound p)
                  | Some data \<Rightarrow> Inr \<lparr>gr_size = of_nat (length data), gr_attributes = [],
                                       gr_chunks = [Inr data]\<rparr>, s)),
     os_put_opts = memory_put, os_put = (\<lambda>p data. memory_put p data Overwrite []),
     os_path_parse = (\<lambda>s. Inr (path_raw s)), os_error_text = (\<lambda>_. ''error'')\<rparr>"

lemma memory_store_laws: "object_store_laws memory_store id"
  by (auto simp: object_store_laws_def head_law_def get_law_def put_opts_law_def put_law_def
      path_law_def memory_store_def memory_put_def write_effect_def split: option.splits if_splits)

section \<open>Properties\<close>

text \<open>C36. A blob write is durable and confined: when it succeeds the object exists afterwards, as
  the bytes that were there or the bytes given; whatever the outcome, every rung of the attribute
  ladder and the unconditional fallback included, no object under another key is touched.\<close>
theorem objstore_put_blob_durable:
  assumes "object_store_laws B contents" and "canonical d"
    and "objstore_put_blob B d content_type data s = (r, s')"
  shows "(\<forall>key. key \<noteq> blob_key d \<longrightarrow> contents s' key = contents s key)
    \<and> (contents s' (blob_key d) = contents s (blob_key d) \<or> contents s' (blob_key d) = Some data)
    \<and> (is_ok r \<longrightarrow> contents s' (blob_key d) \<noteq> None)"
  using objstore_put_blob_effect [OF assms] by (simp add: put_effect_def)

definition sample_digest :: digest where
  "sample_digest = digest_sha256 sample_sha ''hi''"

lemma canonical_sample_digest: "canonical sample_digest"
  by (simp add: sample_digest_def canonical_sha256 sample_sha_hex)

theorem objstore_put_blob_durable_witness:
  "\<exists>s'. objstore_put_blob memory_store sample_digest ''text/plain'' ''hi'' (\<lambda>_. None) = (Inr (), s')
     \<and> s' (blob_key sample_digest) = Some ''hi''"
proof -
  obtain s' where s': "objstore_put_blob memory_store sample_digest ''text/plain'' ''hi'' (\<lambda>_. None) = (Inr (), s')"
    by (simp add: objstore_put_blob_def memory_store_def bindA_def os_path_def already_stored_def
          catchA_def put_once_def blob_attribute_rungs_def memory_put_def)
  from objstore_put_blob_durable [OF memory_store_laws canonical_sample_digest s'] s'
  show ?thesis by auto
qed

text \<open>A tag pointer read from the bucket is a document of at most 8 KiB that lies under exactly
  that proxy host, name and tag, however the stream is cut into chunks; reading changes nothing.\<close>
theorem tag_pointer_read_bounded:
  assumes "object_store_laws B contents"
    and "objstore_get_tag_pointer B J scope tag s = (Inr (Some ptr), s')"
  shows "contents s' = contents s
    \<and> (\<exists>data. contents s (path_raw (tag_key scope tag)) = Some data \<and> pj_from_slice J data = Some ptr
         \<and> length data \<le> 8192)"
  using objstore_get_tag_cases [OF assms] by (simp add: MAX_TAG_POINTER_BYTES_def)

definition sample_pointer_json :: pointer_json where
  "sample_pointer_json = \<lparr>
     pj_to_vec = (\<lambda>p. if tp_media_type p = MEDIA_TYPE_MANIFEST \<and> length (as_str (tp_digest p)) = 71
        then Inr (as_str (tp_digest p) @ replicate (unat (tp_size p)) CHR ''x'') else Inl ''unsupported''),
     pj_from_slice = (\<lambda>b. Some \<lparr>tp_digest = Digest (take 71 b), tp_media_type = MEDIA_TYPE_MANIFEST,
        tp_size = of_nat (length b - 71)\<rparr>)\<rparr>"

lemma sample_pointer_roundtrip: "pointer_json_roundtrip sample_pointer_json"
proof -
  have "\<lparr>tp_digest = Digest (take 71 b), tp_media_type = MEDIA_TYPE_MANIFEST, tp_size = of_nat (length b - 71)\<rparr> = p"
    if "tp_media_type p = MEDIA_TYPE_MANIFEST" "length (as_str (tp_digest p)) = 71"
      "b = as_str (tp_digest p) @ replicate (unat (tp_size p)) CHR ''x''" for p :: tag_pointer and b
    using that by (cases p, cases "tp_digest p") simp
  then show ?thesis by (simp add: pointer_json_roundtrip_def sample_pointer_json_def)
qed

theorem tag_pointer_read_bounded_witness:
  "let s = [tag_key \<lparr>ts_proxy_host = ''p'', ts_full_name = ''a/b''\<rparr> ''1.0'' \<mapsto> ''ptr''] in
   \<exists>ptr. fst (objstore_get_tag_pointer memory_store sample_pointer_json
      \<lparr>ts_proxy_host = ''p'', ts_full_name = ''a/b''\<rparr> ''1.0'' s) = Inr (Some ptr)
   \<and> (\<exists>data. pj_from_slice sample_pointer_json data = Some ptr \<and> length data \<le> 8192)"
proof -
  let ?sc = "\<lparr>ts_proxy_host = ''p'', ts_full_name = ''a/b''\<rparr>"
  let ?s = "[tag_key ?sc ''1.0'' \<mapsto> ''ptr'']"
  have raw: "path_raw (tag_key ?sc ''1.0'') = tag_key ?sc ''1.0''" by code_simp
  obtain ptr s' where r: "objstore_get_tag_pointer memory_store sample_pointer_json ?sc ''1.0'' ?s = (Inr (Some ptr), s')"
    by (simp add: objstore_get_tag_pointer_def memory_store_def bindA_def os_path_def raw catchA_def
          MAX_TAG_POINTER_BYTES_def map_errA_def sample_pointer_json_def)
  from tag_pointer_read_bounded [OF memory_store_laws r] r show ?thesis
    unfolding Let_def by (metis fst_conv)
qed

end
