(* ===== verification/Ephemeral.thy ===== *)
theory Ephemeral
  imports Storage
begin

text \<open>
  \<open>crates/helmoci-storage/src/ephemeral.rs\<close>: the in-memory storage of \<open>store: false\<close> aliases.
  The cache (crate \<open>moka\<close>) is a parameter: its operations on a cache state, and the documented
  law that it returns only what was inserted and may evict at any operation.
\<close>

section \<open>The cache\<close>

record entry =
  en_content_type :: string
  en_data :: bytes

record 'c cache_ops =
  ca_get :: "string \<Rightarrow> 'c \<Rightarrow> entry option \<times> 'c"
  ca_or_insert :: "string \<Rightarrow> entry \<Rightarrow> 'c \<Rightarrow> 'c"
  ca_insert :: "string \<Rightarrow> entry \<Rightarrow> 'c \<Rightarrow> 'c"

definition cache_laws :: "'c cache_ops \<Rightarrow> ('c \<Rightarrow> string \<Rightarrow> entry option) \<Rightarrow> bool" where
  "cache_laws C contents \<longleftrightarrow>
     (\<forall>k c r c'. ca_get C k c = (r, c') \<longrightarrow>
        contents c' \<subseteq>\<^sub>m contents c \<and> (\<forall>e. r = Some e \<longrightarrow> contents c k = Some e)) \<and>
     (\<forall>k e c j x. contents (ca_or_insert C k e c) j = Some x \<longrightarrow>
        contents c j = Some x \<or> j = k \<and> x = e) \<and>
     (\<forall>k e c j x. contents (ca_insert C k e c) j = Some x \<longrightarrow>
        j = k \<and> x = e \<or> j \<noteq> k \<and> contents c j = Some x)"

text \<open>The builder's parameters: the weigher of an entry, capacity and time to live.\<close>

definition weigher :: "entry \<Rightarrow> u32" where
  "weigher e = (if length (en_data e) < 2 ^ 32 then of_nat (length (en_data e)) else 0xFFFFFFFF)"

record cache_config =
  cf_weigher :: "entry \<Rightarrow> u32"
  cf_max_capacity :: u64
  cf_time_to_live :: u64

definition ephemeral_new :: "u64 \<Rightarrow> u64 \<Rightarrow> cache_config" where
  "ephemeral_new max_bytes ttl =
     \<lparr>cf_weigher = weigher, cf_max_capacity = max_bytes, cf_time_to_live = ttl\<rparr>"

section \<open>The operations\<close>

definition ephemeral_get_blob :: "'c cache_ops \<Rightarrow> digest \<Rightarrow> ('c, storage_error, blob option) act" where
  "ephemeral_get_blob C d = (\<lambda>c.
     case ca_get C (blob_key d) c of
       (Some e, c') \<Rightarrow>
         (Inr (Some \<lparr>bl_meta = \<lparr>bm_size = of_nat (length (en_data e)),
                                bm_content_type = Some (en_content_type e)\<rparr>,
                     bl_data = [Inr (en_data e)]\<rparr>), c')
     | (None, c') \<Rightarrow> (Inr None, c'))"

definition ephemeral_head_blob :: "'c cache_ops \<Rightarrow> digest \<Rightarrow> ('c, storage_error, blob_meta option) act" where
  "ephemeral_head_blob C d = (\<lambda>c.
     case ca_get C (blob_key d) c of (r, c') \<Rightarrow>
       (Inr (map_option (\<lambda>e. \<lparr>bm_size = of_nat (length (en_data e)),
                              bm_content_type = Some (en_content_type e)\<rparr>) r), c'))"

definition ephemeral_put_blob ::
  "'c cache_ops \<Rightarrow> digest \<Rightarrow> string \<Rightarrow> bytes \<Rightarrow> ('c, storage_error, unit) act" where
  "ephemeral_put_blob C d content_type data = (\<lambda>c.
     (Inr (), ca_or_insert C (blob_key d) \<lparr>en_content_type = content_type, en_data = data\<rparr> c))"

definition ephemeral_get_tag_pointer ::
  "'c cache_ops \<Rightarrow> pointer_json \<Rightarrow> tag_scope \<Rightarrow> string \<Rightarrow> ('c, storage_error, tag_pointer option) act" where
  "ephemeral_get_tag_pointer C J scope tag = (\<lambda>c.
     case ca_get C (tag_key scope tag) c of (r, c') \<Rightarrow>
       (Inr (Option.bind r (\<lambda>e. pj_from_slice J (en_data e))), c'))"

definition ephemeral_put_tag_pointer ::
  "'c cache_ops \<Rightarrow> pointer_json \<Rightarrow> tag_scope \<Rightarrow> string \<Rightarrow> tag_pointer \<Rightarrow> ('c, storage_error, unit) act" where
  "ephemeral_put_tag_pointer C J scope tag ptr =
     bindA (map_errA (Backend TagWrite) (liftA (pj_to_vec J ptr))) (\<lambda>data c.
       (Inr (), ca_insert C (tag_key scope tag)
          \<lparr>en_content_type = ''application/json'', en_data = data\<rparr> c))"

definition ephemeral_ops :: "'c cache_ops \<Rightarrow> pointer_json \<Rightarrow> 'c storage_ops" where
  "ephemeral_ops C J = \<lparr>
     so_get_blob = ephemeral_get_blob C, so_head_blob = ephemeral_head_blob C,
     so_put_blob = ephemeral_put_blob C, so_get_tag_pointer = ephemeral_get_tag_pointer C J,
     so_put_tag_pointer = ephemeral_put_tag_pointer C J\<rparr>"

section \<open>It implements the interface\<close>

definition entry_blobs :: "('c \<Rightarrow> string \<Rightarrow> entry option) \<Rightarrow> 'c \<Rightarrow> digest \<Rightarrow> bytes option" where
  "entry_blobs contents c d = map_option en_data (contents c (blob_key d))"

definition entry_tags ::
  "pointer_json \<Rightarrow> ('c \<Rightarrow> string \<Rightarrow> entry option) \<Rightarrow> 'c \<Rightarrow> string \<Rightarrow> tag_pointer option" where
  "entry_tags J contents c key =
     (if is_tag_key key then Option.bind (contents c key) (\<lambda>e. pj_from_slice J (en_data e)) else None)"

definition cache_good ::
  "'c cache_ops \<Rightarrow> pointer_json \<Rightarrow> ('c \<Rightarrow> string \<Rightarrow> entry option) \<Rightarrow> 'c \<Rightarrow> bool" where
  "cache_good C J contents c \<longleftrightarrow> cache_laws C contents \<and> pointer_json_roundtrip J"

lemma map_leD: "m \<subseteq>\<^sub>m f \<Longrightarrow> m j = Some x \<Longrightarrow> f j = Some x"
  by (metis domI map_le_def)

lemma map_leI: "(\<And>j x. m j = Some x \<Longrightarrow> f j = Some x) \<Longrightarrow> m \<subseteq>\<^sub>m f"
  by (auto simp: map_le_def)

lemma cache_getD:
  "cache_laws C contents \<Longrightarrow> ca_get C k c = (r, c') \<Longrightarrow>
   contents c' \<subseteq>\<^sub>m contents c \<and> (\<forall>e. r = Some e \<longrightarrow> contents c k = Some e)"
  by (simp add: cache_laws_def)

lemma cache_or_insertD:
  "cache_laws C contents \<Longrightarrow> contents (ca_or_insert C k e c) j = Some x \<Longrightarrow>
   contents c j = Some x \<or> j = k \<and> x = e"
  unfolding cache_laws_def by blast

lemma cache_insertD:
  "cache_laws C contents \<Longrightarrow> contents (ca_insert C k e c) j = Some x \<Longrightarrow>
   contents c j = Some x \<or> j = k \<and> x = e"
  unfolding cache_laws_def by blast

lemma entry_views_shrink:
  assumes "contents c' \<subseteq>\<^sub>m contents c"
  shows "entry_blobs contents c' \<subseteq>\<^sub>m entry_blobs contents c"
    and "entry_tags J contents c' \<subseteq>\<^sub>m entry_tags J contents c"
  using map_leD [OF assms]
  by (auto intro!: map_leI simp: entry_blobs_def entry_tags_def bind_eq_Some_conv split: if_splits)

text \<open>What the two kinds of insertion add.\<close>

lemma entry_or_insert_adds:
  assumes "cache_laws C contents"
  shows "entry_tags J contents (ca_or_insert C (blob_key d) e s) \<subseteq>\<^sub>m entry_tags J contents s"
    and "entry_blobs contents (ca_or_insert C (blob_key d) e s) f = Some x \<Longrightarrow>
      entry_blobs contents s f = Some x \<or> f = d \<and> x = en_data e"
proof -
  note ins = cache_or_insertD [OF assms, of "blob_key d" _ s]
  show "entry_tags J contents (ca_or_insert C (blob_key d) e s) \<subseteq>\<^sub>m entry_tags J contents s"
    by (rule map_leI) (auto simp: entry_tags_def bind_eq_Some_conv dest!: ins split: if_splits)
  show "entry_blobs contents s f = Some x \<or> f = d \<and> x = en_data e"
    if "entry_blobs contents (ca_or_insert C (blob_key d) e s) f = Some x"
    using that by (auto simp: entry_blobs_def dest!: ins)
qed

lemma entry_insert_adds:
  assumes "cache_laws C contents" "pj_from_slice J data = Some p"
  shows "entry_blobs contents (ca_insert C (tag_key sc t) \<lparr>en_content_type = ct, en_data = data\<rparr> s) f = Some x \<Longrightarrow>
      entry_blobs contents s f = Some x"
    and "entry_tags J contents (ca_insert C (tag_key sc t) \<lparr>en_content_type = ct, en_data = data\<rparr> s) (tag_key sc' t') = Some q \<Longrightarrow>
      entry_tags J contents s (tag_key sc' t') = Some q \<or> tag_key sc' t' = tag_key sc t \<and> q = p"
  using cache_insertD [OF assms(1), of "tag_key sc t" _ s] assms(2)
  by (auto simp: entry_blobs_def entry_tags_def bind_eq_Some_conv split: if_splits) fastforce+

lemma ephemeral_storage:
  "storage (ephemeral_ops C J) (entry_blobs contents) (entry_tags J contents) (cache_good C J contents)"
proof (rule storage.intro, unfold ephemeral_ops_def storage_ops.simps, goal_cases)
  case (1 s d r s')
  then show ?case
    using cache_getD [of C contents "blob_key d" s] entry_views_shrink
    by (auto simp: cache_good_def ephemeral_get_blob_def split: prod.splits option.splits)
next
  case (2 s d b s')
  then show ?case
    using cache_getD [of C contents "blob_key d" s]
    by (auto simp: cache_good_def ephemeral_get_blob_def entry_blobs_def serves_def
        split: prod.splits option.splits)
next
  case (3 s d r' s')
  then show ?case
    using cache_getD [of C contents "blob_key d" s] entry_views_shrink
    by (auto simp: cache_good_def ephemeral_head_blob_def split: prod.splits)
next
  case (4 s d m s')
  then show ?case
    using cache_getD [of C contents "blob_key d" s]
    by (auto simp: cache_good_def ephemeral_head_blob_def entry_blobs_def split: prod.splits)
next
  case (5 s d ct data u s')
  with entry_or_insert_adds [where C = C and contents = contents and d = d and s = s
      and e = "\<lparr>en_content_type = ct, en_data = data\<rparr>"] show ?case
    by (auto simp: ephemeral_put_blob_def cache_good_def)
next
  case (6 s sc t q s')
  then show ?case
    using cache_getD [of C contents "tag_key sc t" s] entry_views_shrink
    by (auto simp: cache_good_def ephemeral_get_tag_pointer_def split: prod.splits)
next
  case (7 s sc t p s')
  then show ?case
    using cache_getD [of C contents "tag_key sc t" s]
    by (auto simp: cache_good_def ephemeral_get_tag_pointer_def entry_tags_def bind_eq_Some_conv
        split: prod.splits)
next
  case (8 s t sc p u s')
  show ?case
  proof (cases "pj_to_vec J p")
    case (Inl e)
    with 8 show ?thesis by (auto simp: ephemeral_put_tag_pointer_def bindA_def map_errA_def)
  next
    case (Inr data)
    with 8 have p: "cache_laws C contents" "pj_from_slice J data = Some p" "pointer_json_roundtrip J"
      and s': "s' = ca_insert C (tag_key sc t) \<lparr>en_content_type = ''application/json'', en_data = data\<rparr> s"
      by (simp_all add: ephemeral_put_tag_pointer_def bindA_def map_errA_def cache_good_def pointer_json_roundtrip_def)
    with entry_insert_adds [OF p(1,2)] show ?thesis unfolding s' cache_good_def by blast
  qed
qed

interpretation eph: storage "ephemeral_ops C J" "entry_blobs contents" "entry_tags J contents"
    "cache_good C J contents" for C :: "'c cache_ops" and J contents
  by (rule ephemeral_storage)

section \<open>A cache for the witnesses\<close>

definition sample_cache :: "(string \<Rightarrow> entry option) cache_ops" where
  "sample_cache = \<lparr>ca_get = (\<lambda>k c. (c k, c)),
     ca_or_insert = (\<lambda>k e c. case c k of None \<Rightarrow> c(k \<mapsto> e) | Some old \<Rightarrow> c),
     ca_insert = (\<lambda>k e c. c(k \<mapsto> e))\<rparr>"

lemma sample_cache_laws: "cache_laws sample_cache id"
  by (auto simp: cache_laws_def sample_cache_def split: option.splits if_splits)

end
