(* ===== verification/Public_Ip.thy ===== *)
theory Public_Ip
  imports Std_Net
begin

text \<open>
  \<open>bins/helmoci/src/state.rs\<close>, the address policy: which addresses are public, and the resolver
  that refuses a name unless every address it resolves to is.
\<close>

unbundle bit_operations_syntax

section \<open>The classification\<close>

definition is_public_ipv4 :: "u32 \<Rightarrow> bool" where
  "is_public_ipv4 ip =
     (let a = octet ip 0; b = octet ip 1; c = octet ip 2; d = octet ip 3 in
      \<not> (a = 0
         \<or> is_private ip
         \<or> (a = 100 \<and> b AND 0xC0 = 0x40)
         \<or> is_loopback_v4 ip
         \<or> is_link_local ip
         \<or> (a = 192 \<and> b = 0 \<and> c = 0 \<and> d \<noteq> 9 \<and> d \<noteq> 10)
         \<or> is_documentation ip
         \<or> (a = 198 \<and> b AND 0xFE = 18)
         \<or> 240 \<le> a
         \<or> is_broadcast ip
         \<or> is_multicast_v4 ip))"

definition ietf_exception :: "128 word \<Rightarrow> bool" where
  "ietf_exception ip \<longleftrightarrow>
     ip = 0x20010001000000000000000000000001
     \<or> ip = 0x20010001000000000000000000000002
     \<or> (segment ip 0 = 0x2001 \<and> segment ip 1 = 3)
     \<or> (segment ip 0 = 0x2001 \<and> segment ip 1 = 4 \<and> segment ip 2 = 0x112)
     \<or> (segment ip 0 = 0x2001 \<and> 0x20 \<le> segment ip 1 \<and> segment ip 1 \<le> 0x3F)"

definition ietf_assignment :: "128 word \<Rightarrow> bool" where
  "ietf_assignment ip \<longleftrightarrow>
     segment ip 0 = 0x2001 \<and> segment ip 1 < 0x200 \<and> \<not> ietf_exception ip"

definition documentation_v6 :: "128 word \<Rightarrow> bool" where
  "documentation_v6 ip \<longleftrightarrow>
     (segment ip 0 = 0x2001 \<and> segment ip 1 = 0x0DB8)
     \<or> (segment ip 0 = 0x3FFF \<and> segment ip 1 AND 0xF000 = 0)"

definition is_public_ipv6 :: "128 word \<Rightarrow> bool" where
  "is_public_ipv6 ip =
     (\<not> (is_unspecified_v6 ip
         \<or> is_loopback_v6 ip
         \<or> (segment ip 0 = 0 \<and> segment ip 1 = 0 \<and> segment ip 2 = 0 \<and> segment ip 3 = 0
            \<and> segment ip 4 = 0 \<and> segment ip 5 = 0xFFFF)
         \<or> (segment ip 0 = 0x64 \<and> segment ip 1 = 0xFF9B \<and> segment ip 2 = 1)
         \<or> (segment ip 0 = 0x100 \<and> segment ip 1 = 0 \<and> segment ip 2 = 0 \<and> segment ip 3 = 0)
         \<or> ietf_assignment ip
         \<or> segment ip 0 = 0x2002
         \<or> documentation_v6 ip
         \<or> segment ip 0 = 0x5F00
         \<or> segment ip 0 AND 0xFE00 = 0xFC00
         \<or> segment ip 0 AND 0xFFC0 = 0xFE80
         \<or> segment ip 0 AND 0xFFC0 = 0xFEC0
         \<or> is_multicast_v6 ip))"

fun is_public_ip :: "ip_addr \<Rightarrow> bool" where
  "is_public_ip (V4 ip) = is_public_ipv4 ip"
| "is_public_ip (V6 ip) = is_public_ipv6 ip"

text \<open>The resolver wrapped around another one, here the result of the inner resolution.\<close>

definition public_dns_resolve ::
  "(string \<Rightarrow> string + ip_addr list) \<Rightarrow> string \<Rightarrow> string + ip_addr list" where
  "public_dns_resolve inner hostname =
     bindE (inner hostname) (\<lambda>addresses.
       if addresses = [] \<or> list_ex (\<lambda>a. \<not> is_public_ip a) addresses
       then Inl (''DNS for '' @ hostname @ '' returned no addresses or a non-public address'')
       else Inr addresses)"

section \<open>Octets and ranges\<close>

lemma and_push_mask: "n AND push_bit k (mask m) = push_bit k (take_bit m (drop_bit k n))" for n :: nat
  by (rule bit_eqI) (auto simp: bit_simps)

lemma and_block:
  fixes n :: nat
  assumes "q = 2 ^ k" "r = 2 ^ m" "w = (r - 1) * q"
  shows "n AND w = (n div q mod r) * q"
  using and_push_mask [of n k m] assms
  by (simp only: mask_eq_exp_minus_1 push_bit_eq_mult drop_bit_eq_div take_bit_eq_mod)

lemma and_high_bits:
  "b AND 192 = (b div 64 mod 4) * 64" "b AND 254 = (b div 2 mod 128) * 2"
  "b AND 65024 = (b div 512 mod 128) * 512" "b AND 65472 = (b div 64 mod 1024) * 64" for b :: nat
  by (rule and_block [of _ 6 _ 2] and_block [of _ 1 _ 7] and_block [of _ 9 _ 7] and_block [of _ 6 _ 10];
      simp; fail)+

definition dotted :: "nat \<Rightarrow> nat \<Rightarrow> nat \<Rightarrow> nat \<Rightarrow> nat" where
  "dotted a b c d = ((a * 256 + b) * 256 + c) * 256 + d"

lemma split_256: "n = n div 256 * 256 + n mod 256" for n :: nat
  by simp

lemma dotted_octets: "unat ip = dotted (octet ip 0) (octet ip 1) (octet ip 2) (octet ip 3)"
proof -
  define n where "n = unat ip"
  have lt: "n < 256 * 256 * 256 * 256" using unsigned_less [of ip] by (simp add: n_def)
  have o3: "octet ip 3 = n mod 256" by (simp add: octet_def n_def)
  have o2: "octet ip 2 = n div 256 mod 256" by (simp add: octet_def n_def)
  have o1: "octet ip 1 = n div 256 div 256 mod 256"
    by (simp add: octet_def n_def flip: div_mult2_eq)
  have o0: "octet ip 0 = n div 256 div 256 div 256"
  proof -
    have "n div 256 div 256 div 256 < 256"
      using lt by (simp only: div_mult2_eq [symmetric]) (simp add: less_mult_imp_div_less)
    moreover have "octet ip 0 = n div 256 div 256 div 256 mod 256"
      by (simp add: octet_def n_def flip: div_mult2_eq)
    ultimately show ?thesis by simp
  qed
  have "n = ((n div 256 div 256 div 256 * 256 + n div 256 div 256 mod 256) * 256 + n div 256 mod 256) * 256 + n mod 256"
    by (simp only: split_256 [symmetric])
  then show ?thesis by (simp only: o0 o1 o2 o3 dotted_def n_def)
qed

lemma octets_exhaust:
  obtains a b c d where "a < 256" "b < 256" "c < 256" "d < 256" "unat ip = dotted a b c d"
    "octet ip 0 = a" "octet ip 1 = b" "octet ip 2 = c" "octet ip 3 = d"
proof (rule that)
  show "octet ip 0 < 256" "octet ip 1 < 256" "octet ip 2 < 256" "octet ip 3 < 256"
    by (simp_all add: octet_def)
qed (rule dotted_octets refl)+

lemma dotted_le:
  assumes "b < 256" "c < 256" "d < 256" "b' < 256" "c' < 256" "d' < 256"
  shows "dotted a b c d \<le> dotted a' b' c' d' \<longleftrightarrow>
    a < a' \<or> a = a' \<and> (b < b' \<or> b = b' \<and> (c < c' \<or> c = c' \<and> d \<le> d'))"
  using assms unfolding dotted_def by (simp add: algebra_simps) linarith

text \<open>The special-purpose IPv4 blocks: first and last address. The last block of the 192.0.0.0/24
  assignment is split around the two global anycast addresses 192.0.0.9 and 192.0.0.10.\<close>

definition special_v4 :: "(nat \<times> nat) list" where
  "special_v4 =
     [(dotted 0 0 0 0, dotted 0 255 255 255), (dotted 10 0 0 0, dotted 10 255 255 255),
      (dotted 100 64 0 0, dotted 100 127 255 255), (dotted 127 0 0 0, dotted 127 255 255 255),
      (dotted 169 254 0 0, dotted 169 254 255 255), (dotted 172 16 0 0, dotted 172 31 255 255),
      (dotted 192 0 0 0, dotted 192 0 0 8), (dotted 192 0 0 11, dotted 192 0 0 255),
      (dotted 192 0 2 0, dotted 192 0 2 255), (dotted 192 168 0 0, dotted 192 168 255 255),
      (dotted 198 18 0 0, dotted 198 19 255 255), (dotted 198 51 100 0, dotted 198 51 100 255),
      (dotted 203 0 113 0, dotted 203 0 113 255), (dotted 224 0 0 0, dotted 255 255 255 255)]"

definition in_special_v4 :: "u32 \<Rightarrow> bool" where
  "in_special_v4 ip \<longleftrightarrow> list_ex (\<lambda>(lo, hi). lo \<le> unat ip \<and> unat ip \<le> hi) special_v4"

lemma div_block:
  fixes b :: nat
  assumes "0 < n"
  shows "b div n = q \<longleftrightarrow> q * n \<le> b \<and> b < (q + 1) * n"
  using assms by (metis (no_types) add.commute div_nat_eqI dividend_less_div_times div_times_less_eq_dividend
      mult.commute mult_Suc_right plus_1_eq_Suc)

lemma block_bounds:
  fixes b :: nat
  assumes "b < 256"
  shows "(b div 64 mod 4) * 64 = 64 \<longleftrightarrow> 64 \<le> b \<and> b \<le> 127"
    and "(b div 2 mod 128) * 2 = 18 \<longleftrightarrow> 18 \<le> b \<and> b \<le> 19"
proof -
  have "b div 64 < 4" "b div 2 < 128" using assms by simp_all
  then have "b div 64 mod 4 = b div 64" "b div 2 mod 128 = b div 2" by simp_all
  moreover have "b div 64 * 64 = 64 \<longleftrightarrow> 64 \<le> b \<and> b \<le> 127"
    using div_block [of 64 b 1] by auto
  moreover have "b div 2 * 2 = 18 \<longleftrightarrow> 18 \<le> b \<and> b \<le> 19"
    using div_block [of 2 b 9] by auto
  ultimately show "(b div 64 mod 4) * 64 = 64 \<longleftrightarrow> 64 \<le> b \<and> b \<le> 127"
    "(b div 2 mod 128) * 2 = 18 \<longleftrightarrow> 18 \<le> b \<and> b \<le> 19" by (simp_all only:)
qed

lemma broadcast_dotted:
  assumes "dotted a b c d = 0xFFFFFFFF" "a < 256" "b < 256" "c < 256" "d < 256"
  shows "240 \<le> a"
proof -
  have "dotted 240 0 0 0 \<le> dotted a b c d"
    unfolding assms(1) by (simp add: dotted_def)
  then show ?thesis using assms(2-) by (simp add: dotted_le) linarith
qed

lemma in_special_v4_octets:
  assumes "a < 256" "b < 256" "c < 256" "d < 256" "unat ip = dotted a b c d"
  shows "in_special_v4 ip \<longleftrightarrow> a = 0 \<or> a = 10 \<or> a = 100 \<and> 64 \<le> b \<and> b \<le> 127 \<or> a = 127
    \<or> a = 169 \<and> b = 254 \<or> a = 172 \<and> 16 \<le> b \<and> b \<le> 31
    \<or> a = 192 \<and> b = 0 \<and> c = 0 \<and> d \<noteq> 9 \<and> d \<noteq> 10 \<or> a = 192 \<and> b = 0 \<and> c = 2
    \<or> a = 192 \<and> b = 168 \<or> a = 198 \<and> 18 \<le> b \<and> b \<le> 19 \<or> a = 198 \<and> b = 51 \<and> c = 100
    \<or> a = 203 \<and> b = 0 \<and> c = 113 \<or> 224 \<le> a"
proof -
  have le: "x < 256 \<Longrightarrow> x \<le> 255" for x :: nat by simp
  have block: "dotted a1 b1 c1 d1 \<le> unat ip \<and> unat ip \<le> dotted a2 b2 c2 d2 \<longleftrightarrow>
      (a1 < a \<or> a1 = a \<and> (b1 < b \<or> b1 = b \<and> (c1 < c \<or> c1 = c \<and> d1 \<le> d))) \<and>
      (a < a2 \<or> a = a2 \<and> (b < b2 \<or> b = b2 \<and> (c < c2 \<or> c = c2 \<and> d \<le> d2)))"
    if "b1 < 256" "c1 < 256" "d1 < 256" "b2 < 256" "c2 < 256" "d2 < 256" for a1 b1 c1 d1 a2 b2 c2 d2
    using that assms by (simp add: dotted_le)
  have blocks: "dotted 0 0 0 0 \<le> unat ip \<and> unat ip \<le> dotted 0 255 255 255 \<longleftrightarrow> a = 0"
    "dotted 10 0 0 0 \<le> unat ip \<and> unat ip \<le> dotted 10 255 255 255 \<longleftrightarrow> a = 10"
    "dotted 100 64 0 0 \<le> unat ip \<and> unat ip \<le> dotted 100 127 255 255 \<longleftrightarrow> a = 100 \<and> 64 \<le> b \<and> b \<le> 127"
    "dotted 127 0 0 0 \<le> unat ip \<and> unat ip \<le> dotted 127 255 255 255 \<longleftrightarrow> a = 127"
    "dotted 169 254 0 0 \<le> unat ip \<and> unat ip \<le> dotted 169 254 255 255 \<longleftrightarrow> a = 169 \<and> b = 254"
    "dotted 172 16 0 0 \<le> unat ip \<and> unat ip \<le> dotted 172 31 255 255 \<longleftrightarrow> a = 172 \<and> 16 \<le> b \<and> b \<le> 31"
    "dotted 192 0 0 0 \<le> unat ip \<and> unat ip \<le> dotted 192 0 0 8 \<longleftrightarrow> a = 192 \<and> b = 0 \<and> c = 0 \<and> d \<le> 8"
    "dotted 192 0 0 11 \<le> unat ip \<and> unat ip \<le> dotted 192 0 0 255 \<longleftrightarrow> a = 192 \<and> b = 0 \<and> c = 0 \<and> 11 \<le> d"
    "dotted 192 0 2 0 \<le> unat ip \<and> unat ip \<le> dotted 192 0 2 255 \<longleftrightarrow> a = 192 \<and> b = 0 \<and> c = 2"
    "dotted 192 168 0 0 \<le> unat ip \<and> unat ip \<le> dotted 192 168 255 255 \<longleftrightarrow> a = 192 \<and> b = 168"
    "dotted 198 18 0 0 \<le> unat ip \<and> unat ip \<le> dotted 198 19 255 255 \<longleftrightarrow> a = 198 \<and> 18 \<le> b \<and> b \<le> 19"
    "dotted 198 51 100 0 \<le> unat ip \<and> unat ip \<le> dotted 198 51 100 255 \<longleftrightarrow> a = 198 \<and> b = 51 \<and> c = 100"
    "dotted 203 0 113 0 \<le> unat ip \<and> unat ip \<le> dotted 203 0 113 255 \<longleftrightarrow> a = 203 \<and> b = 0 \<and> c = 113"
    "dotted 224 0 0 0 \<le> unat ip \<and> unat ip \<le> dotted 255 255 255 255 \<longleftrightarrow> 224 \<le> a"
    using assms(1-4) by (subst block; simp; linarith)+
  have d: "d \<le> 8 \<or> 11 \<le> d \<longleftrightarrow> d \<noteq> 9 \<and> d \<noteq> 10" by linarith
  show ?thesis
    using d by (auto simp: in_special_v4_def special_v4_def blocks)
qed

lemma is_public_ipv4_iff: "is_public_ipv4 ip \<longleftrightarrow> \<not> in_special_v4 ip"
proof -
  obtain a b c d where *: "a < 256" "b < 256" "c < 256" "d < 256" "unat ip = dotted a b c d"
    and o: "octet ip 0 = a" "octet ip 1 = b" "octet ip 2 = c" "octet ip 3 = d"
    by (rule octets_exhaust)
  have bc: "is_broadcast ip \<Longrightarrow> 240 \<le> a"
    using * broadcast_dotted [of a b c d] by (simp add: is_broadcast_def)
  have m: "224 \<le> a \<longleftrightarrow> 240 \<le> a \<or> 224 \<le> a \<and> a \<le> 239" by linarith
  have special: "in_special_v4 ip \<longleftrightarrow> a = 0 \<or> is_private ip \<or> a = 100 \<and> b AND 0xC0 = 0x40
      \<or> is_loopback_v4 ip \<or> is_link_local ip
      \<or> (a = 192 \<and> b = 0 \<and> c = 0 \<and> d \<noteq> 9 \<and> d \<noteq> 10) \<or> is_documentation ip
      \<or> a = 198 \<and> b AND 0xFE = 18 \<or> 240 \<le> a \<or> is_multicast_v4 ip"
    unfolding in_special_v4_octets [OF *] is_private_def is_loopback_v4_def is_link_local_def
      is_documentation_def is_multicast_v4_def o and_high_bits block_bounds(1) [OF *(2)] block_bounds(2) [OF *(2)]
    using m by argo
  then show ?thesis
    unfolding is_public_ipv4_def Let_def o using bc by blast
qed

lemma public_v6_segment:
  assumes "is_public_ipv6 ip"
  shows "segment ip 0 \<notin> {0xFC00..0xFDFF} \<union> {0xFE80..0xFEFF} \<union> {0xFF00..0xFFFF}"
proof -
  define s where "s = segment ip 0"
  have lt: "s < 65536" by (simp add: s_def segment_def)
  have blocks: "s AND 0xFE00 \<noteq> 0xFC00" "s AND 0xFFC0 \<noteq> 0xFE80" "s AND 0xFFC0 \<noteq> 0xFEC0" "s div 256 \<noteq> 0xFF"
    using assms by (auto simp: is_public_ipv6_def is_multicast_v6_def s_def)
  have "s \<notin> {0xFC00..0xFDFF}"
    using blocks(1) div_block [of 512 s 126] by (auto simp: and_high_bits)
  moreover have "s \<notin> {0xFE80..0xFEBF}"
    using blocks(2) div_block [of 64 s 1018] by (auto simp: and_high_bits)
  moreover have "s \<notin> {0xFEC0..0xFEFF}"
    using blocks(3) div_block [of 64 s 1019] by (auto simp: and_high_bits)
  moreover have "s \<notin> {0xFF00..0xFFFF}"
    using blocks(4) div_block [of 256 s 255] by auto
  ultimately show ?thesis unfolding s_def [symmetric] by auto
qed

section \<open>Properties\<close>

text \<open>C37. The address policy agrees with the table of special-purpose IPv4 blocks: an address counts
  as public exactly when it lies in none of them, bit tests and standard library classes included.\<close>
theorem public_ipv4_table:
  "is_public_ipv4 ip \<longleftrightarrow> (\<forall>(lo, hi)\<in>set special_v4. \<not> (lo \<le> unat ip \<and> unat ip \<le> hi))"
  unfolding is_public_ipv4_iff in_special_v4_def by (auto simp: list_ex_iff)

theorem public_ipv4_table_witness:
  "is_public_ipv4 0xC0000009 \<and> \<not> is_public_ipv4 0xA9FEA9FE"
  unfolding public_ipv4_table by (simp add: special_v4_def dotted_def)

text \<open>C38. The public client connects only to addresses outside these ranges: when resolution through
  the guarded resolver succeeds it returns the inner resolver's answer unchanged, at least one
  address, and none of them is a special-purpose IPv4 address, an IPv4-mapped, loopback or
  unspecified IPv6 address, or one of fc00::/7, fe80::/10, fec0::/10 and ff00::/8.\<close>
theorem public_dns_only_public:
  assumes "public_dns_resolve inner hostname = Inr addresses"
  shows "inner hostname = Inr addresses \<and> addresses \<noteq> [] \<and>
    (\<forall>a\<in>set addresses. case a of
        V4 ip \<Rightarrow> \<not> in_special_v4 ip
      | V6 ip \<Rightarrow> ip \<noteq> 0 \<and> ip \<noteq> 1
          \<and> segment ip 0 \<notin> {0xFC00..0xFDFF} \<union> {0xFE80..0xFEFF} \<union> {0xFF00..0xFFFF}
          \<and> \<not> (segment ip 5 = 0xFFFF \<and> list_all (\<lambda>i. segment ip i = 0) [0, 1, 2, 3, 4]))"
proof -
  from assms have a: "inner hostname = Inr addresses" "addresses \<noteq> []" "\<forall>a\<in>set addresses. is_public_ip a"
    by (auto simp: public_dns_resolve_def bindE_Inr list_ex_iff split: if_splits)
  have "case a of V4 ip \<Rightarrow> \<not> in_special_v4 ip
      | V6 ip \<Rightarrow> ip \<noteq> 0 \<and> ip \<noteq> 1
          \<and> segment ip 0 \<notin> {0xFC00..0xFDFF} \<union> {0xFE80..0xFEFF} \<union> {0xFF00..0xFFFF}
          \<and> \<not> (segment ip 5 = 0xFFFF \<and> list_all (\<lambda>i. segment ip i = 0) [0, 1, 2, 3, 4])" if "is_public_ip a" for a
  proof (cases a)
    case (V4 ip)
    with that show ?thesis by (simp add: is_public_ipv4_iff)
  next
    case (V6 ip)
    with that have p: "is_public_ipv6 ip" by simp
    then have "\<not> (segment ip 0 = 0 \<and> segment ip 1 = 0 \<and> segment ip 2 = 0 \<and> segment ip 3 = 0
            \<and> segment ip 4 = 0 \<and> segment ip 5 = 0xFFFF)" and z: "ip \<noteq> 0" "ip \<noteq> 1"
      by (simp_all only: is_public_ipv6_def is_unspecified_v6_def is_loopback_v6_def de_Morgan_disj simp_thms)
    then have m: "\<not> (segment ip 5 = 0xFFFF \<and> list_all (\<lambda>i. segment ip i = 0) [0, 1, 2, 3, 4])"
      by (metis list.pred_inject(2))
    from V6 m z public_v6_segment [OF p] show ?thesis by simp
  qed
  with a show ?thesis by blast
qed

theorem public_dns_only_public_witness:
  "public_dns_resolve (\<lambda>_. Inr [V4 0x08080808]) ''dns.google'' = Inr [V4 0x08080808]
   \<and> \<not> in_special_v4 0x08080808"
proof -
  have "is_public_ipv4 0x08080808"
    unfolding is_public_ipv4_iff in_special_v4_def by (simp add: special_v4_def dotted_def)
  then have r: "public_dns_resolve (\<lambda>_. Inr [V4 0x08080808]) ''dns.google'' = Inr [V4 0x08080808]"
    by (simp add: public_dns_resolve_def)
  from public_dns_only_public [OF r] r show ?thesis by simp
qed

end
