(* ===== verification/Info.thy ===== *)
theory Info
  imports Utf8
begin

text \<open>
  \<open>crates/helmoci-info/src/lib.rs\<close>: build provenance. The compile-time environment (\<open>GIT_SHA\<close>,
  \<open>BUILD_TIME\<close> and the package version) is the record \<open>build_env\<close>.
\<close>

record build_env =
  be_git_sha :: "string option"
  be_build_time :: "string option"
  be_pkg_version :: string

definition SHORT_SHA_LEN :: nat where
  "SHORT_SHA_LEN = 7"

definition git_sha :: "build_env \<Rightarrow> string" where
  "git_sha env = (case be_git_sha env of Some sha \<Rightarrow> sha | None \<Rightarrow> ''unknown'')"

definition build_time :: "build_env \<Rightarrow> string" where
  "build_time env = (case be_build_time env of Some time \<Rightarrow> time | None \<Rightarrow> ''unknown'')"

text \<open>The cut may fall inside a multi-byte character, in which case the prefix is not UTF-8.\<close>

definition short_git_sha :: "build_env \<Rightarrow> string" where
  "short_git_sha env =
     (let bytes = git_sha env;
          len = (if length bytes < SHORT_SHA_LEN then length bytes else SHORT_SHA_LEN)
      in case from_utf8 (take len bytes) of Some sha \<Rightarrow> sha | None \<Rightarrow> ''unknown'')"

definition info_version :: "build_env \<Rightarrow> string" where
  "info_version env =
     be_pkg_version env @ '' (commit: '' @ git_sha env @ '') built on '' @ build_time env"

definition user_agent :: "build_env \<Rightarrow> string" where
  "user_agent env = ''helmoci/'' @ be_pkg_version env @ ''-'' @ short_git_sha env"

lemma length_short_git_sha: "length (short_git_sha env) \<le> 7"
  by (auto simp: short_git_sha_def Let_def SHORT_SHA_LEN_def from_utf8_def split: option.splits if_splits)

end
