(* ===== verification/Metrics.thy ===== *)
theory Metrics
  imports Prelude
begin

text \<open>
  \<open>bins/helmoci/src/metrics.rs\<close>: the labels of the counters, the events the handlers record, and
  the route label of a request path. The recorder (crate \<open>metrics\<close>) is modelled by the list of
  events, a histogram's observation included.
\<close>

datatype upstream_kind = ClassicIndex | ClassicChart | OciManifest | OciBlob | OciTags | OciToken

fun upstream_kind_label :: "upstream_kind \<Rightarrow> string" where
  "upstream_kind_label ClassicIndex = ''classic_index''"
| "upstream_kind_label ClassicChart = ''classic_chart''"
| "upstream_kind_label OciManifest = ''oci_manifest''"
| "upstream_kind_label OciBlob = ''oci_blob''"
| "upstream_kind_label OciTags = ''oci_tags''"
| "upstream_kind_label OciToken = ''oci_token''"

datatype proxy_kind = KindManifest | KindBlob | KindTags

fun proxy_kind_label :: "proxy_kind \<Rightarrow> string" where
  "proxy_kind_label KindManifest = ''manifest''"
| "proxy_kind_label KindBlob = ''blob''"
| "proxy_kind_label KindTags = ''tags''"

datatype proxy_upstream = ProxyClassic | ProxyOci

fun proxy_upstream_label :: "proxy_upstream \<Rightarrow> string" where
  "proxy_upstream_label ProxyClassic = ''classic''"
| "proxy_upstream_label ProxyOci = ''oci''"

datatype proxy_source = FromUpstream | PersistentCache | EphemeralCache

fun proxy_source_label :: "proxy_source \<Rightarrow> string" where
  "proxy_source_label FromUpstream = ''upstream''"
| "proxy_source_label PersistentCache = ''persistent_cache''"
| "proxy_source_label EphemeralCache = ''ephemeral_cache''"

text \<open>A counter increment: its name, its labels and the amount.\<close>

record metric_event =
  me_name :: string
  me_labels :: "(string \<times> string) list"
  me_amount :: nat

definition proxy_response_event :: "proxy_kind \<Rightarrow> proxy_upstream \<Rightarrow> proxy_source \<Rightarrow> metric_event" where
  "proxy_response_event kind upstream source =
     \<lparr>me_name = ''helmoci_proxy_responses_total'',
      me_labels = [(''kind'', proxy_kind_label kind), (''upstream'', proxy_upstream_label upstream),
                   (''source'', proxy_source_label source)],
      me_amount = 1\<rparr>"

definition blob_bytes_event :: "proxy_upstream \<Rightarrow> proxy_source \<Rightarrow> nat \<Rightarrow> metric_event" where
  "blob_bytes_event upstream source n =
     \<lparr>me_name = ''helmoci_blob_bytes_served_total'',
      me_labels = [(''upstream'', proxy_upstream_label upstream), (''source'', proxy_source_label source)],
      me_amount = n\<rparr>"

definition route_kind :: "string \<Rightarrow> string" where
  "route_kind path =
     (if path = ''/'' then ''home''
      else if path = ''/healthz'' then ''healthz''
      else if path = ''/metrics'' then ''metrics''
      else if path = ''/v2'' \<or> path = ''/v2/'' then ''api''
      else case strip_prefix ''/v2/'' path of
        None \<Rightarrow> ''other''
      | Some v2_path \<Rightarrow>
          if contains_sub ''/manifests/'' v2_path then ''manifest''
          else if contains_sub ''/blobs/'' v2_path then ''blob''
          else if ends_with ''/tags/list'' v2_path then ''tags''
          else ''other'')"

text \<open>What \<open>record_http\<close> counts for a finished request.\<close>

definition http_event :: "string \<Rightarrow> nat \<Rightarrow> metric_event" where
  "http_event path status =
     \<lparr>me_name = ''helmoci_http_requests_total'',
      me_labels = [(''route'', route_kind path), (''status'', show_nat status)], me_amount = 1\<rparr>"

text \<open>Its duration is recorded in a histogram, here in nanoseconds.\<close>

definition http_duration_event :: "string \<Rightarrow> nat \<Rightarrow> metric_event" where
  "http_duration_event path elapsed =
     \<lparr>me_name = ''helmoci_http_request_duration_seconds'',
      me_labels = [(''route'', route_kind path)], me_amount = elapsed\<rparr>"

text \<open>The duration of an upstream request, recorded by \<open>send\<close> for every request of a redirect chain.\<close>

definition upstream_duration_event :: "upstream_kind \<Rightarrow> nat \<Rightarrow> metric_event" where
  "upstream_duration_event kind elapsed =
     \<lparr>me_name = ''helmoci_upstream_request_duration_seconds'',
      me_labels = [(''kind'', upstream_kind_label kind)], me_amount = elapsed\<rparr>"

text \<open>The label set is closed, whatever path a client sends.\<close>

definition route_labels :: "string set" where
  "route_labels = {''home'', ''healthz'', ''metrics'', ''api'', ''manifest'', ''blob'', ''tags'', ''other''}"

lemma route_kind_closed: "route_kind path \<in> route_labels"
  by (simp add: route_kind_def route_labels_def split: option.split)

end
