(* ===== verification/State.thy ===== *)
theory State
  imports Public_Ip Info Config Metrics
begin

text \<open>
  \<open>bins/helmoci/src/state.rs\<close>: token lifetimes, the configuration of the three HTTP clients and of
  the caches, and the application state the handlers share. Time is a number of nanoseconds since
  the start (\<open>Instant\<close>), a lifetime a number of seconds (\<open>Duration\<close>).
\<close>

section \<open>Token lifetimes\<close>

definition INDEX_CACHE_INDEXES :: u64 where
  "INDEX_CACHE_INDEXES = 4"

definition TOKEN_EXPIRY_MARGIN_SECS :: u64 where
  "TOKEN_EXPIRY_MARGIN_SECS = 30"

definition MIN_TOKEN_TTL_SECS :: u64 where
  "MIN_TOKEN_TTL_SECS = 60"

definition MAX_TOKEN_TTL_SECS :: u64 where
  "MAX_TOKEN_TTL_SECS = 3600"

definition DEFAULT_TOKEN_TTL_SECS :: u64 where
  "DEFAULT_TOKEN_TTL_SECS = 240"

definition token_ttl :: "u64 option \<Rightarrow> u64" where
  "token_ttl advertised =
     (case advertised of
        Some a \<Rightarrow> min (max (saturating_sub a TOKEN_EXPIRY_MARGIN_SECS) MIN_TOKEN_TTL_SECS) MAX_TOKEN_TTL_SECS
      | None \<Rightarrow> DEFAULT_TOKEN_TTL_SECS)"

record cached_token =
  ct_token :: string
  ct_expires_at :: nat

definition nanos :: "u64 \<Rightarrow> nat" where
  "nanos secs = unat secs * 10 ^ 9"

definition cached_token_new :: "nat \<Rightarrow> string \<Rightarrow> u64 option \<Rightarrow> cached_token" where
  "cached_token_new now token advertised =
     \<lparr>ct_token = token, ct_expires_at = now + nanos (token_ttl advertised)\<rparr>"

definition cached_token_live :: "nat \<Rightarrow> cached_token \<Rightarrow> string option" where
  "cached_token_live now c = (if now < ct_expires_at c then Some (ct_token c) else None)"

section \<open>Clients and caches\<close>

text \<open>What the builder of a client is told. No client follows redirects by itself.\<close>

datatype dns_resolver = LibraryDns | SystemDns | PublicDns

record client_config =
  cl_user_agent :: string
  cl_connect_timeout_secs :: nat
  cl_timeout_secs :: nat
  cl_follows_redirects :: bool
  cl_env_proxy :: bool
  cl_dns :: dns_resolver

definition build_http :: "build_env \<Rightarrow> client_config" where
  "build_http env = \<lparr>cl_user_agent = user_agent env, cl_connect_timeout_secs = 10, cl_timeout_secs = 120,
     cl_follows_redirects = False, cl_env_proxy = True, cl_dns = LibraryDns\<rparr>"

definition build_no_redirect_http :: "build_env \<Rightarrow> dns_resolver \<Rightarrow> client_config" where
  "build_no_redirect_http env resolver =
     \<lparr>cl_user_agent = user_agent env, cl_connect_timeout_secs = 10, cl_timeout_secs = 120,
      cl_follows_redirects = False, cl_env_proxy = False, cl_dns = resolver\<rparr>"

definition build_public_http :: "build_env \<Rightarrow> client_config" where
  "build_public_http env = build_no_redirect_http env PublicDns"

definition build_token_http :: "build_env \<Rightarrow> client_config" where
  "build_token_http env = build_no_redirect_http env SystemDns"

definition index_weigher :: "string \<Rightarrow> u32" where
  "index_weigher s = (if length s < 2 ^ 32 then of_nat (length s) else 0xFFFFFFFF)"

record bounded_cache =
  bc_max_capacity :: u64
  bc_time_to_live_secs :: u64

definition index_cache_config :: "settings \<Rightarrow> bounded_cache" where
  "index_cache_config s =
     \<lparr>bc_max_capacity = saturating_mul (st_max_index_bytes s) INDEX_CACHE_INDEXES,
      bc_time_to_live_secs = st_index_cache_ttl_secs s\<rparr>"

definition upstream_tokens_config :: bounded_cache where
  "upstream_tokens_config = \<lparr>bc_max_capacity = 256, bc_time_to_live_secs = MAX_TOKEN_TTL_SECS\<rparr>"

section \<open>Properties\<close>

lemma token_ttl_bounds: "60 \<le> unat (token_ttl a) \<and> unat (token_ttl a) \<le> 3600"
proof (cases a)
  case None
  then show ?thesis by (simp add: token_ttl_def DEFAULT_TOKEN_TTL_SECS_def)
next
  case (Some n)
  have "MIN_TOKEN_TTL_SECS \<le> token_ttl a" "token_ttl a \<le> MAX_TOKEN_TTL_SECS"
    by (simp_all add: token_ttl_def Some MIN_TOKEN_TTL_SECS_def MAX_TOKEN_TTL_SECS_def)
  then show ?thesis
    by (simp add: word_le_nat_alt MIN_TOKEN_TTL_SECS_def MAX_TOKEN_TTL_SECS_def)
qed

lemma token_ttl_exact:
  "90 \<le> unat n \<Longrightarrow> unat n \<le> 3630 \<Longrightarrow> unat (token_ttl (Some n)) = unat n - 30"
proof -
  assume n: "90 \<le> unat n" "unat n \<le> 3630"
  have m: "unat (saturating_sub n TOKEN_EXPIRY_MARGIN_SECS) = unat n - 30"
    by (simp add: unat_saturating_sub TOKEN_EXPIRY_MARGIN_SECS_def)
  then have "MIN_TOKEN_TTL_SECS \<le> saturating_sub n TOKEN_EXPIRY_MARGIN_SECS"
    "saturating_sub n TOKEN_EXPIRY_MARGIN_SECS \<le> MAX_TOKEN_TTL_SECS"
    using n by (simp_all add: word_le_nat_alt MIN_TOKEN_TTL_SECS_def MAX_TOKEN_TTL_SECS_def)
  then have "token_ttl (Some n) = saturating_sub n TOKEN_EXPIRY_MARGIN_SECS"
    by (simp add: token_ttl_def min_def max_def)
  with m show ?thesis by simp
qed

text \<open>A cached token is served for at least a minute and at most an hour whatever lifetime the
  token endpoint advertised, 0 and the largest u64 included, never once its deadline has passed,
  and, for an advertised lifetime the bounds admit, never within 30 seconds of its expiry.\<close>
theorem cached_token_lifetime:
  assumes "cached_token_live t (cached_token_new now token advertised) = Some tok"
  shows "tok = token \<and> t < now + 3600 * 10 ^ 9
    \<and> (\<forall>n. advertised = Some n \<longrightarrow> 90 \<le> unat n \<longrightarrow> t + 30 * 10 ^ 9 < now + unat n * 10 ^ 9)
    \<and> (\<forall>t' tok'. t' < now + 60 * 10 ^ 9 \<longrightarrow>
         cached_token_live t' (cached_token_new now token advertised) = Some token)"
proof -
  let ?ttl = "unat (token_ttl advertised)"
  from assms have live: "tok = token" "t < now + ?ttl * 10 ^ 9"
    by (auto simp: cached_token_live_def cached_token_new_def nanos_def split: if_splits)
  have b: "60 \<le> ?ttl" "?ttl \<le> 3600" using token_ttl_bounds [of advertised] by auto
  have "t + 30 * 10 ^ 9 < now + unat n * 10 ^ 9" if "advertised = Some n" "90 \<le> unat n" for n
  proof (cases "unat n \<le> 3630")
    case True
    with that live token_ttl_exact [of n] show ?thesis by simp
  next
    case False
    with live b show ?thesis by simp
  qed
  with live b show ?thesis
    by (auto simp: cached_token_live_def cached_token_new_def nanos_def)
qed

theorem cached_token_lifetime_witness:
  "cached_token_live (5 + 200 * 10 ^ 9) (cached_token_new 5 ''tok'' (Some 300)) = Some ''tok''
   \<and> 5 + 200 * 10 ^ 9 + 30 * 10 ^ 9 < (5 + 300 * 10 ^ 9 :: nat)"
proof -
  have "unat (token_ttl (Some 300)) = 270" by (simp add: token_ttl_exact)
  then have l: "cached_token_live (5 + 200 * 10 ^ 9) (cached_token_new 5 ''tok'' (Some 300)) = Some ''tok''"
    by (simp add: cached_token_live_def cached_token_new_def nanos_def)
  from cached_token_lifetime [OF l] l show ?thesis by simp
qed

end
