(* ===== verification/Respond.thy ===== *)
theory Respond
  imports App_Error Metrics
begin

text \<open>
  \<open>bins/helmoci/src/respond.rs\<close>: the responses that carry an artifact. The label under which a
  streamed body's bytes are counted is the response's meter, which also holds what is recorded when
  the body breaks off in an error.
\<close>

type_synonym meter = "proxy_upstream \<times> proxy_source \<times> metric_event list"

text \<open>What is recorded when an item of a body is produced.\<close>

fun item_events :: "meter option \<Rightarrow> 'e + bytes \<Rightarrow> metric_event list" where
  "item_events None item = []"
| "item_events (Some (upstream, source, broken)) (Inr chunk) = [blob_bytes_event upstream source (length chunk)]"
| "item_events (Some (upstream, source, broken)) (Inl e) = broken"

definition invalid_content_type :: app_error where
  "invalid_content_type = Upstream ''response media type was not a valid header value''"

definition respond_base :: "http_lib \<Rightarrow> string \<Rightarrow> digest \<Rightarrow> u64 \<Rightarrow> app_error + builder" where
  "respond_base H content_type d sz =
     (if \<not> hl_header_ok H content_type then Inl invalid_content_type
      else Inr (builder_header H ''docker-distribution-api-version'' ''registry/2.0''
             (builder_header H ''etag'' (quote (as_str d))
             (builder_header H ''docker-content-digest'' (as_str d)
             (builder_header H ''content-length'' (show_u64 sz)
             (builder_header H ''content-type'' content_type (builder_new 200)))))))"

definition finish :: "http_lib \<Rightarrow> builder \<Rightarrow> (string + bytes) list \<Rightarrow> 'm option \<Rightarrow> 'm response" where
  "finish H b body meter =
     (if bd_failed b then error_response H invalid_content_type
      else \<lparr>rs_status = bd_status b, rs_headers = bd_headers b, rs_body = body, rs_meter = meter\<rparr>)"

definition blob_response ::
  "http_lib \<Rightarrow> string \<Rightarrow> digest \<Rightarrow> blob \<Rightarrow> bool \<Rightarrow> proxy_upstream \<Rightarrow> proxy_source \<Rightarrow> meter response" where
  "blob_response H content_type d b head_only upstream source =
     (case respond_base H content_type d (bm_size (bl_meta b)) of
        Inl _ \<Rightarrow> error_response H invalid_content_type
      | Inr builder \<Rightarrow>
          if head_only then finish H builder [] None
          else finish H builder (map (map_errE storage_error_display) (bl_data b)) (Some (upstream, source, [])))"

definition blob_bytes_response ::
  "http_lib \<Rightarrow> string \<Rightarrow> digest \<Rightarrow> bytes \<Rightarrow> bool \<Rightarrow> proxy_upstream \<Rightarrow> proxy_source \<Rightarrow> meter response" where
  "blob_bytes_response H content_type d data head_only upstream source =
     (case respond_base H content_type d (of_nat (length data)) of
        Inl _ \<Rightarrow> error_response H invalid_content_type
      | Inr builder \<Rightarrow>
          if head_only then finish H builder [] None
          else finish H builder [Inr data] (Some (upstream, source, [])))"

definition bytes_response :: "http_lib \<Rightarrow> string \<Rightarrow> digest \<Rightarrow> bytes \<Rightarrow> bool \<Rightarrow> 'm response" where
  "bytes_response H content_type d data head_only =
     (case respond_base H content_type d (of_nat (length data)) of
        Inl _ \<Rightarrow> error_response H invalid_content_type
      | Inr builder \<Rightarrow>
          if head_only then finish H builder [] None else finish H builder [Inr data] None)"

section \<open>What a response claims\<close>

text \<open>Every 200 response built here names the digest it was given.\<close>

definition names_digest :: "digest \<Rightarrow> 'm response \<Rightarrow> bool" where
  "names_digest d r \<longleftrightarrow> header_get ''docker-content-digest'' (rs_headers r) = Some (as_str d)"

lemma respond_base_ok:
  "respond_base H ct d sz = Inr b \<Longrightarrow> \<not> bd_failed b \<Longrightarrow>
   bd_status b = 200 \<and>
   bd_headers b = [(''content-type'', ct), (''content-length'', show_u64 sz),
     (''docker-content-digest'', as_str d), (''etag'', quote (as_str d)),
     (''docker-distribution-api-version'', ''registry/2.0'')]"
  by (auto simp: respond_base_def builder_header_def builder_new_def split: if_splits)

lemma finish_cases:
  "respond_base H ct d sz = Inr b \<Longrightarrow> finish H b body meter = r \<Longrightarrow>
   r = error_response H invalid_content_type \<or>
   rs_status r = 200 \<and> names_digest d r \<and> rs_body r = body
     \<and> header_get ''content-length'' (rs_headers r) = Some (show_u64 sz)
     \<and> header_get ''content-type'' (rs_headers r) = Some ct"
  using respond_base_ok [of H ct d sz b]
  by (auto simp: finish_def names_digest_def header_get_def)

lemma bytes_response_cases:
  "bytes_response H ct d data head_only = r \<Longrightarrow>
   r = error_response H invalid_content_type \<or>
   rs_status r = 200 \<and> names_digest d r \<and> rs_body r = (if head_only then [] else [Inr data])
     \<and> header_get ''content-length'' (rs_headers r) = Some (show_u64 (of_nat (length data)))
     \<and> header_get ''content-type'' (rs_headers r) = Some ct"
  by (auto simp: bytes_response_def split: sum.splits if_splits dest: finish_cases)

lemma blob_bytes_response_cases:
  "blob_bytes_response H ct d data head_only u s = r \<Longrightarrow>
   r = error_response H invalid_content_type \<or>
   rs_status r = 200 \<and> names_digest d r \<and> rs_body r = (if head_only then [] else [Inr data])
     \<and> header_get ''content-length'' (rs_headers r) = Some (show_u64 (of_nat (length data)))"
  by (auto simp: blob_bytes_response_def split: sum.splits if_splits dest: finish_cases)

lemma blob_response_cases:
  "blob_response H ct d b head_only u s = r \<Longrightarrow>
   r = error_response H invalid_content_type \<or>
   rs_status r = 200 \<and> names_digest d r
     \<and> rs_body r = (if head_only then [] else map (map_errE storage_error_display) (bl_data b))
     \<and> header_get ''content-length'' (rs_headers r) = Some (show_u64 (bm_size (bl_meta b)))"
  by (auto simp: blob_response_def split: sum.splits if_splits dest: finish_cases)

end
