(* ===== verification/Std_Float.thy ===== *)
theory Std_Float
  imports Prelude
begin

text \<open>
  The part of Rust's floating-point types that the sources use: \<open>str::parse\<close> to \<open>f64\<close> and \<open>f32\<close>
  (IEEE 754 rounding to nearest, ties to even), the comparisons with zero and the saturating cast
  to \<open>u64\<close>. A finite value is its sign, its mantissa and the power of two that scales it.
\<close>

datatype flt = FNaN | FInf bool | FFin bool nat int

section \<open>Rounding\<close>

fun bit_len :: "nat \<Rightarrow> nat" where
  "bit_len n = (if n = 0 then 0 else Suc (bit_len (n div 2)))"

declare bit_len.simps [simp del]

definition round_half_even :: "nat \<Rightarrow> nat \<Rightarrow> nat" where
  "round_half_even n d =
     (let q = n div d; r = n mod d in
      if 2 * r < d then q else if d < 2 * r then q + 1 else if even q then q else q + 1)"

text \<open>The quotient \<open>num / den\<close> as \<open>n / d\<close> after dividing by \<open>2 ^ e\<close>.\<close>

definition scaled :: "nat \<Rightarrow> nat \<Rightarrow> int \<Rightarrow> nat \<times> nat" where
  "scaled num den e = (if 0 \<le> e then (num, den * 2 ^ nat e) else (num * 2 ^ nat (- e), den))"

text \<open>\<open>p\<close> bits of precision, \<open>emin\<close> the exponent of the smallest subnormal and \<open>emax\<close> the largest
  binary exponent.\<close>

definition round_float :: "nat \<Rightarrow> int \<Rightarrow> int \<Rightarrow> bool \<Rightarrow> nat \<Rightarrow> nat \<Rightarrow> flt" where
  "round_float p emin emax neg num den =
     (if num = 0 then FFin neg 0 0
      else
        let l = int (bit_len num) - int (bit_len den);
            fl = (case scaled num den l of (n, d) \<Rightarrow> if d \<le> n then l else l - 1);
            e = max emin (fl - int p + 1);
            m = (case scaled num den e of (n, d) \<Rightarrow> round_half_even n d)
        in if emax + 1 < int (bit_len m) + e then FInf neg else FFin neg m e)"

section \<open>Parsing\<close>

definition dec_val :: "string \<Rightarrow> nat" where
  "dec_val ds = foldl (\<lambda>a c. 10 * a + (byte_of c - 48)) 0 ds"

definition split_sign :: "string \<Rightarrow> bool \<times> string" where
  "split_sign s =
     (case s of
        [] \<Rightarrow> (False, [])
      | c # cs \<Rightarrow> if c = CHR ''-'' then (True, cs) else if c = CHR ''+'' then (False, cs) else (False, s))"

definition parse_exponent :: "string \<Rightarrow> int option" where
  "parse_exponent s =
     (case s of
        [] \<Rightarrow> Some 0
      | c # r \<Rightarrow>
          if c \<noteq> CHR ''e'' \<and> c \<noteq> CHR ''E'' then None
          else case split_sign r of (neg, ds) \<Rightarrow>
            if ds = [] \<or> \<not> list_all is_ascii_digit ds then None
            else Some (if neg then - int (dec_val ds) else int (dec_val ds)))"

definition parse_float :: "nat \<Rightarrow> int \<Rightarrow> int \<Rightarrow> string \<Rightarrow> flt option" where
  "parse_float p emin emax s =
     (case split_sign s of (neg, body) \<Rightarrow>
        if eq_ignore_ascii_case body ''inf'' \<or> eq_ignore_ascii_case body ''infinity'' then Some (FInf neg)
        else if eq_ignore_ascii_case body ''nan'' then Some FNaN
        else
          let whole = takeWhile is_ascii_digit body;
              r1 = dropWhile is_ascii_digit body;
              after_point = strip_prefix ''.'' r1;
              frac = (case after_point of None \<Rightarrow> [] | Some r \<Rightarrow> takeWhile is_ascii_digit r);
              r2 = (case after_point of None \<Rightarrow> r1 | Some r \<Rightarrow> dropWhile is_ascii_digit r)
          in if whole = [] \<and> frac = [] then None
             else map_option (\<lambda>ex.
               let ex = ex - int (length frac); digits = dec_val (whole @ frac) in
               if 0 \<le> ex then round_float p emin emax neg (digits * 10 ^ nat ex) 1
               else round_float p emin emax neg digits (10 ^ nat (- ex))) (parse_exponent r2))"

definition parse_f64 :: "string \<Rightarrow> flt option" where
  "parse_f64 = parse_float 53 (- 1074) 1023"

definition parse_f32 :: "string \<Rightarrow> flt option" where
  "parse_f32 = parse_float 24 (- 149) 127"

section \<open>Comparisons and casts\<close>

fun flt_is_finite :: "flt \<Rightarrow> bool" where
  "flt_is_finite (FFin neg m e) = True"
| "flt_is_finite _ = False"

fun flt_ge_zero :: "flt \<Rightarrow> bool" where
  "flt_ge_zero FNaN = False"
| "flt_ge_zero (FInf neg) = (\<not> neg)"
| "flt_ge_zero (FFin neg m e) = (\<not> neg \<or> m = 0)"

fun flt_gt_zero :: "flt \<Rightarrow> bool" where
  "flt_gt_zero FNaN = False"
| "flt_gt_zero (FInf neg) = (\<not> neg)"
| "flt_gt_zero (FFin neg m e) = (\<not> neg \<and> m \<noteq> 0)"

text \<open>The cast truncates towards zero and saturates at both ends; not a number becomes 0.\<close>

fun flt_to_u64 :: "flt \<Rightarrow> u64" where
  "flt_to_u64 FNaN = 0"
| "flt_to_u64 (FInf neg) = (if neg then 0 else - 1)"
| "flt_to_u64 (FFin neg m e) =
     (if neg then 0
      else let v = (if 0 \<le> e then m * 2 ^ nat e else m div 2 ^ nat (- e))
           in if u64_max < v then - 1 else of_nat v)"

end
