(* ===== verification/World.thy ===== *)
theory World
  imports Oci_Build Objstore Ephemeral State Respond Std_Float
begin

text \<open>
  The state the request handlers run in and the environment they are given: \<open>AppState\<close> of
  \<open>bins/helmoci/src/state.rs\<close> together with everything outside the process. The state holds the two
  stores, the index and token caches, the clock, the upstream requests sent so far and the metric
  events. The network is a function of the requests sent before, so an upstream may answer the
  same request differently each time.
\<close>

section \<open>Requests and answers\<close>

datatype initial_client = Trusted | TokenTrusted | Public

record 'u http_request =
  rq_method :: http_method
  rq_url :: 'u
  rq_headers :: headers
  rq_client :: initial_client

text \<open>A header value is \<open>Some\<close> text when \<open>to_str\<close> accepts it. The body is its chunks up to the
  end or to the first transport error.\<close>

record http_answer =
  an_status :: nat
  an_headers :: "(string \<times> string option) list"
  an_content_length :: "u64 option"
  an_chunks :: "(string + bytes) list"

definition answer_header :: "string \<Rightarrow> http_answer \<Rightarrow> string option option" where
  "answer_header name a = map_of (an_headers a) name"

definition answer_headers :: "string \<Rightarrow> http_answer \<Rightarrow> string option list" where
  "answer_headers name a = map snd (filter (\<lambda>(n, v). n = name) (an_headers a))"

definition is_success :: "nat \<Rightarrow> bool" where
  "is_success status \<longleftrightarrow> 200 \<le> status \<and> status < 300"

section \<open>State and environment\<close>

record ('s, 'c, 'u) world =
  w_store :: 's
  w_ephemeral :: 'c
  w_index_cache :: "string \<Rightarrow> string option"
  w_tokens :: "string \<Rightarrow> cached_token option"
  w_now :: nat
  w_sent :: "'u http_request list"
  w_metrics :: "metric_event list"

text \<open>\<open>e_retains\<close> says whether a cache still has the entry of a key at a time (capacity and time to
  live decide that); \<open>e_elapsed\<close> how long an upstream request takes; \<open>e_gcp\<close> the access token
  at a time; \<open>e_join\<close> the error of a blocking build task that panicked; \<open>e_schedule\<close> the order in
  which concurrently polled writes complete.\<close>

record ('s, 'c, 'u) env =
  e_cfg :: runtime_config
  e_storage :: "'s storage_ops"
  e_ephemeral :: "'c storage_ops"
  e_net :: "'u http_request list \<Rightarrow> 'u http_request \<Rightarrow> string + http_answer"
  e_elapsed :: "'u http_request list \<Rightarrow> nat"
  e_retains :: "nat \<Rightarrow> string \<Rightarrow> bool"
  e_gcp :: "(nat \<Rightarrow> app_error + string) option"
  e_join :: "bytes \<Rightarrow> string option"
  e_schedule :: "nat \<Rightarrow> nat"
  e_http :: http_lib
  e_helm :: "'u helm_env"
  e_sha :: "bytes \<Rightarrow> string"
  e_yaml_index :: yaml_index
  e_manifest_json :: "oci_manifest \<Rightarrow> string + bytes"
  e_manifest_parse :: "bytes \<Rightarrow> oci_manifest option"
  e_json_parse :: "bytes \<Rightarrow> json option"
  e_num_f64 :: "string \<Rightarrow> flt option"
  e_token_parse :: "bytes \<Rightarrow> (string option \<times> string option \<times> json option) option"
  e_form_parse :: "string \<Rightarrow> (string \<times> string) list"
  e_form_encode :: "string \<Rightarrow> string"
  e_b64 :: "string \<Rightarrow> bytes option"
  e_b64_encode :: "bytes \<Rightarrow> string"
  e_decode :: "string \<Rightarrow> string option"
  e_debug :: "string \<Rightarrow> string"

type_synonym ('s, 'c, 'u, 'a) handler = "(('s, 'c, 'u) world, app_error, 'a) act"

abbreviation e_url :: "('s, 'c, 'u) env \<Rightarrow> 'u url_lib" where
  "e_url E \<equiv> he_url (e_helm E)"

abbreviation e_settings :: "('s, 'c, 'u) env \<Rightarrow> settings" where
  "e_settings E \<equiv> rt_settings (e_cfg E)"

definition storage_of :: "('s, 'c, 'u) env \<Rightarrow> ('s, 'c, 'u) world storage_ops" where
  "storage_of E = lift_ops w_store (\<lambda>s w. w\<lparr>w_store := s\<rparr>) (e_storage E)"

definition ephemeral_of :: "('s, 'c, 'u) env \<Rightarrow> ('s, 'c, 'u) world storage_ops" where
  "ephemeral_of E = lift_ops w_ephemeral (\<lambda>s w. w\<lparr>w_ephemeral := s\<rparr>) (e_ephemeral E)"

definition record_event :: "metric_event \<Rightarrow> ('s, 'c, 'u, unit) handler" where
  "record_event e = modifyA (\<lambda>w. w\<lparr>w_metrics := w_metrics w @ [e]\<rparr>)"

definition count_event :: "string \<Rightarrow> ('s, 'c, 'u, unit) handler" where
  "count_event name = record_event \<lparr>me_name = name, me_labels = [], me_amount = 1\<rparr>"

definition cache_lookup :: "('s, 'c, 'u) env \<Rightarrow> (string \<Rightarrow> 'v option) \<Rightarrow> nat \<Rightarrow> string \<Rightarrow> 'v option" where
  "cache_lookup E cache now key = (if e_retains E now key then cache key else None)"

definition index_cache_get :: "('s, 'c, 'u) env \<Rightarrow> string \<Rightarrow> ('s, 'c, 'u, string option) handler" where
  "index_cache_get E key = getA (\<lambda>w. cache_lookup E (w_index_cache w) (w_now w) key)"

definition index_cache_insert :: "string \<Rightarrow> string \<Rightarrow> ('s, 'c, 'u, unit) handler" where
  "index_cache_insert key txt = modifyA (\<lambda>w. w\<lparr>w_index_cache := (w_index_cache w)(key \<mapsto> txt)\<rparr>)"

definition token_cache_get :: "('s, 'c, 'u) env \<Rightarrow> string \<Rightarrow> ('s, 'c, 'u, cached_token option) handler" where
  "token_cache_get E key = getA (\<lambda>w. cache_lookup E (w_tokens w) (w_now w) key)"

definition token_cache_insert :: "string \<Rightarrow> cached_token \<Rightarrow> ('s, 'c, 'u, unit) handler" where
  "token_cache_insert key c = modifyA (\<lambda>w. w\<lparr>w_tokens := (w_tokens w)(key \<mapsto> c)\<rparr>)"

definition token_cache_invalidate :: "string \<Rightarrow> ('s, 'c, 'u, unit) handler" where
  "token_cache_invalidate key = modifyA (\<lambda>w. w\<lparr>w_tokens := (w_tokens w)(key := None)\<rparr>)"

text \<open>One upstream request on the wire.\<close>

definition send_request :: "('s, 'c, 'u) env \<Rightarrow> 'u http_request \<Rightarrow> (('s, 'c, 'u) world, string, http_answer) act" where
  "send_request E q = (\<lambda>w.
     (e_net E (w_sent w) q,
      w\<lparr>w_sent := w_sent w @ [q], w_now := w_now w + e_elapsed E (w_sent w)\<rparr>))"

lemma storage_lift_world:
  "storage ops vb vt good \<Longrightarrow>
   storage (lift_ops w_store (\<lambda>s w. w\<lparr>w_store := s\<rparr>) ops) (vb \<circ> w_store) (vt \<circ> w_store) (good \<circ> w_store)"
  "storage ops' vb' vt' good' \<Longrightarrow>
   storage (lift_ops w_ephemeral (\<lambda>s w. w\<lparr>w_ephemeral := s\<rparr>) ops') (vb' \<circ> w_ephemeral) (vt' \<circ> w_ephemeral) (good' \<circ> w_ephemeral)"
  by (rule storage_lift; simp)+

section \<open>Operations that leave the stores alone\<close>

text \<open>Most steps of a handler do not touch the stores; they preserve every predicate of them.\<close>

definition stores_same :: "('s, 'c, 'u) world \<Rightarrow> ('s, 'c, 'u) world \<Rightarrow> bool" where
  "stores_same w w' \<longleftrightarrow> w_store w' = w_store w \<and> w_ephemeral w' = w_ephemeral w"

definition keeps_stores :: "(('s, 'c, 'u) world, 'e, 'a) act \<Rightarrow> bool" where
  "keeps_stores m \<longleftrightarrow> (\<forall>w r w'. m w = (r, w') \<longrightarrow> stores_same w w')"

named_theorems keeps_rules \<open>operations that leave both stores alone\<close>

lemma stores_same_refl [simp]: "stores_same w w"
  by (simp add: stores_same_def)

lemma stores_same_trans: "stores_same w w' \<Longrightarrow> stores_same w' w'' \<Longrightarrow> stores_same w w''"
  by (simp add: stores_same_def)

lemma keepsD: "keeps_stores m \<Longrightarrow> m w = (r, w') \<Longrightarrow> stores_same w w'"
  by (simp add: keeps_stores_def)

lemma keeps_basic [keeps_rules]:
  "keeps_stores (returnA a)" "keeps_stores (failA e)" "keeps_stores (liftA r)" "keeps_stores (getA g)"
  by (simp_all add: keeps_stores_def)

lemma keeps_modify: "(\<And>w. stores_same w (g w)) \<Longrightarrow> keeps_stores (modifyA g)"
  by (simp add: keeps_stores_def)

lemma keeps_bind [keeps_rules]:
  "keeps_stores m \<Longrightarrow> (\<And>a. keeps_stores (f a)) \<Longrightarrow> keeps_stores (bindA m f)"
  unfolding keeps_stores_def bindA_def
  by (auto split: prod.splits sum.splits) (meson stores_same_trans)

lemma keeps_catch [keeps_rules]:
  "keeps_stores m \<Longrightarrow> (\<And>r. keeps_stores (f r)) \<Longrightarrow> keeps_stores (catchA m f)"
  unfolding keeps_stores_def catchA_def
  by (auto split: prod.splits) (meson stores_same_trans)

lemma keeps_map_err [keeps_rules]: "keeps_stores m \<Longrightarrow> keeps_stores (map_errA h m)"
  unfolding keeps_stores_def map_errA_def by (auto split: prod.splits)

lemma keeps_world [keeps_rules]:
  "keeps_stores (record_event e)" "keeps_stores (count_event n)" "keeps_stores (index_cache_get E k)"
  "keeps_stores (index_cache_insert k t)" "keeps_stores (token_cache_get E k)"
  "keeps_stores (token_cache_insert k c)" "keeps_stores (token_cache_invalidate k)"
  "keeps_stores (send_request E q)"
  by (auto simp: record_event_def count_event_def index_cache_get_def index_cache_insert_def
      token_cache_get_def token_cache_insert_def token_cache_invalidate_def send_request_def
      stores_same_def keeps_stores_def)

lemma keeps_hoare:
  assumes "keeps_stores m" and "\<And>w w'. I w \<Longrightarrow> stores_same w w' \<Longrightarrow> I w'"
  shows "hoare I m (\<lambda>_. I) (\<lambda>_. I)"
  using assms by (intro hoareI) (blast dest: keepsD)+

section \<open>An environment for the witnesses\<close>

definition sample_config :: runtime_config where
  "sample_config = \<lparr>rt_settings = sample_settings, rt_aliases = sample_aliases, rt_classic_alias_by_repo = []\<rparr>"

definition sample_env ::
  "(sample_url http_request list \<Rightarrow> sample_url http_request \<Rightarrow> string + http_answer) \<Rightarrow>
   (string \<Rightarrow> bytes option, string \<Rightarrow> entry option, sample_url) env" where
  "sample_env net = \<lparr>
     e_cfg = sample_config, e_storage = objstore_ops memory_store sample_pointer_json,
     e_ephemeral = ephemeral_ops sample_cache sample_pointer_json,
     e_net = net, e_elapsed = (\<lambda>_. 1), e_retains = (\<lambda>_ _. True), e_gcp = None, e_join = (\<lambda>_. None), e_schedule = id,
     e_http = sample_http, e_helm = sample_helm_env (YMap []) [sample_chart_file], e_sha = sample_sha,
     e_yaml_index = (\<lambda>_. None), e_manifest_json = sample_manifest_json, e_manifest_parse = (\<lambda>_. None),
     e_json_parse = (\<lambda>_. None), e_num_f64 = parse_f64, e_token_parse = (\<lambda>_. None), e_form_parse = (\<lambda>_. []),
     e_form_encode = id, e_b64 = (\<lambda>_. None), e_b64_encode = id,
     e_decode = Some, e_debug = quote\<rparr>"

definition sample_world :: "(string \<Rightarrow> bytes option, string \<Rightarrow> entry option, sample_url) world" where
  "sample_world = \<lparr>w_store = (\<lambda>_. None), w_ephemeral = (\<lambda>_. None), w_index_cache = (\<lambda>_. None),
     w_tokens = (\<lambda>_. None), w_now = 0, w_sent = [], w_metrics = []\<rparr>"

end
