(* ===== verification/Upstream.thy ===== *)
theory Upstream
  imports World
begin

text \<open>
  \<open>bins/helmoci/src/upstream.rs\<close>: sending a request upstream under the redirect policy, and
  reading a body within a limit.
\<close>

section \<open>The redirect policy\<close>

definition MAX_REDIRECTS :: nat where
  "MAX_REDIRECTS = 5"

definition is_public_https :: "'u url_lib \<Rightarrow> 'u \<Rightarrow> bool" where
  "is_public_https U url \<longleftrightarrow>
     \<not> (ul_scheme U url \<noteq> ''https'' \<or> ul_username U url \<noteq> [] \<or> ul_password U url \<noteq> None
        \<or> \<not> (case ul_host U url of
               Some (HostDomain host) \<Rightarrow> is_public_hostname (ul_host_parse U) host
             | _ \<Rightarrow> False))"

definition validate_public_https :: "'u url_lib \<Rightarrow> 'u \<Rightarrow> app_error + unit" where
  "validate_public_https U url =
     (if \<not> is_public_https U url
      then Inl (Upstream ''cross-origin upstream must be public HTTPS without userinfo'')
      else Inr ())"

definition redirect_status :: "nat \<Rightarrow> bool" where
  "redirect_status status \<longleftrightarrow> status \<in> {301, 302, 303, 307, 308}"

definition header_remove :: "string \<Rightarrow> headers \<Rightarrow> headers" where
  "header_remove name hs = filter (\<lambda>(n, v). n \<noteq> name) hs"

definition redirect_target ::
  "'u url_lib \<Rightarrow> 'u \<Rightarrow> http_answer \<Rightarrow> headers \<Rightarrow> initial_client \<Rightarrow>
   app_error + ('u \<times> headers \<times> initial_client)" where
  "redirect_target U current response request_headers client =
     (case answer_headers ''location'' response of
        [] \<Rightarrow> Inl (Upstream ''upstream redirect had no Location header'')
      | location # others \<Rightarrow>
          if others \<noteq> [] then Inl (Upstream ''upstream redirect had repeated Location headers'')
          else
          bindE (ok_or (Upstream ''upstream redirect Location was malformed'') location) (\<lambda>location.
          bindE (map_errE (\<lambda>_. Upstream ''upstream redirect Location was malformed'')
                   (ul_join U current location)) (\<lambda>target.
          if ul_scheme U target \<noteq> ''http'' \<and> ul_scheme U target \<noteq> ''https''
          then Inl (Upstream ''upstream redirect used an unsupported scheme'')
          else if ul_username U target \<noteq> [] \<or> ul_password U target \<noteq> None
          then Inl (Upstream ''upstream redirect contained userinfo'')
          else if ul_scheme U current = ''https'' \<and> ul_scheme U target \<noteq> ''https''
          then Inl (Upstream ''upstream redirect attempted an HTTPS downgrade'')
          else if ul_origin U current \<noteq> ul_origin U target
          then bindE (validate_public_https U target) (\<lambda>_.
                 Inr (target,
                      header_remove ''cookie'' (header_remove ''proxy-authorization''
                        (header_remove ''authorization'' request_headers)),
                      Public))
          else Inr (target, request_headers, client))))"

section \<open>Sending\<close>

text \<open>One request and the duration recorded for it, whatever its outcome.\<close>

definition timed_request ::
  "('s, 'c, 'u) env \<Rightarrow> upstream_kind \<Rightarrow> 'u http_request \<Rightarrow> (('s, 'c, 'u) world, string, http_answer) act" where
  "timed_request E kind q = (\<lambda>w.
     case send_request E q w of (r, w') \<Rightarrow>
       (r, w'\<lparr>w_metrics := w_metrics w' @ [upstream_duration_event kind (w_now w' - w_now w)]\<rparr>))"

text \<open>The loop of \<open>send\<close>; \<open>left\<close> is how many redirects may still be followed.\<close>

fun send_loop ::
  "('s, 'c, 'u) env \<Rightarrow> http_method \<Rightarrow> 'u \<Rightarrow> headers \<Rightarrow> initial_client \<Rightarrow> bool \<Rightarrow> upstream_kind \<Rightarrow> nat \<Rightarrow>
   ('s, 'c, 'u, 'u http_request \<times> http_answer) handler" where
  "send_loop E method url headers client follow kind left =
     (let q = \<lparr>rq_method = method, rq_url = url, rq_headers = headers, rq_client = client\<rparr> in
      bindA (map_errA (\<lambda>e. Upstream (''upstream request failed: '' @ e)) (timed_request E kind q)) (\<lambda>response.
      if \<not> follow \<or> \<not> redirect_status (an_status response) then returnA (q, response)
      else case left of
        0 \<Rightarrow> failA (Upstream ''upstream redirect limit exceeded'')
      | Suc left' \<Rightarrow>
          bindA (liftA (redirect_target (e_url E) url response headers client))
            (\<lambda>(url', headers', client'). send_loop E method url' headers' client' follow kind left')))"

declare send_loop.simps [simp del]

definition upstream_send ::
  "('s, 'c, 'u) env \<Rightarrow> http_method \<Rightarrow> 'u \<Rightarrow> headers \<Rightarrow> initial_client \<Rightarrow> bool \<Rightarrow> upstream_kind \<Rightarrow>
   ('s, 'c, 'u, 'u http_request \<times> http_answer) handler" where
  "upstream_send E method url headers client follow kind =
     bindA (liftA (if client = Public then validate_public_https (e_url E) url else Inr ())) (\<lambda>_.
     send_loop E method url headers client follow kind MAX_REDIRECTS)"

section \<open>Reading a body\<close>

text \<open>\<open>u64::try_from\<close> on a length.\<close>

definition len_u64 :: "bytes \<Rightarrow> u64 option" where
  "len_u64 bs = (if length bs < 2 ^ 64 then Some (of_nat (length bs)) else None)"

definition msg_response_exceeds :: "u64 \<Rightarrow> string" where
  "msg_response_exceeds max_bytes = ''response exceeds size limit ('' @ show_u64 max_bytes @ '' bytes)''"

fun read_chunks :: "bytes \<Rightarrow> ('t + bytes) list \<Rightarrow> u64 \<Rightarrow> ('t \<Rightarrow> app_error) \<Rightarrow> app_error + bytes" where
  "read_chunks acc [] max_bytes map_error = Inr acc"
| "read_chunks acc (Inl e # chunks) max_bytes map_error = Inl (map_error e)"
| "read_chunks acc (Inr chunk # chunks) max_bytes map_error =
     (case Option.bind (len_u64 acc) (\<lambda>sz. Option.bind (len_u64 chunk) (checked_add sz)) of
        None \<Rightarrow> Inl (TooLarge (msg_response_exceeds max_bytes))
      | Some accumulated \<Rightarrow>
          if max_bytes < accumulated then Inl (TooLarge (msg_response_exceeds max_bytes))
          else read_chunks (acc @ chunk) chunks max_bytes map_error)"

text \<open>The initial capacity of the buffer: what the peer advertises never allocates more than 64 KiB.\<close>

definition read_capacity :: "u64 option \<Rightarrow> u64 \<Rightarrow> u64" where
  "read_capacity advertised_size max_bytes =
     min (min (case advertised_size of None \<Rightarrow> 0 | Some n \<Rightarrow> n) max_bytes) (64 * 1024)"

definition read_bounded ::
  "u64 option \<Rightarrow> ('t + bytes) list \<Rightarrow> u64 \<Rightarrow> ('t \<Rightarrow> app_error) \<Rightarrow> app_error + bytes" where
  "read_bounded advertised_size chunks max_bytes map_error =
     (if (case advertised_size of None \<Rightarrow> False | Some sz \<Rightarrow> max_bytes < sz)
      then Inl (TooLarge (''upstream '' @ msg_response_exceeds max_bytes))
      else read_chunks [] chunks max_bytes map_error)"

definition read_response :: "http_answer \<Rightarrow> u64 \<Rightarrow> string \<Rightarrow> app_error + bytes" where
  "read_response response max_bytes resource =
     read_bounded (an_content_length response) (an_chunks response) max_bytes
       (\<lambda>e. Upstream (''reading upstream '' @ resource @ '' failed: '' @ e))"

section \<open>Lemmas\<close>

lemma header_get_remove [simp]:
  "header_get n (header_remove m hs) = (if n = m then None else header_get n hs)"
  by (induction hs) (auto simp: header_get_def header_remove_def)

lemma timed_request_eq:
  "timed_request E kind q w = (e_net E (w_sent w) q,
     w\<lparr>w_sent := w_sent w @ [q], w_now := w_now w + e_elapsed E (w_sent w),
       w_metrics := w_metrics w @ [upstream_duration_event kind (e_elapsed E (w_sent w))]\<rparr>)"
  by (simp add: timed_request_def send_request_def)

lemma keeps_timed_request [keeps_rules]: "keeps_stores (timed_request E kind q)"
  by (simp add: keeps_stores_def stores_same_def timed_request_eq)

lemma keeps_send_loop [keeps_rules]: "keeps_stores (send_loop E m u h c f k n)"
proof (induction n arbitrary: u h c)
  case 0
  show ?case
    by (subst send_loop.simps) (auto simp: Let_def intro!: keeps_rules)
next
  case (Suc n)
  then show ?case
    by (subst send_loop.simps) (auto simp: Let_def split: prod.splits intro!: keeps_rules)
qed

lemma keeps_upstream_send [keeps_rules]: "keeps_stores (upstream_send E m u h c f k)"
  by (auto simp: upstream_send_def intro!: keeps_rules)

lemma read_chunks_Inr:
  "read_chunks acc cs max_bytes f = Inr data \<Longrightarrow> length acc \<le> unat max_bytes \<Longrightarrow>
   length data \<le> unat max_bytes \<and> list_all is_ok cs \<and> data = acc @ delivered cs"
proof (induction acc cs max_bytes f rule: read_chunks.induct)
  case (3 acc chunk chunks max_bytes f)
  from 3(2) obtain n where n: "Option.bind (len_u64 acc) (\<lambda>sz. Option.bind (len_u64 chunk) (checked_add sz)) = Some n"
    "\<not> max_bytes < n" "read_chunks (acc @ chunk) chunks max_bytes f = Inr data"
    by (auto split: option.splits if_splits)
  from n(1) have "unat n = length acc + length chunk"
    by (auto simp: bind_eq_Some_conv len_u64_def unat_of_length dest!: checked_add_Some split: if_splits)
  with n(2) have "length (acc @ chunk) \<le> unat max_bytes" by (simp add: word_less_nat_alt)
  from 3(1) [OF n(1,2,3) this] show ?case by auto
qed auto

lemma read_bounded_Inr:
  assumes "read_bounded adv cs max_bytes f = Inr data"
  shows "length data \<le> unat max_bytes \<and> list_all is_ok cs \<and> data = delivered cs"
    and "adv = Some n \<Longrightarrow> n \<le> max_bytes"
  using assms read_chunks_Inr [of "[]" cs max_bytes f data]
  by (auto simp: read_bounded_def not_less split: if_splits option.splits)

text \<open>The documented meaning of equal origins of http(s) URLs.\<close>

definition origin_law :: "'u url_lib \<Rightarrow> bool" where
  "origin_law U \<longleftrightarrow> (\<forall>u v. ul_origin U u = ul_origin U v \<longrightarrow>
     ul_scheme U u \<in> {''http'', ''https''} \<longrightarrow> ul_scheme U v \<in> {''http'', ''https''} \<longrightarrow>
     ul_scheme U u = ul_scheme U v \<and> ul_host U u = ul_host U v)"

definition no_credentials :: "headers \<Rightarrow> bool" where
  "no_credentials hs \<longleftrightarrow> header_get ''authorization'' hs = None
     \<and> header_get ''proxy-authorization'' hs = None \<and> header_get ''cookie'' hs = None"

text \<open>What every request of one \<open>send\<close> satisfies, relative to the first: it stays on the origin with
  the headers and client given, or it goes to a public HTTPS host, without credentials, through
  the client that checks every resolved address.\<close>

definition confined ::
  "'u url_lib \<Rightarrow> 'u \<Rightarrow> headers \<Rightarrow> initial_client \<Rightarrow> 'u \<Rightarrow> headers \<Rightarrow> initial_client \<Rightarrow> bool" where
  "confined U url0 hs0 client0 url hs client \<longleftrightarrow>
     (ul_origin U url = ul_origin U url0 \<and> hs = hs0 \<and> client = client0
        \<and> (is_public_https U url0 \<longrightarrow> is_public_https U url))
     \<or> (is_public_https U url \<and> no_credentials hs \<and> client = Public)"

lemma redirect_target_Inr:
  assumes "redirect_target U cur resp hs client = Inr (url', hs', client')"
  shows "ul_scheme U url' \<in> {''http'', ''https''}" "ul_username U url' = []" "ul_password U url' = None"
    "ul_scheme U cur = ''https'' \<Longrightarrow> ul_scheme U url' = ''https''"
    "ul_origin U cur = ul_origin U url' \<and> hs' = hs \<and> client' = client
     \<or> is_public_https U url' \<and> no_credentials hs' \<and> client' = Public"
  using assms
  by (auto simp: redirect_target_def bindE_Inr map_errE_Inr ok_or_Inr validate_public_https_def
      no_credentials_def split: list.splits if_splits)

lemma confined_step:
  assumes "origin_law U" "redirect_target U cur resp hs client = Inr (url', hs', client')"
    and "confined U url0 hs0 client0 cur hs client" and "ul_scheme U cur \<in> {''http'', ''https''}"
  shows "confined U url0 hs0 client0 url' hs' client'"
proof -
  note r = redirect_target_Inr [OF assms(2)]
  consider "is_public_https U url'" "no_credentials hs'" "client' = Public"
    | "ul_origin U cur = ul_origin U url'" "hs' = hs" "client' = client"
    using r(5) by blast
  then show ?thesis
  proof cases
    case 1
    then show ?thesis by (simp add: confined_def)
  next
    case 2
    have "ul_scheme U cur = ul_scheme U url' \<and> ul_host U cur = ul_host U url'"
      using assms(1,4) 2(1) r(1) unfolding origin_law_def by blast
    then have "is_public_https U cur \<Longrightarrow> is_public_https U url'"
      using r(2,3) by (simp add: is_public_https_def)
    with 2 assms(3) show ?thesis by (auto simp: confined_def)
  qed
qed

text \<open>The requests a loop appends to the log.\<close>

lemma send_loop_sent:
  assumes "origin_law (e_url E)"
  shows "send_loop E m url hs client follow kind left w = (r, w') \<Longrightarrow>
    confined (e_url E) url0 hs0 client0 url hs client \<Longrightarrow>
    ul_scheme (e_url E) url \<in> {''http'', ''https''} \<Longrightarrow>
    \<exists>qs. w_sent w' = w_sent w @ qs \<and> length qs \<le> left + 1 \<and> (\<not> follow \<longrightarrow> length qs \<le> 1) \<and>
      (\<forall>q\<in>set qs. rq_method q = m \<and> ul_scheme (e_url E) (rq_url q) \<in> {''http'', ''https''} \<and>
         (ul_scheme (e_url E) url = ''https'' \<longrightarrow> ul_scheme (e_url E) (rq_url q) = ''https'') \<and>
         confined (e_url E) url0 hs0 client0 (rq_url q) (rq_headers q) (rq_client q)) \<and>
      (\<forall>q a. r = Inr (q, a) \<longrightarrow> qs \<noteq> [] \<and> q = last qs)"
proof (induction left arbitrary: url hs client w)
  case 0
  let ?q = "\<lparr>rq_method = m, rq_url = url, rq_headers = hs, rq_client = client\<rparr>"
  from 0(1) have "w_sent w' = w_sent w @ [?q]" "r = Inr (q, a) \<Longrightarrow> q = ?q" for q a
    by (auto simp: send_loop.simps [of _ _ _ _ _ _ _ 0] Let_def bindA_def map_errA_def timed_request_eq
        split: sum.splits if_splits)
  with 0 show ?case by (intro exI [of _ "[?q]"]) auto
next
  case (Suc left)
  let ?U = "e_url E"
  let ?q = "\<lparr>rq_method = m, rq_url = url, rq_headers = hs, rq_client = client\<rparr>"
  let ?w1 = "snd (timed_request E kind ?q w)"
  have w1: "w_sent ?w1 = w_sent w @ [?q]" by (simp add: timed_request_eq)
  consider (stop) "w' = ?w1" "\<And>q a. r = Inr (q, a) \<Longrightarrow> q = ?q"
    | (follow) resp url' hs' client' where "follow"
        "redirect_target ?U url resp hs client = Inr (url', hs', client')"
        "send_loop E m url' hs' client' follow kind left ?w1 = (r, w')"
    using Suc.prems(1)
    by (auto simp: send_loop.simps [of _ _ _ _ _ _ _ "Suc left"] Let_def bindA_def map_errA_def
        timed_request_eq split: sum.splits if_splits)
  then show ?case
  proof cases
    case stop
    with Suc.prems w1 show ?thesis by (intro exI [of _ "[?q]"]) auto
  next
    case follow
    note t = redirect_target_Inr [OF follow(2)]
    from Suc.IH [OF follow(3) confined_step [OF assms follow(2) Suc.prems(2,3)] t(1)]
    obtain qs where qs: "w_sent w' = w_sent ?w1 @ qs" "length qs \<le> left + 1"
      "\<forall>q\<in>set qs. rq_method q = m \<and> ul_scheme ?U (rq_url q) \<in> {''http'', ''https''} \<and>
         (ul_scheme ?U url' = ''https'' \<longrightarrow> ul_scheme ?U (rq_url q) = ''https'') \<and>
         confined ?U url0 hs0 client0 (rq_url q) (rq_headers q) (rq_client q)"
      "\<forall>q a. r = Inr (q, a) \<longrightarrow> qs \<noteq> [] \<and> q = last qs"
      by blast
    with Suc.prems(2,3) t(4) follow(1) w1 show ?thesis
      by (intro exI [of _ "?q # qs"]) auto
  qed
qed

lemma read_chunks_complete:
  "list_all is_ok cs \<Longrightarrow> length acc + length (delivered cs) \<le> unat max_bytes \<Longrightarrow>
   read_chunks acc cs max_bytes f = Inr (acc @ delivered cs)"
proof (induction acc cs max_bytes f rule: read_chunks.induct)
  case (3 acc chunk chunks max_bytes f)
  have le: "length acc + length chunk \<le> unat max_bytes" using 3(3) by simp
  then have lt: "length acc + length chunk < 2 ^ 64" using unat_u64_less [of max_bytes] by linarith
  then have len: "len_u64 acc = Some (of_nat (length acc))" "len_u64 chunk = Some (of_nat (length chunk))"
    and un: "unat (of_nat (length acc) :: u64) = length acc" "unat (of_nat (length chunk) :: u64) = length chunk"
    by (auto simp: len_u64_def intro!: unat_of_length)
  obtain n where n: "checked_add (of_nat (length acc)) (of_nat (length chunk)) = Some (n :: u64)"
    using lt un by (simp add: checked_add_def)
  from checked_add_Some [OF n] un le have "\<not> max_bytes < n" by (simp add: word_less_nat_alt)
  with 3 n len show ?case by simp
qed auto

lemma read_bounded_iff:
  "read_bounded adv cs max_bytes f = Inr data \<longleftrightarrow>
     (\<forall>n. adv = Some n \<longrightarrow> n \<le> max_bytes) \<and> list_all is_ok cs \<and> data = delivered cs
     \<and> length data \<le> unat max_bytes"
proof
  assume r: "read_bounded adv cs max_bytes f = Inr data"
  show "(\<forall>n. adv = Some n \<longrightarrow> n \<le> max_bytes) \<and> list_all is_ok cs \<and> data = delivered cs
     \<and> length data \<le> unat max_bytes"
    using read_bounded_Inr(1) [OF r] read_bounded_Inr(2) [OF r] by blast
next
  assume a: "(\<forall>n. adv = Some n \<longrightarrow> n \<le> max_bytes) \<and> list_all is_ok cs \<and> data = delivered cs
     \<and> length data \<le> unat max_bytes"
  then have "\<not> (case adv of None \<Rightarrow> False | Some sz \<Rightarrow> max_bytes < sz)"
    by (auto simp: not_less split: option.splits)
  moreover from a have "read_chunks [] cs max_bytes f = Inr data"
    using read_chunks_complete [of cs "[]" max_bytes f] by auto
  ultimately show "read_bounded adv cs max_bytes f = Inr data"
    by (simp add: read_bounded_def)
qed

section \<open>Properties\<close>

text \<open>C13. Where a request can go: \<open>send\<close> performs at most six requests (one when redirects are off),
  all with the given method, over http or https and never downgraded; each stays on the first
  URL's origin with the caller's headers and client, or goes to a public HTTPS host without
  userinfo or credential headers through the address-checking client.\<close>
theorem upstream_send_confined:
  assumes "origin_law (e_url E)" and "ul_scheme (e_url E) url \<in> {''http'', ''https''}"
    and "upstream_send E m url hs client follow kind w = (r, w')"
  shows "\<exists>qs. w_sent w' = w_sent w @ qs \<and> length qs \<le> 6 \<and> (\<not> follow \<longrightarrow> length qs \<le> 1) \<and>
    (client = Public \<longrightarrow> (\<forall>q\<in>set qs. is_public_https (e_url E) (rq_url q))) \<and>
    (\<forall>q\<in>set qs. rq_method q = m \<and>
       (ul_scheme (e_url E) url = ''https'' \<longrightarrow> ul_scheme (e_url E) (rq_url q) = ''https'') \<and>
       confined (e_url E) url hs client (rq_url q) (rq_headers q) (rq_client q))"
proof (cases "client = Public \<and> \<not> is_public_https (e_url E) url")
  case True
  with assms(3) have "w' = w" by (auto simp: upstream_send_def validate_public_https_def bindA_def)
  then show ?thesis by auto
next
  case False
  with assms(3) have loop: "send_loop E m url hs client follow kind 5 w = (r, w')"
    by (auto simp: upstream_send_def validate_public_https_def bindA_def MAX_REDIRECTS_def split: if_splits)
  have c: "confined (e_url E) url hs client url hs client" by (simp add: confined_def)
  from send_loop_sent [OF assms(1) loop c assms(2)] obtain qs where
    sent: "w_sent w' = w_sent w @ qs" "length qs \<le> 5 + 1" "\<not> follow \<longrightarrow> length qs \<le> 1" and
    qs: "\<forall>q\<in>set qs. rq_method q = m \<and> ul_scheme (e_url E) (rq_url q) \<in> {''http'', ''https''} \<and>
       (ul_scheme (e_url E) url = ''https'' \<longrightarrow> ul_scheme (e_url E) (rq_url q) = ''https'') \<and>
       confined (e_url E) url hs client (rq_url q) (rq_headers q) (rq_client q)"
    by blast
  have "is_public_https (e_url E) (rq_url q)" if "client = Public" "q \<in> set qs" for q
    using that False qs unfolding confined_def by blast
  with sent qs show ?thesis by (intro exI [of _ qs]) auto
qed

lemma sample_origin_law: "origin_law sample_url_lib"
  by (auto simp: origin_law_def sample_url_lib_def)

definition sample_follow_net :: "sample_url http_request list \<Rightarrow> sample_url http_request \<Rightarrow> string + http_answer" where
  "sample_follow_net sent q = Inr
     \<lparr>an_status = (if sent = [] then 302 else 200),
      an_headers = (if sent = [] then [(''location'', Some ''https://cdn.io/x'')] else []),
      an_content_length = None, an_chunks = [Inr ''body'']\<rparr>"

theorem upstream_send_confined_witness:
  "let E = sample_env sample_follow_net;
       url = \<lparr>su_scheme = ''https'', su_host = ''a.io'', su_port = None, su_path = ''/c'', su_query = None\<rparr>;
       sent = w_sent (snd (upstream_send E GET url [(''authorization'', ''secret'')] Trusted True ClassicIndex sample_world))
   in map rq_client sent = [Trusted, Public] \<and> no_credentials (rq_headers (sent ! 1))"
proof -
  let ?E = "sample_env sample_follow_net"
  let ?url = "\<lparr>su_scheme = ''https'', su_host = ''a.io'', su_port = None, su_path = ''/c'', su_query = None\<rparr>"
  obtain r w' where s: "upstream_send ?E GET ?url [(''authorization'', ''secret'')] Trusted True ClassicIndex sample_world = (r, w')"
    by fastforce
  have o: "origin_law (e_url ?E)" "ul_scheme (e_url ?E) ?url \<in> {''http'', ''https''}"
    by (simp_all add: sample_env_def sample_helm_env_def sample_origin_law)
  have "map rq_client (w_sent (snd (upstream_send ?E GET ?url [(''authorization'', ''secret'')] Trusted True ClassicIndex
      sample_world))) = [Trusted, Public]"
    by code_simp
  then have sent: "map rq_client (w_sent w') = [Trusted, Public]" by (simp add: s)
  then obtain q1 q2 where q: "w_sent w' = [q1, q2]" "rq_client q1 = Trusted" "rq_client q2 = Public"
    by (auto simp: map_eq_Cons_conv)
  from upstream_send_confined [OF o s] have "\<forall>q\<in>set (w_sent w').
      confined (e_url ?E) ?url [(''authorization'', ''secret'')] Trusted (rq_url q) (rq_headers q) (rq_client q)"
    by (auto simp: sample_world_def)
  with q have "no_credentials (rq_headers q2)" by (simp add: confined_def)
  with q show ?thesis by (simp add: s Let_def)
qed

text \<open>Reading within a limit is exact: it succeeds precisely when the advertised size, the whole
  stream being free of errors, and the total length all respect the limit, and then returns the
  whole body, however it was cut into chunks; the buffer is never pre-allocated beyond 64 KiB.\<close>
theorem read_bounded_exact:
  "(read_bounded advertised chunks max_bytes map_error = Inr data \<longleftrightarrow>
      (\<forall>n. advertised = Some n \<longrightarrow> n \<le> max_bytes) \<and> list_all is_ok chunks
      \<and> data = delivered chunks \<and> length data \<le> unat max_bytes)
   \<and> read_capacity advertised max_bytes \<le> 65536 \<and> read_capacity advertised max_bytes \<le> max_bytes"
proof -
  have "min (min a b) (64 * 1024) \<le> (65536 :: u64)" "min (min a b) (64 * 1024 :: u64) \<le> b" for a b :: u64
    by (simp_all add: min.coboundedI1)
  then show ?thesis by (simp only: read_bounded_iff read_capacity_def simp_thms)
qed

theorem read_bounded_exact_witness:
  "read_bounded (Some 3) [Inr ''a'', Inr ''bc''] 5 (\<lambda>e. Upstream e) = Inr ''abc''
   \<and> read_bounded (Some 7) [Inr ''a'', Inr ''bc''] 5 (\<lambda>e. Upstream e) \<noteq> Inr ''abc''"
proof -
  have "read_bounded (Some 3) [Inr ''a'', Inr ''bc''] 5 (\<lambda>e. Upstream e) = Inr ''abc''"
    by (rule read_bounded_exact [THEN conjunct1, THEN iffD2]) simp
  moreover have "read_bounded (Some 7) [Inr ''a'', Inr ''bc''] 5 (\<lambda>e. Upstream e) \<noteq> Inr ''abc''"
    by (subst read_bounded_exact [THEN conjunct1]) simp
  ultimately show ?thesis ..
qed

end
