(* ===== verification/Classic.thy ===== *)
theory Classic
  imports Upstream
begin

text \<open>
  \<open>bins/helmoci/src/classic.rs\<close>: serving a classic Helm repository as an OCI registry. The handlers
  are \<open>classic_manifest\<close>, \<open>classic_blob\<close> and \<open>classic_tags\<close>.
\<close>

section \<open>What a client may be told\<close>

fun source_label :: "classic_source \<Rightarrow> string" where
  "source_label ConfiguredAlias = ''configured_alias''"
| "source_label HostPath = ''host_path''"

text \<open>The two setters' failures are ignored, keeping the URL as it was.\<close>

definition sanitized_url :: "'u url_lib \<Rightarrow> 'u \<Rightarrow> string" where
  "sanitized_url U url =
     (let safe = ul_set_fragment U None (ul_set_query U None url);
          safe = (case ul_set_username U [] safe of Some u \<Rightarrow> u | None \<Rightarrow> safe);
          safe = (case ul_set_password U None safe of Some u \<Rightarrow> u | None \<Rightarrow> safe)
      in ul_to_string U safe)"

fun index_repo_of :: "string \<Rightarrow> classic_source \<Rightarrow> index_repo" where
  "index_repo_of repo_url HostPath = client_supplied repo_url"
| "index_repo_of repo_url ConfiguredAlias = hidden repo_url"

fun client_visible_upstream :: "string \<Rightarrow> classic_source \<Rightarrow> string" where
  "client_visible_upstream safe_url HostPath = safe_url"
| "client_visible_upstream safe_url ConfiguredAlias = ''the configured upstream for this alias''"

fun upstream_hint :: "classic_source \<Rightarrow> string" where
  "upstream_hint HostPath = ''Check the host/path in your oci:// URL.''"
| "upstream_hint ConfiguredAlias = ''Ask the registry operator to check the alias upstream.''"

section \<open>Upstream requests\<close>

definition parse_http_url :: "'u url_lib \<Rightarrow> string \<Rightarrow> string \<Rightarrow> app_error + 'u" where
  "parse_http_url U value resource =
     bindE (map_errE (\<lambda>_. Upstream (''invalid upstream '' @ resource @ '' URL'')) (ul_parse U value)) (\<lambda>url.
     if (ul_scheme U url \<noteq> ''http'' \<and> ul_scheme U url \<noteq> ''https'') \<or> ul_host U url = None
     then Inl (Upstream (''invalid upstream '' @ resource @ '' URL''))
     else Inr url)"

definition index_url :: "'u url_lib \<Rightarrow> string \<Rightarrow> app_error + 'u" where
  "index_url U repo_url =
     bindE (parse_http_url U repo_url ''repository'') (\<lambda>url.
     Inr (ul_set_path U (trim_end_matches is_slash (ul_path U url) @ ''/index.yaml'') url))"

fun classic_client :: "classic_source \<Rightarrow> initial_client \<times> bool" where
  "classic_client ConfiguredAlias = (Trusted, True)"
| "classic_client HostPath = (Public, True)"

definition send_classic ::
  "('s, 'c, 'u) env \<Rightarrow> 'u \<Rightarrow> classic_source \<Rightarrow> headers \<Rightarrow> upstream_kind \<Rightarrow>
   ('s, 'c, 'u, 'u http_request \<times> http_answer) handler" where
  "send_classic E url source headers kind =
     (case classic_client source of (client, redirects) \<Rightarrow>
        upstream_send E GET url headers client redirects kind)"

definition index_cache_key :: "('s, 'c, 'u) env \<Rightarrow> classic_source \<Rightarrow> 'u \<Rightarrow> string" where
  "index_cache_key E source url =
     (case source of ConfiguredAlias \<Rightarrow> ''configured'' | HostPath \<Rightarrow> ''host-path'')
     @ '':'' @ as_str (digest_sha256 (e_sha E) (ul_to_string (e_url E) url))"

definition msg_no_repository :: "string \<Rightarrow> nat \<Rightarrow> classic_source \<Rightarrow> string" where
  "msg_no_repository safe_url status source =
     ''No Helm repository at '' @ client_visible_upstream safe_url source @
     '' (index.yaml returned HTTP '' @ show_nat status @ ''). '' @ upstream_hint source"

definition index_too_large :: "string \<Rightarrow> classic_source \<Rightarrow> app_error \<Rightarrow> app_error" where
  "index_too_large safe_url source e =
     (case e of
        TooLarge message \<Rightarrow>
          Upstream (''No usable Helm repository at '' @ client_visible_upstream safe_url source @
                    '' ('' @ message @ '').'')
      | _ \<Rightarrow> e)"

definition index_accept :: string where
  "index_accept = ''application/yaml, text/yaml, text/plain, */*''"

definition fetch_index_text_with_source ::
  "('s, 'c, 'u) env \<Rightarrow> string \<Rightarrow> classic_source \<Rightarrow> ('s, 'c, 'u, string \<times> proxy_source) handler" where
  "fetch_index_text_with_source E repo_url source =
     bindA (liftA (index_url (e_url E) repo_url)) (\<lambda>url.
     let safe_url = sanitized_url (e_url E) url; key = index_cache_key E source url in
     bindA (index_cache_get E key) (\<lambda>cached.
     case cached of
       Some txt \<Rightarrow> bindA (count_event ''helmoci_index_cache_hits_total'') (\<lambda>_. returnA (txt, EphemeralCache))
     | None \<Rightarrow>
         bindA (send_classic E url source [(''accept'', index_accept)] ClassicIndex) (\<lambda>(_, resp).
         if \<not> is_success (an_status resp)
         then failA (Upstream (msg_no_repository safe_url (an_status resp) source))
         else
         bindA (map_errA (index_too_large safe_url source)
                  (liftA (read_response resp (st_max_index_bytes (e_settings E)) ''Helm index''))) (\<lambda>bytes.
         bindA (liftA (ok_or (Upstream ''upstream Helm index was not valid UTF-8'') (from_utf8 bytes))) (\<lambda>txt.
         bindA (index_cache_insert key txt) (\<lambda>_.
         bindA (count_event ''helmoci_index_cache_misses_total'') (\<lambda>_.
         returnA (txt, FromUpstream))))))))"

definition fetch_index_text ::
  "('s, 'c, 'u) env \<Rightarrow> string \<Rightarrow> classic_source \<Rightarrow> ('s, 'c, 'u, string) handler" where
  "fetch_index_text E repo_url source =
     bindA (fetch_index_text_with_source E repo_url source) (\<lambda>(txt, _). returnA txt)"

definition chart_client ::
  "'u url_lib \<Rightarrow> 'u \<Rightarrow> string \<Rightarrow> classic_source \<Rightarrow> app_error + (initial_client \<times> bool)" where
  "chart_client U chart_url repo_url source =
     (case source of
        HostPath \<Rightarrow> Inr (classic_client source)
      | ConfiguredAlias \<Rightarrow>
          bindE (parse_http_url U repo_url ''repository'') (\<lambda>repo.
          if ul_origin U repo = ul_origin U chart_url then Inr (Trusted, True)
          else bindE (validate_public_https U chart_url) (\<lambda>_. Inr (Public, True))))"

definition msg_no_chart :: "string \<Rightarrow> nat \<Rightarrow> classic_source \<Rightarrow> string" where
  "msg_no_chart safe_url status source =
     ''Could not download the chart from '' @ client_visible_upstream safe_url source @
     '' (HTTP '' @ show_nat status @ ''). '' @ upstream_hint source"

definition download_chart ::
  "('s, 'c, 'u) env \<Rightarrow> string \<Rightarrow> string \<Rightarrow> classic_source \<Rightarrow> ('s, 'c, 'u, bytes) handler" where
  "download_chart E chart_url repo_url source =
     bindA (liftA (parse_http_url (e_url E) chart_url ''chart'')) (\<lambda>url.
     let safe_url = sanitized_url (e_url E) url in
     bindA (liftA (chart_client (e_url E) url repo_url source)) (\<lambda>(client, redirects).
     bindA (upstream_send E GET url [] client redirects ClassicChart) (\<lambda>(_, resp).
     if \<not> is_success (an_status resp)
     then failA (Upstream (msg_no_chart safe_url (an_status resp) source))
     else liftA (read_response resp (st_max_chart_bytes (e_settings E)) ''chart''))))"

section \<open>The stores\<close>

definition classic_backend :: "('s, 'c, 'u) env \<Rightarrow> bool \<Rightarrow> ('s, 'c, 'u) world storage_ops" where
  "classic_backend E ephemeral = (if ephemeral then ephemeral_of E else storage_of E)"

definition classic_get_blob ::
  "('s, 'c, 'u) world storage_ops \<Rightarrow> digest \<Rightarrow> ('s, 'c, 'u, blob option) handler" where
  "classic_get_blob store d = map_errA from_storage_error (so_get_blob store d)"

definition find_blob :: "('s, 'c, 'u) env \<Rightarrow> digest \<Rightarrow> ('s, 'c, 'u, (blob \<times> proxy_source) option) handler" where
  "find_blob E d =
     bindA (classic_get_blob (storage_of E) d) (\<lambda>b.
     case b of
       Some blob \<Rightarrow> returnA (Some (blob, PersistentCache))
     | None \<Rightarrow>
         bindA (classic_get_blob (ephemeral_of E) d) (\<lambda>b.
         returnA (map_option (\<lambda>blob. (blob, EphemeralCache)) b)))"

definition valid_helm_manifest :: "(bytes \<Rightarrow> oci_manifest option) \<Rightarrow> bytes \<Rightarrow> bool" where
  "valid_helm_manifest parse bytes =
     (case parse bytes of
        None \<Rightarrow> False
      | Some m \<Rightarrow>
          om_schema_version m = 2
          \<and> om_media_type m = MEDIA_TYPE_MANIFEST
          \<and> od_media_type (om_config m) = MEDIA_TYPE_HELM_CONFIG
          \<and> om_layers m \<noteq> []
          \<and> list_all (\<lambda>l. od_media_type l = MEDIA_TYPE_HELM_CHART) (om_layers m))"

definition msg_manifest_unknown :: "digest \<Rightarrow> string" where
  "msg_manifest_unknown d = ''manifest unknown: '' @ as_str d"

definition digest_manifest_response ::
  "('s, 'c, 'u) env \<Rightarrow> digest \<Rightarrow> blob \<Rightarrow> bool \<Rightarrow> u64 \<Rightarrow> app_error + meter response" where
  "digest_manifest_response E d b head_only max_bytes =
     (let unknown = ManifestUnknown (msg_manifest_unknown d);
          advertised = bm_size (bl_meta b) in
      if max_bytes < advertised then Inl unknown
      else case read_bounded (Some advertised) (bl_data b) max_bytes from_storage_error of
        Inl (Internal m) \<Rightarrow> Inl (Internal m)
      | Inl _ \<Rightarrow> Inl unknown
      | Inr bytes \<Rightarrow>
          if of_nat (length bytes) \<noteq> advertised
             \<or> digest_sha256 (e_sha E) bytes \<noteq> d
             \<or> \<not> valid_helm_manifest (e_manifest_parse E) bytes
          then Inl unknown
          else Inr (bytes_response (e_http E) MEDIA_TYPE_MANIFEST d bytes head_only))"

definition cached_tag_manifest ::
  "('s, 'c, 'u) env \<Rightarrow> ('s, 'c, 'u) world storage_ops \<Rightarrow> tag_scope \<Rightarrow> string \<Rightarrow> bool \<Rightarrow> u64 \<Rightarrow>
   ('s, 'c, 'u, meter response option) handler" where
  "cached_tag_manifest E store scope reference head_only max_bytes =
     bindA (map_errA from_storage_error (so_get_tag_pointer store scope reference)) (\<lambda>pointer.
     case pointer of
       None \<Rightarrow> returnA None
     | Some p \<Rightarrow>
         if tp_media_type p \<noteq> MEDIA_TYPE_MANIFEST \<or> max_bytes < tp_size p then returnA None
         else
         bindA (classic_get_blob store (tp_digest p)) (\<lambda>b.
         case b of
           None \<Rightarrow> returnA None
         | Some blob \<Rightarrow>
             if bm_size (bl_meta blob) \<noteq> tp_size p then returnA None
             else case digest_manifest_response E (tp_digest p) blob head_only max_bytes of
               Inr response \<Rightarrow> returnA (Some response)
             | Inl (ManifestUnknown _) \<Rightarrow> returnA None
             | Inl e \<Rightarrow> failA e))"

section \<open>Manifests\<close>

text \<open>\<open>try_join!\<close> on three writes. They run concurrently and the first error cancels the rest; a
  write that had taken effect by then is one that came earlier in the order of completion.\<close>

definition join_orders :: "nat list list" where
  "join_orders = [[0, 1, 2], [0, 2, 1], [1, 0, 2], [1, 2, 0], [2, 0, 1], [2, 1, 0]]"

fun run_all :: "('w, 'e, unit) act list \<Rightarrow> ('w, 'e, unit) act" where
  "run_all [] = returnA ()"
| "run_all (m # ms) = bindA m (\<lambda>_. run_all ms)"

definition try_join3 ::
  "('s, 'c, 'u) env \<Rightarrow> ('s, 'c, 'u, unit) handler list \<Rightarrow> ('s, 'c, 'u, unit) handler" where
  "try_join3 E ms = (\<lambda>w. run_all (map (\<lambda>i. ms ! i) (join_orders ! (e_schedule E (w_now w) mod 6))) w)"

definition put_blob_as :: "('s, 'c, 'u) world storage_ops \<Rightarrow> digest \<Rightarrow> string \<Rightarrow> bytes \<Rightarrow> ('s, 'c, 'u, unit) handler" where
  "put_blob_as store d content_type data = map_errA from_storage_error (so_put_blob store d content_type data)"

text \<open>Storing a built chart: the three blobs, and only then the pointer that makes them reachable.\<close>

definition store_built_chart ::
  "('s, 'c, 'u) env \<Rightarrow> ('s, 'c, 'u) world storage_ops \<Rightarrow> tag_scope \<Rightarrow> string \<Rightarrow> built_chart \<Rightarrow>
   ('s, 'c, 'u, unit) handler" where
  "store_built_chart E store scope reference b =
     bindA (try_join3 E
              [put_blob_as store (bc_config_digest b) MEDIA_TYPE_HELM_CONFIG (bc_config_bytes b),
               put_blob_as store (bc_layer_digest b) MEDIA_TYPE_HELM_CHART (bc_layer_bytes b),
               put_blob_as store (bc_manifest_digest b) MEDIA_TYPE_MANIFEST (bc_manifest_bytes b)]) (\<lambda>_.
     map_errA from_storage_error (so_put_tag_pointer store scope reference (bc_pointer b)))"

definition build_chart ::
  "('s, 'c, 'u) env \<Rightarrow> string \<Rightarrow> bytes \<Rightarrow> app_error + built_chart" where
  "build_chart E proxy_host tgz =
     (case e_join E tgz of
        Some e \<Rightarrow> Inl (Internal (''chart build task failed: '' @ e))
      | None \<Rightarrow>
          map_errE from_helm_for_manifest
            (build_helm_oci_chart_with_limits (e_helm E) (e_sha E) (e_manifest_json E) tgz
               \<lparr>rc_proxy_host = proxy_host, rc_classic_alias_by_repo = rt_classic_alias_by_repo (e_cfg E)\<rparr>
               (for_chart_bytes_with_expansion (st_max_chart_bytes (e_settings E))
                  (st_max_expanded_chart_bytes (e_settings E)))))"

definition classic_manifest_by_digest ::
  "('s, 'c, 'u) env \<Rightarrow> digest \<Rightarrow> bool \<Rightarrow> ('s, 'c, 'u, meter response) handler" where
  "classic_manifest_by_digest E d head_only =
     bindA (find_blob E d) (\<lambda>found.
     case found of
       Some (blob, source) \<Rightarrow>
         bindA (liftA (digest_manifest_response E d blob head_only (st_max_chart_bytes (e_settings E)))) (\<lambda>response.
         bindA (record_event (proxy_response_event KindManifest ProxyClassic source)) (\<lambda>_.
         returnA response))
     | None \<Rightarrow> failA (ManifestUnknown (msg_manifest_unknown d)))"

definition classic_build_manifest ::
  "('s, 'c, 'u) env \<Rightarrow> string \<Rightarrow> classic_chart \<Rightarrow> string \<Rightarrow> bool \<Rightarrow> ('s, 'c, 'u, meter response) handler" where
  "classic_build_manifest E proxy_host chart reference head_only =
     bindA (count_event ''helmoci_manifest_cache_misses_total'') (\<lambda>_.
     bindA (fetch_index_text E (cc_repo_url chart) (cc_source chart)) (\<lambda>index.
     bindA (liftA (map_errE from_helm_for_manifest
              (resolve_chart_url (e_url E) (e_yaml_index E) index
                 (index_repo_of (cc_repo_url chart) (cc_source chart)) (cc_chart_name chart) reference))) (\<lambda>chart_url.
     bindA (download_chart E chart_url (cc_repo_url chart) (cc_source chart)) (\<lambda>tgz.
     bindA (liftA (build_chart E proxy_host tgz)) (\<lambda>b.
     bindA (store_built_chart E (classic_backend E (cc_ephemeral chart))
              \<lparr>ts_proxy_host = proxy_host, ts_full_name = cc_full_name chart\<rparr> reference b) (\<lambda>_.
     bindA (record_event (proxy_response_event KindManifest ProxyClassic FromUpstream)) (\<lambda>_.
     returnA (bytes_response (e_http E) MEDIA_TYPE_MANIFEST (bc_manifest_digest b)
                (bc_manifest_bytes b) head_only))))))))"

definition classic_manifest ::
  "('s, 'c, 'u) env \<Rightarrow> string \<Rightarrow> classic_chart \<Rightarrow> string \<Rightarrow> bool \<Rightarrow> ('s, 'c, 'u, meter response) handler" where
  "classic_manifest E proxy_host chart reference head_only =
     (case digest_parse reference of
        Some d \<Rightarrow> classic_manifest_by_digest E d head_only
      | None \<Rightarrow>
          let store = classic_backend E (cc_ephemeral chart);
              scope = \<lparr>ts_proxy_host = proxy_host, ts_full_name = cc_full_name chart\<rparr> in
          bindA (cached_tag_manifest E store scope reference head_only (st_max_chart_bytes (e_settings E))) (\<lambda>cached.
          case cached of
            Some response \<Rightarrow>
              bindA (count_event ''helmoci_manifest_cache_hits_total'') (\<lambda>_.
              bindA (record_event (proxy_response_event KindManifest ProxyClassic
                       (if cc_ephemeral chart then EphemeralCache else PersistentCache))) (\<lambda>_.
              returnA response))
          | None \<Rightarrow> classic_build_manifest E proxy_host chart reference head_only))"

section \<open>Blobs\<close>

definition classic_blob :: "('s, 'c, 'u) env \<Rightarrow> string \<Rightarrow> bool \<Rightarrow> ('s, 'c, 'u, meter response) handler" where
  "classic_blob E digest_str head_only =
     (case digest_parse digest_str of
        None \<Rightarrow> failA (BlobUnknown (''invalid digest: '' @ digest_str))
      | Some d \<Rightarrow>
          bindA (find_blob E d) (\<lambda>found.
          case found of
            Some (blob, source) \<Rightarrow>
              let ct = (case bm_content_type (bl_meta blob) of Some ct \<Rightarrow> ct | None \<Rightarrow> ''application/octet-stream'') in
              bindA (record_event (proxy_response_event KindBlob ProxyClassic source)) (\<lambda>_.
              returnA (blob_response (e_http E) ct d blob head_only ProxyClassic source))
          | None \<Rightarrow> failA (BlobUnknown (''blob unknown: '' @ as_str d))))"

section \<open>Tags\<close>

text \<open>The query pairs in order: a later \<open>n\<close> replaces an earlier one even when it is not a number.\<close>

fun tag_query :: "(string \<times> string) list \<Rightarrow> nat option \<times> string option \<Rightarrow> nat option \<times> string option" where
  "tag_query [] st = st"
| "tag_query ((key, value) # pairs) (n_param, last_param) =
     tag_query pairs
       (if key = ''n'' then (parse_unsigned u64_max value, last_param)
        else if key = ''last'' then (n_param, Some value)
        else (n_param, last_param))"

definition after_last :: "string option \<Rightarrow> string list \<Rightarrow> string list" where
  "after_last last_param tags =
     (case last_param of
        None \<Rightarrow> tags
      | Some l \<Rightarrow> (case position (\<lambda>tag. tag = l) tags of None \<Rightarrow> tags | Some i \<Rightarrow> drop (i + 1) tags))"

definition tags_link :: "('s, 'c, 'u) env \<Rightarrow> string \<Rightarrow> nat \<Rightarrow> string \<Rightarrow> string" where
  "tags_link E full_name n next_last =
     ''</v2/'' @ full_name @ ''/tags/list?n='' @ show_nat n @ ''&last='' @ e_form_encode E next_last
     @ ''>; rel='' @ quote ''next''"

text \<open>One page: the tags listed, and where the next page starts.\<close>

definition tags_page :: "nat option \<Rightarrow> string option \<Rightarrow> string list \<Rightarrow> string list \<times> (nat \<times> string) option" where
  "tags_page n_param last_param tags0 =
     (let tags = after_last last_param tags0 in
      case n_param of
        Some n \<Rightarrow>
          if n < length tags
          then (take n tags, if n = 0 then None else Some (n, tags ! (n - 1)))
          else (tags, None)
      | None \<Rightarrow> (tags, None))"

text \<open>What a panicking request task leaves: no response at all, and nothing recorded after the panic.\<close>

definition panicked :: "'m response" where
  "panicked = \<lparr>rs_status = 0, rs_headers = [], rs_body = [], rs_meter = None\<rparr>"

definition tags_response ::
  "('s, 'c, 'u) env \<Rightarrow> string \<Rightarrow> string list \<Rightarrow> string option \<Rightarrow> bool \<Rightarrow> meter response" where
  "tags_response E full_name tags link head_only =
     (let body = hl_json_to_string (e_http E)
            (JObj [(''name'', JStr full_name), (''tags'', JArr (map JStr tags))]);
          b = builder_header (e_http E) ''docker-distribution-api-version'' ''registry/2.0''
                (builder_header (e_http E) ''content-length'' (show_nat (length body))
                  (builder_header (e_http E) ''content-type'' ''application/json'' (builder_new 200)));
          b = (case link of Some l \<Rightarrow> builder_header (e_http E) ''link'' l b | None \<Rightarrow> b)
      in if bd_failed b then panicked
         else \<lparr>rs_status = bd_status b, rs_headers = bd_headers b,
               rs_body = (if head_only then [] else [Inr body]), rs_meter = None\<rparr>)"

definition classic_tags ::
  "('s, 'c, 'u) env \<Rightarrow> classic_chart \<Rightarrow> string option \<Rightarrow> bool \<Rightarrow> ('s, 'c, 'u, meter response) handler" where
  "classic_tags E chart query head_only =
     bindA (fetch_index_text_with_source E (cc_repo_url chart) (cc_source chart)) (\<lambda>(index, source).
     bindA (liftA (map_errE from_helm_for_tags
              (list_versions (e_url E) (e_yaml_index E) index
                 (index_repo_of (cc_repo_url chart) (cc_source chart)) (cc_chart_name chart)))) (\<lambda>tags.
     let (n_param, last_param) =
           (case query of None \<Rightarrow> (None, None) | Some q \<Rightarrow> tag_query (e_form_parse E q) (None, None));
         (page, nxt) = tags_page n_param last_param tags;
         link = map_option (\<lambda>(n, l). tags_link E (cc_full_name chart) n l) nxt;
         response = tags_response E (cc_full_name chart) page link head_only in
     if rs_status response = rs_status (panicked :: meter response) then returnA response
     else bindA (record_event (proxy_response_event KindTags ProxyClassic source)) (\<lambda>_.
          returnA response)))"

end
