(* ===== verification/Media_Type.thy ===== *)
theory Media_Type
  imports Oci Http Std_Float
begin

text \<open>
  Media types in \<open>bins/helmoci/src/passthrough.rs\<close>: the manifest types the proxy knows, the RFC 9110
  parameter grammar, the media type of a manifest body and the \<open>Accept\<close> header. JSON parsing is the
  parameter \<open>parse\<close>; a JSON object has distinct keys.
\<close>

section \<open>Constants\<close>

definition OCI_INDEX_MEDIA_TYPE :: string where
  "OCI_INDEX_MEDIA_TYPE = ''application/vnd.oci.image.index.v1+json''"

definition DOCKER_MANIFEST_MEDIA_TYPE :: string where
  "DOCKER_MANIFEST_MEDIA_TYPE = ''application/vnd.docker.distribution.manifest.v2+json''"

definition DOCKER_MANIFEST_LIST_MEDIA_TYPE :: string where
  "DOCKER_MANIFEST_LIST_MEDIA_TYPE = ''application/vnd.docker.distribution.manifest.list.v2+json''"

definition DEFAULT_MANIFEST_ACCEPT :: string where
  "DEFAULT_MANIFEST_ACCEPT =
     ''application/vnd.oci.image.manifest.v1+json, application/vnd.oci.image.index.v1+json, '' @
     ''application/vnd.docker.distribution.manifest.v2+json, '' @
     ''application/vnd.docker.distribution.manifest.list.v2+json''"

definition MANIFEST_MEDIA_TYPES :: "string list" where
  "MANIFEST_MEDIA_TYPES = [MEDIA_TYPE_MANIFEST, OCI_INDEX_MEDIA_TYPE, DOCKER_MANIFEST_MEDIA_TYPE,
     DOCKER_MANIFEST_LIST_MEDIA_TYPE]"

definition OCTET_STREAM_MEDIA_TYPE :: string where
  "OCTET_STREAM_MEDIA_TYPE = ''application/octet-stream''"

section \<open>Tokens and quoted strings\<close>

definition is_token_byte :: "char \<Rightarrow> bool" where
  "is_token_byte b \<longleftrightarrow> is_ascii_alphanumeric b \<or>
     b \<in> {CHR ''!'', CHR ''#'', CHR ''$'', CHR ''%'', CHR ''&'', CHR 0x27, CHR ''*'', CHR ''+'',
          CHR ''-'', CHR ''.'', CHR ''^'', CHR ''_'', CHR 0x60, CHR ''|'', CHR ''~''}"

definition is_quotable :: "char \<Rightarrow> bool" where
  "is_quotable b \<longleftrightarrow> 32 \<le> byte_of b \<and> byte_of b \<le> 126 \<and> b \<noteq> CHR ''<'' \<and> b \<noteq> CHR ''>''"

text \<open>The loop over the bytes between the quotes.\<close>

fun quoted_body :: "string \<Rightarrow> bool" where
  "quoted_body [] = True"
| "quoted_body (b # bs) =
     (if b = CHR 0x5C then
        (case bs of [] \<Rightarrow> False | c # cs \<Rightarrow> is_quotable c \<and> quoted_body cs)
      else if b = CHR 0x22 then False
      else is_quotable b \<and> quoted_body bs)"

definition is_quoted_string :: "string \<Rightarrow> bool" where
  "is_quoted_string value \<longleftrightarrow>
     3 \<le> length value \<and> hd value = CHR 0x22 \<and> last value = CHR 0x22 \<and> quoted_body (butlast (tl value))"

definition is_ows :: "char \<Rightarrow> bool" where
  "is_ows c \<longleftrightarrow> c = CHR '' '' \<or> c = CHR 0x09"

section \<open>Manifest media types\<close>

definition valid_parameter_value :: "string \<Rightarrow> bool" where
  "valid_parameter_value value \<longleftrightarrow>
     is_quoted_string value \<or> value \<noteq> [] \<and> list_all is_token_byte value"

definition valid_media_type_parameters :: "string \<Rightarrow> bool" where
  "valid_media_type_parameters parameters \<longleftrightarrow>
     list_all (\<lambda>parameter.
       case split_once (CHR ''='') (trim_matches is_ows parameter) of
         None \<Rightarrow> False
       | Some (name0, value0) \<Rightarrow>
           let name = trim_end_matches is_ows name0; value = trim_start_matches is_ows value0 in
           name \<noteq> [] \<and> list_all is_token_byte name \<and> valid_parameter_value value)
       (split_on (CHR '';'') parameters)"

definition normalized_manifest_media_type :: "string \<Rightarrow> string option" where
  "normalized_manifest_media_type content_type =
     (let (essence, parameters) =
            (case split_once (CHR '';'') content_type of
               Some (essence, parameters) \<Rightarrow> (essence, Some parameters)
             | None \<Rightarrow> (content_type, None))
      in if (case parameters of None \<Rightarrow> False | Some ps \<Rightarrow> \<not> valid_media_type_parameters ps) then None
         else let essence = trim_matches is_ows essence
              in List.find (\<lambda>known. eq_ignore_ascii_case essence known) MANIFEST_MEDIA_TYPES)"

section \<open>Manifest bodies\<close>

fun json_get :: "string \<Rightarrow> json \<Rightarrow> json option" where
  "json_get key (JObj members) = map_of members key"
| "json_get key _ = None"

fun json_as_str :: "json \<Rightarrow> string option" where
  "json_as_str (JStr s) = Some s"
| "json_as_str _ = None"

text \<open>A JSON number is its source text; it is a \<open>u64\<close> when it is written as one.\<close>

fun json_as_u64 :: "json \<Rightarrow> nat option" where
  "json_as_u64 (JNum txt) = (if list_all is_ascii_digit txt then parse_unsigned u64_max txt else None)"
| "json_as_u64 _ = None"

definition schema_version_2 :: "json \<Rightarrow> bool" where
  "schema_version_2 value \<longleftrightarrow> Option.bind (json_get ''schemaVersion'' value) json_as_u64 = Some 2"

definition manifest_media_type :: "(bytes \<Rightarrow> json option) \<Rightarrow> bytes \<Rightarrow> string option \<Rightarrow> string option" where
  "manifest_media_type parse bytes declared =
     Option.bind (parse bytes) (\<lambda>value.
     if \<not> schema_version_2 value then None
     else case json_get ''mediaType'' value of
       Some media_type \<Rightarrow> Option.bind (json_as_str media_type) normalized_manifest_media_type
     | None \<Rightarrow> Option.bind declared normalized_manifest_media_type)"

definition inferred_cached_manifest_media_type :: "(bytes \<Rightarrow> json option) \<Rightarrow> bytes \<Rightarrow> string option" where
  "inferred_cached_manifest_media_type parse bytes =
     Option.bind (parse bytes) (\<lambda>value.
     if \<not> schema_version_2 value \<or> json_get ''mediaType'' value \<noteq> None then None
     else if json_get ''config'' value \<noteq> None \<and> json_get ''layers'' value \<noteq> None
     then Some MEDIA_TYPE_MANIFEST else None)"

section \<open>The Accept header\<close>

definition acceptable_parameter :: "string \<Rightarrow> bool" where
  "acceptable_parameter parameter \<longleftrightarrow>
     (case split_once (CHR ''='') (trim parameter) of
        None \<Rightarrow> True
      | Some (name, value) \<Rightarrow>
          \<not> eq_ignore_ascii_case (trim name) ''q''
          \<or> (case parse_f32 (trim value) of None \<Rightarrow> False | Some quality \<Rightarrow> flt_gt_zero quality))"

definition accepts_range :: "string \<Rightarrow> string \<Rightarrow> bool" where
  "accepts_range media_type range0 \<longleftrightarrow>
     (case split_on (CHR '';'') range0 of
        [] \<Rightarrow> False
      | first # parameters \<Rightarrow>
          let range = to_ascii_lowercase (trim first) in
          list_all acceptable_parameter parameters \<and>
          (range = ''*/*'' \<or> range = media_type \<or>
           (case strip_suffix ''/*'' range of
              None \<Rightarrow> False
            | Some kind \<Rightarrow> starts_with (kind @ ''/'') media_type)))"

definition accepts_media_type :: "string option \<Rightarrow> string \<Rightarrow> bool" where
  "accepts_media_type accept media_type \<longleftrightarrow>
     (case accept of
        None \<Rightarrow> True
      | Some accept \<Rightarrow> list_ex (accepts_range media_type) (split_on (CHR '','') accept))"

section \<open>Lemmas\<close>

text \<open>Nothing read from a body or a header becomes a media type: the result is one of four constants.\<close>

lemma normalized_known: "normalized_manifest_media_type ct = Some mt \<Longrightarrow> mt \<in> set MANIFEST_MEDIA_TYPES"
  by (auto simp: normalized_manifest_media_type_def Let_def find_Some_iff split: prod.splits if_splits)

lemma manifest_media_type_known:
  "manifest_media_type parse bytes declared = Some mt \<Longrightarrow> mt \<in> set MANIFEST_MEDIA_TYPES"
  by (auto simp: manifest_media_type_def bind_eq_Some_conv normalized_known split: if_splits option.splits)

lemma inferred_known: "inferred_cached_manifest_media_type parse bytes = Some mt \<Longrightarrow> mt \<in> set MANIFEST_MEDIA_TYPES"
  by (auto simp: inferred_cached_manifest_media_type_def bind_eq_Some_conv MANIFEST_MEDIA_TYPES_def split: if_splits)

lemma known_fixed: "mt \<in> set MANIFEST_MEDIA_TYPES \<Longrightarrow> normalized_manifest_media_type mt = Some mt"
proof -
  have "normalized_manifest_media_type MEDIA_TYPE_MANIFEST = Some MEDIA_TYPE_MANIFEST"
    "normalized_manifest_media_type OCI_INDEX_MEDIA_TYPE = Some OCI_INDEX_MEDIA_TYPE"
    "normalized_manifest_media_type DOCKER_MANIFEST_MEDIA_TYPE = Some DOCKER_MANIFEST_MEDIA_TYPE"
    "normalized_manifest_media_type DOCKER_MANIFEST_LIST_MEDIA_TYPE = Some DOCKER_MANIFEST_LIST_MEDIA_TYPE"
    by code_simp+
  then show "mt \<in> set MANIFEST_MEDIA_TYPES \<Longrightarrow> normalized_manifest_media_type mt = Some mt"
    by (auto simp: MANIFEST_MEDIA_TYPES_def)
qed

end
