(* ===== verification/Tag_Link.thy ===== *)
theory Tag_Link
  imports Media_Type Upstream
begin

text \<open>
  The \<open>Link\<close> header of an upstream tag list in \<open>bins/helmoci/src/passthrough.rs\<close>: the RFC 8288
  parser, the checks on a link's target, and the rewriting to the proxy's own path. The index loops
  of the source are recursions on the rest of the text; a dropped link is reported by its reason.
\<close>

section \<open>Parameters of a link\<close>

fun cons_hd :: "'a \<Rightarrow> 'a list list \<Rightarrow> 'a list list" where
  "cons_hd b [] = [[b]]"
| "cons_hd b (x # xs) = (b # x) # xs"

fun split_params :: "bool \<Rightarrow> string \<Rightarrow> string list" where
  "split_params in_quotes [] = [[]]"
| "split_params in_quotes (b # bs) =
     (if b = CHR 0x22 then cons_hd b (split_params (\<not> in_quotes) bs)
      else if b = CHR 0x5C \<and> in_quotes then
        (case bs of [] \<Rightarrow> [[b]] | c # cs \<Rightarrow> cons_hd b (cons_hd c (split_params in_quotes cs)))
      else if b = CHR '';'' \<and> \<not> in_quotes then [] # split_params in_quotes bs
      else cons_hd b (split_params in_quotes bs))"

definition split_link_params :: "string \<Rightarrow> string list" where
  "split_link_params params = split_params False params"

definition valid_link_param :: "string \<Rightarrow> bool" where
  "valid_link_param parameter0 \<longleftrightarrow>
     (let parameter = trim_matches is_ows parameter0;
          (name, value) = (case split_once (CHR ''='') parameter of
             Some (name, value) \<Rightarrow> (trim_end_matches is_ows name, Some (trim_matches is_ows value))
           | None \<Rightarrow> (parameter, None))
      in if name = [] \<or> \<not> list_all is_token_byte name then False
         else case value of None \<Rightarrow> True | Some value \<Rightarrow> valid_parameter_value value)"

definition valid_link_params :: "string \<Rightarrow> bool" where
  "valid_link_params params0 \<longleftrightarrow>
     (let params = trim_matches is_ows params0 in
      if params = [] then True
      else case strip_prefix '';'' params of
        None \<Rightarrow> False
      | Some params \<Rightarrow> list_all valid_link_param (split_link_params params))"

fun unescape :: "bool \<Rightarrow> string \<Rightarrow> string" where
  "unescape escaped [] = []"
| "unescape escaped (c # cs) =
     (if c = CHR 0x5C \<and> \<not> escaped then unescape True cs else c # unescape False cs)"

definition unquote_link_value :: "string \<Rightarrow> string" where
  "unquote_link_value value =
     (case Option.bind (strip_prefix [CHR 0x22] value) (strip_suffix [CHR 0x22]) of
        None \<Rightarrow> value
      | Some inner \<Rightarrow> unescape False inner)"

definition split_ascii_whitespace :: "string \<Rightarrow> string list" where
  "split_ascii_whitespace s =
     filter (\<lambda>w. w \<noteq> []) (split_on (CHR '' '') (map (\<lambda>c. if is_ascii_whitespace c then CHR '' '' else c) s))"

text \<open>The value of the parameter if it is \<open>rel\<close>.\<close>

definition rel_value :: "string \<Rightarrow> string option" where
  "rel_value parameter =
     Option.bind (split_once (CHR ''='') (trim_matches is_ows parameter)) (\<lambda>(name, value).
     if eq_ignore_ascii_case (trim_end_matches is_ows name) ''rel''
     then Some (unquote_link_value (trim_matches is_ows value)) else None)"

fun find_map :: "('a \<Rightarrow> 'b option) \<Rightarrow> 'a list \<Rightarrow> 'b option" where
  "find_map f [] = None"
| "find_map f (x # xs) = (case f x of None \<Rightarrow> find_map f xs | Some y \<Rightarrow> Some y)"

definition is_next_link :: "string \<Rightarrow> bool" where
  "is_next_link params \<longleftrightarrow>
     (case strip_prefix '';'' (trim_matches is_ows params) of
        None \<Rightarrow> False
      | Some params \<Rightarrow>
          (case find_map rel_value (split_link_params params) of
             None \<Rightarrow> False
           | Some rel \<Rightarrow> list_ex (\<lambda>relation. eq_ignore_ascii_case relation ''next'') (split_ascii_whitespace rel)))"

section \<open>The target of a link\<close>

definition is_uri_byte :: "char \<Rightarrow> bool" where
  "is_uri_byte b \<longleftrightarrow> is_ascii_alphanumeric b \<or>
     b \<in> {CHR ''-'', CHR ''.'', CHR ''_'', CHR ''~'', CHR '':'', CHR ''/'', CHR ''?'', CHR ''#'',
          CHR ''['', CHR '']'', CHR ''@'', CHR ''!'', CHR ''$'', CHR ''&'', CHR 0x27, CHR ''('', CHR '')'',
          CHR ''*'', CHR ''+'', CHR '','', CHR '';'', CHR ''='', CHR ''%''}"

fun is_safe_uri_reference :: "string \<Rightarrow> bool" where
  "is_safe_uri_reference [] = True"
| "is_safe_uri_reference (b # bs) =
     (if \<not> is_uri_byte b then False
      else if b = CHR ''%'' then
        (case bs of
           x # y # rest \<Rightarrow> is_ascii_hexdigit x \<and> is_ascii_hexdigit y \<and> is_safe_uri_reference rest
         | _ \<Rightarrow> False)
      else is_safe_uri_reference bs)"

definition is_rfc_scheme :: "string \<Rightarrow> bool" where
  "is_rfc_scheme scheme \<longleftrightarrow>
     (case scheme of
        [] \<Rightarrow> False
      | b # bs \<Rightarrow> is_ascii_alphabetic b \<and>
          list_all (\<lambda>b. is_ascii_alphanumeric b \<or> b = CHR ''+'' \<or> b = CHR ''-'' \<or> b = CHR ''.'') bs)"

definition target_scheme :: "oci_target \<Rightarrow> string" where
  "target_scheme target = (if ot_plain_http target then ''http'' else ''https'')"

definition ends_segment :: "char \<Rightarrow> bool" where
  "ends_segment c \<longleftrightarrow> c = CHR ''/'' \<or> c = CHR ''?'' \<or> c = CHR ''#''"

definition is_strict_tag_link_reference :: "string \<Rightarrow> oci_target \<Rightarrow> bool" where
  "is_strict_tag_link_reference reference target \<longleftrightarrow>
     (let first_segment = takeWhile (\<lambda>c. \<not> ends_segment c) reference in
      case split_once (CHR '':'') first_segment of
        None \<Rightarrow> \<not> starts_with ''//'' reference
      | Some (scheme, _) \<Rightarrow>
          let remainder = drop (length scheme + 1) reference in
          if \<not> is_rfc_scheme scheme \<or> \<not> eq_ignore_ascii_case scheme (target_scheme target)
             \<or> \<not> starts_with ''//'' remainder then False
          else (case drop 2 remainder of [] \<Rightarrow> False | c # _ \<Rightarrow> \<not> ends_segment c))"

definition upstream_url :: "'u url_lib \<Rightarrow> oci_target \<Rightarrow> string \<Rightarrow> app_error + 'u" where
  "upstream_url U target sfx =
     bindE (map_errE (\<lambda>_. Upstream ''invalid OCI upstream target'')
              (ul_parse U (target_scheme target @ ''://'' @ ot_registry target @ ''/''))) (\<lambda>url.
     let (path, query) = (case split_once (CHR ''?'') sfx of Some p \<Rightarrow> p | None \<Rightarrow> (sfx, [])) in
     bindE (ok_or (Upstream ''invalid OCI upstream target'')
              (ul_push_segments U
                 (''v2'' # split_on (CHR ''/'') (ot_repo target) @ split_on (CHR ''/'') path) url)) (\<lambda>url.
     Inr (if query \<noteq> [] then ul_set_query U (Some query) url else url)))"

definition resolved_tag_link_url :: "'u url_lib \<Rightarrow> string \<Rightarrow> oci_target \<Rightarrow> 'u option" where
  "resolved_tag_link_url U reference target =
     (if \<not> is_safe_uri_reference reference \<or> \<not> is_strict_tag_link_reference reference target then None
      else
        Option.bind (ok (upstream_url U target ''tags/list'')) (\<lambda>target_url.
        Option.bind (case ul_parse U reference of
                       Inr url \<Rightarrow> Some url
                     | Inl _ \<Rightarrow> ok (ul_join U target_url reference)) (\<lambda>resolved.
        if ul_origin U resolved = ul_origin U target_url \<and> ul_path U resolved = ul_path U target_url
           \<and> ul_fragment U resolved = None
        then Some resolved else None)))"

section \<open>The header field\<close>

record link_value =
  lv_uri :: string
  lv_params :: string

definition is_field_byte :: "char \<Rightarrow> bool" where
  "is_field_byte b \<longleftrightarrow> 32 \<le> byte_of b \<and> byte_of b \<le> 126 \<or> b = CHR 0x09"

text \<open>The parameter text up to an unquoted comma or the end; no result when a quote stays open.\<close>

fun scan_params :: "bool \<Rightarrow> string \<Rightarrow> (string \<times> string) option" where
  "scan_params in_quotes [] = (if in_quotes then None else Some ([], []))"
| "scan_params in_quotes (b # bs) =
     (if b = CHR 0x22 then map_option (\<lambda>(p, r). (b # p, r)) (scan_params (\<not> in_quotes) bs)
      else if b = CHR 0x5C \<and> in_quotes then
        (case bs of
           [] \<Rightarrow> None
         | c # cs \<Rightarrow> map_option (\<lambda>(p, r). (b # c # p, r)) (scan_params in_quotes cs))
      else if b = CHR '','' \<and> \<not> in_quotes then Some ([], b # bs)
      else map_option (\<lambda>(p, r). (b # p, r)) (scan_params in_quotes bs))"

lemma map_pair_Some:
  "map_option (\<lambda>(p, r). (f p, r)) x = Some (p', r') \<longleftrightarrow> (\<exists>p. x = Some (p, r') \<and> p' = f p)"
  by (cases x) auto

lemma scan_params_cases:
  assumes "scan_params q (b # bs) = Some (p, r)"
  obtains (quote) p' where "b = CHR 0x22" "scan_params (\<not> q) bs = Some (p', r)" "p = b # p'"
  | (escape) c cs p' where "b = CHR 0x5C" "q" "bs = c # cs" "scan_params q cs = Some (p', r)" "p = b # c # p'"
  | (comma) "b = CHR '',''" "\<not> q" "p = []" "r = b # bs"
  | (plain) p' where "b \<noteq> CHR 0x22" "b \<noteq> CHR 0x5C \<or> \<not> q" "b \<noteq> CHR '','' \<or> q"
      "scan_params q bs = Some (p', r)" "p = b # p'"
  using assms
  by (auto simp: map_pair_Some split: if_splits list.split_asm)

lemma scan_params_append: "scan_params q s = Some (p, r) \<Longrightarrow> s = p @ r"
proof (induction "length s" arbitrary: q s p rule: less_induct)
  case less
  show ?case
  proof (cases s)
    case Nil
    with less.prems show ?thesis by (simp split: if_splits)
  next
    case (Cons b bs)
    with less.prems have "scan_params q (b # bs) = Some (p, r)" by simp
    then show ?thesis
    proof (cases rule: scan_params_cases)
      case (quote p')
      with less.hyps [OF _ quote(2)] Cons show ?thesis by simp
    next
      case (escape c cs p')
      with less.hyps [OF _ escape(4)] Cons show ?thesis by simp
    next
      case comma
      with Cons show ?thesis by simp
    next
      case (plain p')
      with less.hyps [OF _ plain(4)] Cons show ?thesis by simp
    qed
  qed
qed

definition is_list_gap :: "char \<Rightarrow> bool" where
  "is_list_gap c \<longleftrightarrow> is_ows c \<or> c = CHR '',''"

function parse_links :: "string \<Rightarrow> link_value list option" where
  "parse_links s =
     (case dropWhile is_list_gap s of
        [] \<Rightarrow> Some []
      | b # r \<Rightarrow>
          if b \<noteq> CHR ''<'' then None
          else case split_once (CHR ''>'') r of
            None \<Rightarrow> None
          | Some (uri, after) \<Rightarrow>
              (case scan_params False after of
                 None \<Rightarrow> None
               | Some (params0, rest) \<Rightarrow>
                   let params = trim_end_matches is_ows params0 in
                   if \<not> valid_link_params params then None
                   else map_option (\<lambda>links. \<lparr>lv_uri = uri, lv_params = params\<rparr> # links) (parse_links rest)))"
  by pat_completeness auto
termination
proof (relation "measure length")
  fix s b r p uri after q params0 rest x
  assume d: "dropWhile is_list_gap s = b # r" and sp: "split_once (CHR ''>'') r = Some p" "(uri, after) = p"
    and sc: "scan_params False after = Some q" "(params0, rest) = q"
  have "length (b # r) \<le> length s" using length_dropWhile_le [of is_list_gap s] d by simp
  moreover from sp have "length after < length r" by (auto simp: split_once_Some)
  moreover from sc have "length rest \<le> length after" by (auto dest: scan_params_append)
  ultimately show "(rest, s) \<in> measure length" by simp
qed simp

declare parse_links.simps [simp del]

definition parse_link_field :: "string \<Rightarrow> link_value list option" where
  "parse_link_field field = (if \<not> list_all is_field_byte field then None else parse_links field)"

section \<open>Rewriting\<close>

definition rewrite_link_value :: "'u url_lib \<Rightarrow> link_value \<Rightarrow> oci_target \<Rightarrow> string option" where
  "rewrite_link_value U link target =
     Option.bind (resolved_tag_link_url U (lv_uri link) target) (\<lambda>resolved.
     let query = (case ul_query U resolved of None \<Rightarrow> [] | Some q \<Rightarrow> q);
         sfx = (if query = [] then [] else ''?'' @ query)
     in Some (''</v2/'' @ ot_full_name target @ ''/tags/list'' @ sfx @ ''>'' @ lv_params link))"

text \<open>Each of the next functions returns the reasons of the drops it counted.\<close>

definition select_next_link :: "link_value list \<Rightarrow> link_value option \<times> string list" where
  "select_next_link links =
     (case filter (\<lambda>link. is_next_link (lv_params link)) links of
        [] \<Rightarrow> (None, [''no_next_relation''])
      | [next] \<Rightarrow> (Some next, [])
      | _ \<Rightarrow> (None, [''ambiguous_next_relation'']))"

fun parse_fields :: "string list \<Rightarrow> link_value list option" where
  "parse_fields [] = Some []"
| "parse_fields (field # fs) =
     Option.bind (parse_link_field field) (\<lambda>parsed. map_option (\<lambda>links. parsed @ links) (parse_fields fs))"

definition rewrite_tag_links :: "'u url_lib \<Rightarrow> string list \<Rightarrow> oci_target \<Rightarrow> string option \<times> string list" where
  "rewrite_tag_links U fs target =
     (if fs = [] then (None, [])
      else case parse_fields fs of
        None \<Rightarrow> (None, [''unparsable_field''])
      | Some links \<Rightarrow>
          (case select_next_link links of
             (None, drops) \<Rightarrow> (None, drops)
           | (Some nxt, drops) \<Rightarrow>
               (case rewrite_link_value U nxt target of
                  Some link \<Rightarrow> (Some link, drops)
                | None \<Rightarrow> (None, drops @ [''unsafe_reference'']))))"

definition rewrite_upstream_tag_link ::
  "'u url_lib \<Rightarrow> http_answer \<Rightarrow> oci_target \<Rightarrow> string option \<times> string list" where
  "rewrite_upstream_tag_link U response target =
     (let values = answer_headers ''link'' response in
      if None \<in> set values then (None, [''undecodable_field''])
      else rewrite_tag_links U (map the values) target)"

section \<open>What is emitted parses back\<close>

lemma scan_params_self: "scan_params q s = Some (p, r) \<Longrightarrow> scan_params q p = Some (p, [])"
proof (induction "length s" arbitrary: q s p rule: less_induct)
  case less
  show ?case
  proof (cases s)
    case Nil
    with less.prems show ?thesis by (simp split: if_splits)
  next
    case (Cons b bs)
    with less.prems have "scan_params q (b # bs) = Some (p, r)" by simp
    then show ?thesis
    proof (cases rule: scan_params_cases)
      case (quote p')
      with less.hyps [OF _ quote(2)] Cons show ?thesis by simp
    next
      case (escape c cs p')
      with less.hyps [OF _ escape(4)] Cons show ?thesis by simp
    next
      case comma
      then show ?thesis by simp
    next
      case (plain p')
      with less.hyps [OF _ plain(4)] Cons show ?thesis by auto
    qed
  qed
qed

lemma scan_params_ows: "list_all is_ows ws \<Longrightarrow> scan_params q ws \<noteq> None \<Longrightarrow> \<not> q"
  by (induction q ws rule: scan_params.induct) (auto simp: is_ows_def map_pair_Some split: if_splits list.splits)

lemma scan_params_trim:
  "scan_params q (p @ ws) = Some (p @ ws, []) \<Longrightarrow> list_all is_ows ws \<Longrightarrow> scan_params q p = Some (p, [])"
proof (induction "length p" arbitrary: q p rule: less_induct)
  case less
  show ?case
  proof (cases p)
    case Nil
    with less.prems scan_params_ows [of ws q] show ?thesis by auto
  next
    case (Cons b bs)
    with less.prems have "scan_params q (b # bs @ ws) = Some (p @ ws, [])" by simp
    then show ?thesis
    proof (cases rule: scan_params_cases)
      case (quote p')
      with less.hyps [of bs "\<not> q"] less.prems(2) Cons show ?thesis by simp
    next
      case (escape c cs p')
      show ?thesis
      proof (cases bs)
        case Nil
        with escape less.prems(2) have "list_all is_ows cs" "scan_params q cs \<noteq> None" by auto
        with scan_params_ows escape(2) show ?thesis by blast
      next
        case (Cons d ds)
        with escape less.hyps [of ds q] less.prems(2) \<open>p = b # bs\<close> show ?thesis by simp
      qed
    next
      case comma
      with Cons show ?thesis by simp
    next
      case (plain p')
      with less.hyps [of bs q] less.prems(2) Cons show ?thesis by auto
    qed
  qed
qed

lemma trim_end_matches_split: "\<exists>ws. p = trim_end_matches P p @ ws \<and> list_all P ws"
proof -
  have "rev p = takeWhile P (rev p) @ dropWhile P (rev p)" by simp
  then have "p = rev (dropWhile P (rev p)) @ rev (takeWhile P (rev p))" by (metis rev_append rev_rev_ident)
  moreover have "list_all P (rev (takeWhile P (rev p)))" by (auto simp: list_all_iff dest: set_takeWhileD)
  ultimately show ?thesis by (auto simp: trim_end_matches_def)
qed

lemma trim_end_matches_idem: "trim_end_matches P (trim_end_matches P p) = trim_end_matches P p"
  by (metis trim_end_matches_id trim_end_matches_last)

text \<open>Parameters that can be emitted as they are.\<close>

definition emittable :: "string \<Rightarrow> bool" where
  "emittable params \<longleftrightarrow> scan_params False params = Some (params, [])
     \<and> trim_end_matches is_ows params = params \<and> valid_link_params params"

lemma parse_links_emittable:
  "parse_links s = Some links \<Longrightarrow> l \<in> set links \<Longrightarrow> emittable (lv_params l) \<and> set (lv_params l) \<subseteq> set s"
proof (induction s arbitrary: links rule: parse_links.induct)
  case (1 s)
  show ?case
  proof (cases "dropWhile is_list_gap s")
    case Nil
    with "1.prems" show ?thesis by (subst (asm) parse_links.simps) simp
  next
    case (Cons b r)
    with "1.prems" obtain uri after params0 rest links' where
      b: "b = CHR ''<''" and sp: "split_once (CHR ''>'') r = Some (uri, after)"
      and sc: "scan_params False after = Some (params0, rest)"
      and v: "valid_link_params (trim_end_matches is_ows params0)"
      and r: "parse_links rest = Some links'"
      and l: "links = \<lparr>lv_uri = uri, lv_params = trim_end_matches is_ows params0\<rparr> # links'"
      by (subst (asm) parse_links.simps) (auto simp: Let_def split: if_splits option.splits)
    obtain ws where ws: "params0 = trim_end_matches is_ows params0 @ ws" "list_all is_ows ws"
      using trim_end_matches_split by blast
    have "scan_params False (trim_end_matches is_ows params0) = Some (trim_end_matches is_ows params0, [])"
      using scan_params_trim [OF _ ws(2)] scan_params_self [OF sc] ws(1) by metis
    then have e: "emittable (trim_end_matches is_ows params0)"
      using v by (simp add: emittable_def trim_end_matches_idem)
    have sub: "set r \<subseteq> set s" using Cons set_dropWhileD by (metis list.set_intros(2) subsetI)
    have aft: "set after \<subseteq> set r" "after = params0 @ rest"
      using sp scan_params_append [OF sc] by (auto simp: split_once_Some)
    then have "set params0 \<subseteq> set s" "set rest \<subseteq> set s" using sub by auto
    moreover note set_trim_end_matches [of is_ows params0]
    ultimately show ?thesis
      using "1.IH" [OF Cons _ sp refl sc refl refl _ r] b v e "1.prems"(2) l by auto
  qed
qed

lemma parse_fields_emittable:
  "parse_fields fs = Some links \<Longrightarrow> l \<in> set links \<Longrightarrow> emittable (lv_params l) \<and> list_all is_field_byte (lv_params l)"
proof (induction fs arbitrary: links)
  case (Cons f fs)
  then obtain parsed links' where "parse_link_field f = Some parsed" "parse_fields fs = Some links'"
    "links = parsed @ links'"
    by (auto simp: bind_eq_Some_conv)
  with Cons parse_links_emittable [of f parsed l] show ?case
    by (auto simp: parse_link_field_def list_all_iff split: if_splits)
qed simp

lemma parse_links_single:
  assumes "CHR ''>'' \<notin> set uri" "emittable params"
  shows "parse_links (''<'' @ uri @ ''>'' @ params) = Some [\<lparr>lv_uri = uri, lv_params = params\<rparr>]"
proof -
  have "\<not> is_list_gap (CHR ''<'')" by (simp add: is_list_gap_def is_ows_def)
  moreover have "parse_links [] = Some []" by (subst parse_links.simps) simp
  ultimately show ?thesis
    using assms by (subst parse_links.simps) (simp add: emittable_def)
qed

lemma select_next_linkD:
  "select_next_link links = (Some nxt, drops) \<Longrightarrow> nxt \<in> set links \<and> is_next_link (lv_params nxt)"
proof -
  assume "select_next_link links = (Some nxt, drops)"
  then have "filter (\<lambda>link. is_next_link (lv_params link)) links = [nxt]"
    by (auto simp: select_next_link_def split: list.split_asm)
  then have "nxt \<in> set (filter (\<lambda>link. is_next_link (lv_params link)) links)" by simp
  then show ?thesis by simp
qed

section \<open>Properties\<close>

text \<open>C14. An upstream cannot point a client elsewhere: whatever \<open>Link\<close> fields it sends, the header the
  proxy emits parses back as exactly one link-value, it is the next page of this repository's own
  tag list on the proxy with at most a query added, its parameters are those of an upstream
  link, and that link's target had the registry's origin and tag-list path.\<close>
theorem tag_link_confined:
  assumes "rewrite_tag_links U fs target = (Some link, drops)"
    and "\<And>u q. ul_query U u = Some q \<Longrightarrow> list_all is_field_byte q \<and> CHR ''>'' \<notin> set q"
    and "list_all is_field_byte (ot_full_name target)" "CHR ''>'' \<notin> set (ot_full_name target)"
  shows "\<exists>uri params links upstream_uri target_url resolved.
      parse_link_field link = Some [\<lparr>lv_uri = uri, lv_params = params\<rparr>] \<and> is_next_link params
      \<and> (\<exists>query. uri = ''/v2/'' @ ot_full_name target @ ''/tags/list'' @ query \<and> (query = [] \<or> hd query = CHR ''?''))
      \<and> parse_fields fs = Some links \<and> \<lparr>lv_uri = upstream_uri, lv_params = params\<rparr> \<in> set links
      \<and> upstream_url U target ''tags/list'' = Inr target_url
      \<and> ul_origin U resolved = ul_origin U target_url \<and> ul_path U resolved = ul_path U target_url
      \<and> (ul_parse U upstream_uri = Inr resolved \<or> ul_join U target_url upstream_uri = Inr resolved)"
proof -
  from assms(1) obtain links nxt where pf: "parse_fields fs = Some links"
    and sel: "nxt \<in> set links" "is_next_link (lv_params nxt)"
    and rw: "rewrite_link_value U nxt target = Some link"
    by (auto simp: rewrite_tag_links_def split: if_splits option.splits prod.splits dest!: select_next_linkD)
  define query where "query resolved = (let q = (case ul_query U resolved of None \<Rightarrow> [] | Some q \<Rightarrow> q)
     in if q = [] then [] else ''?'' @ q)" for resolved
  from rw obtain resolved where res: "resolved_tag_link_url U (lv_uri nxt) target = Some resolved"
    and link: "link = ''<'' @ (''/v2/'' @ ot_full_name target @ ''/tags/list'' @ query resolved) @ ''>'' @ lv_params nxt"
    by (auto simp: rewrite_link_value_def bind_eq_Some_conv Let_def query_def)
  let ?uri = "''/v2/'' @ ot_full_name target @ ''/tags/list'' @ query resolved"
  note em = parse_fields_emittable [OF pf sel(1)]
  have q: "list_all is_field_byte (query resolved)" "CHR ''>'' \<notin> set (query resolved)"
    "query resolved = [] \<or> hd (query resolved) = CHR ''?''"
    using assms(2) [of resolved] by (auto simp: query_def is_field_byte_def byte_of_def split: option.splits)
  have "list_all is_field_byte link"
    unfolding link using assms(3) q(1) em by (simp add: is_field_byte_def byte_of_def)
  moreover have "CHR ''>'' \<notin> set ?uri" using assms(4) q(2) by simp
  ultimately have "parse_link_field link = Some [\<lparr>lv_uri = ?uri, lv_params = lv_params nxt\<rparr>]"
    using parse_links_single [of ?uri "lv_params nxt"] em by (simp only: link parse_link_field_def simp_thms if_False)
  moreover from res obtain target_url where "upstream_url U target ''tags/list'' = Inr target_url"
    "ul_origin U resolved = ul_origin U target_url" "ul_path U resolved = ul_path U target_url"
    "ul_parse U (lv_uri nxt) = Inr resolved \<or> ul_join U target_url (lv_uri nxt) = Inr resolved"
    by (auto simp: resolved_tag_link_url_def bind_eq_Some_conv ok_Some split: if_splits sum.splits)
  moreover have "\<lparr>lv_uri = lv_uri nxt, lv_params = lv_params nxt\<rparr> \<in> set links" by (cases nxt; use sel(1) in simp)
  ultimately show ?thesis using sel(2) pf q(3) by blast
qed

text \<open>A URL library whose queries are what the \<open>url\<close> crate lets through, for the witnesses.\<close>

definition escaping_url_lib :: "sample_url url_lib" where
  "escaping_url_lib = sample_url_lib\<lparr>ul_query :=
     (\<lambda>u. map_option (filter (\<lambda>c. is_field_byte c \<and> c \<noteq> CHR ''>'')) (su_query u))\<rparr>"

definition sample_target :: oci_target where
  "sample_target = \<lparr>ot_registry = ''r.io'', ot_repo = ''p/c'', ot_full_name = ''priv/c'', ot_store = True,
     ot_auth = AuthNone, ot_plain_http = False\<rparr>"

theorem tag_link_confined_witness:
  "rewrite_tag_links escaping_url_lib [''</v2/p/c/tags/list>; rel=next''] sample_target
     = (Some ''</v2/priv/c/tags/list>; rel=next'', [])
   \<and> (\<exists>uri params. parse_link_field ''</v2/priv/c/tags/list>; rel=next''
        = Some [\<lparr>lv_uri = uri, lv_params = params\<rparr>] \<and> is_next_link params)"
proof -
  have r: "rewrite_tag_links escaping_url_lib [''</v2/p/c/tags/list>; rel=next''] sample_target
     = (Some ''</v2/priv/c/tags/list>; rel=next'', [])"
    by code_simp
  have q: "list_all is_field_byte q \<and> CHR ''>'' \<notin> set q" if "ul_query escaping_url_lib u = Some q" for u q
    using that by (auto simp: escaping_url_lib_def list_all_iff)
  have n: "list_all is_field_byte (ot_full_name sample_target)" "CHR ''>'' \<notin> set (ot_full_name sample_target)"
    by code_simp+
  have "\<exists>uri params. parse_link_field ''</v2/priv/c/tags/list>; rel=next''
        = Some [\<lparr>lv_uri = uri, lv_params = params\<rparr>] \<and> is_next_link params"
    using tag_link_confined [OF r _ n] q by blast
  with r show ?thesis by (rule conjI)
qed

end
