(* ===== verification/Bearer.thy ===== *)
theory Bearer
  imports Tag_Link
begin

text \<open>
  The registry token exchange in \<open>bins/helmoci/src/passthrough.rs\<close>: parsing the bearer challenge,
  which realm may be asked for a token and with what credentials, and reading the answer.
\<close>

section \<open>The challenge\<close>

record bearer_challenge =
  bc_realm :: string
  bc_service :: "string option"
  bc_scope :: "string option"

definition strip_prefix_ascii_case :: "string \<Rightarrow> string \<Rightarrow> string option" where
  "strip_prefix_ascii_case value pfx =
     (if length pfx \<le> length value \<and> eq_ignore_ascii_case (take (length pfx) value) pfx
      then Some (drop (length pfx) value) else None)"

text \<open>The loop over the characters: \<open>current\<close> is the part being collected.\<close>

fun split_challenge_loop :: "string \<Rightarrow> bool \<Rightarrow> string \<Rightarrow> string list" where
  "split_challenge_loop current in_quotes [] =
     (if trim current \<noteq> [] then [trim current] else [])"
| "split_challenge_loop current in_quotes (c # cs) =
     (if c = CHR 0x22 then split_challenge_loop (current @ [c]) (\<not> in_quotes) cs
      else if c = CHR '','' \<and> \<not> in_quotes then trim current # split_challenge_loop [] in_quotes cs
      else split_challenge_loop (current @ [c]) in_quotes cs)"

definition split_challenge_params :: "string \<Rightarrow> string list" where
  "split_challenge_params value = split_challenge_loop [] False value"

definition is_quote :: "char \<Rightarrow> bool" where
  "is_quote c \<longleftrightarrow> c = CHR 0x22"

text \<open>The fields found so far; a later parameter of the same name replaces an earlier one.\<close>

type_synonym challenge_fields = "string option \<times> string option \<times> string option"

definition challenge_param :: "string \<Rightarrow> challenge_fields \<Rightarrow> challenge_fields" where
  "challenge_param part fs =
     (case split_once (CHR ''='') part of
        None \<Rightarrow> fs
      | Some (key0, value0) \<Rightarrow>
          let value = trim_matches is_quote (trim value0); key = trim key0 in
          case fs of (realm, service, scope) \<Rightarrow>
            if eq_ignore_ascii_case key ''realm'' then (Some value, service, scope)
            else if eq_ignore_ascii_case key ''service'' then (realm, Some value, scope)
            else if eq_ignore_ascii_case key ''scope'' then (realm, service, Some value)
            else fs)"

definition parse_bearer_challenge :: "string \<Rightarrow> bearer_challenge option" where
  "parse_bearer_challenge header =
     (let parts = split_challenge_params (trim header) in
      case dropWhile (\<lambda>part. strip_prefix_ascii_case part ''Bearer '' = None) parts of
        [] \<Rightarrow> None
      | first # others \<Rightarrow>
          Option.bind (strip_prefix_ascii_case first ''Bearer '') (\<lambda>first.
          case foldl (\<lambda>fs part. challenge_param part fs) (None, None, None) (first # others) of
            (realm, service, scope) \<Rightarrow>
              map_option (\<lambda>realm. \<lparr>bc_realm = realm, bc_service = service, bc_scope = scope\<rparr>) realm))"

section \<open>The realm\<close>

definition registry_url :: "'u url_lib \<Rightarrow> oci_target \<Rightarrow> app_error + 'u" where
  "registry_url U target =
     map_errE (\<lambda>_. Upstream ''invalid OCI registry authority'')
       (ul_parse U (target_scheme target @ ''://'' @ ot_registry target))"

definition has_public_domain :: "'u url_lib \<Rightarrow> 'u \<Rightarrow> bool" where
  "has_public_domain U url \<longleftrightarrow>
     (case ul_host U url of Some (HostDomain host) \<Rightarrow> is_public_hostname (ul_host_parse U) host | _ \<Rightarrow> False)"

text \<open>Which client may talk to the realm, or why none may.\<close>

definition token_client :: "'u url_lib \<Rightarrow> oci_target \<Rightarrow> 'u \<Rightarrow> 'u \<Rightarrow> app_error + initial_client" where
  "token_client U target target_url realm_url =
     (let same_origin = (ul_origin U target_url = ul_origin U realm_url) in
      case ot_auth target of
        AuthGcp \<Rightarrow>
          if ot_plain_http target
          then Inl (Upstream ''gcp registry authentication requires an HTTPS target'')
          else if ul_scheme U realm_url \<noteq> ''https''
          then Inl (Upstream ''gcp registry token realm must use HTTPS'')
          else if \<not> same_origin
          then Inl (Upstream ''gcp registry token realm must match the registry origin'')
          else if \<not> has_public_domain U target_url \<or> \<not> has_public_domain U realm_url
          then Inl (Upstream ''gcp registry token realm must use a public hostname'')
          else Inr Public
      | AuthNone \<Rightarrow>
          if same_origin then Inr TokenTrusted
          else bindE (validate_public_https U realm_url) (\<lambda>_. Inr Public))"

text \<open>The query of the token request.\<close>

definition token_url :: "'u url_lib \<Rightarrow> oci_target \<Rightarrow> bearer_challenge \<Rightarrow> 'u \<Rightarrow> 'u" where
  "token_url U target challenge realm_url =
     (let url = (case bc_service challenge of
                   Some service \<Rightarrow> ul_append_pair U ''service'' service realm_url
                 | None \<Rightarrow> realm_url)
      in ul_append_pair U ''scope''
           (case bc_scope challenge of
              Some scope \<Rightarrow> scope
            | None \<Rightarrow> ''repository:'' @ ot_repo target @ '':pull'') url)"

text \<open>The request: its URL, headers and client. \<open>e_gcp\<close> is the configured token provider at a time,
  and \<open>e_b64_encode\<close> the standard encoding that \<open>basic_auth\<close> applies. The error of \<open>request.build()\<close>
  has no branch: the URL is already parsed, with scheme http or https, and the one header is base64.\<close>

definition build_token_request ::
  "('s, 'c, 'u) env \<Rightarrow> oci_target \<Rightarrow> bearer_challenge \<Rightarrow>
   ('s, 'c, 'u, 'u \<times> headers \<times> initial_client) handler" where
  "build_token_request E target challenge =
     (let U = e_url E in
      bindA (liftA (registry_url U target)) (\<lambda>target_url.
      bindA (liftA (map_errE (\<lambda>_. Upstream ''invalid registry token realm'')
                      (ul_parse U (bc_realm challenge)))) (\<lambda>realm_url.
      if (ul_scheme U realm_url \<noteq> ''http'' \<and> ul_scheme U realm_url \<noteq> ''https'')
         \<or> ul_username U realm_url \<noteq> [] \<or> ul_password U realm_url \<noteq> None
      then failA (Upstream ''registry token realm must use http or https without userinfo'')
      else
      bindA (liftA (token_client U target target_url realm_url)) (\<lambda>client.
      let url = token_url U target challenge realm_url in
      if ot_auth target = AuthGcp then
        (case e_gcp E of
           None \<Rightarrow> failA (Internal ''alias requires gcp auth but GCP credentials were not initialized'')
         | Some gcp \<Rightarrow>
             bindA (getA w_now) (\<lambda>now.
             bindA (liftA (gcp now)) (\<lambda>access_token.
             returnA (url, [(''authorization'',
               ''Basic '' @ e_b64_encode E (''oauth2accesstoken:'' @ access_token))], client))))
      else returnA (url, [], client)))))"

section \<open>The answer\<close>

text \<open>\<open>e_num_f64\<close> is \<open>as_f64\<close> on the text of a JSON number.\<close>

definition advertised_token_lifetime :: "(string \<Rightarrow> flt option) \<Rightarrow> json option \<Rightarrow> u64 option" where
  "advertised_token_lifetime num_f64 expires_in =
     Option.bind expires_in (\<lambda>value.
     Option.bind (case value of
                    JNum number \<Rightarrow> num_f64 number
                  | JStr txt \<Rightarrow> parse_f64 (trim txt)
                  | _ \<Rightarrow> None) (\<lambda>seconds.
     if flt_is_finite seconds \<and> flt_ge_zero seconds then Some (flt_to_u64 seconds) else None))"

text \<open>\<open>e_token_parse\<close> is the derived deserialisation of \<open>TokenResponse\<close>: token, access token and
  expiry.\<close>

definition fetch_token ::
  "('s, 'c, 'u) env \<Rightarrow> oci_target \<Rightarrow> bearer_challenge \<Rightarrow> ('s, 'c, 'u, cached_token) handler" where
  "fetch_token E target challenge =
     bindA (build_token_request E target challenge) (\<lambda>(url, headers, client).
     bindA (upstream_send E GET url headers client True OciToken) (\<lambda>(_, response).
     if \<not> is_success (an_status response)
     then failA (Upstream (''token endpoint returned HTTP '' @ show_nat (an_status response)))
     else
     bindA (liftA (read_response response (1024 * 1024) ''token response'')) (\<lambda>bytes.
     bindA (liftA (ok_or (Upstream ''invalid token response'')
              (e_token_parse E bytes))) (\<lambda>(token, access_token, expires_in).
     let lifetime = advertised_token_lifetime (e_num_f64 E) expires_in in
     bindA (liftA (ok_or (Upstream ''token response had no token'')
              (case token of Some t \<Rightarrow> Some t | None \<Rightarrow> access_token))) (\<lambda>token.
     bindA (getA w_now) (\<lambda>now.
     returnA (cached_token_new now token lifetime)))))))"

definition upstream_token_cache_key :: "oci_target \<Rightarrow> string" where
  "upstream_token_cache_key target =
     target_scheme target @ ''|'' @ (case ot_auth target of AuthNone \<Rightarrow> ''none'' | AuthGcp \<Rightarrow> ''gcp'')
     @ ''|'' @ ot_registry target @ ''|'' @ ot_repo target"

end
