(* ===== verification/Blob_Stream.thy ===== *)
theory Blob_Stream
  imports Upstream Media_Type
begin

text \<open>
  Blob bodies in \<open>bins/helmoci/src/passthrough.rs\<close>: the verification of a cached blob while it
  streams, and the bounded buffering of an upstream blob for write-through.
\<close>

definition MAX_MANIFEST_BYTES :: u64 where
  "MAX_MANIFEST_BYTES = 4 * 1024 * 1024"

definition MAX_TAG_LIST_BYTES :: u64 where
  "MAX_TAG_LIST_BYTES = 4 * 1024 * 1024"

definition MAX_BUFFERED_CACHED_BLOB_BYTES :: u64 where
  "MAX_BUFFERED_CACHED_BLOB_BYTES = 1024 * 1024"

definition read_cached_blob :: "blob \<Rightarrow> u64 \<Rightarrow> app_error + bytes" where
  "read_cached_blob b max_bytes =
     read_bounded (Some (bm_size (bl_meta b))) (bl_data b) max_bytes from_storage_error"

definition read_upstream_body :: "http_answer \<Rightarrow> u64 \<Rightarrow> string \<Rightarrow> app_error + bytes" where
  "read_upstream_body response max_bytes resource = read_response response max_bytes resource"

section \<open>Verifying while streaming\<close>

definition corrupt_cached_blob :: storage_error where
  "corrupt_cached_blob = Backend BlobRead ''cached blob did not hash to the requested digest''"

definition record_cached_blob_corruption :: metric_event where
  "record_cached_blob_corruption =
     \<lparr>me_name = ''helmoci_oci_blob_cache_corruptions_total'', me_labels = [], me_amount = 1\<rparr>"

text \<open>The unfolded stream: \<open>hashed\<close> is what the hasher has seen, \<open>held\<close> the chunk withheld.\<close>

fun verify_stream ::
  "(bytes \<Rightarrow> string) \<Rightarrow> string \<Rightarrow> bytes \<Rightarrow> bytes option \<Rightarrow> (storage_error + bytes) list \<Rightarrow>
   (storage_error + bytes) list" where
  "verify_stream sha expected hashed held (Inr chunk # data) =
     (case held of
        Some previous \<Rightarrow> Inr previous # verify_stream sha expected (hashed @ chunk) (Some chunk) data
      | None \<Rightarrow> verify_stream sha expected (hashed @ chunk) (Some chunk) data)"
| "verify_stream sha expected hashed held (Inl e # data) = [Inl e]"
| "verify_stream sha expected hashed held [] =
     (if ''sha256:'' @ sha hashed \<noteq> expected then [Inl corrupt_cached_blob]
      else case held of None \<Rightarrow> [] | Some last_chunk \<Rightarrow> [Inr last_chunk])"

text \<open>What the same loop records when it ends the stream in an error.\<close>

fun verify_records :: "(bytes \<Rightarrow> string) \<Rightarrow> string \<Rightarrow> bytes \<Rightarrow> (storage_error + bytes) list \<Rightarrow> metric_event list" where
  "verify_records sha expected hashed (Inr chunk # data) = verify_records sha expected (hashed @ chunk) data"
| "verify_records sha expected hashed (Inl e # data) = []"
| "verify_records sha expected hashed [] =
     (if ''sha256:'' @ sha hashed \<noteq> expected then [record_cached_blob_corruption] else [])"

definition verified_cached_blob :: "(bytes \<Rightarrow> string) \<Rightarrow> digest \<Rightarrow> blob \<Rightarrow> blob" where
  "verified_cached_blob sha d b = b\<lparr>bl_data := verify_stream sha (as_str d) [] None (bl_data b)\<rparr>"

definition when_broken :: "metric_event list \<Rightarrow> meter response \<Rightarrow> meter response" where
  "when_broken events r = r\<lparr>rs_meter := map_option (\<lambda>(upstream, source, _). (upstream, source, events)) (rs_meter r)\<rparr>"

text \<open>Cached entries up to the buffering bound are verified before the answer; there \<open>None\<close> makes
  the caller fall back to the upstream.\<close>

definition cached_blob_response ::
  "http_lib \<Rightarrow> (bytes \<Rightarrow> string) \<Rightarrow> digest \<Rightarrow> blob \<Rightarrow> bool \<Rightarrow> meter response option" where
  "cached_blob_response H sha d b head_only =
     (let content_type = (case bm_content_type (bl_meta b) of Some ct \<Rightarrow> ct | None \<Rightarrow> OCTET_STREAM_MEDIA_TYPE) in
      if MAX_BUFFERED_CACHED_BLOB_BYTES < bm_size (bl_meta b)
      then Some (when_broken (verify_records sha (as_str d) [] (bl_data b))
             (blob_response H content_type d (verified_cached_blob sha d b) head_only ProxyOci PersistentCache))
      else Option.bind (ok (read_cached_blob b MAX_BUFFERED_CACHED_BLOB_BYTES)) (\<lambda>bytes.
           if digest_sha256 sha bytes = d
           then Some (blob_bytes_response H content_type d bytes head_only ProxyOci PersistentCache)
           else None))"

section \<open>Buffering an upstream blob\<close>

datatype upstream_blob = Buffered bytes | Oversized bytes "(string + bytes) list"

fun read_blob_chunks :: "bytes \<Rightarrow> u64 \<Rightarrow> (string + bytes) list \<Rightarrow> app_error + upstream_blob" where
  "read_blob_chunks buffered max_bytes [] = Inr (Buffered buffered)"
| "read_blob_chunks buffered max_bytes (Inl e # data) = Inl (Upstream (''reading upstream blob failed: '' @ e))"
| "read_blob_chunks buffered max_bytes (Inr chunk # data) =
     (let room = unat (saturating_sub max_bytes (of_nat (length buffered))) in
      if room < length chunk
      then Inr (Oversized (buffered @ take room chunk) (Inr (drop room chunk) # data))
      else read_blob_chunks (buffered @ chunk) max_bytes data)"

definition read_upstream_blob :: "http_answer \<Rightarrow> u64 \<Rightarrow> app_error + upstream_blob" where
  "read_upstream_blob response max_bytes = read_blob_chunks [] max_bytes (an_chunks response)"

section \<open>Lemmas\<close>

lemma verify_stream_ok:
  "list_all is_ok (verify_stream sha expected hashed held data) \<Longrightarrow>
   list_all is_ok data \<and> ''sha256:'' @ sha (hashed @ delivered data) = expected"
proof (induction sha expected hashed held data rule: verify_stream.induct)
  case (1 sha expected hashed held chunk data)
  then show ?case by (cases held) auto
qed (auto split: if_splits)

lemma verify_stream_delivered:
  "prefix (delivered (verify_stream sha expected hashed held data))
     ((case held of None \<Rightarrow> [] | Some c \<Rightarrow> c) @ delivered data)"
proof (induction sha expected hashed held data rule: verify_stream.induct)
  case (1 sha expected hashed held chunk data)
  then show ?case by (cases held) auto
qed (auto split: option.splits)

lemma verify_stream_complete:
  "list_all is_ok data \<Longrightarrow> ''sha256:'' @ sha (hashed @ delivered data) = expected \<Longrightarrow>
   list_all is_ok (verify_stream sha expected hashed held data) \<and>
   delivered (verify_stream sha expected hashed held data) = (case held of None \<Rightarrow> [] | Some c \<Rightarrow> c) @ delivered data"
proof (induction sha expected hashed held data rule: verify_stream.induct)
  case (1 sha expected hashed held chunk data)
  then show ?case by (cases held) auto
qed (auto split: option.splits)

lemma when_broken_simps [simp]:
  "rs_status (when_broken es r) = rs_status r" "rs_headers (when_broken es r) = rs_headers r"
  "rs_body (when_broken es r) = rs_body r"
  by (simp_all add: when_broken_def)

lemma when_broken_error [simp]: "when_broken es (error_response H e) = error_response H e"
  by (simp add: when_broken_def)

text \<open>A corruption is recorded exactly for a stream that was read to its end and has another hash; the
  verified stream then ends in an error.\<close>

lemma verify_records_iff:
  "verify_records sha expected hashed data
     = (if list_all is_ok data \<and> ''sha256:'' @ sha (hashed @ delivered data) \<noteq> expected
        then [record_cached_blob_corruption] else [])"
  by (induction sha expected hashed data rule: verify_records.induct) auto

text \<open>When the hash is wrong, the last chunk is never delivered.\<close>

lemma verify_stream_withholds:
  assumes "''sha256:'' @ sha (hashed @ delivered data) \<noteq> expected" "list_all is_ok data"
  shows "delivered (verify_stream sha expected hashed held data)
     = concat (butlast ((case held of None \<Rightarrow> [] | Some c \<Rightarrow> [c]) @ map projr data))"
  using assms
proof (induction sha expected hashed held data rule: verify_stream.induct)
  case (1 sha expected hashed held chunk data)
  then show ?case by (cases held; cases data) (auto split: option.splits)
qed (auto split: option.splits)

lemma verified_streams:
  assumes "streams cs data" and "''sha256:'' @ sha data = expected"
  shows "streams (verify_stream sha expected [] None cs) data"
proof -
  have "prefix (delivered (verify_stream sha expected [] None cs)) (delivered cs)"
    using verify_stream_delivered [of sha expected "[]" None cs] by simp
  moreover have "delivered (verify_stream sha expected [] None cs) = data"
    if ok: "list_all is_ok (verify_stream sha expected [] None cs)"
  proof -
    from verify_stream_ok [OF ok] have "list_all is_ok cs" by simp
    with assms verify_stream_complete [of cs sha "[]" expected None] show ?thesis
      by (simp add: streams_def)
  qed
  ultimately show ?thesis
    using assms(1) by (auto simp: streams_def intro: prefix_order.trans)
qed

lemma read_blob_chunks_Buffered:
  "read_blob_chunks buffered max_bytes data = Inr (Buffered bytes) \<Longrightarrow>
   list_all is_ok data \<and> bytes = buffered @ delivered data"
  by (induction buffered max_bytes data rule: read_blob_chunks.induct) (auto simp: Let_def split: if_splits)

lemma read_blob_chunks_Oversized:
  "read_blob_chunks buffered max_bytes data = Inr (Oversized pre rest) \<Longrightarrow>
   pre @ delivered rest = buffered @ delivered data \<and> (list_all is_ok rest \<longleftrightarrow> list_all is_ok data)"
  by (induction buffered max_bytes data rule: read_blob_chunks.induct) (auto simp: Let_def split: if_splits)

end
