(* ===== verification/Passthrough.thy ===== *)
theory Passthrough
  imports Bearer Blob_Stream
begin

text \<open>
  The handlers of \<open>bins/helmoci/src/passthrough.rs\<close>: serving an OCI upstream, with write-through to
  the persistent store when the alias asks for it. The handlers are \<open>passthrough_manifest\<close>,
  \<open>passthrough_blob\<close> and \<open>passthrough_tags\<close>.
\<close>

section \<open>Upstream requests\<close>

text \<open>The \<open>?\<close> on a storage result.\<close>

definition storage_try :: "(('s, 'c, 'u) world, storage_error, 'a) act \<Rightarrow> ('s, 'c, 'u, 'a) handler" where
  "storage_try m = map_errA from_storage_error m"

definition header_str :: "http_answer \<Rightarrow> string \<Rightarrow> string option" where
  "header_str response name = Option.bind (answer_header name response) id"

definition upstream_headers :: "http_lib \<Rightarrow> string option \<Rightarrow> string option \<Rightarrow> app_error + headers" where
  "upstream_headers H accept token =
     bindE (case accept of
              None \<Rightarrow> Inr []
            | Some value \<Rightarrow>
                if hl_header_ok H value then Inr (header_insert ''accept'' value [])
                else Inl (Upstream ''invalid upstream Accept header'')) (\<lambda>headers.
     case token of
       None \<Rightarrow> Inr headers
     | Some token \<Rightarrow>
         if hl_header_ok H (''Bearer '' @ token)
         then Inr (header_insert ''authorization'' (''Bearer '' @ token) headers)
         else Inl (Upstream ''invalid upstream bearer token''))"

text \<open>The first usable challenge among the \<open>WWW-Authenticate\<close> values that decode.\<close>

definition usable_challenge :: "http_answer \<Rightarrow> bearer_challenge option" where
  "usable_challenge response =
     find_map (\<lambda>value. Option.bind value parse_bearer_challenge) (answer_headers ''www-authenticate'' response)"

definition upstream_kind_of :: "string \<Rightarrow> upstream_kind" where
  "upstream_kind_of sfx =
     (if starts_with ''blobs/'' sfx then OciBlob
      else if starts_with ''tags/list'' sfx then OciTags
      else OciManifest)"

definition send_upstream ::
  "('s, 'c, 'u) env \<Rightarrow> oci_target \<Rightarrow> http_method \<Rightarrow> string \<Rightarrow> string option \<Rightarrow>
   ('s, 'c, 'u, http_answer) handler" where
  "send_upstream E target meth sfx accept =
     (if ot_auth target = AuthGcp \<and> ot_plain_http target
      then failA (Upstream ''gcp registry authentication requires an HTTPS target'')
      else
      bindA (liftA (upstream_url (e_url E) target sfx)) (\<lambda>url.
      let kind = upstream_kind_of sfx; cache_key = upstream_token_cache_key target in
      bindA (token_cache_get E cache_key) (\<lambda>cached.
      bindA (getA w_now) (\<lambda>now.
      bindA (liftA (upstream_headers (e_http E) accept (Option.bind cached (cached_token_live now)))) (\<lambda>headers.
      bindA (upstream_send E meth url headers Trusted True kind) (\<lambda>(_, response).
      if an_status response \<noteq> 401 then returnA response
      else case usable_challenge response of
        None \<Rightarrow> failA (Upstream ''upstream returned 401 without a usable bearer challenge'')
      | Some challenge \<Rightarrow>
          bindA (fetch_token E target challenge) (\<lambda>token.
          bindA (token_cache_insert cache_key token) (\<lambda>_.
          bindA (liftA (upstream_headers (e_http E) accept (Some (ct_token token)))) (\<lambda>headers.
          bindA (upstream_send E meth url headers Trusted True kind) (\<lambda>(_, response).
          returnA response))))))))))"

definition build_response ::
  "builder \<Rightarrow> (string + bytes) list \<Rightarrow> 'm option \<Rightarrow> app_error + 'm response" where
  "build_response b body meter =
     (if bd_failed b then Inl (Upstream ''upstream metadata was not a valid response header'')
      else Inr \<lparr>rs_status = bd_status b, rs_headers = bd_headers b, rs_body = body, rs_meter = meter\<rparr>)"

definition builder_opt :: "http_lib \<Rightarrow> string \<Rightarrow> string option \<Rightarrow> builder \<Rightarrow> builder" where
  "builder_opt H name value b = (case value of None \<Rightarrow> b | Some v \<Rightarrow> builder_header H name v b)"

definition proxied :: "proxy_kind \<Rightarrow> proxy_source \<Rightarrow> ('s, 'c, 'u, unit) handler" where
  "proxied kind source = record_event (proxy_response_event kind ProxyOci source)"

section \<open>Manifests\<close>

definition msg_manifest_unknown :: "digest \<Rightarrow> app_error" where
  "msg_manifest_unknown d = ManifestUnknown (''manifest unknown: '' @ as_str d)"

definition cached_manifest_response ::
  "('s, 'c, 'u) env \<Rightarrow> digest \<Rightarrow> blob \<Rightarrow> bool \<Rightarrow> string option \<Rightarrow> app_error + meter response" where
  "cached_manifest_response E d b head_only declared =
     bindE (read_cached_blob b MAX_MANIFEST_BYTES) (\<lambda>bytes.
     if digest_sha256 (e_sha E) bytes \<noteq> d then Inl (msg_manifest_unknown d)
     else
       let declared = (case bm_content_type (bl_meta b) of Some ct \<Rightarrow> Some ct | None \<Rightarrow> declared);
           media_type = (case manifest_media_type (e_json_parse E) bytes declared of
              Some mt \<Rightarrow> Some mt
            | None \<Rightarrow> inferred_cached_manifest_media_type (e_json_parse E) bytes)
       in case media_type of
            None \<Rightarrow> Inl (msg_manifest_unknown d)
          | Some media_type \<Rightarrow> Inr (bytes_response (e_http E) media_type d bytes head_only))"

text \<open>What the store holds for the reference: no answer, or the result of serving the cached blob.\<close>

definition find_cached_manifest ::
  "('s, 'c, 'u) env \<Rightarrow> tag_scope \<Rightarrow> string \<Rightarrow> bool \<Rightarrow> string option \<Rightarrow>
   ('s, 'c, 'u, (app_error + meter response) option) handler" where
  "find_cached_manifest E scope reference head_only accept =
     (case digest_parse reference of
        Some d \<Rightarrow>
          bindA (storage_try (so_get_blob (storage_of E) d)) (\<lambda>found.
          returnA (map_option (\<lambda>blob. cached_manifest_response E d blob head_only None) found))
      | None \<Rightarrow>
          bindA (storage_try (so_get_tag_pointer (storage_of E) scope reference)) (\<lambda>found.
          case found of
            None \<Rightarrow> returnA None
          | Some pointer \<Rightarrow>
              (case normalized_manifest_media_type (tp_media_type pointer) of
                 None \<Rightarrow> returnA None
               | Some pointer_media_type \<Rightarrow>
                   if \<not> accepts_media_type accept pointer_media_type then returnA None
                   else
                   bindA (storage_try (so_get_blob (storage_of E) (tp_digest pointer))) (\<lambda>found.
                   returnA (map_option (\<lambda>blob. cached_manifest_response E (tp_digest pointer) blob head_only
                                (Some pointer_media_type)) found)))))"

text \<open>The digest, when the reference asks for a different one.\<close>

definition other_digest :: "string \<Rightarrow> digest \<Rightarrow> digest option" where
  "other_digest reference d =
     (case digest_parse reference of
        Some requested \<Rightarrow> if requested \<noteq> d then Some d else None
      | None \<Rightarrow> None)"

text \<open>The answer to a HEAD, from the upstream's headers alone.\<close>

definition manifest_head_response ::
  "http_lib \<Rightarrow> string \<Rightarrow> http_answer \<Rightarrow> string option \<Rightarrow> app_error + meter response" where
  "manifest_head_response H reference response declared_media_type =
     (case declared_media_type of
        None \<Rightarrow> Inl (Upstream ''upstream response was not a supported OCI manifest media type'')
      | Some declared \<Rightarrow>
          let b = builder_header H ''docker-distribution-api-version'' ''registry/2.0''
                    (builder_header H ''content-type'' declared (builder_new 200));
              b = builder_opt H ''content-length'' (map_option show_u64 (an_content_length response)) b;
              reported = Option.bind (header_str response ''docker-content-digest'') digest_parse
          in case Option.bind reported (other_digest reference) of
               Some d \<Rightarrow>
                 Inl (Upstream (''upstream reported digest '' @ as_str d @ '' for a different requested digest''))
             | None \<Rightarrow>
                 build_response (builder_opt H ''etag'' (header_str response ''etag'')
                   (builder_opt H ''docker-content-digest'' (map_option as_str reported) b)) [] None)"

text \<open>The write-through: the manifest, and for a tag the pointer after it.\<close>

definition store_manifest ::
  "('s, 'c, 'u) env \<Rightarrow> tag_scope \<Rightarrow> string \<Rightarrow> digest \<Rightarrow> string \<Rightarrow> bytes \<Rightarrow> ('s, 'c, 'u, unit) handler" where
  "store_manifest E scope reference d media_type bytes =
     bindA (storage_try (so_put_blob (storage_of E) d media_type bytes)) (\<lambda>_.
     if digest_parse reference = None
     then storage_try (so_put_tag_pointer (storage_of E) scope reference
            \<lparr>tp_digest = d, tp_media_type = media_type, tp_size = of_nat (length bytes)\<rparr>)
     else returnA ())"

definition upstream_manifest_answer ::
  "('s, 'c, 'u) env \<Rightarrow> string \<Rightarrow> oci_target \<Rightarrow> string \<Rightarrow> http_answer \<Rightarrow> string option \<Rightarrow>
   ('s, 'c, 'u, meter response) handler" where
  "upstream_manifest_answer E proxy_host target reference response declared_media_type =
     bindA (liftA (read_upstream_body response MAX_MANIFEST_BYTES ''manifest'')) (\<lambda>bytes.
     let d = digest_sha256 (e_sha E) bytes in
     if other_digest reference d \<noteq> None
     then failA (Upstream (''upstream manifest bytes did not match requested digest '' @ reference))
     else case manifest_media_type (e_json_parse E) bytes declared_media_type of
       None \<Rightarrow> failA (Upstream ''upstream response was not a supported OCI manifest'')
     | Some media_type \<Rightarrow>
         bindA (if ot_store target
                then store_manifest E \<lparr>ts_proxy_host = proxy_host, ts_full_name = ot_full_name target\<rparr>
                       reference d media_type bytes
                else returnA ()) (\<lambda>_.
         bindA (proxied KindManifest FromUpstream) (\<lambda>_.
         returnA (bytes_response (e_http E) media_type d bytes False))))"

definition upstream_manifest ::
  "('s, 'c, 'u) env \<Rightarrow> string \<Rightarrow> oci_target \<Rightarrow> string \<Rightarrow> bool \<Rightarrow> string option \<Rightarrow>
   ('s, 'c, 'u, meter response) handler" where
  "upstream_manifest E proxy_host target reference head_only accept =
     bindA (send_upstream E target (if head_only then HEAD else GET) (''manifests/'' @ reference)
              (Some (case accept of Some a \<Rightarrow> a | None \<Rightarrow> DEFAULT_MANIFEST_ACCEPT))) (\<lambda>response.
     if an_status response = 404
     then failA (ManifestUnknown (''upstream manifest unknown: '' @ ot_full_name target @ '':'' @ reference))
     else if \<not> is_success (an_status response)
     then failA (Upstream (''upstream registry returned HTTP '' @ show_nat (an_status response)
                           @ '' for manifests/'' @ reference))
     else
       let content_type = (case header_str response ''content-type'' of
                             Some ct \<Rightarrow> ct | None \<Rightarrow> MEDIA_TYPE_MANIFEST);
           declared_media_type = normalized_manifest_media_type content_type
       in if head_only
          then bindA (liftA (manifest_head_response (e_http E) reference response declared_media_type)) (\<lambda>r.
               bindA (proxied KindManifest FromUpstream) (\<lambda>_. returnA r))
          else upstream_manifest_answer E proxy_host target reference response declared_media_type)"

definition passthrough_manifest ::
  "('s, 'c, 'u) env \<Rightarrow> string \<Rightarrow> oci_target \<Rightarrow> string \<Rightarrow> bool \<Rightarrow> string option \<Rightarrow>
   ('s, 'c, 'u, meter response) handler" where
  "passthrough_manifest E proxy_host target reference head_only accept =
     (if \<not> ot_store target then upstream_manifest E proxy_host target reference head_only accept
      else
      bindA (find_cached_manifest E \<lparr>ts_proxy_host = proxy_host, ts_full_name = ot_full_name target\<rparr>
               reference head_only accept) (\<lambda>cached.
      case cached of
        Some (Inr response) \<Rightarrow>
          bindA (count_event ''helmoci_oci_manifest_cache_hits_total'') (\<lambda>_.
          bindA (proxied KindManifest PersistentCache) (\<lambda>_. returnA response))
      | Some (Inl e) \<Rightarrow> bindA (count_event ''helmoci_oci_manifest_cache_misses_total'') (\<lambda>_. failA e)
      | None \<Rightarrow>
          bindA (count_event ''helmoci_oci_manifest_cache_misses_total'') (\<lambda>_.
          upstream_manifest E proxy_host target reference head_only accept)))"

section \<open>Blobs\<close>

definition record_blob_cache_skip :: "string \<Rightarrow> ('s, 'c, 'u, unit) handler" where
  "record_blob_cache_skip reason =
     record_event \<lparr>me_name = ''helmoci_oci_blob_cache_skips_total'', me_labels = [(''reason'', reason)],
       me_amount = 1\<rparr>"

definition metered_blob_stream :: meter where
  "metered_blob_stream = (ProxyOci, FromUpstream, [])"

text \<open>The response whose body is passed on as it arrives, or has no body for a HEAD.\<close>

definition unverified_blob_response ::
  "http_lib \<Rightarrow> digest \<Rightarrow> string \<Rightarrow> http_answer \<Rightarrow> (string + bytes) list \<Rightarrow> meter option \<Rightarrow>
   app_error + meter response" where
  "unverified_blob_response H d content_type response body meter =
     (let b = builder_header H ''docker-distribution-api-version'' ''registry/2.0''
                (builder_header H ''docker-content-digest'' (as_str d)
                  (builder_header H ''content-type'' content_type (builder_new 200)));
          b = builder_opt H ''content-length'' (map_option show_u64 (an_content_length response)) b;
          b = builder_opt H ''etag'' (header_str response ''etag'') b
      in build_response b body meter)"

definition upstream_blob_answer ::
  "('s, 'c, 'u) env \<Rightarrow> oci_target \<Rightarrow> digest \<Rightarrow> bool \<Rightarrow> http_answer \<Rightarrow> ('s, 'c, 'u, meter response) handler" where
  "upstream_blob_answer E target d head_only response =
     (let content_type = (case header_str response ''content-type'' of
                            Some ct \<Rightarrow> ct | None \<Rightarrow> OCTET_STREAM_MEDIA_TYPE);
          cache_limit = st_max_chart_bytes (e_settings E);
          unverified = (\<lambda>body meter.
            bindA (liftA (unverified_blob_response (e_http E) d content_type response body meter)) (\<lambda>r.
            bindA (proxied KindBlob FromUpstream) (\<lambda>_. returnA r)))
      in if head_only then unverified [] None
         else if ot_store target then
           (if (case an_content_length response of None \<Rightarrow> False | Some l \<Rightarrow> cache_limit < l)
            then bindA (record_blob_cache_skip ''advertised_over_limit'') (\<lambda>_.
                 unverified (an_chunks response) (Some metered_blob_stream))
            else
            bindA (liftA (read_upstream_blob response cache_limit)) (\<lambda>body.
            case body of
              Buffered bytes \<Rightarrow>
                if digest_sha256 (e_sha E) bytes \<noteq> d
                then failA (Upstream (''upstream blob bytes did not match requested digest '' @ as_str d))
                else
                bindA (storage_try (so_put_blob (storage_of E) d content_type bytes)) (\<lambda>_.
                bindA (proxied KindBlob FromUpstream) (\<lambda>_.
                returnA (blob_bytes_response (e_http E) content_type d bytes False ProxyOci FromUpstream)))
            | Oversized pfx rest \<Rightarrow>
                bindA (record_blob_cache_skip ''streamed_over_limit'') (\<lambda>_.
                unverified (Inr pfx # rest) (Some metered_blob_stream))))
         else unverified (an_chunks response) (Some metered_blob_stream))"

definition upstream_blob_request ::
  "('s, 'c, 'u) env \<Rightarrow> oci_target \<Rightarrow> digest \<Rightarrow> bool \<Rightarrow> ('s, 'c, 'u, meter response) handler" where
  "upstream_blob_request E target d head_only =
     bindA (send_upstream E target (if head_only then HEAD else GET) (''blobs/'' @ as_str d) None) (\<lambda>response.
     if an_status response = 404 then failA (BlobUnknown (''blob unknown: '' @ as_str d))
     else if \<not> is_success (an_status response)
     then failA (Upstream (''upstream registry returned HTTP '' @ show_nat (an_status response)
                           @ '' for blobs/'' @ as_str d))
     else upstream_blob_answer E target d head_only response)"

definition passthrough_blob ::
  "('s, 'c, 'u) env \<Rightarrow> oci_target \<Rightarrow> string \<Rightarrow> bool \<Rightarrow> ('s, 'c, 'u, meter response) handler" where
  "passthrough_blob E target digest_str head_only =
     (case digest_parse digest_str of
        None \<Rightarrow> failA (BlobUnknown (''invalid digest: '' @ digest_str))
      | Some d \<Rightarrow>
          if \<not> ot_store target then upstream_blob_request E target d head_only
          else
          bindA (storage_try (so_get_blob (storage_of E) d)) (\<lambda>found.
          case Option.bind found (\<lambda>blob. cached_blob_response (e_http E) (e_sha E) d blob head_only) of
            Some response \<Rightarrow>
              bindA (count_event ''helmoci_oci_blob_cache_hits_total'') (\<lambda>_.
              bindA (proxied KindBlob PersistentCache) (\<lambda>_. returnA response))
          | None \<Rightarrow>
              bindA (count_event ''helmoci_oci_blob_cache_misses_total'') (\<lambda>_.
              upstream_blob_request E target d head_only)))"

section \<open>Tags\<close>

definition count_tag_link_drop :: "string \<Rightarrow> ('s, 'c, 'u, unit) handler" where
  "count_tag_link_drop reason =
     record_event \<lparr>me_name = ''helmoci_oci_tag_link_drops_total'', me_labels = [(''reason'', reason)],
       me_amount = 1\<rparr>"

fun count_tag_link_drops :: "string list \<Rightarrow> ('s, 'c, 'u, unit) handler" where
  "count_tag_link_drops [] = returnA ()"
| "count_tag_link_drops (reason # reasons) =
     bindA (count_tag_link_drop reason) (\<lambda>_. count_tag_link_drops reasons)"

text \<open>\<open>value["name"] = name\<close> on an object.\<close>

fun with_name :: "string \<Rightarrow> json \<Rightarrow> json option" where
  "with_name name (JObj members) = Some (JObj (AList.update ''name'' (JStr name) members))"
| "with_name name _ = None"

definition tag_list_builder :: "('s, 'c, 'u) env \<Rightarrow> bytes \<Rightarrow> builder" where
  "tag_list_builder E body =
     (let H = e_http E in
      builder_header H ''docker-distribution-api-version'' ''registry/2.0''
       (builder_header H ''etag'' (quote (as_str (digest_sha256 (e_sha E) body)))
        (builder_header H ''content-length'' (show_nat (length body))
         (builder_header H ''content-type'' ''application/json'' (builder_new 200)))))"

definition passthrough_tags ::
  "('s, 'c, 'u) env \<Rightarrow> oci_target \<Rightarrow> string option \<Rightarrow> bool \<Rightarrow> ('s, 'c, 'u, meter response) handler" where
  "passthrough_tags E target query head_only =
     bindA (send_upstream E target GET
              (case query of Some q \<Rightarrow> ''tags/list?'' @ q | None \<Rightarrow> ''tags/list'') None) (\<lambda>response.
     if an_status response = 404
     then failA (NameUnknown (''upstream repository unknown: '' @ ot_full_name target))
     else if \<not> is_success (an_status response)
     then failA (Upstream (''upstream registry returned HTTP '' @ show_nat (an_status response) @ '' for tag list''))
     else case rewrite_upstream_tag_link (e_url E) response target of
       (link, drops) \<Rightarrow>
         bindA (count_tag_link_drops drops) (\<lambda>_.
         bindA (liftA (read_upstream_body response MAX_TAG_LIST_BYTES ''tag list'')) (\<lambda>bytes.
         bindA (liftA (ok_or (Upstream ''upstream tag list was not valid JSON'') (e_json_parse E bytes))) (\<lambda>value.
         bindA (liftA (ok_or (Upstream ''upstream tag list was not a JSON object'')
                         (with_name (ot_full_name target) value))) (\<lambda>value.
         let body = hl_json_to_string (e_http E) value; b = tag_list_builder E body in
         bindA (case link of
                  None \<Rightarrow> returnA b
                | Some link \<Rightarrow>
                    if hl_header_ok (e_http E) link then returnA (builder_header (e_http E) ''link'' link b)
                    else bindA (count_tag_link_drop ''invalid_header_value'') (\<lambda>_. returnA b)) (\<lambda>b.
         bindA (liftA (build_response b (if head_only then [] else [Inr body]) None)) (\<lambda>r.
         bindA (proxied KindTags FromUpstream) (\<lambda>_. returnA r))))))))"

end
