(* ===== verification/Routes.thy ===== *)
theory Routes
  imports Oci_Route Std_Net Auth Classic Passthrough
begin

text \<open>
  \<open>bins/helmoci/src/routes.rs\<close>: the proxy host, the dispatch of an OCI request to the classic and
  passthrough handlers, and the router with its two layers. What \<open>axum\<close> does with a route, running
  its handler for GET and HEAD and the fallback otherwise, is written out; the home page and the
  rendering of the metrics are parameters.
\<close>

section \<open>Requests\<close>

text \<open>A header value is \<open>Some\<close> text when \<open>to_str\<close> accepts it; header names are in lower case.\<close>

record server_request =
  sr_method :: http_method
  sr_path :: string
  sr_query :: "string option"
  sr_uri_host :: "string option"
  sr_uri_port :: "u16 option"
  sr_headers :: "(string \<times> string option) list"

definition request_header :: "string \<Rightarrow> server_request \<Rightarrow> string option" where
  "request_header name req = Option.bind (map_of (sr_headers req) name) id"

section \<open>The proxy host\<close>

definition MAX_PROXY_HOST_LEN :: nat where
  "MAX_PROXY_HOST_LEN = 259"

definition header_host :: "server_request \<Rightarrow> string option" where
  "header_host req =
     (case map_option trim (request_header ''host'' req) of
        Some value \<Rightarrow> if value \<noteq> [] then Some value else None
      | None \<Rightarrow> None)"

definition uri_host :: "server_request \<Rightarrow> string option" where
  "uri_host req =
     map_option (\<lambda>host. case sr_uri_port req of
        Some port \<Rightarrow> host @ '':'' @ show_nat (unat port)
      | None \<Rightarrow> host) (sr_uri_host req)"

definition is_dns_host_byte :: "char \<Rightarrow> bool" where
  "is_dns_host_byte b \<longleftrightarrow> is_ascii_alphanumeric b \<or> b = CHR ''-''"

definition is_dns_host_label :: "string \<Rightarrow> bool" where
  "is_dns_host_label label \<longleftrightarrow> label \<noteq> [] \<and> length label \<le> 63 \<and> list_all is_dns_host_byte label
     \<and> \<not> starts_with ''-'' label \<and> \<not> ends_with ''-'' label"

definition is_dns_name :: "string \<Rightarrow> bool" where
  "is_dns_name host \<longleftrightarrow> host \<noteq> [] \<and> length host \<le> 253 \<and> list_all is_dns_host_label (split_on (CHR ''.'') host)"

definition is_valid_port :: "string \<Rightarrow> bool" where
  "is_valid_port port \<longleftrightarrow> length port \<le> 5 \<and> list_all is_ascii_digit port
     \<and> (case parse_unsigned u16_max port of Some p \<Rightarrow> 0 < p | None \<Rightarrow> False)"

text \<open>The host, the port and whether the host was bracketed.\<close>

definition split_host_port :: "string \<Rightarrow> (string \<times> string option \<times> bool) option" where
  "split_host_port value =
     (case strip_prefix ''['' value of
        Some rest \<Rightarrow>
          (case split_once (CHR '']'') rest of
             None \<Rightarrow> None
           | Some (host, remainder) \<Rightarrow>
               if remainder = [] then Some (host, None, True)
               else map_option (\<lambda>port. (host, Some port, True)) (strip_prefix '':'' remainder))
      | None \<Rightarrow>
          (case split_once (CHR '':'') value of
             Some (host, port) \<Rightarrow> Some (host, Some port, False)
           | None \<Rightarrow> Some (value, None, False)))"

definition normalize_proxy_host :: "string \<Rightarrow> string option" where
  "normalize_proxy_host value =
     (if value = [] \<or> MAX_PROXY_HOST_LEN < length value then None
      else
        let lowercased = to_ascii_lowercase value in
        case split_host_port lowercased of
          None \<Rightarrow> None
        | Some (host, port, bracketed) \<Rightarrow>
            let host_ok = (if bracketed then parse_ipv6 host \<noteq> None
                           else parse_ipv4 host \<noteq> None \<or> is_dns_name host)
            in if \<not> host_ok \<or> (case port of None \<Rightarrow> False | Some port \<Rightarrow> \<not> is_valid_port port) then None
               else Some lowercased)"

definition proxy_host_from :: "server_request \<Rightarrow> string option" where
  "proxy_host_from req =
     (case header_host req of
        Some host \<Rightarrow> normalize_proxy_host host
      | None \<Rightarrow> Option.bind (uri_host req) normalize_proxy_host)"

section \<open>Dispatch\<close>

text \<open>\<open>e_debug\<close> is the \<open>Debug\<close> rendering of a string.\<close>

definition invalid_path_message :: "(string \<Rightarrow> string) \<Rightarrow> string \<Rightarrow> string" where
  "invalid_path_message debug name =
     ''Invalid OCI path '' @ debug name @ ''. Use a configured alias or a public host and chart name: '' @
     ''oci://<proxy>/<host>/<repo-path>/<chart> (e.g. argoproj.github.io/argo-helm/argo-cd). '' @
     ''Localhost and raw IP addresses are not allowed.''"

definition INVALID_HOST_MESSAGE :: string where
  "INVALID_HOST_MESSAGE =
     ''Invalid Host header. helmoci uses it as the proxy host in rewritten oci:// dependency URLs '' @
     ''and as a cache key segment, so it must be a host[:port] value such as charts.example.com, '' @
     ''charts.example.com:8443, 127.0.0.1:8080, or [::1]:8080.''"

definition invalid_host :: app_error where
  "invalid_host = NameInvalid INVALID_HOST_MESSAGE"

definition unsupported_method :: app_error where
  "unsupported_method = Unsupported ''only GET/HEAD are supported''"

definition api_response :: "'m response" where
  "api_response = \<lparr>rs_status = 200, rs_headers = [(''docker-distribution-api-version'', ''registry/2.0'')],
     rs_body = [], rs_meter = None\<rparr>"

definition resolve_in :: "('s, 'c, 'u) env \<Rightarrow> string \<Rightarrow> resolved option" where
  "resolve_in E name = resolve_name (ul_host_parse (e_url E)) name (rt_aliases (e_cfg E))"

definition manifest_entry ::
  "('s, 'c, 'u) env \<Rightarrow> string \<Rightarrow> string \<Rightarrow> string \<Rightarrow> bool \<Rightarrow> string option \<Rightarrow>
   ('s, 'c, 'u, meter response) handler" where
  "manifest_entry E proxy_host name reference head_only accept =
     (case resolve_in E name of
        Some (ResClassic chart) \<Rightarrow> classic_manifest E proxy_host chart reference head_only
      | Some (ResOci target) \<Rightarrow> passthrough_manifest E proxy_host target reference head_only accept
      | None \<Rightarrow> failA (NameUnknown (invalid_path_message (e_debug E) name)))"

definition blob_entry ::
  "('s, 'c, 'u) env \<Rightarrow> string \<Rightarrow> string \<Rightarrow> bool \<Rightarrow> ('s, 'c, 'u, meter response) handler" where
  "blob_entry E name digest_str head_only =
     (case resolve_in E name of
        Some (ResClassic _) \<Rightarrow> classic_blob E digest_str head_only
      | Some (ResOci target) \<Rightarrow> passthrough_blob E target digest_str head_only
      | None \<Rightarrow> failA (NameUnknown (invalid_path_message (e_debug E) name)))"

definition tags_entry ::
  "('s, 'c, 'u) env \<Rightarrow> string \<Rightarrow> string option \<Rightarrow> bool \<Rightarrow> ('s, 'c, 'u, meter response) handler" where
  "tags_entry E name query head_only =
     (case resolve_in E name of
        Some (ResClassic chart) \<Rightarrow> classic_tags E chart query head_only
      | Some (ResOci target) \<Rightarrow> passthrough_tags E target query head_only
      | None \<Rightarrow> failA (NameUnknown (invalid_path_message (e_debug E) name)))"

text \<open>The handler of a parsed route.\<close>

fun route_entry ::
  "('s, 'c, 'u) env \<Rightarrow> string \<Rightarrow> server_request \<Rightarrow> bool \<Rightarrow> oci_route \<Rightarrow> ('s, 'c, 'u, meter response) handler" where
  "route_entry E proxy_host req head_only Api = returnA api_response"
| "route_entry E proxy_host req head_only (Manifest name reference) =
     manifest_entry E proxy_host name reference head_only (request_header ''accept'' req)"
| "route_entry E proxy_host req head_only (Blob name digest_str) = blob_entry E name digest_str head_only"
| "route_entry E proxy_host req head_only (Tags name) = tags_entry E name (sr_query req) head_only"
| "route_entry E proxy_host req head_only NotFound = failA (NameUnknown ''unknown registry path'')"

text \<open>\<open>unwrap_or_else(IntoResponse::into_response)\<close>.\<close>

definition into_response ::
  "('s, 'c, 'u) env \<Rightarrow> ('s, 'c, 'u, meter response) handler \<Rightarrow> ('s, 'c, 'u) world \<Rightarrow>
   meter response \<times> ('s, 'c, 'u) world" where
  "into_response E m w =
     (case m w of
        (Inr r, w') \<Rightarrow> (r, w')
      | (Inl e, w') \<Rightarrow> (error_response (e_http E) e, w'))"

fun head_only_of :: "http_method \<Rightarrow> bool option" where
  "head_only_of GET = Some False"
| "head_only_of HEAD = Some True"
| "head_only_of (OtherMethod _) = None"

definition oci_dispatch ::
  "('s, 'c, 'u) env \<Rightarrow> server_request \<Rightarrow> ('s, 'c, 'u) world \<Rightarrow> meter response \<times> ('s, 'c, 'u) world" where
  "oci_dispatch E req w =
     (if sr_path req \<noteq> ''/v2'' \<and> \<not> starts_with ''/v2/'' (sr_path req)
      then (text_response 404 ''Not Found'', w)
      else case head_only_of (sr_method req) of
        None \<Rightarrow> (error_response (e_http E) unsupported_method, w)
      | Some head_only \<Rightarrow>
          (case proxy_host_from req of
             None \<Rightarrow> (error_response (e_http E) invalid_host, w)
           | Some proxy_host \<Rightarrow>
               into_response E (route_entry E proxy_host req head_only
                 (parse_oci_path (e_decode E) (sr_path req))) w))"

section \<open>The router\<close>

definition home :: "string \<Rightarrow> 'm response" where
  "home html = (text_response 200 html)\<lparr>rs_headers := [(''content-type'', ''text/html; charset=utf-8'')]\<rparr>"

definition healthz :: "'m response" where
  "healthz = text_response 200 ''ok''"

definition method_not_allowed :: "http_lib \<Rightarrow> 'm response" where
  "method_not_allowed H = error_response H unsupported_method"

text \<open>What the routes serve besides the registry.\<close>

record pages =
  pg_home :: string
  pg_metrics :: "metric_event list \<Rightarrow> string"

definition page :: "('s, 'c, 'u) env \<Rightarrow> meter response \<Rightarrow> server_request \<Rightarrow> meter response" where
  "page E r req =
     (case head_only_of (sr_method req) of
        None \<Rightarrow> method_not_allowed (e_http E)
      | Some head_only \<Rightarrow> if head_only then r\<lparr>rs_body := []\<rparr> else r)"

definition routes ::
  "('s, 'c, 'u) env \<Rightarrow> pages \<Rightarrow> server_request \<Rightarrow> ('s, 'c, 'u) world \<Rightarrow> meter response \<times> ('s, 'c, 'u) world" where
  "routes E P req w =
     (if sr_path req = ''/'' then (page E (home (pg_home P)) req, w)
      else if sr_path req = ''/healthz'' then (page E healthz req, w)
      else if sr_path req = ''/metrics'' then (page E (text_response 200 (pg_metrics P (w_metrics w))) req, w)
      else oci_dispatch E req w)"

text \<open>The server: the routes behind the authentication layer, counted by the metrics layer, which a
  panic unwinds past.\<close>

definition build_router ::
  "('s, 'c, 'u) env \<Rightarrow> pages \<Rightarrow> server_request \<Rightarrow> ('s, 'c, 'u) world \<Rightarrow> meter response \<times> ('s, 'c, 'u) world" where
  "build_router E P req w =
     (case require_pull_auth (e_http E) (e_b64 E) (st_auth (e_settings E)) (sr_path req)
             (map snd (filter (\<lambda>(n, v). n = ''authorization'') (sr_headers req))) (routes E P req) w of
        (r, w') \<Rightarrow>
          if rs_status r = rs_status (panicked :: meter response) then (r, w')
          else (r, w'\<lparr>w_metrics := w_metrics w' @
            [http_event (sr_path req) (rs_status r), http_duration_event (sr_path req) (w_now w' - w_now w)]\<rparr>))"

end
