(* ===== verification/Credentials.thy ===== *)
theory Credentials
  imports Passthrough
begin

text \<open>
  Where credentials can go. The requests an operation sends are what it appends to the log of the
  world; the rules below compute a bound on them along a handler. The theorem is that bearer
  tokens and GCP credentials never leave the configured registry's origin.
\<close>

section \<open>Which requests an operation sends\<close>

definition sends_within :: "('u http_request \<Rightarrow> bool) \<Rightarrow> (('s, 'c, 'u) world, 'e, 'a) act \<Rightarrow> bool" where
  "sends_within P m \<longleftrightarrow>
     (\<forall>w r w'. m w = (r, w') \<longrightarrow> (\<exists>qs. w_sent w' = w_sent w @ qs \<and> (\<forall>q\<in>set qs. P q)))"

named_theorems sends_rules \<open>the requests the operations of a handler send\<close>

lemma sends_silent: "(\<And>w. w_sent (snd (m w)) = w_sent w) \<Longrightarrow> sends_within P m"
  unfolding sends_within_def by (metis append_Nil2 list.set(1) empty_iff snd_conv)

lemma sends_basic [sends_rules]:
  "sends_within P (returnA a)" "sends_within P (failA e)" "sends_within P (liftA r)"
  "sends_within P (getA g)" "sends_within P (record_event ev)" "sends_within P (count_event n)"
  "sends_within P (token_cache_get E k)" "sends_within P (token_cache_insert k c)"
  by (rule sends_silent; simp add: record_event_def count_event_def token_cache_get_def
      token_cache_insert_def returnA_def failA_def liftA_def getA_def modifyA_def)+

lemma sends_bind [sends_rules]:
  assumes "sends_within P m" and "\<And>w a w'. m w = (Inr a, w') \<Longrightarrow> sends_within P (f a)"
  shows "sends_within P (bindA m f)"
  unfolding sends_within_def
proof (intro allI impI)
  fix w r w'
  assume run: "bindA m f w = (r, w')"
  obtain r1 w1 where m: "m w = (r1, w1)" by fastforce
  with assms(1) obtain qs where qs: "w_sent w1 = w_sent w @ qs" "\<forall>q\<in>set qs. P q"
    unfolding sends_within_def by blast
  show "\<exists>qs. w_sent w' = w_sent w @ qs \<and> (\<forall>q\<in>set qs. P q)"
  proof (cases r1)
    case (Inl e)
    with run m qs show ?thesis by (auto simp: bindA_def)
  next
    case (Inr a)
    with run m have "f a w1 = (r, w')" by (simp add: bindA_def)
    with assms(2) [of w a w1] m Inr obtain qs' where "w_sent w' = w_sent w1 @ qs'" "\<forall>q\<in>set qs'. P q"
      unfolding sends_within_def by blast
    with qs show ?thesis by (intro exI [of _ "qs @ qs'"]) auto
  qed
qed

lemma sends_upstream_send:
  assumes "origin_law (e_url E)" "ul_scheme (e_url E) url \<in> {''http'', ''https''}"
    and "\<And>q. rq_method q = m \<Longrightarrow>
        (ul_scheme (e_url E) url = ''https'' \<Longrightarrow> ul_scheme (e_url E) (rq_url q) = ''https'') \<Longrightarrow>
        confined (e_url E) url hs client (rq_url q) (rq_headers q) (rq_client q) \<Longrightarrow> P q"
  shows "sends_within P (upstream_send E m url hs client follow kind)"
  unfolding upstream_send_def
proof (rule sends_bind)
  show "sends_within P (liftA (if client = Public then validate_public_https (e_url E) url else Inr ()))"
    by (rule sends_rules)
  fix a
  have c: "confined (e_url E) url hs client url hs client" by (simp add: confined_def)
  show "sends_within P (send_loop E m url hs client follow kind MAX_REDIRECTS)"
    unfolding sends_within_def
  proof (intro allI impI)
    fix w r w'
    assume "send_loop E m url hs client follow kind MAX_REDIRECTS w = (r, w')"
    from send_loop_sent [OF assms(1) this c assms(2)] assms(3)
    show "\<exists>qs. w_sent w' = w_sent w @ qs \<and> (\<forall>q\<in>set qs. P q)" by metis
  qed
qed

section \<open>Laws of the URL library\<close>

text \<open>The documented behaviour of \<open>url::Url\<close>: an http(s) text is parsed with that scheme, and editing
  the path or the query leaves the rest alone.\<close>

definition same_site :: "'u url_lib \<Rightarrow> 'u \<Rightarrow> 'u \<Rightarrow> bool" where
  "same_site U u v \<longleftrightarrow> ul_scheme U v = ul_scheme U u \<and> ul_host U v = ul_host U u
     \<and> ul_username U v = ul_username U u \<and> ul_password U v = ul_password U u \<and> ul_origin U v = ul_origin U u"

definition url_edit_law :: "'u url_lib \<Rightarrow> bool" where
  "url_edit_law U \<longleftrightarrow> (\<forall>key value u. same_site U u (ul_append_pair U key value u))
     \<and> (\<forall>query u. same_site U u (ul_set_query U query u))
     \<and> (\<forall>segs u v. ul_push_segments U segs u = Some v \<longrightarrow> same_site U u v)"

definition url_scheme_law :: "'u url_lib \<Rightarrow> bool" where
  "url_scheme_law U \<longleftrightarrow> (\<forall>scheme rest u. scheme \<in> {''http'', ''https''} \<longrightarrow>
     ul_parse U (scheme @ ''://'' @ rest) = Inr u \<longrightarrow> ul_scheme U u = scheme)"

lemma same_site_refl [simp]: "same_site U u u"
  by (simp add: same_site_def)

lemma same_site_trans: "same_site U u v \<Longrightarrow> same_site U v x \<Longrightarrow> same_site U u x"
  by (simp add: same_site_def)

lemma same_site_public: "same_site U u v \<Longrightarrow> is_public_https U v = is_public_https U u"
  by (simp add: same_site_def is_public_https_def)

lemma target_scheme_http: "target_scheme target \<in> {''http'', ''https''}"
  by (simp add: target_scheme_def)

text \<open>The configured registry, as the two places that parse it see it.\<close>

definition registry_root :: "'u url_lib \<Rightarrow> oci_target \<Rightarrow> 'u \<Rightarrow> bool" where
  "registry_root U target u \<longleftrightarrow>
     ul_parse U (target_scheme target @ ''://'' @ ot_registry target) = Inr u \<or>
     ul_parse U (target_scheme target @ ''://'' @ ot_registry target @ ''/'') = Inr u"

lemma registry_root_scheme:
  "url_scheme_law U \<Longrightarrow> registry_root U target u \<Longrightarrow> ul_scheme U u = target_scheme target"
  using target_scheme_http [of target] unfolding url_scheme_law_def registry_root_def by blast

lemma upstream_url_root:
  assumes "url_edit_law U" "upstream_url U target sfx = Inr url"
  obtains u where "registry_root U target u" "same_site U u url"
proof -
  obtain path query where p: "(case split_once (CHR ''?'') sfx of Some p \<Rightarrow> p | None \<Rightarrow> (sfx, [])) = (path, query)"
    by fastforce
  let ?segs = "''v2'' # split_on (CHR ''/'') (ot_repo target) @ split_on (CHR ''/'') path"
  from assms(2) have "\<exists>u. ul_parse U (target_scheme target @ ''://'' @ ot_registry target @ ''/'') = Inr u
    \<and> (\<exists>v. ul_push_segments U ?segs u = Some v \<and> (if query \<noteq> [] then ul_set_query U (Some query) v else v) = url)"
    by (simp only: upstream_url_def Let_def bindE_Inr map_errE_Inr ok_or_Inr p prod.case sum.inject)
  then obtain u v where u: "ul_parse U (target_scheme target @ ''://'' @ ot_registry target @ ''/'') = Inr u"
    and v: "ul_push_segments U ?segs u = Some v" "(if query \<noteq> [] then ul_set_query U (Some query) v else v) = url"
    by (elim exE conjE) (rule that)
  from assms(1) v(1) have "same_site U u v" unfolding url_edit_law_def by blast
  moreover from assms(1) v(2) have "same_site U v url" by (auto simp: url_edit_law_def split: if_splits)
  ultimately have "same_site U u url" by (rule same_site_trans)
  with u show thesis by (intro that [of u]) (simp_all add: registry_root_def)
qed

lemma token_url_site: "url_edit_law U \<Longrightarrow> same_site U realm (token_url U target challenge realm)"
  unfolding token_url_def Let_def url_edit_law_def
  by (cases "bc_service challenge") (auto intro: same_site_trans)

section \<open>Requests with credentials\<close>

definition credential_confined :: "'u url_lib \<Rightarrow> oci_target \<Rightarrow> 'u http_request \<Rightarrow> bool" where
  "credential_confined U target q \<longleftrightarrow>
     header_get ''cookie'' (rq_headers q) = None \<and> header_get ''proxy-authorization'' (rq_headers q) = None \<and>
     (\<forall>v. header_get ''authorization'' (rq_headers q) = Some v \<longrightarrow>
        (\<exists>u. registry_root U target u \<and> ul_origin U (rq_url q) = ul_origin U u)
        \<and> (\<not> ot_plain_http target \<longrightarrow> ul_scheme U (rq_url q) = ''https'')
        \<and> (starts_with ''Bearer '' v \<or>
           ot_auth target = AuthGcp \<and> \<not> ot_plain_http target \<and> is_public_https U (rq_url q) \<and> rq_client q = Public))"

lemma upstream_headers_Inr:
  assumes "upstream_headers H accept token = Inr hs"
  shows "header_get ''cookie'' hs = None" "header_get ''proxy-authorization'' hs = None"
    "header_get ''authorization'' hs = Some v \<Longrightarrow> starts_with ''Bearer '' v"
proof -
  have empty: "header_get n [] = None" for n by (simp add: header_get_def)
  from assms obtain hs' where hs': "hs' = [] \<or> (\<exists>a. hs' = header_insert ''accept'' a [])"
    and hs: "hs = hs' \<or> (\<exists>t. hs = header_insert ''authorization'' (''Bearer '' @ t) hs')"
    by (auto simp: upstream_headers_def split: option.split_asm if_split_asm)
  from hs' have "header_get ''cookie'' hs' = None" "header_get ''proxy-authorization'' hs' = None"
    "header_get ''authorization'' hs' = None"
    by (auto simp: empty)
  with hs show "header_get ''cookie'' hs = None" "header_get ''proxy-authorization'' hs = None"
    "header_get ''authorization'' hs = Some v \<Longrightarrow> starts_with ''Bearer '' v"
    by (auto simp: starts_with_iff)
qed

lemma sends_registry:
  fixes E :: "('s, 'c, 'u) env"
  assumes laws: "origin_law (e_url E)" "url_edit_law (e_url E)" "url_scheme_law (e_url E)"
    and url: "upstream_url (e_url E) target sfx = Inr url"
    and hs: "upstream_headers H accept token = Inr hs"
  shows "sends_within (credential_confined (e_url E) target) (upstream_send E m url hs Trusted True kind)"
proof -
  let ?U = "e_url E"
  from upstream_url_root [OF laws(2) url] obtain u where u: "registry_root ?U target u" "same_site ?U u url" .
  then have sch: "ul_scheme ?U url = target_scheme target"
    using registry_root_scheme [OF laws(3)] by (simp add: same_site_def)
  show ?thesis
  proof (rule sends_upstream_send [OF laws(1)])
    show "ul_scheme ?U url \<in> {''http'', ''https''}" using sch target_scheme_http by simp
    fix q :: "'u http_request"
    assume https: "ul_scheme ?U url = ''https'' \<Longrightarrow> ul_scheme ?U (rq_url q) = ''https''"
      and c: "confined ?U url hs Trusted (rq_url q) (rq_headers q) (rq_client q)"
    show "credential_confined ?U target q"
    proof (cases "no_credentials (rq_headers q)")
      case True
      then show ?thesis by (simp add: credential_confined_def no_credentials_def)
    next
      case False
      with c have q: "ul_origin ?U (rq_url q) = ul_origin ?U url" "rq_headers q = hs"
        by (auto simp: confined_def)
      have "ul_origin ?U (rq_url q) = ul_origin ?U u" using q(1) u(2) by (simp add: same_site_def)
      moreover have "ul_scheme ?U (rq_url q) = ''https''" if "\<not> ot_plain_http target"
        using that https sch by (simp add: target_scheme_def)
      ultimately show ?thesis
        using upstream_headers_Inr [OF hs] u(1) by (auto simp: credential_confined_def q(2))
    qed
  qed
qed

lemma token_client_gcp:
  assumes "token_client U target target_url realm_url = Inr client" "ot_auth target = AuthGcp"
  shows "client = Public" "\<not> ot_plain_http target" "ul_scheme U realm_url = ''https''"
    "ul_origin U realm_url = ul_origin U target_url" "has_public_domain U realm_url"
  using assms by (simp_all add: token_client_def Let_def split: if_split_asm)

lemma build_token_request_Inr:
  fixes E :: "('s, 'c, 'u) env"
  assumes law: "url_edit_law (e_url E)"
    and run: "build_token_request E target challenge w = (Inr (url, hs, client), w')"
  shows "ul_scheme (e_url E) url \<in> {''http'', ''https''}"
    and "hs = [] \<or> (\<exists>v. hs = [(''authorization'', v)]) \<and> ot_auth target = AuthGcp \<and> \<not> ot_plain_http target
      \<and> client = Public \<and> is_public_https (e_url E) url
      \<and> (\<exists>u. registry_root (e_url E) target u \<and> ul_origin (e_url E) url = ul_origin (e_url E) u)"
proof -
  let ?U = "e_url E"
  from run have "\<exists>target_url realm_url. registry_url ?U target = Inr target_url
      \<and> (ul_scheme ?U realm_url = ''http'' \<or> ul_scheme ?U realm_url = ''https'')
      \<and> ul_username ?U realm_url = [] \<and> ul_password ?U realm_url = None
      \<and> token_client ?U target target_url realm_url = Inr client
      \<and> url = token_url ?U target challenge realm_url
      \<and> (hs = [] \<or> ot_auth target = AuthGcp \<and> (\<exists>v. hs = [(''authorization'', v)]))"
    unfolding build_token_request_def Let_def
    by (elim bindA_InrE) (rule exI, rule exI, auto elim!: bindA_InrE split: if_split_asm option.split_asm)
  then obtain target_url realm_url where
    t: "registry_url ?U target = Inr target_url" and
    realm: "ul_scheme ?U realm_url = ''http'' \<or> ul_scheme ?U realm_url = ''https''"
      "ul_username ?U realm_url = []" "ul_password ?U realm_url = None" and
    c: "token_client ?U target target_url realm_url = Inr client" and
    url: "url = token_url ?U target challenge realm_url" and
    hs: "hs = [] \<or> ot_auth target = AuthGcp \<and> (\<exists>v. hs = [(''authorization'', v)])"
    by blast
  have site: "same_site ?U realm_url url" using token_url_site [OF law] url by simp
  with realm(1) show "ul_scheme ?U url \<in> {''http'', ''https''}" by (auto simp: same_site_def)
  show "hs = [] \<or> (\<exists>v. hs = [(''authorization'', v)]) \<and> ot_auth target = AuthGcp \<and> \<not> ot_plain_http target
      \<and> client = Public \<and> is_public_https ?U url
      \<and> (\<exists>u. registry_root ?U target u \<and> ul_origin ?U url = ul_origin ?U u)"
  proof (cases "hs = []")
    case False
    with hs have gcp: "ot_auth target = AuthGcp" "\<exists>v. hs = [(''authorization'', v)]" by simp_all
    note k = token_client_gcp [OF c gcp(1)]
    have "is_public_https ?U realm_url"
      using realm k(3,5) by (simp add: is_public_https_def has_public_domain_def)
    then have "is_public_https ?U url" using same_site_public [OF site] by simp
    moreover have "registry_root ?U target target_url"
      using t by (simp add: registry_root_def registry_url_def map_errE_Inr)
    moreover have "ul_origin ?U url = ul_origin ?U target_url" using site k(4) by (simp add: same_site_def)
    ultimately show ?thesis using gcp k(1,2) by blast
  qed simp
qed

lemma sends_fetch_token:
  fixes E :: "('s, 'c, 'u) env"
  assumes laws: "origin_law (e_url E)" "url_edit_law (e_url E)"
  shows "sends_within (credential_confined (e_url E) target) (fetch_token E target challenge)"
proof -
  let ?U = "e_url E" and ?P = "credential_confined (e_url E) target"
  have silent: "sends_within ?P (build_token_request E target challenge)"
    by (auto simp: build_token_request_def Let_def split: option.split intro!: sends_rules)
  have send: "sends_within ?P (upstream_send E GET url hs client True OciToken)"
    if b: "build_token_request E target challenge w = (Inr (url, hs, client), w')" for url hs client w w'
  proof (rule sends_upstream_send [OF laws(1) build_token_request_Inr(1) [OF laws(2) b]])
    fix q :: "'u http_request"
    assume https: "ul_scheme ?U url = ''https'' \<Longrightarrow> ul_scheme ?U (rq_url q) = ''https''"
      and c: "confined ?U url hs client (rq_url q) (rq_headers q) (rq_client q)"
    show "?P q"
    proof (cases "no_credentials (rq_headers q)")
      case True
      then show ?thesis by (simp add: credential_confined_def no_credentials_def)
    next
      case False
      with c have q: "ul_origin ?U (rq_url q) = ul_origin ?U url" "rq_headers q = hs" "rq_client q = client"
        "is_public_https ?U url \<Longrightarrow> is_public_https ?U (rq_url q)"
        by (auto simp: confined_def)
      from False q(2) have "hs \<noteq> []" by (auto simp: no_credentials_def header_get_def)
      with build_token_request_Inr(2) [OF laws(2) b] obtain v u where
        hs: "hs = [(''authorization'', v)]" "ot_auth target = AuthGcp" "\<not> ot_plain_http target" "client = Public"
          "is_public_https ?U url" "registry_root ?U target u" "ul_origin ?U url = ul_origin ?U u"
        by blast
      then have "ul_scheme ?U (rq_url q) = ''https''" using https by (simp add: is_public_https_def)
      then show ?thesis using hs q by (auto simp: credential_confined_def header_get_def)
    qed
  qed
  show ?thesis
    unfolding fetch_token_def
    by (rule sends_bind [OF silent]) (auto simp: Let_def split: prod.split intro!: sends_rules dest: send)
qed

section \<open>Properties\<close>

text \<open>C3. Credentials stay home: whatever the registry answers, every request that \<open>send_upstream\<close> makes
  with an \<open>Authorization\<close> header, across the token exchange and all redirects, goes to the origin
  of the configured registry, over HTTPS unless the alias is plain HTTP; other than a bearer
  token only GCP credentials are sent, and those only for a GCP alias, over public HTTPS, through
  the address-checking client. No cookie or proxy credential is ever sent.\<close>
theorem upstream_credentials_confined:
  assumes "origin_law (e_url E)" "url_edit_law (e_url E)" "url_scheme_law (e_url E)"
    and "send_upstream E target m sfx accept w = (r, w')"
  shows "\<exists>qs. w_sent w' = w_sent w @ qs \<and> (\<forall>q\<in>set qs. credential_confined (e_url E) target q)"
proof -
  note send = sends_registry [OF assms(1-3)] and token = sends_fetch_token [OF assms(1,2)]
  have "sends_within (credential_confined (e_url E) target) (send_upstream E target m sfx accept)"
    unfolding send_upstream_def Let_def
    by (auto split: prod.split option.split intro!: sends_rules token send)
  with assms(4) show ?thesis unfolding sends_within_def by blast
qed

text \<open>A registry that asks for a token: the challenge, the token, the answer.\<close>

definition challenging_net :: "sample_url http_request list \<Rightarrow> sample_url http_request \<Rightarrow> string + http_answer" where
  "challenging_net sent q = Inr
     \<lparr>an_status = (if sent = [] then 401 else 200),
      an_headers = [(''www-authenticate'', Some (''Bearer realm='' @ quote ''https://auth.io/token''))],
      an_content_length = None, an_chunks = [Inr ''body'']\<rparr>"

definition sample_token_env :: "(string \<Rightarrow> bytes option, string \<Rightarrow> entry option, sample_url) env" where
  "sample_token_env = (sample_env challenging_net)\<lparr>e_token_parse := (\<lambda>_. Some (Some ''t'', None, None))\<rparr>"

lemma sample_url_laws: "url_edit_law sample_url_lib" "url_scheme_law sample_url_lib"
proof -
  have "sample_port_or_default (u\<lparr>su_query := q\<rparr>) = sample_port_or_default u"
    "sample_port_or_default (u\<lparr>su_path := p\<rparr>) = sample_port_or_default u" for u q p
    by (simp_all add: sample_port_or_default_def split: option.split)
  then show "url_edit_law sample_url_lib"
    by (auto simp: url_edit_law_def same_site_def sample_url_lib_def sample_append_pair_def sample_push_segments_def)
  have "ul_scheme sample_url_lib u = scheme"
    if s: "scheme \<in> {''http'', ''https''}" and p: "ul_parse sample_url_lib (scheme @ ''://'' @ rest) = Inr u" for scheme rest u
  proof -
    have "CHR '':'' \<notin> set scheme" using s by auto
    then have "split_once CHR '':'' (scheme @ CHR '':'' # (''//'' @ rest)) = Some (scheme, ''//'' @ rest)"
      by (rule split_once_append)
    with p show ?thesis
      by (auto simp: sample_url_parse_def Let_def split: prod.splits if_splits option.splits)
  qed
  then show "url_scheme_law sample_url_lib" unfolding url_scheme_law_def by blast
qed

lemma sample_send_once:
  assumes "\<not> redirect_status (an_status a)" and "client = Public \<Longrightarrow> is_public_https (e_url E) url"
    and "e_net E (w_sent w) \<lparr>rq_method = m, rq_url = url, rq_headers = hs, rq_client = client\<rparr> = Inr a"
  shows "\<exists>q. upstream_send E m url hs client follow kind w = (Inr (q, a),
    w\<lparr>w_sent := w_sent w @ [\<lparr>rq_method = m, rq_url = url, rq_headers = hs, rq_client = client\<rparr>],
      w_now := w_now w + e_elapsed E (w_sent w),
      w_metrics := w_metrics w @ [upstream_duration_event kind (e_elapsed E (w_sent w))]\<rparr>)"
  using assms
  by (auto simp: upstream_send_def validate_public_https_def bindA_def send_loop.simps [of _ _ _ _ _ _ _ MAX_REDIRECTS]
      timed_request_eq map_errA_def Let_def)

definition sample_pull_url :: sample_url where
  "sample_pull_url = \<lparr>su_scheme = ''https'', su_host = ''r.io'', su_port = None, su_path = ''/v2/p/c/manifests/1'',
     su_query = None\<rparr>"

definition sample_realm_url :: sample_url where
  "sample_realm_url = \<lparr>su_scheme = ''https'', su_host = ''auth.io'', su_port = None, su_path = ''/token'', su_query = None\<rparr>"

definition sample_token_url :: sample_url where
  "sample_token_url = sample_realm_url\<lparr>su_query := Some ''scope=repository:p/c:pull''\<rparr>"

definition sample_challenge :: bearer_challenge where
  "sample_challenge = \<lparr>bc_realm = ''https://auth.io/token'', bc_service = None, bc_scope = None\<rparr>"

definition sample_challenging :: "nat \<Rightarrow> http_answer" where
  "sample_challenging n = \<lparr>an_status = n,
     an_headers = [(''www-authenticate'', Some (''Bearer realm='' @ quote ''https://auth.io/token''))],
     an_content_length = None, an_chunks = [Inr ''body'']\<rparr>"

lemma sample_challenge_read: "usable_challenge (sample_challenging n) = Some sample_challenge"
  by (simp add: usable_challenge_def answer_headers_def parse_bearer_challenge_def split_challenge_params_def
      trim_graphic is_ascii_graphic_def byte_of_def quote_def Let_def strip_prefix_ascii_case_def
      eq_ignore_ascii_case_def to_ascii_lowercase_def ascii_lower_def challenge_param_def is_ascii_upper_def
      trim_matches_def trim_start_matches_def trim_end_matches_def is_quote_def sample_challenging_def sample_challenge_def)

lemma sample_token_request:
  "build_token_request sample_token_env sample_target sample_challenge w = (Inr (sample_token_url, [], Public), w)"
proof -
  let ?r = "\<lparr>su_scheme = ''https'', su_host = ''r.io'', su_port = None, su_path = ''/'', su_query = None\<rparr>"
  have "registry_url sample_url_lib sample_target = Inr ?r" by code_simp
  moreover have "sample_url_parse ''https://auth.io/token'' = Inr sample_realm_url" by code_simp
  moreover have "token_client sample_url_lib sample_target ?r sample_realm_url = Inr Public" by code_simp
  moreover have "token_url sample_url_lib sample_target sample_challenge sample_realm_url = sample_token_url" by code_simp
  moreover have "ot_auth sample_target \<noteq> AuthGcp" by (simp add: sample_target_def)
  moreover have "e_url sample_token_env = sample_url_lib"
    by (simp add: sample_token_env_def sample_env_def sample_helm_env_def)
  moreover have "bc_realm sample_challenge = ''https://auth.io/token''" "su_scheme sample_realm_url = ''https''"
    by (simp_all add: sample_challenge_def sample_realm_url_def)
  ultimately show ?thesis by (simp add: build_token_request_def Let_def bindA_def)
qed

lemma sample_net: "challenging_net sent q = Inr (sample_challenging (if sent = [] then 401 else 200))"
  by (simp add: challenging_net_def sample_challenging_def)

lemma sample_answer_read:
  "read_response (sample_challenging n) (1024 * 1024) ''token response'' = Inr ''body''"
  by (simp add: read_response_def read_bounded_iff sample_challenging_def)

lemma sample_headers:
  "upstream_headers sample_http None None = Inr []"
  "upstream_headers sample_http None (Some ''t'') = Inr [(''authorization'', ''Bearer t'')]"
  by (simp_all add: upstream_headers_def header_insert_def sample_http_def)

lemma sample_token_sent:
  "map (\<lambda>q. (su_host (rq_url q), rq_headers q))
     (w_sent (snd (send_upstream sample_token_env sample_target GET ''manifests/1'' None sample_world)))
   = [(''r.io'', []), (''auth.io'', []), (''r.io'', [(''authorization'', ''Bearer t'')])]"
proof -
  let ?E = sample_token_env and ?u = sample_pull_url and ?t = sample_token_url and ?a = sample_challenging
  let ?auth = "[(''authorization'', ''Bearer t'')]"
  let ?q0 = "\<lparr>rq_method = GET, rq_url = ?u, rq_headers = [], rq_client = Trusted\<rparr>"
  let ?q1 = "\<lparr>rq_method = GET, rq_url = ?t, rq_headers = [], rq_client = Public\<rparr>"
  let ?q2 = "?q0\<lparr>rq_headers := ?auth\<rparr>"
  have e: "e_url ?E = sample_url_lib" "e_http ?E = sample_http" "e_net ?E = challenging_net"
    "e_token_parse ?E = (\<lambda>_. Some (Some ''t'', None, None))"
    by (simp_all add: sample_token_env_def sample_env_def sample_helm_env_def)
  have url: "upstream_url sample_url_lib sample_target ''manifests/1'' = Inr ?u" by code_simp
  have public: "is_public_https sample_url_lib ?t" by code_simp
  have a: "an_status (?a n) = n" "\<not> redirect_status 401" "\<not> redirect_status 200" "is_success 200" for n
    by (simp_all add: sample_challenging_def redirect_status_def is_success_def)
  note once = sample_send_once [where E = ?E and m = GET and follow = True]
  obtain w1 q where s0: "upstream_send ?E GET ?u [] Trusted True OciManifest sample_world = (Inr (q, ?a 401), w1)" "w_sent w1 = [?q0]"
    using once [where a = "?a 401" and w = sample_world and url = ?u and hs = "[]" and client = Trusted and kind = OciManifest] a
    by (auto simp: e sample_net sample_world_def)
  obtain w2 q where s1: "upstream_send ?E GET ?t [] Public True OciToken w1 = (Inr (q, ?a 200), w2)" "w_sent w2 = [?q0, ?q1]"
    using once [where a = "?a 200" and w = w1 and url = ?t and hs = "[]" and client = Public and kind = OciToken] a public s0(2)
    by (auto simp: e sample_net)
  obtain c where c: "fetch_token ?E sample_target sample_challenge w1 = (Inr c, w2)" "ct_token c = ''t''"
    by (simp add: fetch_token_def bindA_def sample_token_request s1(1) a sample_answer_read [simplified] e Let_def cached_token_new_def)
  let ?w3 = "w2\<lparr>w_tokens := (w_tokens w2)(upstream_token_cache_key sample_target \<mapsto> c)\<rparr>"
  obtain w4 q where s2: "upstream_send ?E GET ?u ?auth Trusted True OciManifest ?w3 = (Inr (q, ?a 200), w4)"
    "w_sent w4 = [?q0, ?q1, ?q2]"
    using once [where a = "?a 200" and w = ?w3 and url = ?u and hs = ?auth and client = Trusted and kind = OciManifest] a s1(2)
    by (auto simp: e sample_net)
  have "ot_auth sample_target \<noteq> AuthGcp" "token_cache_get ?E k sample_world = (Inr None, sample_world)" for k
    by (simp_all add: sample_target_def token_cache_get_def cache_lookup_def sample_world_def)
  then have "send_upstream ?E sample_target GET ''manifests/1'' None sample_world = (Inr (?a 200), w4)"
    using s2(1) by (simp add: send_upstream_def upstream_kind_of_def starts_with_def Let_def e url sample_headers bindA_def
        s0(1) a sample_challenge_read c token_cache_insert_def)
  with s2(2) show ?thesis by (simp add: sample_pull_url_def sample_token_url_def sample_realm_url_def)
qed

theorem upstream_credentials_confined_witness:
  "\<exists>q1 q2 q3. w_sent (snd (send_upstream sample_token_env sample_target GET ''manifests/1'' None sample_world)) = [q1, q2, q3]
     \<and> header_get ''authorization'' (rq_headers q3) = Some ''Bearer t''
     \<and> ul_scheme sample_url_lib (rq_url q3) = ''https''"
proof -
  let ?E = sample_token_env
  have e: "e_url ?E = sample_url_lib" by (simp add: sample_token_env_def sample_env_def sample_helm_env_def)
  obtain r w' where run: "send_upstream ?E sample_target GET ''manifests/1'' None sample_world = (r, w')" by fastforce
  from sample_token_sent run obtain q1 q2 q3 where q: "w_sent w' = [q1, q2, q3]"
    "rq_headers q3 = [(''authorization'', ''Bearer t'')]"
    by (auto simp: map_eq_Cons_conv)
  have "credential_confined sample_url_lib sample_target q3"
    using upstream_credentials_confined [OF _ _ _ run] q(1) sample_origin_law sample_url_laws
    unfolding e by (auto simp: sample_world_def)
  with q run show ?thesis
    by (auto simp: credential_confined_def header_get_def sample_target_def)
qed

end
