(* ===== verification/Integrity.thy ===== *)
theory Integrity
  imports World Media_Type
begin

text \<open>
  The contract between the request handlers and the two stores. The locale \<open>backends\<close> is what a
  handler may assume of them (each is an implementation of the \<open>Storage\<close> trait); inside it the
  content-addressing invariant is proved once for every storage operation a handler makes. Its
  interpretation is the deployment of \<open>main.rs\<close>: the object store and the in-memory cache. The locales
  \<open>store_reads\<close> and \<open>handler_invariant\<close> state what any invariant of the stores needs to survive a handler.
\<close>

section \<open>The stores of a handler\<close>

locale backends =
  fixes E :: "('s, 'c, 'u) env"
    and pb :: "'s \<Rightarrow> digest \<Rightarrow> bytes option" and pt :: "'s \<Rightarrow> string \<Rightarrow> tag_pointer option"
    and pgood :: "'s \<Rightarrow> bool"
    and eb :: "'c \<Rightarrow> digest \<Rightarrow> bytes option" and et :: "'c \<Rightarrow> string \<Rightarrow> tag_pointer option"
    and egood :: "'c \<Rightarrow> bool"
  assumes persistent: "storage (e_storage E) pb pt pgood"
    and volatile: "storage (e_ephemeral E) eb et egood"

sublocale backends \<subseteq> pers: storage "storage_of E" "pb \<circ> w_store" "pt \<circ> w_store" "pgood \<circ> w_store"
  unfolding storage_of_def by (rule storage_lift_world(1) [OF persistent])

sublocale backends \<subseteq> ephe: storage "ephemeral_of E" "eb \<circ> w_ephemeral" "et \<circ> w_ephemeral" "egood \<circ> w_ephemeral"
  unfolding ephemeral_of_def by (rule storage_lift_world(2) [OF volatile])

context backends begin

text \<open>Both stores hold every blob under its own digest.\<close>

definition safe :: "('s, 'c, 'u) world \<Rightarrow> bool" where
  "safe w \<longleftrightarrow> sha_hex (e_sha E) \<and> pers.intact (e_sha E) w \<and> ephe.intact (e_sha E) w"

lemma safe_same:
  assumes "safe w" "stores_same w w'"
  shows "safe w'"
  using assms by (simp add: safe_def pers.intact_def ephe.intact_def stores_same_def)

text \<open>A triple on one store, extended by the other.\<close>

lemma safe_persistent:
  assumes "preserves (pers.intact (e_sha E)) (on_part w_store (\<lambda>s w. w\<lparr>w_store := s\<rparr>) m)"
  shows "preserves safe (on_part w_store (\<lambda>s w. w\<lparr>w_store := s\<rparr>) m)"
proof -
  have eq: "ephe.intact (e_sha E) w' = ephe.intact (e_sha E) w"
    if "on_part w_store (\<lambda>s w. w\<lparr>w_store := s\<rparr>) m w = (r, w')" for w r w'
    using that by (auto simp: on_part_eq ephe.intact_def)
  show ?thesis
    by (rule preservesI) (auto simp: safe_def eq dest: preservesD [OF assms])
qed

lemma safe_ephemeral:
  assumes "preserves (ephe.intact (e_sha E)) (on_part w_ephemeral (\<lambda>s w. w\<lparr>w_ephemeral := s\<rparr>) m)"
  shows "preserves safe (on_part w_ephemeral (\<lambda>s w. w\<lparr>w_ephemeral := s\<rparr>) m)"
proof -
  have eq: "pers.intact (e_sha E) w' = pers.intact (e_sha E) w"
    if "on_part w_ephemeral (\<lambda>s w. w\<lparr>w_ephemeral := s\<rparr>) m w = (r, w')" for w r w'
    using that by (auto simp: on_part_eq pers.intact_def)
  show ?thesis
    by (rule preservesI) (auto simp: safe_def eq dest: preservesD [OF assms])
qed

lemma safe_persistent_ops:
  "preserves safe (so_get_blob (storage_of E) d)"
  "preserves safe (so_head_blob (storage_of E) d)"
  "preserves safe (so_get_tag_pointer (storage_of E) sc t)"
  "plain_tag t \<Longrightarrow> preserves safe (so_put_tag_pointer (storage_of E) sc t p)"
  using pers.intact_get_blob [of "e_sha E" d] pers.intact_head_blob [of "e_sha E" d]
    pers.intact_get_tag [of "e_sha E" sc t] pers.intact_put_tag [of t "e_sha E" sc p]
  by (simp_all add: storage_of_def lift_ops_def safe_persistent preserves_def [symmetric])

lemma safe_ephemeral_ops:
  "preserves safe (so_get_blob (ephemeral_of E) d)"
  "preserves safe (so_head_blob (ephemeral_of E) d)"
  "preserves safe (so_get_tag_pointer (ephemeral_of E) sc t)"
  "plain_tag t \<Longrightarrow> preserves safe (so_put_tag_pointer (ephemeral_of E) sc t p)"
  using ephe.intact_get_blob [of "e_sha E" d] ephe.intact_head_blob [of "e_sha E" d]
    ephe.intact_get_tag [of "e_sha E" sc t] ephe.intact_put_tag [of t "e_sha E" sc p]
  by (simp_all add: ephemeral_of_def lift_ops_def safe_ephemeral preserves_def [symmetric])

text \<open>A write under the digest of the bytes written.\<close>

lemma safe_put_blob:
  assumes "d = digest_sha256 (e_sha E) data"
  shows "preserves safe (so_put_blob (storage_of E) d ct data)"
    and "preserves safe (so_put_blob (ephemeral_of E) d ct data)"
proof -
  have "preserves safe (so_put_blob (storage_of E) d ct data)
    \<and> preserves safe (so_put_blob (ephemeral_of E) d ct data)"
  proof (cases "sha_hex (e_sha E)")
    case True
    then have "canonical d" using assms canonical_sha256 by simp
    then show ?thesis
      using pers.intact_put_blob [OF _ assms, of ct] ephe.intact_put_blob [OF _ assms, of ct]
      by (simp add: storage_of_def ephemeral_of_def lift_ops_def safe_persistent safe_ephemeral
        preserves_def [symmetric])
  next
    case False
    then show ?thesis by (auto intro!: preservesI simp: safe_def)
  qed
  then show "preserves safe (so_put_blob (storage_of E) d ct data)"
    and "preserves safe (so_put_blob (ephemeral_of E) d ct data)" by simp_all
qed

lemma safe_serves:
  assumes "safe w" "canonical d" and "so_get_blob (storage_of E) d w = (Inr (Some b), w')
    \<or> so_get_blob (ephemeral_of E) d w = (Inr (Some b), w')"
  obtains data where "d = digest_sha256 (e_sha E) data" "serves b data"
  using assms pers.intact_serves ephe.intact_serves unfolding safe_def by metis

end

section \<open>Invariants of the handlers\<close>

text \<open>
  A handler writes two things: bytes under their own digest, and pointers to such bytes under a tag
  of the request's proxy host. Whatever survives those writes, every read and every step that
  leaves the stores alone, survives every handler: the locale collects these laws, and the theories
  of the handlers prove it once for any such \<open>I\<close>.
\<close>

definition pointer_typed :: "(bytes \<Rightarrow> string) \<Rightarrow> tag_pointer \<Rightarrow> bool" where
  "pointer_typed sha p \<longleftrightarrow> tp_media_type p \<in> set MANIFEST_MEDIA_TYPES
     \<and> (\<exists>data. tp_digest p = digest_sha256 sha data \<and> tp_size p = of_nat (length data))"

abbreviation handler_stores :: "('s, 'c, 'u) env \<Rightarrow> ('s, 'c, 'u) world storage_ops set" where
  "handler_stores E \<equiv> {storage_of E, ephemeral_of E}"

locale store_reads =
  fixes E :: "('s, 'c, 'u) env" and I :: "('s, 'c, 'u) world \<Rightarrow> bool"
  assumes inv_same: "I w \<Longrightarrow> stores_same w w' \<Longrightarrow> I w'"
    and inv_get_blob: "S \<in> handler_stores E \<Longrightarrow> preserves I (so_get_blob S d)"
    and inv_head_blob: "S \<in> handler_stores E \<Longrightarrow> preserves I (so_head_blob S d)"
    and inv_get_tag: "S \<in> handler_stores E \<Longrightarrow> preserves I (so_get_tag_pointer S sc t)"
    and inv_put_blob: "S \<in> handler_stores E \<Longrightarrow> d = digest_sha256 (e_sha E) data \<Longrightarrow>
      preserves I (so_put_blob S d ct data)"
begin

lemma inv_keeps: "keeps_stores m \<Longrightarrow> preserves I m"
  unfolding preserves_def by (rule keeps_hoare) (auto intro: inv_same)

lemmas inv_world = keeps_world [THEN inv_keeps]

lemmas inv_ops = inv_get_blob inv_head_blob inv_get_tag inv_put_blob

lemma inv_metrics [simp]: "I (w\<lparr>w_metrics := ms\<rparr>) \<longleftrightarrow> I w"
  by (auto elim!: inv_same simp: stores_same_def)

end

text \<open>An invariant that every single pointer write keeps, whatever the store holds.\<close>

locale handler_invariant = store_reads E I
  for E :: "('s, 'c, 'u) env" and I :: "('s, 'c, 'u) world \<Rightarrow> bool" +
  fixes hosts :: "string \<Rightarrow> bool"
  assumes inv_put_tag: "S \<in> handler_stores E \<Longrightarrow> hosts (ts_proxy_host sc) \<Longrightarrow> plain_tag t \<Longrightarrow>
      pointer_typed (e_sha E) p \<Longrightarrow> preserves I (so_put_tag_pointer S sc t p)"

sublocale backends \<subseteq> handler_invariant E safe "\<lambda>_. True"
  by unfold_locales (auto intro: safe_same safe_persistent_ops safe_ephemeral_ops safe_put_blob)

section \<open>The deployment\<close>

text \<open>\<open>main.rs\<close> runs the handlers on an object store and an in-memory cache.\<close>

definition deploy ::
  "'s object_store \<Rightarrow> 'c cache_ops \<Rightarrow> pointer_json \<Rightarrow> ('s, 'c, 'u) env \<Rightarrow> ('s, 'c, 'u) env" where
  "deploy B C J E = E\<lparr>e_storage := objstore_ops B J, e_ephemeral := ephemeral_ops C J\<rparr>"

definition deployed_laws ::
  "'s object_store \<Rightarrow> ('s \<Rightarrow> string \<Rightarrow> bytes option) \<Rightarrow> 'c cache_ops \<Rightarrow> ('c \<Rightarrow> string \<Rightarrow> entry option) \<Rightarrow>
   pointer_json \<Rightarrow> ('s, 'c, 'u) env \<Rightarrow> bool" where
  "deployed_laws B contents C entries J E \<longleftrightarrow> object_store_laws B contents \<and> cache_laws C entries
     \<and> pointer_json_roundtrip J \<and> sha_hex (e_sha E)"

text \<open>The invariant of the running server: whatever is stored under a digest has that digest.\<close>

definition content_addressed ::
  "(bytes \<Rightarrow> string) \<Rightarrow> 's object_store \<Rightarrow> ('s \<Rightarrow> string \<Rightarrow> bytes option) \<Rightarrow> ('c \<Rightarrow> string \<Rightarrow> entry option) \<Rightarrow>
   ('s, 'c, 'u) world \<Rightarrow> bool" where
  "content_addressed sha B contents entries w \<longleftrightarrow>
     (\<forall>d data. canonical d \<longrightarrow>
        object_blobs B contents (w_store w) d = Some data \<or> entry_blobs entries (w_ephemeral w) d = Some data \<longrightarrow>
        d = digest_sha256 sha data)"

interpretation be: backends "deploy B C J E" "object_blobs B contents" "object_tags B J contents"
    "objects_good B J contents" "entry_blobs entries" "entry_tags J entries" "cache_good C J entries"
  for B :: "'s object_store" and C :: "'c cache_ops" and J and E :: "('s, 'c, 'u) env" and contents entries
  by (simp add: backends_def deploy_def objstore_storage ephemeral_storage)

lemma deploy_simps [simp]:
  "e_cfg (deploy B C J E) = e_cfg E" "e_net (deploy B C J E) = e_net E" "e_sha (deploy B C J E) = e_sha E"
  "e_http (deploy B C J E) = e_http E" "e_helm (deploy B C J E) = e_helm E"
  "e_storage (deploy B C J E) = objstore_ops B J" "e_ephemeral (deploy B C J E) = ephemeral_ops C J"
  "e_manifest_parse (deploy B C J E) = e_manifest_parse E" "e_yaml_index (deploy B C J E) = e_yaml_index E"
  "e_manifest_json (deploy B C J E) = e_manifest_json E" "e_schedule (deploy B C J E) = e_schedule E"
  by (simp_all add: deploy_def)

lemma safe_iff:
  "be.safe B C J E contents entries w \<longleftrightarrow>
     deployed_laws B contents C entries J E \<and> content_addressed (e_sha E) B contents entries w"
  by (auto simp: be.safe_def be.pers.intact_def be.ephe.intact_def deployed_laws_def content_addressed_def
      objects_good_def cache_good_def)

lemma safe_content_addressed:
  assumes "deployed_laws B contents C entries J E"
  shows "be.safe B C J E contents entries w \<longleftrightarrow> content_addressed (e_sha E) B contents entries w"
  using assms by (simp add: safe_iff)

end
