(* ===== verification/Classic_Spec.thy ===== *)
theory Classic_Spec
  imports Classic Integrity
begin

text \<open>
  What the classic handlers guarantee: they keep both stores content addressed, what they answer
  hashes to the digest the response names, a built chart is stored before it is announced, and a
  tag listing can be paged through without loss or repetition.
\<close>

section \<open>Operations that leave the stores alone\<close>

lemma keeps_classic [keeps_rules]:
  "keeps_stores (send_classic E url source hs kind)"
  "keeps_stores (fetch_index_text_with_source E repo source)"
  "keeps_stores (fetch_index_text E repo source)"
  "keeps_stores (download_chart E curl repo source)"
proof -
  show s: "keeps_stores (send_classic E url source hs kind)"
    by (auto simp: send_classic_def split: prod.splits intro!: keeps_rules)
  show f: "keeps_stores (fetch_index_text_with_source E repo source)"
    by (auto simp: fetch_index_text_with_source_def Let_def send_classic_def split: prod.splits option.splits
        intro!: keeps_rules)
  show "keeps_stores (fetch_index_text E repo source)"
    by (auto simp: fetch_index_text_def split: prod.splits intro!: keeps_rules f)
  show "keeps_stores (download_chart E curl repo source)"
    by (auto simp: download_chart_def Let_def split: prod.splits intro!: keeps_rules)
qed

lemma keeps_classic_tags [keeps_rules]: "keeps_stores (classic_tags E chart query head_only)"
  by (auto simp: classic_tags_def Let_def split: prod.splits option.splits intro!: keeps_rules)

section \<open>Invariants of the stores\<close>

lemma join_orders_set: "set join_orders = {[0, 1, 2], [0, 2, 1], [1, 0, 2], [1, 2, 0], [2, 0, 1], [2, 1, 0]}"
  by (simp add: join_orders_def)

lemma join_order_mem: "join_orders ! (n mod 6) \<in> set join_orders"
  by (rule nth_mem) (simp add: join_orders_def)

lemma preserves_run_all: "(\<And>m. m \<in> set ms \<Longrightarrow> preserves I m) \<Longrightarrow> preserves I (run_all ms)"
  by (induction ms) (auto intro!: preserves_bind preserves_rules)

lemma preserves_try_join3:
  assumes "preserves I a" "preserves I b" "preserves I c"
  shows "preserves I (try_join3 E [a, b, c])"
proof (rule preservesI)
  fix w r w'
  assume w: "I w" "try_join3 E [a, b, c] w = (r, w')"
  have "preserves I (run_all (map (\<lambda>i. [a, b, c] ! i) (join_orders ! (e_schedule E (w_now w) mod 6))))"
    using assms join_order_mem [of "e_schedule E (w_now w)"]
    by (intro preserves_run_all) (auto simp: join_orders_set)
  from preservesD [OF this w(1)] w(2) show "I w'" by (simp add: try_join3_def)
qed

text \<open>The blobs a build produces carry their own digests.\<close>

lemma build_chart_digests:
  assumes "build_chart E proxy_host tgz = Inr b"
  shows "bc_config_digest b = digest_sha256 (e_sha E) (bc_config_bytes b)"
    "bc_layer_digest b = digest_sha256 (e_sha E) (bc_layer_bytes b)"
    "bc_manifest_digest b = digest_sha256 (e_sha E) (bc_manifest_bytes b)"
    "bc_pointer b = \<lparr>tp_digest = bc_manifest_digest b, tp_media_type = MEDIA_TYPE_MANIFEST,
       tp_size = of_nat (length (bc_manifest_bytes b))\<rparr>"
  using assms by (auto simp: build_chart_def map_errE_Inr split: option.splits elim!: build_Inr)

lemma build_chart_manifest:
  assumes "build_chart E proxy_host tgz = Inr b"
  shows "e_manifest_json E (helm_manifest (bc_config_digest b) (bc_config_bytes b) (bc_layer_digest b) (bc_layer_bytes b))
    = Inr (bc_manifest_bytes b)"
  using assms by (auto simp: build_chart_def map_errE_Inr split: option.splits elim!: build_Inr)

lemma build_chart_pointer:
  assumes "build_chart E proxy_host tgz = Inr b"
  shows "pointer_typed (e_sha E) (bc_pointer b)"
  using build_chart_digests(3,4) [OF assms] by (auto simp: pointer_typed_def MANIFEST_MEDIA_TYPES_def)

context store_reads begin

lemma inv_backend_reads:
  "preserves I (so_get_blob (classic_backend E eph) d)"
  "preserves I (so_get_tag_pointer (classic_backend E eph) sc t)"
  "d = digest_sha256 (e_sha E) data \<Longrightarrow> preserves I (so_put_blob (classic_backend E eph) d ct data)"
  by (simp_all add: classic_backend_def inv_ops)

lemma inv_find_blob: "preserves I (find_blob E d)"
  by (auto simp: find_blob_def classic_get_blob_def split: option.splits
      intro!: preserves_bind preserves_rules inv_ops)

lemma inv_cached_tag:
  "preserves I (cached_tag_manifest E (classic_backend E eph) scope reference head_only max_bytes)"
  by (auto simp: cached_tag_manifest_def classic_get_blob_def split: option.splits sum.splits app_error.splits
      intro!: preserves_bind preserves_rules inv_backend_reads)

lemma inv_join_blobs:
  assumes "build_chart E proxy_host tgz = Inr b"
  shows "preserves I (try_join3 E
    [put_blob_as (classic_backend E eph) (bc_config_digest b) config_type (bc_config_bytes b),
     put_blob_as (classic_backend E eph) (bc_layer_digest b) layer_type (bc_layer_bytes b),
     put_blob_as (classic_backend E eph) (bc_manifest_digest b) manifest_type (bc_manifest_bytes b)])"
  using build_chart_digests [OF assms] unfolding put_blob_as_def
  by (auto intro!: preserves_rules inv_backend_reads preserves_try_join3)

end

text \<open>The write of a built chart as a whole: all a classic handler does besides reading.\<close>

locale classic_invariant = store_reads E I
  for E :: "('s, 'c, 'u) env" and I :: "('s, 'c, 'u) world \<Rightarrow> bool" +
  fixes hosts :: "string \<Rightarrow> bool"
  assumes inv_store_built_chart: "build_chart E proxy_host tgz = Inr b \<Longrightarrow> plain_tag reference \<Longrightarrow> hosts host \<Longrightarrow>
    preserves I (store_built_chart E (classic_backend E eph)
      \<lparr>ts_proxy_host = host, ts_full_name = full_name\<rparr> reference b)"
begin

lemma inv_classic_by_digest: "preserves I (classic_manifest_by_digest E d head_only)"
  unfolding classic_manifest_by_digest_def
  by (auto split: option.splits intro!: preserves_bind preserves_rules inv_find_blob inv_world)

lemma inv_classic_build:
  assumes "plain_tag reference" "hosts host"
  shows "preserves I (classic_build_manifest E host chart reference head_only)"
  unfolding classic_build_manifest_def
  by (rule preserves_bind preserves_lift_bind inv_keeps keeps_world keeps_classic
      inv_store_built_chart preserves_basic assms | assumption)+

lemma inv_classic_manifest:
  assumes "plain_tag reference" "hosts host"
  shows "preserves I (classic_manifest E host chart reference head_only)"
  unfolding classic_manifest_def Let_def
  by (auto split: option.splits simp: assms intro!: inv_classic_by_digest preserves_bind inv_cached_tag
      inv_classic_build preserves_rules inv_world)

lemma inv_classic_blob: "preserves I (classic_blob E digest_str head_only)"
  unfolding classic_blob_def Let_def
  by (auto split: option.splits intro!: preserves_bind preserves_rules inv_find_blob inv_world)

lemma inv_classic_tags: "preserves I (classic_tags E chart query head_only)"
  by (rule inv_keeps) (rule keeps_rules)

end

sublocale handler_invariant \<subseteq> classic_invariant E I hosts
proof
  fix proxy_host tgz b reference host eph full_name
  assume b: "build_chart E proxy_host tgz = Inr b" and "plain_tag reference" "hosts host"
  then have "preserves I (so_put_tag_pointer (classic_backend E eph) \<lparr>ts_proxy_host = host, ts_full_name = full_name\<rparr>
      reference (bc_pointer b))"
    by (simp add: classic_backend_def inv_put_tag build_chart_pointer)
  then show "preserves I (store_built_chart E (classic_backend E eph)
      \<lparr>ts_proxy_host = host, ts_full_name = full_name\<rparr> reference b)"
    unfolding store_built_chart_def by (intro preserves_bind preserves_rules inv_join_blobs [OF b])
qed

section \<open>Answers\<close>

lemma digest_manifest_response_Inr:
  assumes "digest_manifest_response E d b head_only max_bytes = Inr r"
  obtains data where "d = digest_sha256 (e_sha E) data" "valid_helm_manifest (e_manifest_parse E) data"
    "r = bytes_response (e_http E) MEDIA_TYPE_MANIFEST d data head_only"
  using assms
  by (auto simp: digest_manifest_response_def Let_def split: if_splits sum.splits app_error.splits)

text \<open>A manifest answer: the bytes of a manifest under the digest of those bytes.\<close>

definition manifest_answer ::
  "(bytes \<Rightarrow> string) \<Rightarrow> http_lib \<Rightarrow> bool \<Rightarrow> digest \<Rightarrow> bytes \<Rightarrow> 'm response \<Rightarrow> bool" where
  "manifest_answer sha H head_only d data r \<longleftrightarrow>
     d = digest_sha256 sha data \<and>
     (r = error_response H invalid_content_type \<or>
      rs_status r = 200 \<and> names_digest d r \<and> rs_body r = (if head_only then [] else [Inr data])
      \<and> header_get ''content-length'' (rs_headers r) = Some (show_u64 (of_nat (length data)))
      \<and> header_get ''content-type'' (rs_headers r) = Some MEDIA_TYPE_MANIFEST)"

lemma manifest_answer_bytes:
  "d = digest_sha256 sha data \<Longrightarrow>
   manifest_answer sha H head_only d data (bytes_response H MEDIA_TYPE_MANIFEST d data head_only)"
  using bytes_response_cases [OF refl, of H MEDIA_TYPE_MANIFEST d data head_only]
  by (auto simp: manifest_answer_def)

lemma digest_manifest_answer:
  assumes "digest_manifest_response E d b head_only max_bytes = Inr r"
  shows "\<exists>data. manifest_answer (e_sha E) (e_http E) head_only d data r"
  using digest_manifest_response_Inr [OF assms] manifest_answer_bytes by metis

lemma cached_tag_answer:
  assumes "cached_tag_manifest E store scope reference head_only max_bytes w = (Inr (Some r), w')"
  shows "\<exists>d data. manifest_answer (e_sha E) (e_http E) head_only d data r"
proof -
  from assms obtain d b where "digest_manifest_response E d b head_only max_bytes = Inr r"
    unfolding cached_tag_manifest_def
    by (auto elim!: bindA_InrE split: option.split_asm if_split_asm sum.split_asm app_error.split_asm)
  then show ?thesis using digest_manifest_answer by blast
qed

lemma build_answer:
  assumes "classic_build_manifest E host chart reference head_only w = (Inr r, w')"
  shows "\<exists>d data. manifest_answer (e_sha E) (e_http E) head_only d data r"
proof -
  from assms obtain tgz b where "build_chart E host tgz = Inr b"
    "r = bytes_response (e_http E) MEDIA_TYPE_MANIFEST (bc_manifest_digest b) (bc_manifest_bytes b) head_only"
    unfolding classic_build_manifest_def by (auto simp: bindA_Inr)
  then show ?thesis using manifest_answer_bytes build_chart_digests(3) by metis
qed

lemma by_digest_answer:
  assumes "classic_manifest_by_digest E d head_only w = (Inr r, w')"
  shows "\<exists>data. manifest_answer (e_sha E) (e_http E) head_only d data r"
proof -
  from assms obtain b where
    "digest_manifest_response E d b head_only (st_max_chart_bytes (e_settings E)) = Inr r"
    unfolding classic_manifest_by_digest_def by (auto simp: bindA_Inr split: option.splits)
  then show ?thesis using digest_manifest_answer by blast
qed

lemma classic_manifest_answer:
  assumes "classic_manifest E host chart reference head_only w = (Inr r, w')"
  shows "\<exists>d data. manifest_answer (e_sha E) (e_http E) head_only d data r
    \<and> (\<forall>d'. digest_parse reference = Some d' \<longrightarrow> d = d')"
proof (cases "digest_parse reference")
  case None
  with assms show ?thesis
    unfolding classic_manifest_def Let_def
    by (auto simp: bindA_Inr split: option.splits dest: cached_tag_answer build_answer)
next
  case (Some d)
  with assms show ?thesis
    by (auto simp: classic_manifest_def dest: by_digest_answer)
qed

text \<open>A blob answer streams bytes that, if the stream ends without an error, have the digest named.\<close>

definition blob_answer ::
  "(bytes \<Rightarrow> string) \<Rightarrow> http_lib \<Rightarrow> bool \<Rightarrow> digest \<Rightarrow> bytes \<Rightarrow> 'm response \<Rightarrow> bool" where
  "blob_answer sha H head_only d data r \<longleftrightarrow>
     d = digest_sha256 sha data \<and>
     (r = error_response H invalid_content_type \<or>
      rs_status r = 200 \<and> names_digest d r
      \<and> (if head_only then rs_body r = [] else streams (rs_body r) data)
      \<and> header_get ''content-length'' (rs_headers r) = Some (show_u64 (of_nat (length data))))"

lemma blob_answer_stream:
  assumes "serves b data" "d = digest_sha256 sha data"
  shows "blob_answer sha H head_only d data (blob_response H ct d b head_only u s)"
  using blob_response_cases [OF refl, of H ct d b head_only u s] assms
  by (auto simp: blob_answer_def serves_def)

context backends begin

lemma find_blob_serves:
  assumes "safe w" "canonical d" "find_blob E d w = (Inr (Some (b, src)), w')"
  obtains data where "d = digest_sha256 (e_sha E) data" "serves b data"
proof -
  from assms(3) obtain b1 w1 where g: "so_get_blob (storage_of E) d w = (Inr b1, w1)"
    and c: "(case b1 of Some blob \<Rightarrow> returnA (Some (blob, PersistentCache))
       | None \<Rightarrow> bindA (classic_get_blob (ephemeral_of E) d)
           (\<lambda>b. returnA (map_option (\<lambda>blob. (blob, EphemeralCache)) b))) w1 = (Inr (Some (b, src)), w')"
    unfolding find_blob_def classic_get_blob_def map_errA_Inr bindA_Inr by metis
  consider "so_get_blob (storage_of E) d w = (Inr (Some b), w')"
    | "so_get_blob (storage_of E) d w = (Inr None, w1)" "so_get_blob (ephemeral_of E) d w1 = (Inr (Some b), w')"
  proof (cases b1)
    case None
    with c that(2) g show thesis by (auto simp: classic_get_blob_def map_errA_Inr bindA_Inr)
  next
    case (Some x)
    with c that(1) g show thesis by auto
  qed
  then show thesis
  proof cases
    case 1
    with safe_serves [OF assms(1,2)] that show thesis by blast
  next
    case 2
    from preservesD [OF safe_persistent_ops(1) assms(1) 2(1)] have "safe w1" .
    with safe_serves [OF _ assms(2)] 2(2) that show thesis by blast
  qed
qed

lemma classic_blob_answer:
  assumes "safe w" "classic_blob E digest_str head_only w = (Inr r, w')"
  shows "\<exists>d data. digest_parse digest_str = Some d \<and> blob_answer (e_sha E) (e_http E) head_only d data r"
proof -
  from assms(2) obtain d b src w1 ct where d: "digest_parse digest_str = Some d"
    and f: "find_blob E d w = (Inr (Some (b, src)), w1)"
    and r: "r = blob_response (e_http E) ct d b head_only ProxyClassic src"
    unfolding classic_blob_def Let_def by (auto elim!: bindA_InrE split: option.split_asm)
  from find_blob_serves [OF assms(1) digest_parse_canonical [OF d] f] obtain data
    where "d = digest_sha256 (e_sha E) data" "serves b data" .
  with d r blob_answer_stream show ?thesis by metis
qed

end

section \<open>A built chart is stored before it is announced\<close>

text \<open>Running actions that each establish something that later ones keep, in any order.\<close>

lemma run_all_establishes:
  assumes step: "\<And>i w w'. i \<in> set is \<Longrightarrow> f i w = (Inr (), w') \<Longrightarrow> le w w' \<and> Q i w'"
    and up: "\<And>i w w'. Q i w \<Longrightarrow> le w w' \<Longrightarrow> Q i w'"
    and refl: "\<And>w. le w w" and trans: "\<And>w w' w''. le w w' \<Longrightarrow> le w' w'' \<Longrightarrow> le w w''"
    and run: "run_all (map f is) w = (Inr (), w')"
  shows "le w w' \<and> (\<forall>i\<in>set is. Q i w')"
  using step run
proof (induction "is" arbitrary: w)
  case Nil
  then show ?case by (simp add: refl)
next
  case (Cons i js)
  from Cons.prems(2) obtain w1 where w1: "f i w = (Inr (), w1)" "run_all (map f js) w1 = (Inr (), w')"
    by (auto simp: bindA_Inr)
  from Cons.prems(1) [OF _ w1(1)] have i: "le w w1" "Q i w1" by simp_all
  from Cons.IH [OF Cons.prems(1) w1(2)] have "le w1 w'" "\<forall>i\<in>set js. Q i w'" by simp_all
  with i show ?case using up trans by auto
qed

text \<open>Which blobs exist in the bucket, and that writes only add objects.\<close>

definition stored ::
  "'s object_store \<Rightarrow> ('s \<Rightarrow> string \<Rightarrow> bytes option) \<Rightarrow> digest \<Rightarrow> ('s, 'c, 'u) world \<Rightarrow> bool" where
  "stored B contents d w \<longleftrightarrow> object_blobs B contents (w_store w) d \<noteq> None"

definition objects_grow :: "('s \<Rightarrow> string \<Rightarrow> bytes option) \<Rightarrow> ('s, 'c, 'u) world \<Rightarrow> ('s, 'c, 'u) world \<Rightarrow> bool" where
  "objects_grow contents w w' \<longleftrightarrow> (\<forall>k. contents (w_store w) k \<noteq> None \<longrightarrow> contents (w_store w') k \<noteq> None)"

lemma stored_grow: "stored B contents d w \<Longrightarrow> objects_grow contents w w' \<Longrightarrow> stored B contents d w'"
  by (auto simp: stored_def objects_grow_def object_blobs_def split: sum.splits)

lemma put_blob_as_stored:
  assumes "object_store_laws B contents" "canonical d"
    and "put_blob_as (storage_of (deploy B C J E)) d ct data w = (Inr u, w')"
  shows "objects_grow contents w w' \<and> stored B contents d w'"
proof -
  from assms(3) obtain s' where put: "objstore_put_blob B d ct data (w_store w) = (Inr u, s')"
    and w': "w' = w\<lparr>w_store := s'\<rparr>"
    by (auto simp: put_blob_as_def map_errA_Inr storage_of_def lift_ops_def on_part_eq objstore_ops_def)
  from put obtain path where path: "os_path_parse B (blob_key d) = Inr path"
    by (auto simp: objstore_put_blob_def os_path_def res_simps)
  then have "path = blob_key d" using os_path_laws [OF assms(1)] path_raw_blob_key [OF assms(2)] by metis
  note eff = objstore_put_blob_effect [OF assms(1,2) put]
  then have "contents s' k \<noteq> None" if "contents (w_store w) k \<noteq> None" for k
    using that by (cases "k = blob_key d") (auto simp: put_effect_def)
  with eff path \<open>path = blob_key d\<close> show ?thesis
    by (simp add: put_effect_def stored_def objects_grow_def object_blobs_def w')
qed

lemma join_blobs_stored:
  assumes laws: "object_store_laws B contents"
    and canon: "canonical (bc_config_digest b)" "canonical (bc_layer_digest b)" "canonical (bc_manifest_digest b)"
    and run: "try_join3 (deploy B C J E)
      [put_blob_as (storage_of (deploy B C J E)) (bc_config_digest b) config_type (bc_config_bytes b),
       put_blob_as (storage_of (deploy B C J E)) (bc_layer_digest b) layer_type (bc_layer_bytes b),
       put_blob_as (storage_of (deploy B C J E)) (bc_manifest_digest b) manifest_type (bc_manifest_bytes b)] w
      = (Inr u, w1)"
  shows "\<forall>d\<in>{bc_manifest_digest b, bc_config_digest b, bc_layer_digest b}. stored B contents d w1"
proof -
  let ?E = "deploy B C J E"
  let ?put = "put_blob_as (storage_of ?E)"
  let ?ms = "[?put (bc_config_digest b) config_type (bc_config_bytes b),
     ?put (bc_layer_digest b) layer_type (bc_layer_bytes b),
     ?put (bc_manifest_digest b) manifest_type (bc_manifest_bytes b)]"
  let ?ds = "[bc_config_digest b, bc_layer_digest b, bc_manifest_digest b]"
  define order where "order = join_orders ! (e_schedule ?E (w_now w) mod 6)"
  have order: "set order = {0, 1, 2}"
    using join_order_mem [of "e_schedule ?E (w_now w)"] by (auto simp: order_def join_orders_set)
  from run have blobs: "run_all (map (\<lambda>i. ?ms ! i) order) w = (Inr (), w1)"
    unfolding try_join3_def by (simp add: order_def)
  have step: "objects_grow contents v v' \<and> stored B contents (?ds ! i) v'"
    if "i \<in> set order" "(?ms ! i) v = (Inr (), v')" for i v v'
    using that order canon by (auto dest: put_blob_as_stored [OF laws])
  have "objects_grow contents w w1 \<and> (\<forall>i\<in>set order. stored B contents (?ds ! i) w1)"
    by (rule run_all_establishes [where f = "\<lambda>i. ?ms ! i" and le = "objects_grow contents"
          and Q = "\<lambda>i. stored B contents (?ds ! i)", OF step _ _ _ blobs])
       (assumption | erule (1) stored_grow | simp add: objects_grow_def)+
  then show ?thesis by (simp add: order)
qed

lemma store_built_chart_stored:
  assumes laws: "object_store_laws B contents" and tag: "plain_tag reference"
    and canon: "canonical (bc_config_digest b)" "canonical (bc_layer_digest b)" "canonical (bc_manifest_digest b)"
    and run: "store_built_chart (deploy B C J E) (storage_of (deploy B C J E)) scope reference b w = (Inr u, w')"
  shows "(\<forall>d\<in>{bc_manifest_digest b, bc_config_digest b, bc_layer_digest b}. stored B contents d w')
    \<and> (\<exists>data. pj_to_vec J (bc_pointer b) = Inr data
         \<and> contents (w_store w') (tag_key scope reference) = Some data)"
proof -
  let ?E = "deploy B C J E"
  from run obtain u1 w1 where
    blobs: "try_join3 ?E
      [put_blob_as (storage_of ?E) (bc_config_digest b) MEDIA_TYPE_HELM_CONFIG (bc_config_bytes b),
       put_blob_as (storage_of ?E) (bc_layer_digest b) MEDIA_TYPE_HELM_CHART (bc_layer_bytes b),
       put_blob_as (storage_of ?E) (bc_manifest_digest b) MEDIA_TYPE_MANIFEST (bc_manifest_bytes b)] w = (Inr u1, w1)"
    and ptr: "so_put_tag_pointer (storage_of ?E) scope reference (bc_pointer b) w1 = (Inr u, w')"
    unfolding store_built_chart_def by (auto elim!: bindA_InrE simp: map_errA_Inr)
  note w1 = join_blobs_stored [OF laws canon blobs]
  from ptr obtain s' where put: "objstore_put_tag_pointer B J scope reference (bc_pointer b) (w_store w1) = (Inr u, s')"
    and w': "w' = w1\<lparr>w_store := s'\<rparr>"
    by (auto simp: storage_of_def lift_ops_def on_part_eq objstore_ops_def)
  from objstore_put_tag_ok [OF laws tag put] obtain data where data: "pj_to_vec J (bc_pointer b) = Inr data"
    "contents s' (tag_key scope reference) = Some data"
    "\<forall>k. k \<noteq> tag_key scope reference \<longrightarrow> contents s' k = contents (w_store w1) k"
    by blast
  have "objects_grow contents w1 w'"
    unfolding objects_grow_def
  proof (intro allI impI)
    fix k
    assume "contents (w_store w1) k \<noteq> None"
    with data(2,3) show "contents (w_store w') k \<noteq> None"
      by (cases "k = tag_key scope reference") (simp_all add: w')
  qed
  with w1 stored_grow data(1,2) w' show ?thesis by auto
qed

section \<open>Paging through the tags\<close>

text \<open>A client that follows the \<open>Link\<close> of each page: the pages it sees, or \<open>None\<close> when it is still
  being sent on after \<open>fuel\<close> requests, so that a walk that never ends is \<open>None\<close> for every fuel.\<close>

fun tag_walk :: "('s, 'c, 'u) env \<Rightarrow> string list \<Rightarrow> string \<Rightarrow> nat \<Rightarrow> string list list option" where
  "tag_walk E tags query 0 = None"
| "tag_walk E tags query (Suc fuel) =
     (case tag_query (e_form_parse E query) (None, None) of (n_param, last_param) \<Rightarrow>
      case tags_page n_param last_param tags of
        (page, None) \<Rightarrow> Some [page]
      | (page, Some (n, l)) \<Rightarrow>
          map_option (\<lambda>pages. page # pages)
            (tag_walk E tags (''n='' @ show_nat n @ ''&last='' @ e_form_encode E l) fuel))"

text \<open>The reference: a list cut into full pages and a last page that is empty only for the empty list.\<close>

function pages_of :: "nat \<Rightarrow> 'a list \<Rightarrow> 'a list list" where
  "pages_of n xs = (if 0 < n \<and> n < length xs then take n xs # pages_of n (drop n xs) else [xs])"
  by pat_completeness auto
termination by (relation "measure (\<lambda>(n, xs). length xs)") auto

declare pages_of.simps [simp del]

lemma pages_of_last: "length xs \<le> n \<Longrightarrow> pages_of n xs = [xs]"
  by (subst pages_of.simps) simp

lemma pages_of_more: "0 < n \<Longrightarrow> n < length xs \<Longrightarrow> pages_of n xs = take n xs # pages_of n (drop n xs)"
  by (subst pages_of.simps) simp

lemma pages_of_sound:
  assumes "0 < n"
  shows "concat (pages_of n xs) = xs \<and> (\<forall>page\<in>set (pages_of n xs). length page \<le> n)
    \<and> (\<forall>page\<in>set (butlast (pages_of n xs)). length page = n) \<and> length (pages_of n xs) = Suc ((length xs - 1) div n)"
  using assms
proof (induction n xs rule: pages_of.induct)
  case (1 n xs)
  show ?case
  proof (cases "n < length xs")
    case False
    then have "(length xs - 1) div n = 0" using "1.prems" by (intro div_less) linarith
    with False show ?thesis by (simp add: pages_of_last)
  next
    case True
    let ?more = "pages_of n (drop n xs)"
    define k where "k = length (drop n xs) - 1"
    have more: "pages_of n xs = take n xs # ?more" using "1.prems" True by (rule pages_of_more)
    have ne: "?more \<noteq> []" by (subst pages_of.simps) simp
    from "1.IH" [OF conjI [OF "1.prems" True] "1.prems"] have
      ih: "concat ?more = drop n xs" "\<forall>page\<in>set ?more. length page \<le> n"
      "\<forall>page\<in>set (butlast ?more). length page = n" "length ?more = Suc (k div n)"
      unfolding k_def by blast+
    have "length xs - 1 = n + k" unfolding k_def using True by simp
    moreover have "(n + k) div n = Suc (k div n)" using div_add_self1 [of n k] "1.prems" by simp
    ultimately have "length (pages_of n xs) = Suc ((length xs - 1) div n)" unfolding more by (simp only: list.size ih(4))
    moreover have "concat (pages_of n xs) = xs" unfolding more by (simp only: concat.simps ih(1) append_take_drop_id)
    moreover have l: "length (take n xs) = n" using True by simp
    have "length page \<le> n" if "page \<in> set (pages_of n xs)" for page
      using that ih(2) l unfolding more set_simps insert_iff by (elim disjE) (hypsubst, rule eq_imp_le, assumption, blast)
    moreover have "butlast (pages_of n xs) = take n xs # butlast ?more" unfolding more using ne by simp
    then have "length page = n" if "page \<in> set (butlast (pages_of n xs))" for page
      using that ih(3) l by (metis set_ConsD)
    ultimately show ?thesis by blast
  qed
qed

text \<open>The documented round trip of \<open>application/x-www-form-urlencoded\<close>.\<close>

definition form_law :: "('s, 'c, 'u) env \<Rightarrow> bool" where
  "form_law E \<longleftrightarrow> (\<forall>n l. e_form_parse E (''n='' @ show_nat n @ ''&last='' @ e_form_encode E l)
     = [(''n'', show_nat n), (''last'', l)])"

lemma after_last_split:
  assumes "distinct (as @ l # bs)"
  shows "after_last (Some l) (as @ l # bs) = bs"
proof -
  have "position (\<lambda>tag. tag = l) (as @ l # bs) = Some (length as)"
    using assms by (intro position_append_first) auto
  then show ?thesis by (simp add: after_last_def)
qed

lemma tag_walk_rest:
  assumes law: "form_law E" and n: "0 < n" "n \<le> u64_max"
    and rest: "after_last last_param tags = rest" "tag_query (e_form_parse E query) (None, None) = (Some n, last_param)"
    and tags: "distinct tags" "suffix rest tags" and fuel: "length rest < fuel"
  shows "tag_walk E tags query fuel = Some (pages_of n rest)"
  using rest tags(2) fuel
proof (induction fuel arbitrary: query last_param rest)
  case 0
  then show ?case by simp
next
  case (Suc fuel)
  show ?case
  proof (cases "n < length rest")
    case False
    with Suc.prems show ?thesis by (simp add: tags_page_def Let_def pages_of_last)
  next
    case True
    let ?l = "rest ! (n - 1)"
    let ?q = "''n='' @ show_nat n @ ''&last='' @ e_form_encode E ?l"
    obtain as where as: "tags = as @ rest" using Suc.prems(3) by (auto simp: suffix_def)
    have sp: "rest = take (n - 1) rest @ ?l # drop n rest"
      using True n id_take_nth_drop [of "n - 1" rest] by simp
    then have sp': "tags = (as @ take (n - 1) rest) @ ?l # drop n rest" using as by simp
    have al: "after_last (Some ?l) tags = drop n rest"
      using after_last_split [of "as @ take (n - 1) rest" ?l "drop n rest"] tags(1) sp' by metis
    have q: "tag_query (e_form_parse E ?q) (None, None) = (Some n, Some ?l)"
      using law n(2) by (simp add: form_law_def parse_show_nat)
    have sfx: "suffix (drop n rest) tags" using as by (metis append_take_drop_id suffix_appendI suffix_def)
    from Suc.IH [OF al q sfx] Suc.prems(4) True n
    have "tag_walk E tags ?q fuel = Some (pages_of n (drop n rest))" by simp
    then show ?thesis
      using Suc.prems(1,2) True n by (simp add: tags_page_def Let_def pages_of_more)
  qed
qed

section \<open>Properties\<close>

text \<open>C11. Whatever the stores hold and whatever upstream sends, a manifest answer is authentic: its body
  is exactly the bytes whose SHA-256 the response names, with their length and media type, and
  for a request by digest that digest is the one requested. A corrupted cache entry is never
  served.\<close>
theorem classic_manifest_authentic:
  assumes "classic_manifest E proxy_host chart reference head_only w = (Inr r, w')"
  shows "r = error_response (e_http E) invalid_content_type \<or>
    (\<exists>data. let d = digest_sha256 (e_sha E) data in
       rs_status r = 200 \<and> header_get ''docker-content-digest'' (rs_headers r) = Some (as_str d)
       \<and> rs_body r = (if head_only then [] else [Inr data])
       \<and> header_get ''content-length'' (rs_headers r) = Some (show_u64 (of_nat (length data)))
       \<and> header_get ''content-type'' (rs_headers r) = Some MEDIA_TYPE_MANIFEST
       \<and> (\<forall>d'. digest_parse reference = Some d' \<longrightarrow> d' = d))"
  using classic_manifest_answer [OF assms]
  by (auto simp: manifest_answer_def names_digest_def Let_def)

definition sample_classic_env ::
  "(sample_url http_request list \<Rightarrow> sample_url http_request \<Rightarrow> string + http_answer) \<Rightarrow>
   (string \<Rightarrow> bytes option, string \<Rightarrow> entry option, sample_url) env" where
  "sample_classic_env net = (sample_env net)\<lparr>
     e_manifest_parse := (\<lambda>_. Some (helm_manifest sample_digest ''c'' sample_digest ''l'')),
     e_yaml_index := (\<lambda>_. Some \<lparr>ci_entries = Some [(''c'',
        [\<lparr>ce_version = Some ''1.0'', ce_urls = Some [''https://a.io/c.tgz'']\<rparr>])]\<rparr>)\<rparr>"

definition sample_chart :: classic_chart where
  "sample_chart = \<lparr>cc_repo_url = ''https://a.io/r'', cc_chart_name = ''c'', cc_full_name = ''a.io/r/c'',
     cc_ephemeral = False, cc_source = HostPath\<rparr>"

definition silent_net :: "'u http_request list \<Rightarrow> 'u http_request \<Rightarrow> string + http_answer" where
  "silent_net sent q = Inl ''no network''"

definition holding :: "bytes \<Rightarrow> (string \<Rightarrow> bytes option, string \<Rightarrow> entry option, sample_url) world" where
  "holding data = sample_world\<lparr>w_store := [blob_key sample_digest \<mapsto> data]\<rparr>"

lemma sample_manifest_found:
  "\<exists>r w'. classic_manifest (sample_classic_env silent_net) ''p'' sample_chart (as_str sample_digest) False
     (holding ''hi'') = (Inr r, w') \<and> rs_body r = [Inr ''hi'']"
proof -
  let ?E = "sample_classic_env silent_net"
  have d: "digest_parse (as_str sample_digest) = Some sample_digest"
    by (rule digest_parse_as_str [OF canonical_sample_digest])
  have raw: "path_raw (blob_key sample_digest) = blob_key sample_digest"
    by (rule path_raw_blob_key [OF canonical_sample_digest])
  have read: "read_bounded (Some 2) [Inr ''hi'' :: storage_error + bytes] 10 from_storage_error = Inr ''hi''"
    by (simp add: read_bounded_iff)
  have valid: "valid_helm_manifest (e_manifest_parse ?E) ''hi''"
    by (simp add: valid_helm_manifest_def sample_classic_env_def sample_env_def helm_manifest_def)
  have f: "\<exists>b w'. find_blob ?E sample_digest (holding ''hi'') = (Inr (Some (b, PersistentCache)), w')
      \<and> bl_meta b = \<lparr>bm_size = 2, bm_content_type = None\<rparr> \<and> bl_data b = [Inr ''hi'']"
    by (simp add: find_blob_def classic_get_blob_def storage_of_def lift_ops_def on_part_def objstore_ops_def
        sample_classic_env_def sample_env_def holding_def sample_world_def objstore_get_blob_def
        memory_store_def os_path_def raw bindA_def map_errA_def catchA_def)
  then obtain b w1 where f: "find_blob ?E sample_digest (holding ''hi'') = (Inr (Some (b, PersistentCache)), w1)"
    and b: "bl_meta b = \<lparr>bm_size = 2, bm_content_type = None\<rparr>" "bl_data b = [Inr ''hi'']" by blast
  have "digest_manifest_response ?E sample_digest b False 10
      = Inr (bytes_response (e_http ?E) MEDIA_TYPE_MANIFEST sample_digest ''hi'' False)"
    using valid by (simp add: digest_manifest_response_def b read sample_digest_def Let_def)
      (simp add: sample_classic_env_def sample_env_def)
  then have "\<exists>w'. classic_manifest ?E ''p'' sample_chart (as_str sample_digest) False (holding ''hi'')
      = (Inr (bytes_response (e_http ?E) MEDIA_TYPE_MANIFEST sample_digest ''hi'' False), w')"
    by (simp add: classic_manifest_def d classic_manifest_by_digest_def bindA_def f)
       (simp add: sample_classic_env_def sample_env_def sample_config_def sample_settings_def record_event_def)
  moreover have "rs_body (bytes_response (e_http ?E) MEDIA_TYPE_MANIFEST sample_digest ''hi'' False) = [Inr ''hi'']"
    by (simp add: bytes_response_def respond_base_def builder_header_def builder_new_def finish_def
        sample_classic_env_def sample_env_def sample_http_def)
  ultimately show ?thesis by blast
qed

theorem classic_manifest_authentic_witness:
  "\<exists>r w'. classic_manifest (sample_classic_env silent_net) ''p'' sample_chart (as_str sample_digest) False
       (holding ''hi'') = (Inr r, w')
     \<and> rs_status r = 200 \<and> header_get ''docker-content-digest'' (rs_headers r) = Some (as_str sample_digest)"
proof -
  obtain r w' where r: "classic_manifest (sample_classic_env silent_net) ''p'' sample_chart
      (as_str sample_digest) False (holding ''hi'') = (Inr r, w')" "rs_body r = [Inr ''hi'']"
    using sample_manifest_found by blast
  have "rs_body (error_response sample_http invalid_content_type) \<noteq> [Inr ''hi'']"
    by (simp add: error_response_def text_response_def sample_http_def invalid_content_type_def)
  moreover have "e_http (sample_classic_env silent_net) = sample_http" "e_sha (sample_classic_env silent_net) = sample_sha"
    by (simp_all add: sample_classic_env_def sample_env_def)
  ultimately show ?thesis
    using classic_manifest_authentic [OF r(1)] r by (auto simp: Let_def sample_digest_def)
qed

text \<open>C12. On content-addressed stores a blob answer is for the digest requested, announces the exact
  length of a byte string with that SHA-256, and its stream delivers a prefix of that string and,
  unless it breaks off with an error, all of it.\<close>
theorem classic_blob_authentic:
  assumes "deployed_laws B contents C entries J E"
    and "content_addressed (e_sha E) B contents entries w"
    and "classic_blob (deploy B C J E) digest_str head_only w = (Inr r, w')"
  shows "\<exists>d data. digest_parse digest_str = Some d \<and> d = digest_sha256 (e_sha E) data \<and>
    (r = error_response (e_http E) invalid_content_type \<or>
     rs_status r = 200 \<and> header_get ''docker-content-digest'' (rs_headers r) = Some digest_str
     \<and> header_get ''content-length'' (rs_headers r) = Some (show_u64 (of_nat (length data)))
     \<and> (if head_only then rs_body r = [] else streams (rs_body r) data))"
proof -
  have "be.safe B C J E contents entries w" using safe_content_addressed assms(1,2) by blast
  from be.classic_blob_answer [OF this assms(3)] obtain d data where
    "digest_parse digest_str = Some d" "blob_answer (e_sha E) (e_http E) head_only d data r"
    by (simp add: deploy_simps) blast
  then show ?thesis
    by (intro exI [of _ d] exI [of _ data]) (auto simp: blob_answer_def names_digest_def dest: digest_parseD)
qed

lemma sample_deployed: "deployed_laws memory_store id sample_cache id sample_pointer_json (sample_classic_env net)"
  by (simp add: deployed_laws_def memory_store_laws sample_cache_laws sample_pointer_roundtrip sample_sha_hex
      sample_classic_env_def sample_env_def)

lemma holding_content_addressed: "content_addressed sample_sha memory_store id id (holding ''hi'')"
  by (auto simp: content_addressed_def object_blobs_def entry_blobs_def holding_def sample_world_def
      memory_store_def path_raw_blob_key sample_digest_def split: if_splits)

theorem classic_blob_authentic_witness:
  "\<exists>r w'. classic_blob (deploy memory_store sample_cache sample_pointer_json (sample_classic_env silent_net))
       (as_str sample_digest) False (holding ''hi'') = (Inr r, w')
     \<and> (\<exists>data. digest_sha256 sample_sha data = sample_digest
         \<and> (r = error_response sample_http invalid_content_type \<or> streams (rs_body r) data))"
proof -
  let ?E = "sample_classic_env silent_net"
  let ?D = "deploy memory_store sample_cache sample_pointer_json ?E"
  have d: "digest_parse (as_str sample_digest) = Some sample_digest"
    by (rule digest_parse_as_str [OF canonical_sample_digest])
  have raw: "path_raw (blob_key sample_digest) = blob_key sample_digest"
    by (rule path_raw_blob_key [OF canonical_sample_digest])
  have "\<exists>r w'. classic_blob ?D (as_str sample_digest) False (holding ''hi'') = (Inr r, w')"
    by (simp add: classic_blob_def d find_blob_def classic_get_blob_def storage_of_def lift_ops_def on_part_def
        objstore_ops_def holding_def sample_world_def objstore_get_blob_def record_event_def
        memory_store_def os_path_def raw bindA_def map_errA_def catchA_def Let_def)
  then obtain r w' where r: "classic_blob ?D (as_str sample_digest) False (holding ''hi'') = (Inr r, w')" by blast
  have e: "e_sha ?E = sample_sha" "e_http ?E = sample_http"
    by (simp_all add: sample_classic_env_def sample_env_def)
  from classic_blob_authentic [OF sample_deployed _ r] holding_content_addressed d
  have "\<exists>data. digest_sha256 sample_sha data = sample_digest
      \<and> (r = error_response sample_http invalid_content_type \<or> streams (rs_body r) data)"
    unfolding e by (metis option.inject)
  with r show ?thesis by blast
qed


definition serving_net :: "'u http_request list \<Rightarrow> 'u http_request \<Rightarrow> string + http_answer" where
  "serving_net sent q = Inr \<lparr>an_status = 200, an_headers = [], an_content_length = None, an_chunks = [Inr ''gz'']\<rparr>"

abbreviation sample_deployment :: "(string \<Rightarrow> bytes option, string \<Rightarrow> entry option, sample_url) env" where
  "sample_deployment \<equiv> deploy memory_store sample_cache sample_pointer_json (sample_classic_env serving_net)"

definition sample_indexed :: "(string \<Rightarrow> bytes option, string \<Rightarrow> entry option, sample_url) world" where
  "sample_indexed = sample_world\<lparr>w_index_cache := (\<lambda>_. Some ''index'')\<rparr>"

lemma sample_build: "\<exists>b. build_chart sample_deployment ''p'' ''gz'' = Inr b"
proof -
  let ?E = "sample_helm_env (YMap []) [sample_chart_file]" and ?ctx = "\<lparr>rc_proxy_host = ''p'', rc_classic_alias_by_repo = []\<rparr>"
    and ?lim = "for_chart_bytes_with_expansion 10 100"
  have e: "e_helm (sample_classic_env serving_net) = ?E"
    by (simp add: sample_classic_env_def sample_env_def)
  have unpack: "unpack_tgz_with_limits ample_platform (he_tar ?E) ''gz'' ?lim = Inr [sample_chart_file]"
    by (simp add: unpack_tgz_with_limits_def unpack_file_entry unpack_start_def limits_new_def
        for_chart_bytes_with_expansion_def for_expanded_bytes_def DEFAULT_MAX_FILES_def
        no_pending_def pending_is_empty_def sample_helm_env_def sample_chart_file_def)
  have files: "rewrite_files ?E ?ctx [sample_chart_file] = Inr None"
    by code_simp
  have env: "he_platform ?E = ample_platform" "rc_proxy_host ?ctx \<noteq> []"
    by (simp_all add: sample_helm_env_def)
  have r: "rewrite_chart_dependencies_with_limits ?E ''gz'' ?ctx ?lim = Inr (unmodified ''gz'')"
    by (simp add: rewrite_chart_dependencies_with_limits_def env unpack files)
  have find: "List.find (\<lambda>f. is_root_chart_file (tf_name f) ''Chart.yaml'') [sample_chart_file] = Some sample_chart_file"
    by code_simp
  have c: "chart_config_from_tgz_with_limits ?E ''gz'' ?lim = Inr ''{}''"
    by (simp only: chart_config_from_tgz_with_limits_def env unpack bindE_simps find ok_or_simps)
       (simp add: sample_helm_env_def sample_yaml_lib_def)
  have cfg: "st_max_chart_bytes (e_settings sample_deployment) = 10"
    "st_max_expanded_chart_bytes (e_settings sample_deployment) = 100"
    "rt_classic_alias_by_repo (e_cfg sample_deployment) = []"
    "e_join sample_deployment ''gz'' = None" "e_manifest_json sample_deployment = sample_manifest_json"
    by (simp_all add: deploy_def sample_classic_env_def sample_env_def sample_config_def sample_settings_def)
  show ?thesis
    by (simp add: build_chart_def cfg [simplified] e build_helm_oci_chart_with_limits_def r c unmodified_def
        sample_manifest_json_def Let_def)
qed

lemma memory_put_blob_ok:
  "\<exists>w'. put_blob_as (storage_of (deploy memory_store C J E)) d ct data w = (Inr (), w')"
  by (simp add: put_blob_as_def storage_of_def lift_ops_def on_part_def objstore_ops_def objstore_put_blob_def
      memory_store_def bindA_def os_path_def already_stored_def catchA_def put_once_def blob_attribute_rungs_def
      memory_put_def map_errA_def split: option.split)

lemma run_all_ok: "(\<And>m w. m \<in> set ms \<Longrightarrow> \<exists>w'. m w = (Inr (), w')) \<Longrightarrow> \<exists>w'. run_all ms w = (Inr (), w')"
proof (induction ms arbitrary: w)
  case (Cons m ms)
  from Cons.prems obtain w1 where "m w = (Inr (), w1)" by fastforce
  with Cons.IH [of w1] Cons.prems show ?case by (simp add: bindA_def)
qed simp

lemma sample_fetch_index:
  assumes "w_index_cache w = (\<lambda>_. Some ''index'')"
  shows "\<exists>w1. fetch_index_text sample_deployment (cc_repo_url sample_chart) (cc_source sample_chart) w = (Inr ''index'', w1)"
proof -
  have "e_url sample_deployment = sample_url_lib" "e_retains sample_deployment = (\<lambda>_ _. True)"
    by (simp_all add: deploy_def sample_classic_env_def sample_env_def sample_helm_env_def)
  moreover have "index_url sample_url_lib ''https://a.io/r'' = Inr \<lparr>su_scheme = ''https'', su_host = ''a.io'',
      su_port = None, su_path = ''/r/index.yaml'', su_query = None\<rparr>" by code_simp
  ultimately show ?thesis
    using assms by (auto simp: fetch_index_text_def fetch_index_text_with_source_def bindA_def index_cache_get_def
        cache_lookup_def count_event_def record_event_def Let_def sample_chart_def)
qed

lemma sample_chart_url:
  "resolve_chart_url (e_url sample_deployment) (e_yaml_index sample_deployment) ''index''
     (index_repo_of (cc_repo_url sample_chart) (cc_source sample_chart)) (cc_chart_name sample_chart) ''1.0''
   = Inr ''https://a.io/c.tgz''"
proof -
  have "resolve_chart_url sample_url_lib (\<lambda>_. Some \<lparr>ci_entries = Some [(''c'',
        [\<lparr>ce_version = Some ''1.0'', ce_urls = Some [''https://a.io/c.tgz'']\<rparr>])]\<rparr>) ''index''
      (client_supplied ''https://a.io/r'') ''c'' ''1.0'' = Inr ''https://a.io/c.tgz''"
    by code_simp
  then show ?thesis by (simp add: sample_chart_def sample_classic_env_def sample_env_def sample_helm_env_def)
qed

lemma sample_download:
  "\<exists>w1. download_chart sample_deployment ''https://a.io/c.tgz'' (cc_repo_url sample_chart) (cc_source sample_chart) w
     = (Inr ''gz'', w1)"
proof -
  let ?u = "\<lparr>su_scheme = ''https'', su_host = ''a.io'', su_port = None, su_path = ''/c.tgz'', su_query = None\<rparr>"
  have p: "parse_http_url sample_url_lib ''https://a.io/c.tgz'' ''chart'' = Inr ?u" by code_simp
  have v: "validate_public_https sample_url_lib ?u = Inr ()" by code_simp
  show ?thesis
    by (simp add: download_chart_def sample_helm_env_def p v sample_config_def sample_settings_def chart_client_def
        sample_chart_def bindA_def upstream_send_def send_loop.simps [of _ _ _ _ _ _ _ MAX_REDIRECTS] timed_request_eq
        sample_classic_env_def sample_env_def serving_net_def redirect_status_def map_errA_def is_success_def
        read_response_def read_bounded_iff Let_def)
qed

lemma sample_store_chart:
  assumes b: "build_chart sample_deployment ''p'' ''gz'' = Inr b"
  shows "\<exists>w'. store_built_chart sample_deployment (storage_of sample_deployment) scope ''1.0'' b w = (Inr (), w')"
proof -
  let ?E = sample_deployment
  have "length (as_str (bc_manifest_digest b)) = 71"
    using build_chart_digests(3) [OF b] canonical_length [OF canonical_sha256 [OF sample_sha_hex]]
    by (simp add: sample_classic_env_def sample_env_def)
  then obtain data where "pj_to_vec sample_pointer_json (bc_pointer b) = Inr data"
    by (simp add: build_chart_digests(4) [OF b] sample_pointer_json_def)
  then have put: "\<exists>w'. so_put_tag_pointer (storage_of ?E) scope ''1.0'' (bc_pointer b) w = (Inr (), w')" for w
    by (simp add: storage_of_def lift_ops_def on_part_def objstore_ops_def objstore_put_tag_pointer_def
        memory_store_def bindA_def os_path_def memory_put_def map_errA_def)
  have "\<exists>w'. try_join3 ?E
      [put_blob_as (storage_of ?E) (bc_config_digest b) MEDIA_TYPE_HELM_CONFIG (bc_config_bytes b),
       put_blob_as (storage_of ?E) (bc_layer_digest b) MEDIA_TYPE_HELM_CHART (bc_layer_bytes b),
       put_blob_as (storage_of ?E) (bc_manifest_digest b) MEDIA_TYPE_MANIFEST (bc_manifest_bytes b)] w
      = (Inr (), w')"
    unfolding try_join3_def
    using join_order_mem [of "e_schedule ?E (w_now w)"]
    by (intro run_all_ok) (auto simp: join_orders_set intro!: memory_put_blob_ok)
  then obtain w1 where "try_join3 ?E
      [put_blob_as (storage_of ?E) (bc_config_digest b) MEDIA_TYPE_HELM_CONFIG (bc_config_bytes b),
       put_blob_as (storage_of ?E) (bc_layer_digest b) MEDIA_TYPE_HELM_CHART (bc_layer_bytes b),
       put_blob_as (storage_of ?E) (bc_manifest_digest b) MEDIA_TYPE_MANIFEST (bc_manifest_bytes b)] w
      = (Inr (), w1)" by blast
  with put [of w1] show ?thesis
    by (auto simp: store_built_chart_def bindA_def map_errA_def)
qed

lemma sample_build_manifest:
  "\<exists>r w'. classic_build_manifest sample_deployment ''p'' sample_chart ''1.0'' False sample_indexed = (Inr r, w')"
proof -
  let ?E = sample_deployment
  let ?sc = "\<lparr>ts_proxy_host = ''p'', ts_full_name = cc_full_name sample_chart\<rparr>"
  let ?w0 = "snd (count_event ''helmoci_manifest_cache_misses_total'' sample_indexed)"
  have pers: "\<not> cc_ephemeral sample_chart" by (simp add: sample_chart_def)
  obtain b where b: "build_chart ?E ''p'' ''gz'' = Inr b" using sample_build by blast
  have w0: "count_event ''helmoci_manifest_cache_misses_total'' sample_indexed = (Inr (), ?w0)"
    "w_index_cache ?w0 = (\<lambda>_. Some ''index'')"
    by (simp_all add: count_event_def record_event_def sample_indexed_def)
  from sample_fetch_index [OF w0(2)] obtain w1 where
    i: "fetch_index_text ?E (cc_repo_url sample_chart) (cc_source sample_chart) ?w0 = (Inr ''index'', w1)" by blast
  from sample_download obtain w2 where
    d: "download_chart ?E ''https://a.io/c.tgz'' (cc_repo_url sample_chart) (cc_source sample_chart) w1 = (Inr ''gz'', w2)"
    by blast
  from sample_store_chart [OF b] obtain w3 where
    s: "store_built_chart ?E (storage_of ?E) ?sc ''1.0'' b w2 = (Inr (), w3)" by blast
  show ?thesis
    unfolding classic_build_manifest_def classic_backend_def if_not_P [OF pers]
    by (subst bindA_run, rule w0(1), subst bindA_run, rule i, subst bindA_run_lift,
        simp only: sample_chart_url map_errE_simps,
        subst bindA_run, rule d, subst bindA_run_lift, rule b, subst bindA_run, rule s) (auto simp: record_event_def bindA_def)
qed


text \<open>C21. Paging is complete and ends: a client that asks for \<open>n\<close> tags at a time and follows the
  \<open>Link\<close> of each page is not sent on for ever; after exactly one page per \<open>n\<close> tags begun (one
  empty page for an empty list) it has pages that together are the chart's tag list, every version once and in order, each page but
  the last of exactly \<open>n\<close> tags and none longer.\<close>
theorem tag_pages_complete:
  assumes "list_versions U yaml_index index_text repo chart_name = Inr tags"
    and "form_law E" and "0 < n" "n \<le> u64_max"
    and "e_form_parse E query = [(''n'', show_nat n)]"
  shows "\<exists>pages. (\<forall>fuel. length tags < fuel \<longrightarrow> tag_walk E tags query fuel = Some pages)
    \<and> concat pages = tags
    \<and> (\<forall>page\<in>set pages. length page \<le> n) \<and> (\<forall>page\<in>set (butlast pages). length page = n)
    \<and> length pages = Suc ((length tags - 1) div n)"
proof -
  have "distinct tags"
    using assms(1) collect_versions_distinct [of "{}"] by (auto simp: list_versions_def bindE_Inr)
  moreover have "tag_query (e_form_parse E query) (None, None) = (Some n, None)"
    using assms(4,5) by (simp add: parse_show_nat)
  ultimately have "tag_walk E tags query fuel = Some (pages_of n tags)" if "length tags < fuel" for fuel
    using tag_walk_rest [OF assms(2,3,4), of None tags tags query fuel] that by (simp add: after_last_def)
  with pages_of_sound [OF assms(3), of tags] show ?thesis by blast
qed

definition sample_form_parse :: "string \<Rightarrow> (string \<times> string) list" where
  "sample_form_parse q =
     (case strip_prefix ''n='' q of
        None \<Rightarrow> []
      | Some r \<Rightarrow> (case split_once CHR ''&'' r of
          None \<Rightarrow> [(''n'', r)]
        | Some (n, rest) \<Rightarrow> (case strip_prefix ''last='' rest of
            None \<Rightarrow> [(''n'', n)] | Some l \<Rightarrow> [(''n'', n), (''last'', l)])))"

lemma show_nat_no_amp: "CHR ''&'' \<notin> set (show_nat n)"
  using show_nat_digits [of n] by (auto simp: is_ascii_digit_def byte_of_def)

theorem tag_pages_complete_witness:
  "\<exists>pages. tag_walk ((sample_env silent_net)\<lparr>e_form_parse := sample_form_parse\<rparr>) [''3'', ''2'', ''1''] ''n=2'' 4 = Some pages
     \<and> concat pages = [''3'', ''2'', ''1''] \<and> length pages = 2"
proof -
  let ?E = "(sample_env silent_net)\<lparr>e_form_parse := sample_form_parse\<rparr>"
  let ?es = "[\<lparr>ce_version = Some ''3'', ce_urls = None\<rparr>, \<lparr>ce_version = Some ''2'', ce_urls = None\<rparr>,
             \<lparr>ce_version = Some ''1'', ce_urls = None\<rparr>]"
  let ?yi = "\<lambda>_. Some \<lparr>ci_entries = Some [(''c'', ?es)]\<rparr>"
  have l: "list_versions sample_url_lib ?yi [] (hidden []) ''c'' = Inr [''3'', ''2'', ''1'']"
    by (simp add: list_versions_def chart_entries_def)
  have law: "form_law ?E"
    by (simp add: form_law_def sample_env_def sample_form_parse_def split_once_append [OF show_nat_no_amp])
  have n: "e_form_parse ?E ''n=2'' = [(''n'', show_nat 2)]"
    by (simp add: sample_env_def) code_simp
  have two: "(0 :: nat) < 2" "(2 :: nat) \<le> u64_max" by (simp_all add: u64_max_def)
  obtain pages where p: "\<forall>fuel. length [''3'', ''2'', ''1''] < fuel \<longrightarrow>
      tag_walk ?E [''3'', ''2'', ''1''] ''n=2'' fuel = Some pages"
    "concat pages = [''3'', ''2'', ''1'']" "length pages = Suc ((length [''3'', ''2'', ''1''] - 1) div 2)"
    using tag_pages_complete [OF l law two n] by blast
  from p(1) have "tag_walk ?E [''3'', ''2'', ''1''] ''n=2'' 4 = Some pages" by (rule allE [where x = 4]) simp
  with p(2,3) show ?thesis by (intro exI [of _ pages]) simp
qed

end
