(* ===== verification/Passthrough_Spec.thy ===== *)
theory Passthrough_Spec
  imports Credentials Classic_Spec
begin

text \<open>
  What the passthrough handlers guarantee: they keep both stores content addressed, a manifest is
  authentic whatever upstream and store hold, and so is every blob within the cache limit.
\<close>

section \<open>Invariants of the stores\<close>

lemma keeps_proxied [keeps_rules]:
  "keeps_stores (proxied k s)" "keeps_stores (record_blob_cache_skip reason)" "keeps_stores (count_tag_link_drop reason)"
  by (auto simp: proxied_def record_blob_cache_skip_def count_tag_link_drop_def intro!: keeps_rules)

lemma keeps_drops [keeps_rules]: "keeps_stores (count_tag_link_drops reasons)"
  by (induction reasons; simp only: count_tag_link_drops.simps) (rule keeps_rules | assumption)+

lemma keeps_token_request [keeps_rules]: "keeps_stores (build_token_request E target challenge)"
  by (auto simp: build_token_request_def Let_def split: option.split intro!: keeps_rules)

lemma keeps_fetch_token [keeps_rules]: "keeps_stores (fetch_token E target challenge)"
  by (auto simp: fetch_token_def Let_def split: prod.split intro!: keeps_rules)

lemma keeps_send_upstream [keeps_rules]: "keeps_stores (send_upstream E target m sfx accept)"
  by (auto simp: send_upstream_def Let_def split: prod.split option.split intro!: keeps_rules)

lemma keeps_passthrough_tags [keeps_rules]: "keeps_stores (passthrough_tags E target query head_only)"
  by (auto simp: passthrough_tags_def Let_def split: prod.split option.split intro!: keeps_rules)

context store_reads begin

lemma inv_try: "preserves I m \<Longrightarrow> preserves I (storage_try m)"
  unfolding storage_try_def by (rule preserves_map_err)

lemmas inv_try_ops = inv_ops [THEN inv_try]

lemma inv_find_cached: "preserves I (find_cached_manifest E scope reference head_only accept)"
  unfolding find_cached_manifest_def
  by (auto split: option.split intro!: preserves_bind preserves_basic inv_try_ops)

end

text \<open>The write of an upstream manifest as a whole, the other write that ends in a pointer.\<close>

locale registry_invariant = classic_invariant E I hosts
  for E :: "('s, 'c, 'u) env" and I :: "('s, 'c, 'u) world \<Rightarrow> bool" and hosts :: "string \<Rightarrow> bool" +
  assumes inv_store_manifest: "plain_tag reference \<Longrightarrow> hosts host \<Longrightarrow> media_type \<in> set MANIFEST_MEDIA_TYPES \<Longrightarrow>
    preserves I (store_manifest E \<lparr>ts_proxy_host = host, ts_full_name = full_name\<rparr> reference
      (digest_sha256 (e_sha E) bytes) media_type bytes)"
begin

lemma inv_manifest_answer:
  assumes "plain_tag reference" "hosts proxy_host"
  shows "preserves I (upstream_manifest_answer E proxy_host target reference response declared)"
  unfolding upstream_manifest_answer_def Let_def
  by (auto split: option.split intro!: preserves_bind preserves_basic inv_store_manifest assms manifest_media_type_known
      inv_keeps [OF keeps_proxied(1)])

lemma inv_upstream_manifest:
  assumes "plain_tag reference" "hosts proxy_host"
  shows "preserves I (upstream_manifest E proxy_host target reference head_only accept)"
  unfolding upstream_manifest_def Let_def
  by (auto intro!: preserves_bind preserves_basic inv_manifest_answer assms
      inv_keeps [OF keeps_proxied(1)] inv_keeps [OF keeps_send_upstream])

lemma inv_passthrough_manifest:
  assumes "plain_tag reference" "hosts proxy_host"
  shows "preserves I (passthrough_manifest E proxy_host target reference head_only accept)"
  unfolding passthrough_manifest_def
  by (auto split: option.split sum.split intro!: preserves_bind preserves_basic inv_find_cached
      inv_upstream_manifest assms inv_world inv_keeps [OF keeps_proxied(1)])

lemma inv_blob_answer: "preserves I (upstream_blob_answer E target d head_only response)"
  unfolding upstream_blob_answer_def Let_def
  by (auto split: option.split upstream_blob.split intro!: preserves_bind preserves_basic
      inv_try_ops inv_keeps [OF keeps_proxied(1)] inv_keeps [OF keeps_proxied(2)])

lemma inv_passthrough_blob: "preserves I (passthrough_blob E target digest_str head_only)"
  unfolding passthrough_blob_def upstream_blob_request_def
  by (auto split: option.split intro!: preserves_bind preserves_basic inv_try_ops inv_blob_answer
      inv_world inv_keeps [OF keeps_proxied(1)] inv_keeps [OF keeps_send_upstream])

lemma inv_passthrough_tags: "preserves I (passthrough_tags E target query head_only)"
  by (rule inv_keeps) (rule keeps_rules)

end

sublocale handler_invariant \<subseteq> registry_invariant E I hosts
proof
  fix reference host media_type full_name bytes
  assume "plain_tag reference" "hosts host" "media_type \<in> set MANIFEST_MEDIA_TYPES"
  then show "preserves I (store_manifest E \<lparr>ts_proxy_host = host, ts_full_name = full_name\<rparr> reference
      (digest_sha256 (e_sha E) bytes) media_type bytes)"
    unfolding store_manifest_def
    by (auto simp: pointer_typed_def intro!: preserves_bind preserves_basic inv_try inv_put_blob inv_put_tag)
qed

section \<open>What an upstream response becomes\<close>

lemma builder_header_simps [simp]:
  "bd_failed (builder_header H n v b) \<longleftrightarrow> bd_failed b \<or> \<not> hl_header_ok H v"
  "bd_status (builder_header H n v b) = bd_status b"
  "\<not> bd_failed b \<Longrightarrow> hl_header_ok H v \<Longrightarrow> bd_headers (builder_header H n v b) = bd_headers b @ [(n, v)]"
  by (simp_all add: builder_header_def)

lemma builder_new_simps [simp]:
  "bd_status (builder_new s) = s" "bd_headers (builder_new s) = []" "\<not> bd_failed (builder_new s)"
  by (simp_all add: builder_new_def)

lemma builder_opt_simps [simp]:
  "bd_failed (builder_opt H n v b) \<longleftrightarrow> bd_failed b \<or> (\<exists>x. v = Some x \<and> \<not> hl_header_ok H x)"
  "bd_status (builder_opt H n v b) = bd_status b"
  by (simp_all add: builder_opt_def split: option.split)

lemma builder_opt_headers [simp]:
  "\<not> bd_failed (builder_opt H n v b) \<Longrightarrow>
   bd_headers (builder_opt H n v b) = bd_headers b @ (case v of None \<Rightarrow> [] | Some x \<Rightarrow> [(n, x)])"
  by (simp add: builder_opt_def split: option.splits)

lemma build_response_Inr:
  "build_response b body meter = Inr r \<Longrightarrow>
   \<not> bd_failed b \<and> rs_status r = bd_status b \<and> rs_headers r = bd_headers b \<and> rs_body r = body \<and> rs_meter r = meter"
  by (auto simp: build_response_def split: if_splits)

section \<open>Manifest answers\<close>

text \<open>The proxied media types are the four that are known.\<close>

definition known_manifest_type :: "'m response \<Rightarrow> bool" where
  "known_manifest_type r \<longleftrightarrow> (\<exists>mt\<in>set MANIFEST_MEDIA_TYPES. header_get ''content-type'' (rs_headers r) = Some mt)"

text \<open>A response built here carries manifest bytes under their digest, as the reference asks.\<close>

definition carries_manifest :: "('s, 'c, 'u) env \<Rightarrow> string \<Rightarrow> bool \<Rightarrow> meter response \<Rightarrow> bool" where
  "carries_manifest E reference head_only r \<longleftrightarrow>
     (\<exists>mt data. mt \<in> set MANIFEST_MEDIA_TYPES
        \<and> (\<forall>d. digest_parse reference = Some d \<longrightarrow> d = digest_sha256 (e_sha E) data)
        \<and> r = bytes_response (e_http E) mt (digest_sha256 (e_sha E) data) data head_only)"

lemma cached_manifest_carries:
  assumes "cached_manifest_response E d b head_only declared = Inr r"
    and "\<forall>d'. digest_parse reference = Some d' \<longrightarrow> d' = d"
  shows "carries_manifest E reference head_only r"
  using assms
  by (auto simp: cached_manifest_response_def carries_manifest_def bindE_Inr Let_def
      split: if_splits option.splits dest: manifest_media_type_known inferred_known)

lemma find_cached_carries:
  assumes "find_cached_manifest E scope reference head_only accept w = (Inr (Some (Inr r)), w')"
  shows "carries_manifest E reference head_only r"
  using assms unfolding find_cached_manifest_def
  by (auto elim!: bindA_InrE cached_manifest_carries split: option.split_asm if_split_asm)

lemma manifest_answer_carries:
  assumes "upstream_manifest_answer E proxy_host target reference response declared w = (Inr r, w')"
  shows "carries_manifest E reference False r"
proof -
  from assms obtain data mt where "other_digest reference (digest_sha256 (e_sha E) data) = None"
    "manifest_media_type (e_json_parse E) data declared = Some mt"
    "r = bytes_response (e_http E) mt (digest_sha256 (e_sha E) data) data False"
    unfolding upstream_manifest_answer_def Let_def
    by (auto elim!: bindA_InrE split: option.split_asm if_split_asm)
  then show ?thesis
    by (auto simp: carries_manifest_def other_digest_def dest: manifest_media_type_known split: option.splits if_splits)
qed

lemma manifest_head_Inr:
  assumes "manifest_head_response H reference response (normalized_manifest_media_type ct) = Inr r"
  shows "rs_status r = 200" "rs_body r = []" "known_manifest_type r"
    "header_get ''docker-content-digest'' (rs_headers r) = Some v \<Longrightarrow>
       \<exists>d. digest_parse v = Some d \<and> (\<forall>d'. digest_parse reference = Some d' \<longrightarrow> d' = d)"
proof -
  from assms obtain mt where mt: "normalized_manifest_media_type ct = Some mt"
    by (auto simp: manifest_head_response_def split: option.splits)
  let ?reported = "Option.bind (header_str response ''docker-content-digest'') digest_parse"
  from assms mt have o: "Option.bind ?reported (other_digest reference) = None" and
    r: "build_response (builder_opt H ''etag'' (header_str response ''etag'')
          (builder_opt H ''docker-content-digest'' (map_option as_str ?reported)
            (builder_opt H ''content-length'' (map_option show_u64 (an_content_length response))
              (builder_header H ''docker-distribution-api-version'' ''registry/2.0''
                (builder_header H ''content-type'' mt (builder_new 200)))))) [] None = Inr r"
    by (auto simp: manifest_head_response_def Let_def split: option.split_asm)
  note b = build_response_Inr [OF r]
  have hs: "rs_headers r = [(''content-type'', mt), (''docker-distribution-api-version'', ''registry/2.0'')]
      @ (case an_content_length response of None \<Rightarrow> [] | Some n \<Rightarrow> [(''content-length'', show_u64 n)])
      @ (case ?reported of None \<Rightarrow> [] | Some d \<Rightarrow> [(''docker-content-digest'', as_str d)])
      @ (case header_str response ''etag'' of None \<Rightarrow> [] | Some e \<Rightarrow> [(''etag'', e)])"
    using b by (auto split: option.split)
  show "rs_status r = 200" "rs_body r = []" using b by auto
  show "known_manifest_type r"
    using hs normalized_known [OF mt] by (simp add: known_manifest_type_def header_get_def)
  assume "header_get ''docker-content-digest'' (rs_headers r) = Some v"
  then obtain d where d: "?reported = Some d" "v = as_str d"
    by (auto simp: hs header_get_def split: option.splits)
  then obtain s where "digest_parse s = Some d" by (auto simp: bind_eq_Some_conv)
  then have "digest_parse v = Some d" using d(2) by (simp add: digest_parse_as_str digest_parse_canonical)
  moreover have "\<forall>d'. digest_parse reference = Some d' \<longrightarrow> d' = d"
    using o d(1) by (auto simp: other_digest_def split: option.splits if_splits)
  ultimately show "\<exists>d. digest_parse v = Some d \<and> (\<forall>d'. digest_parse reference = Some d' \<longrightarrow> d' = d)" by blast
qed

definition manifest_answered :: "('s, 'c, 'u) env \<Rightarrow> string \<Rightarrow> bool \<Rightarrow> meter response \<Rightarrow> bool" where
  "manifest_answered E reference head_only r \<longleftrightarrow>
     carries_manifest E reference head_only r \<or>
     head_only \<and> (\<exists>response ct. manifest_head_response (e_http E) reference response
        (normalized_manifest_media_type ct) = Inr r)"

lemma upstream_manifest_answered:
  "upstream_manifest E proxy_host target reference head_only accept w = (Inr r, w') \<Longrightarrow>
   manifest_answered E reference head_only r"
  unfolding upstream_manifest_def Let_def
  by (auto simp: manifest_answered_def elim!: bindA_InrE manifest_answer_carries split: if_split_asm)

lemma passthrough_manifest_answered:
  assumes "passthrough_manifest E proxy_host target reference head_only accept w = (Inr r, w')"
  shows "manifest_answered E reference head_only r"
proof -
  have cached: "manifest_answered E reference head_only r"
    if "find_cached_manifest E scope reference head_only accept w = (Inr (Some (Inr r)), w1)" for scope w1
    using find_cached_carries [OF that] by (simp add: manifest_answered_def)
  from assms show ?thesis
    unfolding passthrough_manifest_def
    by (auto elim!: bindA_InrE upstream_manifest_answered cached split: if_split_asm option.split_asm sum.split_asm)
qed

section \<open>Blob answers\<close>

text \<open>What the HTTP client documents of \<open>content_length\<close>: a body that ends without an error has that
  many bytes.\<close>

definition honest_lengths :: "('s, 'c, 'u) env \<Rightarrow> bool" where
  "honest_lengths E \<longleftrightarrow> (\<forall>sent q a n. e_net E sent q = Inr a \<longrightarrow> an_content_length a = Some n \<longrightarrow>
     list_all is_ok (an_chunks a) \<longrightarrow> length (delivered (an_chunks a)) = unat n)"

definition answered :: "('s, 'c, 'u) env \<Rightarrow> http_answer \<Rightarrow> bool" where
  "answered E a \<longleftrightarrow> (\<exists>sent q. e_net E sent q = Inr a)"

lemma answeredI: "e_net E sent q = Inr a \<Longrightarrow> answered E a"
  by (auto simp: answered_def)

lemma send_loop_answer:
  "send_loop E m url hs client follow kind left w = (Inr (q, a), w') \<Longrightarrow> answered E a"
proof (induction left arbitrary: url hs client w)
  case 0
  then show ?case
    by (subst (asm) send_loop.simps)
       (auto simp: Let_def map_errA_Inr timed_request_eq elim!: bindA_InrE split: if_split_asm dest: answeredI)
next
  case (Suc left)
  from Suc.prems consider (stop) sent req where "e_net E sent req = Inr a"
    | (follow) url' hs' client' w1 where "send_loop E m url' hs' client' follow kind left w1 = (Inr (q, a), w')"
    by (auto simp: send_loop.simps [of _ _ _ _ _ _ _ "Suc left"] Let_def map_errA_Inr timed_request_eq
        elim!: bindA_InrE split: if_split_asm prod.split_asm)
  then show ?case by cases (auto intro: answeredI Suc.IH)
qed

lemma send_upstream_answer:
  assumes "send_upstream E target m sfx accept w = (Inr a, w')"
  shows "answered E a"
proof -
  have "answered E a" if "upstream_send E m url hs client follow kind w = (Inr (q, a), w')"
    for m url hs client follow kind w q a w'
    using that by (auto simp: upstream_send_def elim!: bindA_InrE dest: send_loop_answer)
  with assms show ?thesis
    unfolding send_upstream_def Let_def
    by (auto elim!: bindA_InrE split: if_split_asm option.split_asm)
qed

lemma read_blob_chunks_over:
  "read_blob_chunks buffered max_bytes data = Inr (Oversized pre rest) \<Longrightarrow> length buffered \<le> unat max_bytes \<Longrightarrow>
   unat max_bytes < length (pre @ delivered rest)"
proof (induction buffered max_bytes data rule: read_blob_chunks.induct)
  case (3 buffered max_bytes chunk data)
  have "unat (of_nat (length buffered) :: u64) = length buffered"
    using 3(3) unat_u64_less [of max_bytes] by (intro unat_of_length) linarith
  then have room: "unat (saturating_sub max_bytes (of_nat (length buffered))) = unat max_bytes - length buffered"
    by (simp add: unat_saturating_sub)
  show ?case
  proof (cases "unat max_bytes - length buffered < length chunk")
    case True
    with 3(2) room have "pre = buffered @ take (unat max_bytes - length buffered) chunk"
      "rest = Inr (drop (unat max_bytes - length buffered) chunk) # data"
      by (simp_all add: Let_def)
    with True 3(3) show ?thesis by simp
  next
    case False
    with 3 room show ?thesis by (simp add: Let_def)
  qed
qed auto

text \<open>A delivered body within the limit hashes to the digest.\<close>

definition verified_blob :: "('s, 'c, 'u) env \<Rightarrow> digest \<Rightarrow> (string + bytes) list \<Rightarrow> bool" where
  "verified_blob E d body \<longleftrightarrow>
     (list_all is_ok body \<longrightarrow> length (delivered body) \<le> unat (st_max_chart_bytes (e_settings E)) \<longrightarrow>
      digest_sha256 (e_sha E) (delivered body) = d)"

lemma unverified_blob_Inr:
  assumes "unverified_blob_response H d ct response body meter = Inr r"
  shows "rs_status r = 200 \<and> names_digest d r \<and> rs_body r = body"
  using build_response_Inr [OF assms [unfolded unverified_blob_response_def Let_def]]
  by (auto simp: names_digest_def header_get_def split: option.split)

lemma map_errE_chunks [simp]:
  "list_all is_ok (map (map_errE f) cs) = list_all is_ok cs" "delivered (map (map_errE f) cs) = delivered cs"
proof -
  have "is_ok (map_errE f c) = is_ok c" for c by (cases c) simp_all
  then show "list_all is_ok (map (map_errE f) cs) = list_all is_ok cs" by (simp add: list_all_iff)
  show "delivered (map (map_errE f) cs) = delivered cs" by (induction cs rule: delivered.induct) simp_all
qed

definition blob_served :: "('s, 'c, 'u) env \<Rightarrow> digest \<Rightarrow> meter response \<Rightarrow> bool" where
  "blob_served E d r \<longleftrightarrow> r = error_response (e_http E) invalid_content_type \<or>
     rs_status r = 200 \<and> names_digest d r \<and> verified_blob E d (rs_body r)"

lemma cached_blob_served:
  assumes "cached_blob_response (e_http E) (e_sha E) d b False = Some r"
  shows "blob_served E d r"
proof (cases "MAX_BUFFERED_CACHED_BLOB_BYTES < bm_size (bl_meta b)")
  case True
  let ?cs = "verify_stream (e_sha E) (as_str d) [] None (bl_data b)"
  have v: "digest_sha256 (e_sha E) (delivered ?cs) = d" if "list_all is_ok ?cs"
    using verify_stream_ok [OF that] verify_stream_complete [of "bl_data b" "e_sha E" "[]" "as_str d" None]
    by (cases d; simp add: digest_sha256_def)
  from assms True obtain ct es r0 where "blob_response (e_http E) ct d (verified_cached_blob (e_sha E) d b) False
      ProxyOci PersistentCache = r0" "r = when_broken es r0"
    by (auto simp: cached_blob_response_def Let_def)
  from blob_response_cases [OF this(1)] v this(2) show ?thesis
    by (auto simp: blob_served_def verified_blob_def verified_cached_blob_def names_digest_def)
next
  case False
  with assms obtain ct data where "digest_sha256 (e_sha E) data = d"
    "blob_bytes_response (e_http E) ct d data False ProxyOci PersistentCache = r"
    by (auto simp: cached_blob_response_def Let_def bind_eq_Some_conv split: if_splits)
  from this(1) blob_bytes_response_cases [OF this(2)] show ?thesis
    by (auto simp: blob_served_def verified_blob_def)
qed

lemma upstream_blob_served:
  assumes lengths: "honest_lengths E" and a: "answered E response" and st: "ot_store target"
    and run: "upstream_blob_answer E target d False response w = (Inr r, w')"
  shows "blob_served E d r"
proof -
  let ?limit = "st_max_chart_bytes (e_settings E)"
  have over: "blob_served E d r" if "unverified_blob_response (e_http E) d ct response body meter = Inr r"
    and "list_all is_ok body \<Longrightarrow> unat ?limit < length (delivered body)" for ct body meter
    using unverified_blob_Inr [OF that(1)] that(2) by (auto simp: blob_served_def verified_blob_def)
  consider (advertised) n ct meter where "an_content_length response = Some n" "?limit < n"
      "unverified_blob_response (e_http E) d ct response (an_chunks response) meter = Inr r"
    | (buffered) ct data where "digest_sha256 (e_sha E) data = d"
      "r = blob_bytes_response (e_http E) ct d data False ProxyOci FromUpstream"
    | (oversized) pre rest ct meter where "read_upstream_blob response ?limit = Inr (Oversized pre rest)"
      "unverified_blob_response (e_http E) d ct response (Inr pre # rest) meter = Inr r"
    using run st unfolding upstream_blob_answer_def Let_def
    by (auto elim!: bindA_InrE split: if_split_asm option.split_asm upstream_blob.split_asm)
  then show ?thesis
  proof cases
    case advertised
    from lengths a advertised(1) have "list_all is_ok (an_chunks response) \<Longrightarrow>
        length (delivered (an_chunks response)) = unat n"
      unfolding honest_lengths_def answered_def by blast
    with over [OF advertised(3)] advertised(2) show ?thesis by (simp add: word_less_nat_alt)
  next
    case buffered
    with blob_bytes_response_cases [OF refl, of "e_http E" ct d data False ProxyOci FromUpstream]
    show ?thesis by (auto simp: blob_served_def verified_blob_def)
  next
    case oversized
    from read_blob_chunks_over [OF oversized(1) [unfolded read_upstream_blob_def]]
    have "unat ?limit < length (delivered (Inr pre # rest))" by simp
    with over [OF oversized(2)] show ?thesis by blast
  qed
qed

lemma passthrough_blob_served:
  assumes "honest_lengths E" and "ot_store target"
    and "passthrough_blob E target digest_str False w = (Inr r, w')"
  obtains d where "digest_parse digest_str = Some d" "blob_served E d r"
proof -
  from assms(3) obtain d where d: "digest_parse digest_str = Some d"
    by (auto simp: passthrough_blob_def split: option.split_asm)
  have up: "blob_served E d r" if "upstream_blob_request E target d False v = (Inr r, w')" for v
    using that unfolding upstream_blob_request_def
    by (auto elim!: bindA_InrE split: if_split_asm dest: send_upstream_answer
        intro: upstream_blob_served [OF assms(1) _ assms(2)])
  from assms(3) have "blob_served E d r"
    by (auto simp: passthrough_blob_def d assms(2) elim!: bindA_InrE split: option.split_asm
        dest: up simp: bind_eq_Some_conv cached_blob_served)
  with d show thesis by (rule that)
qed

section \<open>Properties\<close>

text \<open>C10. Whatever the upstream and the store hold, a proxied manifest is authentic: its type is one of
  the four the proxy knows; a body is exactly the bytes whose SHA-256 and length the response
  names, and for a request by digest that is the digest requested; a bodiless answer to HEAD
  names no digest that is malformed or other than the one requested.\<close>
theorem passthrough_manifest_authentic:
  assumes "passthrough_manifest E proxy_host target reference head_only accept w = (Inr r, w')"
  shows "r = error_response (e_http E) invalid_content_type \<or>
    rs_status r = 200 \<and> known_manifest_type r \<and>
    ((\<exists>data. let d = digest_sha256 (e_sha E) data in
        rs_body r = (if head_only then [] else [Inr data])
        \<and> header_get ''docker-content-digest'' (rs_headers r) = Some (as_str d)
        \<and> header_get ''content-length'' (rs_headers r) = Some (show_u64 (of_nat (length data)))
        \<and> (\<forall>d'. digest_parse reference = Some d' \<longrightarrow> d' = d)) \<or>
     head_only \<and> rs_body r = [] \<and>
       (\<forall>v. header_get ''docker-content-digest'' (rs_headers r) = Some v \<longrightarrow>
         (\<exists>d. digest_parse v = Some d \<and> (\<forall>d'. digest_parse reference = Some d' \<longrightarrow> d' = d))))"
proof -
  from passthrough_manifest_answered [OF assms] consider
    (body) mt data where "mt \<in> set MANIFEST_MEDIA_TYPES"
      "\<forall>d. digest_parse reference = Some d \<longrightarrow> d = digest_sha256 (e_sha E) data"
      "r = bytes_response (e_http E) mt (digest_sha256 (e_sha E) data) data head_only"
    | (head) response ct where "head_only"
      "manifest_head_response (e_http E) reference response (normalized_manifest_media_type ct) = Inr r"
    by (auto simp: manifest_answered_def carries_manifest_def)
  then show ?thesis
  proof cases
    case body
    from bytes_response_cases [OF body(3) [symmetric]] body(1,2) show ?thesis
      by (auto simp: Let_def names_digest_def known_manifest_type_def)
  next
    case head
    from manifest_head_Inr [OF head(2)] head(1) show ?thesis by blast
  qed
qed

text \<open>A stored manifest and the environment that reads it, for the witnesses.\<close>

definition sample_oci_env :: "(string \<Rightarrow> bytes option, string \<Rightarrow> entry option, sample_url) env" where
  "sample_oci_env = (sample_env silent_net)\<lparr>e_json_parse := (\<lambda>_. Some (JObj
     [(''schemaVersion'', JNum ''2''), (''mediaType'', JStr OCI_INDEX_MEDIA_TYPE)]))\<rparr>"

lemma sample_oci_env_simps [simp]:
  "e_http sample_oci_env = sample_http" "e_sha sample_oci_env = sample_sha" "e_net sample_oci_env = silent_net"
  "st_max_chart_bytes (e_settings sample_oci_env) = 10"
  by (simp_all add: sample_oci_env_def sample_env_def sample_config_def sample_settings_def)

lemma sample_stored:
  "\<exists>b w'. so_get_blob (storage_of sample_oci_env) sample_digest (holding ''hi'') = (Inr (Some b), w')
     \<and> bl_meta b = \<lparr>bm_size = 2, bm_content_type = None\<rparr> \<and> bl_data b = [Inr ''hi'']"
  using path_raw_blob_key [OF canonical_sample_digest]
  by (simp add: storage_of_def lift_ops_def on_part_def objstore_ops_def sample_oci_env_def sample_env_def
      holding_def sample_world_def objstore_get_blob_def memory_store_def os_path_def bindA_def catchA_def map_errA_def)

lemma sample_read: "unat limit \<ge> 2 \<Longrightarrow> bl_meta b = \<lparr>bm_size = 2, bm_content_type = None\<rparr> \<Longrightarrow> bl_data b = [Inr ''hi''] \<Longrightarrow>
   read_cached_blob b limit = Inr ''hi''"
  by (simp add: read_cached_blob_def read_bounded_iff word_le_nat_alt)

lemma sample_digest_parse: "digest_parse (as_str sample_digest) = Some sample_digest"
  by (rule digest_parse_as_str [OF canonical_sample_digest])

lemma sample_manifest_run:
  "\<exists>w'. passthrough_manifest sample_oci_env ''p'' sample_target (as_str sample_digest) False None (holding ''hi'')
     = (Inr (bytes_response sample_http OCI_INDEX_MEDIA_TYPE sample_digest ''hi'' False), w')"
proof -
  obtain b w1 where b: "so_get_blob (storage_of sample_oci_env) sample_digest (holding ''hi'') = (Inr (Some b), w1)"
    and m: "bl_meta b = \<lparr>bm_size = 2, bm_content_type = None\<rparr>" "bl_data b = [Inr ''hi'']"
    using sample_stored by blast
  have "normalized_manifest_media_type OCI_INDEX_MEDIA_TYPE = Some OCI_INDEX_MEDIA_TYPE"
    by (rule known_fixed) (simp add: MANIFEST_MEDIA_TYPES_def)
  then have "manifest_media_type (e_json_parse sample_oci_env) ''hi'' None = Some OCI_INDEX_MEDIA_TYPE"
    by (simp add: manifest_media_type_def sample_oci_env_def schema_version_2_def parse_unsigned_def
        is_ascii_digit_def byte_of_def u64_max_def)
  then have "cached_manifest_response sample_oci_env sample_digest b False None
      = Inr (bytes_response sample_http OCI_INDEX_MEDIA_TYPE sample_digest ''hi'' False)"
    using sample_read [OF _ m, of MAX_MANIFEST_BYTES]
    by (simp add: cached_manifest_response_def m MAX_MANIFEST_BYTES_def sample_digest_def Let_def)
  then show ?thesis
    by (simp add: passthrough_manifest_def find_cached_manifest_def sample_digest_parse storage_try_def map_errA_def
        bindA_def b sample_target_def count_event_def proxied_def record_event_def)
qed

theorem passthrough_manifest_authentic_witness:
  "\<exists>r w'. passthrough_manifest sample_oci_env ''p'' sample_target (as_str sample_digest) False None (holding ''hi'')
       = (Inr r, w') \<and> rs_body r = [Inr ''hi''] \<and> rs_status r = 200 \<and> known_manifest_type r"
proof -
  obtain w' where run: "passthrough_manifest sample_oci_env ''p'' sample_target (as_str sample_digest) False None
      (holding ''hi'') = (Inr (bytes_response sample_http OCI_INDEX_MEDIA_TYPE sample_digest ''hi'' False), w')"
    using sample_manifest_run by blast
  have body: "rs_body (bytes_response sample_http OCI_INDEX_MEDIA_TYPE sample_digest ''hi'' False) = [Inr ''hi'']"
    by (simp add: bytes_response_def respond_base_def finish_def builder_header_def builder_new_def sample_http_def)
  have "rs_body (error_response sample_http invalid_content_type) \<noteq> [Inr ''hi'']"
    by (simp add: error_response_def text_response_def sample_http_def invalid_content_type_def)
  with passthrough_manifest_authentic [OF run] run body show ?thesis by auto
qed

text \<open>C9. A blob of an alias with write-through that reaches the client whole and is within the
  configured limit has exactly the digest the client asked for, whether it came from the store,
  corrupt or not, or from any upstream; only larger bodies are passed on unverified.\<close>
theorem passthrough_blob_verified:
  assumes "honest_lengths E" and "ot_store target"
    and "passthrough_blob E target digest_str False w = (Inr r, w')"
  shows "r = error_response (e_http E) invalid_content_type \<or>
    rs_status r = 200 \<and> header_get ''docker-content-digest'' (rs_headers r) = Some digest_str \<and>
    (list_all is_ok (rs_body r) \<longrightarrow> length (delivered (rs_body r)) \<le> unat (st_max_chart_bytes (e_settings E)) \<longrightarrow>
       digest_parse digest_str = Some (digest_sha256 (e_sha E) (delivered (rs_body r))))"
proof -
  from passthrough_blob_served [OF assms] obtain d where "digest_parse digest_str = Some d" "blob_served E d r" .
  then show ?thesis
    by (auto simp: blob_served_def verified_blob_def names_digest_def dest: digest_parseD)
qed

theorem passthrough_blob_verified_witness:
  "\<exists>r w'. passthrough_blob sample_oci_env sample_target (as_str sample_digest) False (holding ''hi'') = (Inr r, w')
     \<and> rs_body r = [Inr ''hi''] \<and> Some (digest_sha256 sample_sha ''hi'') = digest_parse (as_str sample_digest)"
proof -
  obtain b w1 where b: "so_get_blob (storage_of sample_oci_env) sample_digest (holding ''hi'') = (Inr (Some b), w1)"
    and m: "bl_meta b = \<lparr>bm_size = 2, bm_content_type = None\<rparr>" "bl_data b = [Inr ''hi'']"
    using sample_stored by blast
  let ?r = "blob_bytes_response sample_http OCTET_STREAM_MEDIA_TYPE sample_digest ''hi'' False ProxyOci PersistentCache"
  have "cached_blob_response sample_http sample_sha sample_digest b False = Some ?r"
    using sample_read [OF _ m, of MAX_BUFFERED_CACHED_BLOB_BYTES]
    by (simp add: cached_blob_response_def m MAX_BUFFERED_CACHED_BLOB_BYTES_def sample_digest_def Let_def word_less_nat_alt)
  then obtain w' where run: "passthrough_blob sample_oci_env sample_target (as_str sample_digest) False (holding ''hi'')
      = (Inr ?r, w')"
    by (simp add: passthrough_blob_def sample_digest_parse storage_try_def map_errA_def bindA_def b
        sample_target_def count_event_def proxied_def record_event_def)
  have body: "rs_body ?r = [Inr ''hi'']"
    by (simp add: blob_bytes_response_def respond_base_def finish_def builder_header_def builder_new_def sample_http_def)
  have "rs_body (error_response sample_http invalid_content_type) \<noteq> [Inr ''hi'']"
    by (simp add: error_response_def text_response_def sample_http_def invalid_content_type_def)
  moreover have "honest_lengths sample_oci_env" "ot_store sample_target"
    by (simp_all add: honest_lengths_def silent_net_def sample_target_def)
  ultimately have "Some (digest_sha256 sample_sha ''hi'') = digest_parse (as_str sample_digest)"
    using passthrough_blob_verified [OF _ _ run] body by auto
  with run body show ?thesis by blast
qed

end
