(* ===== verification/Server.thy ===== *)
theory Server
  imports Routes Passthrough_Spec
begin

text \<open>
  What the server as a whole guarantees: the proxy host of a request is a canonical authority that
  cannot collide with another in the key space, every reachable state keeps both stores content
  addressed, and every request is answered with a status of a closed set.
\<close>

section \<open>The proxy host\<close>

definition is_authority_byte :: "char \<Rightarrow> bool" where
  "is_authority_byte c \<longleftrightarrow> is_ascii_alphanumeric c \<or> c \<in> {CHR ''-'', CHR ''.'', CHR '':'', CHR ''['', CHR '']''}"

lemma authority_bytes:
  "is_addr_byte c \<Longrightarrow> is_authority_byte c" "is_dns_host_byte c \<Longrightarrow> is_authority_byte c"
  "is_ascii_digit c \<Longrightarrow> is_authority_byte c"
  by (auto simp: is_authority_byte_def is_addr_byte_def is_dns_host_byte_def is_ascii_alphanumeric_def
      is_ascii_hexdigit_def is_ascii_alphabetic_def is_ascii_upper_def is_ascii_lower_def is_ascii_digit_def)

lemma authority_no_slash: "list_all is_authority_byte s \<Longrightarrow> CHR ''/'' \<notin> set s"
  by (auto simp: list_all_iff is_authority_byte_def byte_class_defs)

lemma parse_ipv4_bytes: "parse_ipv4 s = Some os \<Longrightarrow> list_all is_addr_byte s"
  using eats_read_octets [of 4 0]
  by (fastforce simp: parse_ipv4_def read_ipv4_addr_def eats_addr_def split: if_splits option.splits list.splits)

lemma dns_name_bytes:
  assumes "is_dns_name host"
  shows "list_all is_authority_byte host"
proof -
  have "set host \<subseteq> set ''.'' \<union> (\<Union>p\<in>set (split_on (CHR ''.'') host). set p)"
    using set_join [of "''.''" "split_on (CHR ''.'') host"] by simp
  moreover have "is_authority_byte c" if "p \<in> set (split_on (CHR ''.'') host)" "c \<in> set p" for p c
    using assms that by (auto simp: list_all_iff is_dns_name_def is_dns_host_label_def intro: authority_bytes)
  ultimately show ?thesis by (auto simp: list_all_iff is_authority_byte_def)
qed

lemma valid_port_bytes: "is_valid_port port \<Longrightarrow> list_all is_authority_byte port"
  by (auto simp: is_valid_port_def list_all_iff intro: authority_bytes)

lemma split_host_port_cases:
  assumes "split_host_port value = Some (host, port, bracketed)"
  shows "value = (if bracketed then ''['' @ host @ '']'' else host) @ (case port of None \<Rightarrow> [] | Some p \<Rightarrow> '':'' @ p)"
  using assms
  by (auto simp: split_host_port_def strip_prefix_Some split_once_Some split: option.splits if_splits)

lemma normalize_proxy_host_Some:
  assumes "normalize_proxy_host value = Some h"
  shows "h = to_ascii_lowercase value" "value \<noteq> []" "length value \<le> 259" "list_all is_authority_byte h"
proof -
  from assms obtain host port bracketed where n: "value \<noteq> []" "length value \<le> 259" "h = to_ascii_lowercase value"
    and s: "split_host_port h = Some (host, port, bracketed)"
    and host: "if bracketed then parse_ipv6 host \<noteq> None else parse_ipv4 host \<noteq> None \<or> is_dns_name host"
    and port: "case port of None \<Rightarrow> True | Some p \<Rightarrow> is_valid_port p"
    by (auto simp: normalize_proxy_host_def MAX_PROXY_HOST_LEN_def Let_def split: if_splits option.splits prod.splits)
  show "h = to_ascii_lowercase value" "value \<noteq> []" "length value \<le> 259" using n by simp_all
  have "list_all is_authority_byte host"
    using host dns_name_bytes parse_ipv4_bytes parse_ipv6_bytes authority_bytes(1)
    by (fastforce simp: list_all_iff split: if_splits)
  moreover have "list_all is_authority_byte (case port of None \<Rightarrow> [] | Some p \<Rightarrow> '':'' @ p)"
    using port valid_port_bytes by (auto simp: is_authority_byte_def split: option.splits)
  ultimately show "list_all is_authority_byte h"
    by (subst split_host_port_cases [OF s]) (simp add: is_authority_byte_def)
qed

lemma normalize_proxy_host_lower:
  assumes "to_ascii_lowercase value = to_ascii_lowercase value'"
  shows "normalize_proxy_host value = normalize_proxy_host value'"
proof -
  have "length value = length value'" using assms by (metis length_to_ascii_lowercase)
  moreover from this have "value = [] \<longleftrightarrow> value' = []" by (metis length_0_conv)
  ultimately show ?thesis using assms by (simp add: normalize_proxy_host_def)
qed

lemma proxy_host_from_Some:
  assumes "proxy_host_from req = Some h"
  obtains v where "normalize_proxy_host v = Some h"
  using assms by (auto simp: proxy_host_from_def bind_eq_Some_conv split: option.splits)

text \<open>The reference of a manifest route can be part of a key.\<close>

lemma route_reference:
  assumes "parse_oci_path decode p = Manifest name r"
  shows "plain_tag r"
proof -
  have "is_valid_manifest_reference r"
    if "parse_oci_rest s = Manifest name r" for s
    using that by (auto simp: parse_oci_rest_def manifest_route_def blob_route_def tags_route_def Let_def
        split: option.splits if_splits)
  with assms have "is_valid_manifest_reference r"
    by (auto simp: parse_oci_path_def split: option.splits if_splits)
  then show ?thesis
    using valid_reference_no_slash valid_reference_length by (fastforce simp: plain_tag_def)
qed

section \<open>The running server\<close>

text \<open>Between requests time passes, cache entries expire and objects may be deleted from the bucket. The
  body of a response is produced later, item by item: \<open>Polled k\<close> is the next item of the body of the
  response that is entry \<open>k\<close> of the trace.\<close>

datatype event = Served server_request "meter response" | Background | Polled nat

definition next_item :: "event list \<Rightarrow> nat \<Rightarrow> (meter response \<times> nat) option" where
  "next_item tr k =
     (if k < length tr then
        (case tr ! k of
           Served req r \<Rightarrow>
             let i = count_list tr (Polled k) in
             if i < length (rs_body r) \<and> list_all is_ok (take i (rs_body r)) then Some (r, i) else None
         | _ \<Rightarrow> None)
      else None)"

definition poll_item :: "meter response \<Rightarrow> nat \<Rightarrow> ('s, 'c, 'u) world \<Rightarrow> ('s, 'c, 'u) world" where
  "poll_item r i w = w\<lparr>w_metrics := w_metrics w @ item_events (rs_meter r) (rs_body r ! i)\<rparr>"

lemma next_item_Some:
  assumes "next_item tr k = Some (r, i)"
  obtains req where "k < length tr" "tr ! k = Served req r" "i = count_list tr (Polled k)" "i < length (rs_body r)"
    "list_all is_ok (take i (rs_body r))"
  using assms by (auto simp: next_item_def Let_def split: if_splits event.splits)

inductive server_step ::
  "('s, 'c, 'u) env \<Rightarrow> pages \<Rightarrow> ('s \<Rightarrow> string \<Rightarrow> bytes option) \<Rightarrow> ('c \<Rightarrow> string \<Rightarrow> entry option) \<Rightarrow>
   ('s, 'c, 'u) world \<Rightarrow> event \<Rightarrow> ('s, 'c, 'u) world \<Rightarrow> bool"
  for E P contents entries
where
  serve: "build_router E P req w = (r, w') \<Longrightarrow> server_step E P contents entries w (Served req r) w'"
| tick: "w_now w \<le> t \<Longrightarrow> server_step E P contents entries w Background (w\<lparr>w_now := t\<rparr>)"
| expire: "entries c \<subseteq>\<^sub>m entries (w_ephemeral w) \<Longrightarrow>
    server_step E P contents entries w Background (w\<lparr>w_ephemeral := c\<rparr>)"
| lose: "contents s \<subseteq>\<^sub>m contents (w_store w) \<Longrightarrow>
    server_step E P contents entries w Background (w\<lparr>w_store := s\<rparr>)"

inductive_cases servedE: "server_step E P contents entries w (Served req r) w'"
inductive_cases backgroundE: "server_step E P contents entries w Background w'"
inductive_simps served_iff: "server_step E P contents entries w (Served req r) w'"

inductive server_runs ::
  "('s, 'c, 'u) env \<Rightarrow> pages \<Rightarrow> ('s \<Rightarrow> string \<Rightarrow> bytes option) \<Rightarrow> ('c \<Rightarrow> string \<Rightarrow> entry option) \<Rightarrow>
   ('s, 'c, 'u) world \<Rightarrow> event list \<Rightarrow> ('s, 'c, 'u) world \<Rightarrow> bool"
  for E P contents entries
where
  start: "server_runs E P contents entries w [] w"
| step: "server_runs E P contents entries w tr w1 \<Longrightarrow> server_step E P contents entries w1 ev w2 \<Longrightarrow>
    server_runs E P contents entries w (tr @ [ev]) w2"
| poll: "server_runs E P contents entries w tr w1 \<Longrightarrow> next_item tr k = Some (r, i) \<Longrightarrow>
    server_runs E P contents entries w (tr @ [Polled k]) (poll_item r i w1)"

section \<open>Invariants of the server\<close>

text \<open>An invariant of the handlers that allows the proxy host of every request holds after any request.\<close>

locale server_invariant = registry_invariant E I hosts
  for E :: "('s, 'c, 'u) env" and I :: "('s, 'c, 'u) world \<Rightarrow> bool" and hosts :: "string \<Rightarrow> bool" +
  assumes hosts_of_requests: "proxy_host_from req = Some h \<Longrightarrow> hosts h"
begin

lemma inv_route_entry:
  assumes "\<And>name r. route = Manifest name r \<Longrightarrow> plain_tag r" "hosts proxy_host"
  shows "preserves I (route_entry E proxy_host req head_only route)"
  using assms
  by (cases route)
     (auto simp: manifest_entry_def blob_entry_def tags_entry_def split: option.split resolved.split
       intro!: preserves_basic inv_classic_manifest inv_passthrough_manifest inv_classic_blob
         inv_passthrough_blob inv_classic_tags inv_passthrough_tags)

lemma inv_oci_dispatch:
  assumes "I w"
  shows "I (snd (oci_dispatch E req w))"
proof (cases "proxy_host_from req")
  case (Some host)
  then have "hosts host" by (rule hosts_of_requests)
  then have "I (snd (into_response E (route_entry E host req head_only (parse_oci_path (e_decode E) path)) w))"
    for head_only path
    using assms preservesD [OF inv_route_entry [OF route_reference]]
    by (fastforce simp: into_response_def split: prod.split sum.split)
  with assms Some show ?thesis by (simp add: oci_dispatch_def split: option.split)
qed (simp add: oci_dispatch_def assms split: option.split)

lemma inv_build_router:
  assumes "I w"
  shows "I (snd (build_router E P req w))"
proof -
  have "I (snd (routes E P req w))"
    using assms inv_oci_dispatch by (simp add: routes_def)
  then have "I (snd (require_pull_auth H b64 auth path hs (routes E P req) w))" for H b64 auth path hs
    using assms by (simp add: require_pull_auth_def)
  then show ?thesis
    by (simp add: build_router_def split: prod.split) (metis snd_conv)
qed

end

text \<open>If it also survives the loss of stored data, it holds in every reachable state.\<close>

locale lossy_invariant = server_invariant E I hosts
  for E :: "('s, 'c, 'u) env" and I :: "('s, 'c, 'u) world \<Rightarrow> bool" and hosts :: "string \<Rightarrow> bool" +
  fixes contents :: "'s \<Rightarrow> string \<Rightarrow> bytes option" and entries :: "'c \<Rightarrow> string \<Rightarrow> entry option"
  assumes inv_shrink: "I w \<Longrightarrow> contents (w_store w') \<subseteq>\<^sub>m contents (w_store w) \<Longrightarrow>
      entries (w_ephemeral w') \<subseteq>\<^sub>m entries (w_ephemeral w) \<Longrightarrow> I w'"
begin

lemma inv_step:
  assumes "server_step E P contents entries w ev w'" "I w"
  shows "I w'"
  using assms(1)
proof cases
  case (serve req r)
  with inv_build_router [OF assms(2), of P req] show ?thesis by simp
qed (auto intro: inv_shrink [OF assms(2)])

lemma inv_runs: "server_runs E P contents entries w tr w' \<Longrightarrow> I w \<Longrightarrow> I w'"
proof (induction rule: server_runs.induct)
  case (poll w tr w1 k r i)
  from inv_shrink [OF poll.IH [OF poll.prems], of "poll_item r i w1"] show ?case by (simp add: poll_item_def)
qed (auto intro: inv_step)

end

lemma content_addressed_shrink:
  assumes "content_addressed sha B contents entries w"
    and "contents (w_store w') \<subseteq>\<^sub>m contents (w_store w)" "entries (w_ephemeral w') \<subseteq>\<^sub>m entries (w_ephemeral w)"
  shows "content_addressed sha B contents entries w'"
proof -
  have keep: "contents (w_store w') k = Some x \<Longrightarrow> contents (w_store w) k = Some x"
    "entries (w_ephemeral w') k = Some e \<Longrightarrow> entries (w_ephemeral w) k = Some e" for k x e
    using assms(2,3) unfolding map_le_def by (metis domI)+
  have "object_blobs B contents (w_store w') d = Some x \<Longrightarrow> object_blobs B contents (w_store w) d = Some x"
    "entry_blobs entries (w_ephemeral w') d = Some x \<Longrightarrow> entry_blobs entries (w_ephemeral w) d = Some x" for d x
    using keep by (auto simp: object_blobs_def entry_blobs_def split: sum.splits)
  with assms(1) show ?thesis unfolding content_addressed_def by blast
qed

interpretation ca: lossy_invariant "deploy B C J E" "be.safe B C J E contents entries" "\<lambda>_. True" contents entries
  for B :: "'s object_store" and C :: "'c cache_ops" and J and E :: "('s, 'c, 'u) env" and contents entries
  by unfold_locales (auto simp: safe_iff intro: content_addressed_shrink)

lemma runs_content_addressed:
  assumes "deployed_laws B contents C entries J E"
    and "server_runs (deploy B C J E) P contents entries w0 tr w" "content_addressed (e_sha E) B contents entries w0"
  shows "content_addressed (e_sha E) B contents entries w"
  using ca.inv_runs [OF assms(2)] assms(1,3) by (simp add: safe_iff)

text \<open>Where a response of a run was served.\<close>

lemma runs_served:
  "server_runs E P contents entries w0 tr w \<Longrightarrow> Served req r \<in> set tr \<Longrightarrow>
   \<exists>tr' v v'. server_runs E P contents entries w0 tr' v \<and> build_router E P req v = (r, v')"
  by (induction rule: server_runs.induct) (auto simp: served_iff, blast+)

section \<open>What is answered\<close>

lemma error_not_success: "rs_status (error_response H e) \<noteq> 200"
  using error_status [of e] by auto

lemma router_registry:
  assumes "build_router E P req w = (r, w')" "starts_with ''/v2/'' (sr_path req)" "rs_status r = 200"
    and "sr_method req = GET"
  obtains host w1 where "proxy_host_from req = Some host"
    "route_entry E host req False (parse_oci_path (e_decode E) (sr_path req)) w = (Inr r, w1)"
proof -
  have path: "sr_path req \<noteq> ''/''" "sr_path req \<noteq> ''/healthz''" "sr_path req \<noteq> ''/metrics''"
    using assms(2) by (auto simp: starts_with_iff)
  from assms(1,3) obtain w1 where "routes E P req w = (r, w1)"
    by (auto simp: build_router_def require_pull_auth_def unauthorized_def Let_def split: prod.split_asm if_split_asm)
  then have d: "oci_dispatch E req w = (r, w1)" using path by (simp add: routes_def)
  with assms(2-4) error_not_success obtain host where host: "proxy_host_from req = Some host"
    "into_response E (route_entry E host req False (parse_oci_path (e_decode E) (sr_path req))) w = (r, w1)"
    by (auto simp: oci_dispatch_def split: option.split_asm)
  then have "route_entry E host req False (parse_oci_path (e_decode E) (sr_path req)) w = (Inr r, w1)"
    using assms(3) error_not_success by (auto simp: into_response_def split: prod.split_asm sum.split_asm)
  with host(1) show thesis by (rule that)
qed

text \<open>An authenticated GET of a registry path is answered by its route.\<close>

lemma router_answers:
  assumes "route_entry E host req False (parse_oci_path (e_decode E) (sr_path req)) w = (Inr r, w1)" "rs_status r = 200"
    and req: "sr_method req = GET" "starts_with ''/v2/'' (sr_path req)" "proxy_host_from req = Some host"
    and auth: "token_accepted (ac_tokens (st_auth (e_settings E)))
      (presented_token (e_b64 E) (map snd (filter (\<lambda>(n, v). n = ''authorization'') (sr_headers req))))"
  shows "\<exists>v. build_router E P req w = (r, v) \<and> w_store v = w_store w1"
proof -
  have "oci_dispatch E req w = (r, w1)"
    using assms(1) req by (simp add: oci_dispatch_def into_response_def)
  then have "routes E P req w = (r, w1)"
    using req(2) by (auto simp: routes_def starts_with_iff)
  with auth have "require_pull_auth H (e_b64 E) (st_auth (e_settings E)) path
      (map snd (filter (\<lambda>(n, v). n = ''authorization'') (sr_headers req))) (routes E P req) w = (r, w1)" for H path
    by (simp add: require_pull_auth_def)
  then show ?thesis
    using assms(2) by (simp add: build_router_def panicked_def)
qed

text \<open>Which blobs are verified: those of a classic chart, and those of an alias with write-through up to
  the limit.\<close>

definition verified_within :: "('s, 'c, 'u) env \<Rightarrow> string \<Rightarrow> nat \<Rightarrow> bool" where
  "verified_within E name n \<longleftrightarrow>
     (case resolve_in E name of
        Some (ResOci target) \<Rightarrow> ot_store target \<and> n \<le> unat (st_max_chart_bytes (e_settings E))
      | _ \<Rightarrow> True)"

lemma manifest_entry_authentic:
  assumes "manifest_entry E host name reference False accept w = (Inr r, w')" "rs_status r = 200"
    and "digest_parse reference = Some d"
  shows "digest_sha256 (e_sha E) (delivered (rs_body r)) = d"
proof -
  from assms(1) obtain target where
    "classic_manifest E host target reference False w = (Inr r, w') \<or>
     (\<exists>target. passthrough_manifest E host target reference False accept w = (Inr r, w'))"
    by (auto simp: manifest_entry_def split: option.split_asm resolved.split_asm)
  then show ?thesis
  proof (elim disjE exE)
    assume "classic_manifest E host target reference False w = (Inr r, w')"
    from classic_manifest_answer [OF this] assms(2,3) error_not_success show ?thesis
      by (auto simp: manifest_answer_def)
  next
    fix target
    assume "passthrough_manifest E host target reference False accept w = (Inr r, w')"
    from passthrough_manifest_answered [OF this] obtain mt data where d: "d = digest_sha256 (e_sha E) data" and
      r: "bytes_response (e_http E) mt (digest_sha256 (e_sha E) data) data False = r"
      using assms(3) by (auto simp: manifest_answered_def carries_manifest_def)
    from bytes_response_cases [OF r] assms(2) error_not_success d show ?thesis by auto
  qed
qed

context backends begin

lemma blob_entry_authentic:
  assumes "safe w" "honest_lengths E" "blob_entry E name s False w = (Inr r, w')" "rs_status r = 200"
    and "list_all is_ok (rs_body r)" "verified_within E name (length (delivered (rs_body r)))"
  shows "digest_parse s = Some (digest_sha256 (e_sha E) (delivered (rs_body r)))"
proof -
  from assms(3) consider (classic) "classic_blob E s False w = (Inr r, w')"
    | (oci) target where "resolve_in E name = Some (ResOci target)"
        "passthrough_blob E target s False w = (Inr r, w')"
    by (auto simp: blob_entry_def split: option.split_asm resolved.split_asm)
  then show ?thesis
  proof cases
    case classic
    from classic_blob_answer [OF assms(1) classic] obtain d data where
      "digest_parse s = Some d" "blob_answer (e_sha E) (e_http E) False d data r" by blast
    then show ?thesis
      using assms(4,5) error_not_success by (auto simp: blob_answer_def streams_def)
  next
    case oci
    with assms(6) have st: "ot_store target"
      "length (delivered (rs_body r)) \<le> unat (st_max_chart_bytes (e_settings E))"
      by (simp_all add: verified_within_def)
    from passthrough_blob_served [OF assms(2) st(1) oci(2)] obtain d where
      "digest_parse s = Some d" "blob_served E d r" .
    then show ?thesis
      using assms(4,5) st(2) error_not_success by (auto simp: blob_served_def verified_blob_def)
  qed
qed

end

section \<open>Properties\<close>

text \<open>C22. The proxy host taken from a request is canonical: it is the lower-cased input, at most 259
  bytes of letters, digits, dots, hyphens, colons and brackets with no slash, a fixed point of the
  normalisation, and the same for every spelling of the case; so the key of a tag determines the
  proxy host, the name and the reference of the manifest route it was stored for.\<close>
theorem proxy_host_canonical:
  assumes "normalize_proxy_host v = Some h"
  shows "h = to_ascii_lowercase v \<and> h \<noteq> [] \<and> length h \<le> 259 \<and> list_all is_authority_byte h \<and> CHR ''/'' \<notin> set h
    \<and> normalize_proxy_host h = Some h
    \<and> (\<forall>v'. to_ascii_lowercase v' = to_ascii_lowercase v \<longrightarrow> normalize_proxy_host v' = Some h)
    \<and> (\<forall>v' h' name name' r r' p p'. normalize_proxy_host v' = Some h' \<longrightarrow>
         parse_oci_path decode p = Manifest name r \<longrightarrow> parse_oci_path decode p' = Manifest name' r' \<longrightarrow>
         tag_key \<lparr>ts_proxy_host = h, ts_full_name = name\<rparr> r = tag_key \<lparr>ts_proxy_host = h', ts_full_name = name'\<rparr> r' \<longrightarrow>
         h = h' \<and> name = name' \<and> r = r')"
proof -
  note n = normalize_proxy_host_Some [OF assms]
  have lower: "normalize_proxy_host v' = Some h" if "to_ascii_lowercase v' = to_ascii_lowercase v" for v'
    using normalize_proxy_host_lower [OF that] assms by simp
  have "h \<noteq> []" using n(1,2) length_to_ascii_lowercase [of v] by (metis length_0_conv)
  moreover have "length h \<le> 259" using n(1,3) by simp
  moreover have "normalize_proxy_host h = Some h" using lower [of h] n(1) by simp
  moreover have "h = h' \<and> name = name' \<and> r = r'"
    if "normalize_proxy_host v' = Some h'" "parse_oci_path decode p = Manifest name r"
      "parse_oci_path decode p' = Manifest name' r'"
      "tag_key \<lparr>ts_proxy_host = h, ts_full_name = name\<rparr> r = tag_key \<lparr>ts_proxy_host = h', ts_full_name = name'\<rparr> r'"
    for v' h' name name' r r' p p'
    using tag_key_inject [OF route_reference [OF that(2)] route_reference [OF that(3)],
        of "\<lparr>ts_proxy_host = h, ts_full_name = name\<rparr>" "\<lparr>ts_proxy_host = h', ts_full_name = name'\<rparr>"]
      authority_no_slash [OF n(4)] authority_no_slash [OF normalize_proxy_host_Some(4) [OF that(1)]] that(4)
    by simp
  ultimately show ?thesis using n(1,4) authority_no_slash [OF n(4)] lower by blast
qed

theorem proxy_host_canonical_witness:
  "normalize_proxy_host ''Pa.io'' = Some ''pa.io'' \<and> normalize_proxy_host ''pA.IO'' = Some ''pa.io''"
proof -
  have h: "normalize_proxy_host ''Pa.io'' = Some ''pa.io''" by code_simp
  have "to_ascii_lowercase ''pA.IO'' = to_ascii_lowercase ''Pa.io''" by code_simp
  with proxy_host_canonical [OF h] h show ?thesis by blast
qed

text \<open>C1. End to end: in every run of the server from a content-addressed state, whatever clients request,
  upstreams answer, caches drop and operators delete in between, the state stays content
  addressed, and every answer 200 that a GET received was authentic: a manifest requested by
  digest hashes to that digest, and so does every whole blob of a classic chart, and of a
  write-through alias up to the configured limit.\<close>
theorem server_runs_authentic:
  assumes laws: "deployed_laws B contents C entries J E" and lengths: "honest_lengths E"
    and init: "content_addressed (e_sha E) B contents entries w0"
    and run: "server_runs (deploy B C J E) P contents entries w0 tr w"
  shows "content_addressed (e_sha E) B contents entries w \<and>
    (\<forall>req r. Served req r \<in> set tr \<longrightarrow> sr_method req = GET \<longrightarrow> starts_with ''/v2/'' (sr_path req) \<longrightarrow>
       rs_status r = 200 \<longrightarrow> list_all is_ok (rs_body r) \<longrightarrow>
       (case parse_oci_path (e_decode E) (sr_path req) of
          Manifest name reference \<Rightarrow>
            (\<forall>d. digest_parse reference = Some d \<longrightarrow> digest_sha256 (e_sha E) (delivered (rs_body r)) = d)
        | Blob name s \<Rightarrow> verified_within E name (length (delivered (rs_body r))) \<longrightarrow>
            digest_parse s = Some (digest_sha256 (e_sha E) (delivered (rs_body r)))
        | _ \<Rightarrow> True))"
proof (intro conjI allI impI)
  show "content_addressed (e_sha E) B contents entries w" using runs_content_addressed [OF laws run init] .
  fix req r
  assume served: "Served req r \<in> set tr" and req: "sr_method req = GET" "starts_with ''/v2/'' (sr_path req)"
    "rs_status r = 200" "list_all is_ok (rs_body r)"
  let ?D = "deploy B C J E"
  from runs_served [OF run served] obtain tr' v v' where v: "server_runs ?D P contents entries w0 tr' v"
    "build_router ?D P req v = (r, v')" by blast
  have safe: "be.safe B C J E contents entries v"
    using runs_content_addressed [OF laws v(1) init] safe_content_addressed [OF laws] by blast
  have e: "e_decode ?D = e_decode E" "resolve_in ?D = resolve_in E" "verified_within ?D = verified_within E"
    "honest_lengths ?D = honest_lengths E"
    by (auto intro!: ext simp: deploy_def resolve_in_def verified_within_def honest_lengths_def
        split: option.split resolved.split)
  from router_registry [OF v(2) req(2,3,1)] obtain host w1 where
    run1: "route_entry ?D host req False (parse_oci_path (e_decode E) (sr_path req)) v = (Inr r, w1)"
    unfolding e by blast
  show "case parse_oci_path (e_decode E) (sr_path req) of
          Manifest name reference \<Rightarrow>
            (\<forall>d. digest_parse reference = Some d \<longrightarrow> digest_sha256 (e_sha E) (delivered (rs_body r)) = d)
        | Blob name s \<Rightarrow> verified_within E name (length (delivered (rs_body r))) \<longrightarrow>
            digest_parse s = Some (digest_sha256 (e_sha E) (delivered (rs_body r)))
        | _ \<Rightarrow> True"
  proof (cases "parse_oci_path (e_decode E) (sr_path req)")
    case (Manifest name reference)
    with run1 manifest_entry_authentic [of ?D host name reference] req(3) show ?thesis by auto
  next
    case (Blob name s)
    with run1 be.blob_entry_authentic [OF safe, of name s r w1] lengths req(3,4) show ?thesis by (auto simp: e)
  qed simp_all
qed

definition sample_request :: server_request where
  "sample_request = \<lparr>sr_method = GET, sr_path = ''/v2/a.io/c/manifests/'' @ as_str sample_digest, sr_query = None,
     sr_uri_host = None, sr_uri_port = None,
     sr_headers = [(''host'', Some ''p''), (''authorization'', Some ''Bearer t0ken'')]\<rparr>"

lemma sample_request_get: "sr_method sample_request = GET" "starts_with ''/v2/'' (sr_path sample_request)"
  by (simp_all add: sample_request_def starts_with_iff)

lemma sample_host: "sr_headers req = sr_headers sample_request \<Longrightarrow> proxy_host_from req = Some ''p''"
proof -
  have "normalize_proxy_host ''p'' = Some ''p''" by code_simp
  then show "sr_headers req = sr_headers sample_request \<Longrightarrow> proxy_host_from req = Some ''p''"
    by (simp add: proxy_host_from_def header_host_def request_header_def sample_request_def trim_graphic
        is_ascii_graphic_def byte_of_def)
qed

lemma sample_accepted:
  assumes "sr_headers req = sr_headers sample_request" "e_b64 E = (\<lambda>_. None)"
    "ac_tokens (st_auth (e_settings E)) = [''t0ken'']"
  shows "token_accepted (ac_tokens (st_auth (e_settings E)))
      (presented_token (e_b64 E) (map snd (filter (\<lambda>(n, v). n = ''authorization'') (sr_headers req))))"
proof -
  have "extract_token (\<lambda>_. None) ''Bearer t0ken'' = Some ''t0ken''" by code_simp
  with assms show ?thesis by (simp add: token_accepted_def presented_token_def sample_request_def)
qed

definition sample_pages :: pages where
  "sample_pages = \<lparr>pg_home = ''home'', pg_metrics = (\<lambda>_. [])\<rparr>"

lemma sample_deploy: "deploy memory_store sample_cache sample_pointer_json (sample_classic_env net) = sample_classic_env net"
  by (simp add: deploy_def sample_classic_env_def sample_env_def)

lemma sample_route:
  "parse_oci_path Some (sr_path sample_request) = Manifest ''a.io/c'' (as_str sample_digest)"
proof -
  have v: "is_valid_manifest_reference (as_str sample_digest)"
    by (simp add: is_valid_manifest_reference_def sample_digest_parse)
  have "parse_oci_path Some (sr_path sample_request) = parse_oci_rest (''a.io/c'' @ ''/manifests/'' @ as_str sample_digest)"
    by (rule parse_oci_path_v2) (simp_all add: sample_request_def)
  also have "\<dots> = Manifest ''a.io/c'' (as_str sample_digest)"
    using v rsplit_manifests [OF valid_reference_no_slash [OF v], of "''a.io/c''"]
    by (simp add: parse_oci_rest_def manifest_route_def del: append.simps)
  finally show ?thesis .
qed

lemma sample_resolves:
  "\<exists>chart. resolve_name (\<lambda>s. Some (HostDomain s)) ''a.io/c'' sample_aliases = Some (ResClassic chart)"
  by (rule exI [where x = "\<lparr>cc_repo_url = ''https://a.io'', cc_chart_name = ''c'', cc_full_name = ''a.io/c'',
    cc_ephemeral = False, cc_source = HostPath\<rparr>"]) code_simp

lemma sample_answered:
  "\<exists>r v'. build_router (sample_classic_env silent_net) sample_pages sample_request (holding ''hi'') = (r, v')
     \<and> rs_status r = 200 \<and> rs_body r = [Inr ''hi'']"
proof -
  let ?E = "sample_classic_env silent_net"
  obtain r v1 where c: "classic_manifest ?E ''p'' sample_chart (as_str sample_digest) False (holding ''hi'') = (Inr r, v1)"
    and body: "rs_body r = [Inr ''hi'']"
    using sample_manifest_found by blast
  have status: "rs_status r = 200"
    using classic_manifest_answer [OF c] body
    by (auto simp: manifest_answer_def error_response_def text_response_def sample_classic_env_def sample_env_def
        sample_http_def invalid_content_type_def)
  obtain chart where "resolve_in ?E ''a.io/c'' = Some (ResClassic chart)"
    using sample_resolves by (auto simp: resolve_in_def sample_classic_env_def sample_env_def sample_config_def sample_helm_env_def
        sample_url_lib_def)
  then have "manifest_entry ?E ''p'' ''a.io/c'' (as_str sample_digest) False None (holding ''hi'') = (Inr r, v1)"
    using c by (simp add: manifest_entry_def classic_manifest_def sample_digest_parse)
  moreover have "e_decode ?E = Some" "request_header ''accept'' sample_request = None"
    by (simp_all add: sample_classic_env_def sample_env_def request_header_def sample_request_def)
  ultimately have "route_entry ?E ''p'' sample_request False (parse_oci_path (e_decode ?E) (sr_path sample_request))
      (holding ''hi'') = (Inr r, v1)"
    by (simp add: sample_route)
  moreover have "e_b64 ?E = (\<lambda>_. None)" "st_auth (e_settings ?E) = \<lparr>ac_enabled = True, ac_tokens = [''t0ken'']\<rparr>"
    by (simp_all add: sample_classic_env_def sample_env_def sample_config_def sample_settings_def)
  ultimately have "\<exists>v. build_router ?E sample_pages sample_request (holding ''hi'') = (r, v) \<and> w_store v = w_store v1"
    by (intro router_answers [OF _ status _ _ sample_host] sample_request_get sample_accepted) simp_all
  with status body show ?thesis by blast
qed

lemma sample_run:
  "\<exists>r w. server_runs (sample_classic_env silent_net) sample_pages id id (holding ''hi'') [Background, Served sample_request r] w
     \<and> rs_status r = 200 \<and> rs_body r = [Inr ''hi'']"
proof -
  let ?E = "sample_classic_env silent_net"
  obtain r v' where b: "build_router ?E sample_pages sample_request (holding ''hi'') = (r, v')"
    and r: "rs_status r = 200" "rs_body r = [Inr ''hi'']"
    using sample_answered by blast
  have "server_step ?E sample_pages id id (holding ''hi'') Background (holding ''hi''\<lparr>w_now := 0\<rparr>)"
    by (rule tick) (simp add: holding_def sample_world_def)
  moreover have "holding ''hi''\<lparr>w_now := 0\<rparr> = holding ''hi''" by (simp add: holding_def sample_world_def)
  ultimately have "server_runs ?E sample_pages id id (holding ''hi'') ([] @ [Background]) (holding ''hi'')"
    using start step by metis
  from step [OF this serve [OF b]] r show ?thesis by auto
qed

theorem server_runs_authentic_witness:
  "\<exists>r w. server_runs (sample_classic_env silent_net) sample_pages id id (holding ''hi'') [Background, Served sample_request r] w
     \<and> content_addressed sample_sha memory_store id id w
     \<and> rs_status r = 200 \<and> digest_sha256 sample_sha (delivered (rs_body r)) = sample_digest"
proof -
  let ?E = "sample_classic_env silent_net"
  obtain r v' where run: "server_runs ?E sample_pages id id (holding ''hi'') [Background, Served sample_request r] v'"
    and r: "rs_status r = 200" "rs_body r = [Inr ''hi'']" using sample_run by blast
  have e: "e_sha ?E = sample_sha" "e_decode ?E = Some"
    by (simp_all add: sample_classic_env_def sample_env_def)
  have h: "honest_lengths ?E"
    by (simp add: honest_lengths_def sample_classic_env_def sample_env_def silent_net_def)
  have req: "Served sample_request r \<in> set [Background, Served sample_request r]" "sr_method sample_request = GET"
    "starts_with ''/v2/'' (sr_path sample_request)" "list_all is_ok (rs_body r)"
    by (simp_all add: sample_request_def starts_with_iff r)
  have run': "server_runs (deploy memory_store sample_cache sample_pointer_json ?E) sample_pages id id (holding ''hi'')
      [Background, Served sample_request r] v'"
    unfolding sample_deploy by (rule run)
  note t = server_runs_authentic [OF sample_deployed h _ run', unfolded e]
  from t [OF holding_content_addressed] req r run sample_route sample_digest_parse
  show ?thesis by (intro exI [of _ r] exI [of _ v']) auto
qed

end
