(* ===== verification/Answers.thy ===== *)
theory Answers
  imports Server
begin

text \<open>
  Every request is answered: no handler reaches the \<open>expect\<close> of \<open>classic.rs\<close> or any other panic, and
  the status of the response is one of nine.
\<close>

section \<open>Names\<close>

definition is_oci_name_byte :: "char \<Rightarrow> bool" where
  "is_oci_name_byte c \<longleftrightarrow> is_name_byte c \<or> c = CHR ''/''"

lemma name_bytes:
  assumes "list_all (list_all is_name_byte) (filter (\<lambda>s. s \<noteq> []) (split_on (CHR ''/'') name))"
  shows "list_all is_oci_name_byte name"
proof -
  have "set name \<subseteq> set ''/'' \<union> (\<Union>p\<in>set (split_on (CHR ''/'') name). set p)"
    using set_join [of "''/''" "split_on (CHR ''/'') name"] by simp
  moreover have "is_name_byte c" if "p \<in> set (split_on (CHR ''/'') name)" "c \<in> set p" for p c
    using assms that by (auto simp: list_all_iff)
  ultimately show ?thesis by (auto simp: list_all_iff is_oci_name_byte_def)
qed

lemma alias_name_bytes: "is_valid_alias_name s \<Longrightarrow> list_all is_name_byte s"
proof -
  have "is_name_byte c" if "is_alias_byte c" for c
    using that by (auto simp: is_name_byte_def is_alias_byte_def)
  then show "is_valid_alias_name s \<Longrightarrow> list_all is_name_byte s"
    by (cases s) (auto simp: list_all_iff alnum_is_name_byte)
qed

lemma host_bytes: "is_public_hostname hp s \<Longrightarrow> list_all is_name_byte s"
  using public_hostname_bytes [of hp s]
  by (auto simp: list_all_iff is_host_byte_def is_dns_byte_def is_name_byte_def)

definition valid_alias_names :: "alias_entry hashmap \<Rightarrow> bool" where
  "valid_alias_names aliases \<longleftrightarrow> (\<forall>n al. map_of aliases n = Some al \<longrightarrow> is_valid_alias_name n)"

lemma resolved_name_bytes:
  assumes "resolve_name hp name aliases = Some (ResClassic chart)" "valid_alias_names aliases"
  shows "list_all is_oci_name_byte (cc_full_name chart)"
proof -
  let ?segs = "filter (\<lambda>s. s \<noteq> []) (split_on (CHR ''/'') name)"
  from assms(1) obtain first rest where segs: "?segs = first # rest"
    by (auto simp: resolve_name_def Let_def split: list.splits)
  have "list_all (list_all is_name_byte) ?segs \<and> cc_full_name chart = name"
  proof (cases "map_of aliases first")
    case None
    with assms(1) segs have "resolve_host_path hp ?segs name = Some (ResClassic chart)"
      by (simp add: resolve_name_def)
    then show ?thesis
    proof (rule resolve_host_path_Some)
      fix host path ch
      assume "?segs = host # path @ [ch]" "is_public_hostname hp host" "is_valid_chart_name ch"
        "list_all is_valid_chart_name path" and r: "ResClassic chart = ResClassic
          \<lparr>cc_repo_url = ''https://'' @ join ''/'' (host # path), cc_chart_name = ch,
           cc_full_name = name, cc_ephemeral = False, cc_source = HostPath\<rparr>"
      moreover from r have "cc_full_name chart = name" by simp
      ultimately show ?thesis using host_bytes valid_chart_name_bytes by (auto simp: list_all_iff)
    qed
  next
    case (Some al)
    with assms(1) segs obtain c where "rest = [c]" "is_valid_chart_name c" "cc_full_name chart = name"
      by (auto simp: resolve_name_def Let_def length_Suc_conv split: alias_upstream.splits if_splits)
    moreover have "is_valid_alias_name first" using Some assms(2) by (simp add: valid_alias_names_def)
    ultimately show ?thesis using segs alias_name_bytes valid_chart_name_bytes by simp
  qed
  with name_bytes show ?thesis by metis
qed

section \<open>Headers\<close>

text \<open>The documented behaviour of \<open>HeaderValue::from_str\<close> and of \<open>byte_serialize\<close>.\<close>

definition header_value_law :: "http_lib \<Rightarrow> bool" where
  "header_value_law H \<longleftrightarrow> (\<forall>v. list_all is_field_byte v \<longrightarrow> hl_header_ok H v)"

definition form_encode_law :: "('s, 'c, 'u) env \<Rightarrow> bool" where
  "form_encode_law E \<longleftrightarrow> (\<forall>s. list_all is_field_byte (e_form_encode E s))"

lemma field_bytes:
  "is_oci_name_byte c \<Longrightarrow> is_field_byte c" "is_ascii_digit c \<Longrightarrow> is_field_byte c"
  by (auto simp: is_oci_name_byte_def is_name_byte_def is_field_byte_def byte_class_defs)

lemma show_nat_field: "list_all is_field_byte (show_nat n)"
  using show_nat_digits [of n] by (auto simp: list_all_iff intro: field_bytes)

lemma tags_link_field:
  assumes "form_encode_law E" "list_all is_oci_name_byte full_name"
  shows "list_all is_field_byte (tags_link E full_name n l)"
proof -
  have lit: "list_all is_field_byte ''</v2/''" "list_all is_field_byte ''/tags/list?n=''"
    "list_all is_field_byte ''&last=''" "list_all is_field_byte ''>; rel=''" "list_all is_field_byte (quote ''next'')"
    by (simp_all add: is_field_byte_def byte_of_def quote_def)
  have "list_all is_field_byte full_name" using assms(2) by (auto simp: list_all_iff intro: field_bytes)
  with assms(1) show ?thesis
    by (simp only: tags_link_def list_all_append lit show_nat_field form_encode_law_def simp_thms)
qed

lemma tags_response_status:
  assumes "header_value_law H" "e_http E = H" "\<And>l. link = Some l \<Longrightarrow> list_all is_field_byte l"
  shows "rs_status (tags_response E full_name tags link head_only) = 200"
proof -
  have "list_all is_field_byte ''registry/2.0''" "list_all is_field_byte ''application/json''"
    by (simp_all add: is_field_byte_def byte_of_def)
  then have "hl_header_ok H ''registry/2.0''" "hl_header_ok H ''application/json''" "hl_header_ok H (show_nat n)"
    "link = Some l \<Longrightarrow> hl_header_ok H l" for n l
    using assms show_nat_field unfolding header_value_law_def by blast+
  then show ?thesis
    by (simp add: tags_response_def assms(2) Let_def split: option.split)
qed

section \<open>Statuses\<close>

definition answer_statuses :: "nat set" where
  "answer_statuses = {200, 400, 401, 404, 405, 413, 500, 502}"

definition well_answered :: "meter response \<Rightarrow> bool" where
  "well_answered r \<longleftrightarrow> rs_status r \<in> answer_statuses"

lemma well_answered_error: "well_answered (error_response H e)"
  using error_status [of e] by (auto simp: well_answered_def answer_statuses_def)

lemma well_answered_ok: "rs_status r = 200 \<Longrightarrow> well_answered r"
  by (simp add: well_answered_def answer_statuses_def)

lemma well_answered_broken [simp]: "well_answered (when_broken es r) = well_answered r"
  by (simp add: well_answered_def)

lemma well_answered_respond:
  "well_answered (bytes_response H ct d data head_only)"
  "well_answered (blob_response H ct d b head_only u s)"
  "well_answered (blob_bytes_response H ct d data head_only u s)"
  using bytes_response_cases [OF refl, of H ct d data head_only] blob_response_cases [OF refl, of H ct d b head_only u s]
    blob_bytes_response_cases [OF refl, of H ct d data head_only u s] well_answered_ok well_answered_error
  by metis+

lemma well_answered_classic:
  "classic_manifest E host chart reference head_only w = (Inr r, w') \<Longrightarrow> well_answered r"
  "classic_blob E digest_str head_only w = (Inr r, w') \<Longrightarrow> well_answered r"
proof -
  assume "classic_manifest E host chart reference head_only w = (Inr r, w')"
  from classic_manifest_answer [OF this] show "well_answered r"
    using well_answered_ok well_answered_error by (auto simp: manifest_answer_def)
next
  assume "classic_blob E digest_str head_only w = (Inr r, w')"
  then show "well_answered r"
    unfolding classic_blob_def Let_def
    by (auto elim!: bindA_InrE split: option.split_asm intro!: well_answered_respond)
qed

lemma well_answered_manifest:
  assumes "passthrough_manifest E host target reference head_only accept w = (Inr r, w')"
  shows "well_answered r"
  using passthrough_manifest_answered [OF assms] manifest_head_Inr(1) well_answered_ok
  by (auto simp: manifest_answered_def carries_manifest_def intro: well_answered_respond)

lemma well_answered_upstream_blob:
  assumes "upstream_blob_answer E target d head_only response w = (Inr r, w')"
  shows "well_answered r"
proof -
  have u: "unverified_blob_response H d ct response body meter = Inr r \<Longrightarrow> well_answered r" for H ct body meter
    using unverified_blob_Inr well_answered_ok by blast
  from assms show ?thesis
    unfolding upstream_blob_answer_def Let_def
    by (auto elim!: bindA_InrE split: if_split_asm option.split_asm upstream_blob.split_asm
        intro!: well_answered_respond elim!: u)
qed

lemma well_answered_cached_blob:
  "cached_blob_response H sha d b head_only = Some r \<Longrightarrow> well_answered r"
  by (auto simp: cached_blob_response_def Let_def bind_eq_Some_conv split: if_splits intro: well_answered_respond)

lemma well_answered_blob:
  assumes "passthrough_blob E target digest_str head_only w = (Inr r, w')"
  shows "well_answered r"
  using assms unfolding passthrough_blob_def upstream_blob_request_def
  by (auto elim!: bindA_InrE split: if_split_asm option.split_asm
      simp: bind_eq_Some_conv elim!: well_answered_upstream_blob well_answered_cached_blob)

lemma well_answered_tags:
  assumes "passthrough_tags E target query head_only w = (Inr r, w')"
  shows "well_answered r"
proof -
  have b: "build_response (tag_list_builder E x) body meter = Inr r \<Longrightarrow> well_answered r"
    "build_response (builder_header H ''link'' l (tag_list_builder E x)) body meter = Inr r \<Longrightarrow> well_answered r"
    for x body meter H l
    by (auto dest!: build_response_Inr intro!: well_answered_ok simp: tag_list_builder_def Let_def)
  from assms show ?thesis
    unfolding passthrough_tags_def Let_def
    by (auto elim!: bindA_InrE b split: if_split_asm option.split_asm prod.split_asm)
qed

lemma well_answered_classic_tags:
  assumes run: "classic_tags E chart query head_only w = (Inr r, w')"
    and laws: "header_value_law (e_http E)" "form_encode_law E" "list_all is_oci_name_byte (cc_full_name chart)"
  shows "well_answered r"
proof -
  from run obtain tags lnk where "r = tags_response E (cc_full_name chart) tags
      (map_option (\<lambda>(n, l). tags_link E (cc_full_name chart) n l) lnk) head_only"
    unfolding classic_tags_def Let_def
    by (auto elim!: bindA_InrE split: prod.split_asm if_split_asm)
  then show ?thesis
    using tags_link_field [OF laws(2,3)]
    by (auto intro!: well_answered_ok tags_response_status [OF laws(1) refl])
qed

lemma well_answered_entry:
  assumes laws: "header_value_law (e_http E)" "form_encode_law E" "valid_alias_names (rt_aliases (e_cfg E))"
    and run: "route_entry E host req head_only route w = (Inr r, w')"
  shows "well_answered r"
proof (cases route)
  case (Tags name)
  with run show ?thesis
    by (auto simp: tags_entry_def resolve_in_def split: option.split_asm resolved.split_asm
        intro: well_answered_tags well_answered_classic_tags [OF _ laws(1,2) resolved_name_bytes [OF _ laws(3)]])
qed (use run in \<open>auto simp: manifest_entry_def blob_entry_def api_response_def split: option.split_asm resolved.split_asm
    intro: well_answered_classic well_answered_manifest well_answered_blob well_answered_ok\<close>)

lemma validated_alias_names:
  assumes "validate U debug ua s missing_vars = Inr rc"
  shows "valid_alias_names (rt_aliases rc)"
proof -
  from assms obtain aliases where b: "build_aliases U debug (st_aliases s) [] = Inr aliases" "rt_aliases rc = aliases"
    by (elim validate_Inr) simp
  from build_aliases_good [OF b(1)] have "\<forall>(name, a)\<in>set aliases. good_alias name a" by simp
  then show ?thesis by (auto simp: b(2) valid_alias_names_def good_alias_def dest: map_of_SomeD)
qed

lemma well_answered_text: "rs_status r = 404 \<Longrightarrow> well_answered r"
  by (simp add: well_answered_def answer_statuses_def)

lemma well_answered_dispatch:
  assumes laws: "header_value_law (e_http E)" "form_encode_law E" "valid_alias_names (rt_aliases (e_cfg E))"
  shows "well_answered (fst (oci_dispatch E req w))"
proof -
  have "well_answered (fst (into_response E (route_entry E host req head_only route) w))" for host head_only route
    using well_answered_entry [OF laws, of host req head_only route w] well_answered_error
    by (auto simp: into_response_def split: prod.split sum.split)
  then show ?thesis
    using well_answered_error by (simp add: oci_dispatch_def well_answered_text text_response_def split: option.split)
qed

lemma well_answered_router:
  assumes "validate U debug ua s missing_vars = Inr (e_cfg E)" "header_value_law (e_http E)" "form_encode_law E"
  shows "well_answered (fst (require_pull_auth (e_http E) (e_b64 E) auth path hs (routes E P req) w))"
proof -
  note d = well_answered_dispatch [OF assms(2,3) validated_alias_names [OF assms(1)], of req w]
  have page: "well_answered (page E r0 req)" if "rs_status r0 = 200" for r0
    using that well_answered_error
    by (auto simp: page_def method_not_allowed_def intro!: well_answered_ok split: option.split)
  have "well_answered (fst (routes E P req w))"
    using d page by (simp add: routes_def home_def healthz_def text_response_def)
  moreover have "well_answered (unauthorized (e_http E))"
    by (simp add: unauthorized_def Let_def well_answered_def answer_statuses_def)
  ultimately show ?thesis by (simp add: require_pull_auth_def)
qed

section \<open>Properties\<close>

text \<open>C2. The server is total: with a validated configuration every request, in every state and
  whatever the network, the stores and the YAML and JSON inputs are, is answered, no handler
  panics, the status is 200, 400, 401, 404, 405, 413, 500 or 502, and the request is counted under
  that status and its duration recorded.\<close>
theorem every_request_answered:
  assumes "validate U debug ua s missing_vars = Inr (e_cfg E)"
    and "header_value_law (e_http E)" "form_encode_law E"
    and "build_router E P req w = (r, w')"
  shows "rs_status r \<in> {200, 400, 401, 404, 405, 413, 500, 502}
    \<and> (\<exists>ms t. w_metrics w' = ms @ [http_event (sr_path req) (rs_status r), http_duration_event (sr_path req) t])"
proof -
  note well_answered_router [OF assms(1-3)]
  moreover obtain r1 w1 where "require_pull_auth (e_http E) (e_b64 E) (st_auth (e_settings E)) (sr_path req)
      (map snd (filter (\<lambda>(n, v). n = ''authorization'') (sr_headers req))) (routes E P req) w = (r1, w1)"
    by fastforce
  ultimately have "well_answered r1" "build_router E P req w = (if rs_status r1 = 0 then (r1, w1)
      else (r1, w1\<lparr>w_metrics := w_metrics w1 @
        [http_event (sr_path req) (rs_status r1), http_duration_event (sr_path req) (w_now w1 - w_now w)]\<rparr>))"
    by (metis fst_conv, simp add: build_router_def panicked_def)
  with assms(4) show ?thesis by (auto simp: well_answered_def answer_statuses_def split: if_splits)
qed

definition sample_post :: server_request where
  "sample_post = sample_request\<lparr>sr_method := OtherMethod ''POST'', sr_path := ''/healthz''\<rparr>"

theorem every_request_answered_witness:
  "rs_status (fst (build_router (sample_env silent_net) sample_pages sample_post sample_world)) = 405
   \<and> (\<exists>ms t. w_metrics (snd (build_router (sample_env silent_net) sample_pages sample_post sample_world))
        = ms @ [http_event ''/healthz'' 405, http_duration_event ''/healthz'' t])"
proof -
  let ?E = "(sample_env silent_net)\<lparr>e_form_encode := (\<lambda>_. [])\<rparr>"
  let ?b = "build_router (sample_env silent_net) sample_pages sample_post sample_world"
  have same: "build_router ?E sample_pages sample_post sample_world = ?b"
    by (simp add: build_router_def require_pull_auth_def PUBLIC_PATHS_def sample_post_def routes_def page_def sample_env_def)
  have cfg: "validate sample_url_lib quote (\<lambda>_. False) sample_settings [''VAR''] = Inr (e_cfg ?E)"
    by (simp add: sample_validate sample_env_def sample_config_def)
  have laws: "header_value_law (e_http ?E)" "form_encode_law ?E"
    by (simp_all add: header_value_law_def form_encode_law_def sample_env_def sample_http_def)
  obtain r w' where b: "?b = (r, w')" by fastforce
  then have r: "r = method_not_allowed sample_http"
    by (simp add: build_router_def require_pull_auth_def PUBLIC_PATHS_def sample_post_def routes_def page_def
        sample_env_def method_not_allowed_def unsupported_method_def panicked_def)
  have "\<exists>ms t. w_metrics w' = ms @ [http_event (sr_path sample_post) (rs_status r), http_duration_event (sr_path sample_post) t]"
    using every_request_answered [OF cfg laws, of sample_pages sample_post sample_world r w'] b same by simp
  moreover have "sr_path sample_post = ''/healthz''" by (simp add: sample_post_def)
  moreover have "rs_status r = 405" by (simp add: r method_not_allowed_def unsupported_method_def)
  ultimately show ?thesis by (simp add: b)
qed

end
