(* ===== verification/Startup.thy ===== *)
theory Startup
  imports Answers Info
begin

text \<open>
  \<open>bins/helmoci/src/main.rs\<close>, \<open>gcp.rs\<close>, and what start-up calls: \<open>load_config\<close> and \<open>init_logging\<close> of
  \<open>config.rs\<close>, \<open>AppState::new\<close> and the resolvers of \<open>state.rs\<close>, \<open>handle\<close> of \<open>metrics.rs\<close>. An
  \<open>eyre::Report\<close> is the list of its messages, the outermost context first. The process-wide state
  of start-up (the subscriber, the recorder) and the order of its effects are the record \<open>boot\<close>.
\<close>

section \<open>The process\<close>

type_synonym report = "string list"

datatype boot_event =
    FileRead string
  | SubscriberSet
  | StorageBuilt
  | GcpReady
  | RecorderInstalled
  | ClientBuilt client_config
  | Listening string
  | Serving

record 't boot =
  bt_subscriber :: "('t \<times> log_format) option"
  bt_recorder :: bool
  bt_trace :: "boot_event list"

text \<open>The libraries and the operating system: \<open>bl_gcp_provider\<close> is \<open>gcp_auth::provider\<close> and
  \<open>bl_gcp_token\<close> its \<open>token\<close> for the scopes, at a time; \<open>bl_lookup_host\<close> is tokio's lookup.\<close>

record ('t, 's, 'c, 'p, 'u) boot_lib =
  bl_read_file :: "string \<Rightarrow> string + string"
  bl_expand :: "string \<Rightarrow> string + (string \<times> string list)"
  bl_read_yaml :: "string \<Rightarrow> string + settings"
  bl_url :: "'u url_lib"
  bl_debug :: "string \<Rightarrow> string"
  bl_uni_alnum :: "string \<Rightarrow> bool"
  bl_env :: "string \<Rightarrow> string option"
  bl_log :: "'t log_lib"
  bl_build_env :: build_env
  bl_build_store :: "store_client \<Rightarrow> string + 's object_store"
  bl_build_cache :: "cache_config \<Rightarrow> 'c cache_ops"
  bl_build_client :: "client_config \<Rightarrow> string + unit"
  bl_gcp_provider :: "string + 'p"
  bl_gcp_token :: "'p \<Rightarrow> string list \<Rightarrow> nat \<Rightarrow> string + string"
  bl_lookup_host :: "string \<Rightarrow> nat \<Rightarrow> string + ip_addr list"
  bl_library_dns :: "string \<Rightarrow> string + ip_addr list"
  bl_bind :: "string \<Rightarrow> string + unit"

definition note_event :: "boot_event \<Rightarrow> ('t boot, report, unit) act" where
  "note_event ev = modifyA (\<lambda>b. b\<lparr>bt_trace := bt_trace b @ [ev]\<rparr>)"

text \<open>A fallible call of a library followed by its effect.\<close>

definition boot_call :: "string + 'a \<Rightarrow> boot_event \<Rightarrow> ('t boot, report, 'a) act" where
  "boot_call r ev = bindA (liftA (map_errE (\<lambda>e. [e]) r)) (\<lambda>a. bindA (note_event ev) (\<lambda>_. returnA a))"

section \<open>Access tokens of Google Cloud\<close>

definition GCP_SCOPE :: string where
  "GCP_SCOPE = ''https://www.googleapis.com/auth/cloud-platform''"

definition real_gcp_new :: "('t, 's, 'c, 'p, 'u) boot_lib \<Rightarrow> ('t boot, report, 'p) act" where
  "real_gcp_new L = boot_call (bl_gcp_provider L) GcpReady"

definition real_gcp_access_token ::
  "('t, 's, 'c, 'p, 'u) boot_lib \<Rightarrow> 'p \<Rightarrow> nat \<Rightarrow> app_error + string" where
  "real_gcp_access_token L provider now =
     map_errE (\<lambda>e. Upstream (''failed to obtain GCP token: '' @ e)) (bl_gcp_token L provider [GCP_SCOPE] now)"

section \<open>Configuration, logging and metrics\<close>

definition load_config :: "('t, 's, 'c, 'p, 'u) boot_lib \<Rightarrow> string \<Rightarrow> report + runtime_config" where
  "load_config L path =
     bindE (map_errE (\<lambda>e. [''reading config file '' @ path, e]) (bl_read_file L path)) (\<lambda>raw.
     map_errE (\<lambda>e. [''loading config file '' @ path, e])
       (parse_config (bl_url L) (bl_debug L) (bl_uni_alnum L) (bl_expand L) (bl_read_yaml L) raw))"

text \<open>\<open>set_global_default\<close> succeeds once per process.\<close>

definition set_global_default :: "'t \<times> log_format \<Rightarrow> ('t boot, report, unit) act" where
  "set_global_default subscriber =
     bindA (getA bt_subscriber) (\<lambda>old.
     case old of
       Some _ \<Rightarrow> failA [''installing the global tracing subscriber'',
                  ''a global default trace dispatcher has already been set'']
     | None \<Rightarrow> bindA (modifyA (\<lambda>b. b\<lparr>bt_subscriber := Some subscriber\<rparr>)) (\<lambda>_. note_event SubscriberSet))"

definition init_logging :: "('t, 's, 'c, 'p, 'u) boot_lib \<Rightarrow> logging \<Rightarrow> ('t boot, report, unit) act" where
  "init_logging L config =
     set_global_default (resolve_targets (bl_log L) (bl_env L) config, resolve_format (bl_env L) config)"

text \<open>The recorder is installed by the first caller; later ones share it.\<close>

definition metrics_handle :: "('t boot, report, unit) act" where
  "metrics_handle =
     bindA (getA bt_recorder) (\<lambda>installed.
     if installed then returnA ()
     else bindA (modifyA (\<lambda>b. b\<lparr>bt_recorder := True\<rparr>)) (\<lambda>_. note_event RecorderInstalled))"

section \<open>Name resolution of the clients\<close>

definition system_dns_resolve :: "('t, 's, 'c, 'p, 'u) boot_lib \<Rightarrow> string \<Rightarrow> string + ip_addr list" where
  "system_dns_resolve L hostname = bl_lookup_host L hostname 0"

definition client_resolve ::
  "('t, 's, 'c, 'p, 'u) boot_lib \<Rightarrow> client_config \<Rightarrow> string \<Rightarrow> string + ip_addr list" where
  "client_resolve L client hostname =
     (case cl_dns client of
        LibraryDns \<Rightarrow> bl_library_dns L hostname
      | SystemDns \<Rightarrow> system_dns_resolve L hostname
      | PublicDns \<Rightarrow> public_dns_resolve (system_dns_resolve L) hostname)"

section \<open>The application state\<close>

record ('s, 'p) app_state =
  as_cfg :: runtime_config
  as_storage :: "'s object_store"
  as_ephemeral :: cache_config
  as_http :: client_config
  as_public_http :: client_config
  as_token_http :: client_config
  as_index_cache :: bounded_cache
  as_gcp :: "'p option"
  as_upstream_tokens :: bounded_cache

definition build_client ::
  "('t, 's, 'c, 'p, 'u) boot_lib \<Rightarrow> client_config \<Rightarrow> ('t boot, report, client_config) act" where
  "build_client L client = bindA (boot_call (bl_build_client L client) (ClientBuilt client)) (\<lambda>_. returnA client)"

definition app_state_new ::
  "('t, 's, 'c, 'p, 'u) boot_lib \<Rightarrow> runtime_config \<Rightarrow> 's object_store \<Rightarrow> 'p option \<Rightarrow>
   ('t boot, report, ('s, 'p) app_state) act" where
  "app_state_new L cfg store gcp =
     bindA (build_client L (build_http (bl_build_env L))) (\<lambda>http.
     bindA (build_client L (build_public_http (bl_build_env L))) (\<lambda>public_http.
     bindA (build_client L (build_token_http (bl_build_env L))) (\<lambda>token_http.
     let s = rt_settings cfg in
     returnA \<lparr>as_cfg = cfg, as_storage = store,
       as_ephemeral = ephemeral_new (ec_max_bytes (st_ephemeral_cache s)) (ec_ttl_secs (st_ephemeral_cache s)),
       as_http = http, as_public_http = public_http, as_token_http = token_http,
       as_index_cache = index_cache_config s, as_gcp = gcp, as_upstream_tokens = upstream_tokens_config\<rparr>)))"

section \<open>The main function\<close>

record args =
  args_config :: string

definition needs_gcp :: "runtime_config \<Rightarrow> bool" where
  "needs_gcp rc = list_ex (\<lambda>(name, al). al_auth al = AuthGcp) (rt_aliases rc)"

text \<open>\<open>main\<close> up to the point where \<open>axum::serve\<close> runs, which then answers every request with
  \<open>build_router\<close> on the state. \<open>clap\<close> gives the arguments.\<close>

definition server_main ::
  "('t, 's, 'c, 'p, 'u) boot_lib \<Rightarrow> args \<Rightarrow> ('t boot, report, ('s, 'p) app_state) act" where
  "server_main L args =
     bindA (liftA (load_config L (args_config args))) (\<lambda>rc.
     bindA (note_event (FileRead (args_config args))) (\<lambda>_.
     bindA (init_logging L (st_log (rt_settings rc))) (\<lambda>_.
     bindA (boot_call (build_storage (bl_build_store L) (st_storage (rt_settings rc))) StorageBuilt) (\<lambda>storage.
     bindA (if needs_gcp rc then bindA (real_gcp_new L) (\<lambda>p. returnA (Some p)) else returnA None) (\<lambda>gcp_provider.
     bindA metrics_handle (\<lambda>_.
     let listen = st_listen (rt_settings rc) in
     bindA (app_state_new L rc storage gcp_provider) (\<lambda>state.
     bindA (boot_call (bl_bind L listen) (Listening listen)) (\<lambda>_.
     bindA (note_event Serving) (\<lambda>_.
     returnA state)))))))))"

text \<open>The environment the handlers of a started server run in.\<close>

definition started_env ::
  "('t, 's, 'c, 'p, 'u) boot_lib \<Rightarrow> pointer_json \<Rightarrow> ('s, 'p) app_state \<Rightarrow> ('s, 'c, 'u) env \<Rightarrow> ('s, 'c, 'u) env" where
  "started_env L J state E =
     deploy (as_storage state) (bl_build_cache L (as_ephemeral state)) J
       (E\<lparr>e_cfg := as_cfg state, e_gcp := map_option (real_gcp_access_token L) (as_gcp state)\<rparr>)"

section \<open>What a started server has\<close>

lemma boot_call_Inr:
  "boot_call r ev b = (Inr a, b') \<longleftrightarrow> r = Inr a \<and> b' = b\<lparr>bt_trace := bt_trace b @ [ev]\<rparr>"
  by (auto simp: boot_call_def note_event_def liftA_def modifyA_def returnA_def bindA_Inr map_errE_def split: sum.splits)

lemma boot_call_Inl: "boot_call r ev b = (Inl e, b') \<Longrightarrow> b' = b"
  by (auto simp: boot_call_def note_event_def liftA_def modifyA_def returnA_def bindA_Inl)

lemma build_client_Inr:
  "build_client L c b = (Inr a, b') \<longleftrightarrow>
   bl_build_client L c = Inr () \<and> a = c \<and> b' = b\<lparr>bt_trace := bt_trace b @ [ClientBuilt c]\<rparr>"
  by (auto simp: build_client_def bindA_Inr boot_call_Inr returnA_def)

text \<open>A step of start-up that only appends events other than the listening ones.\<close>

definition quiet :: "boot_event \<Rightarrow> bool" where
  "quiet ev \<longleftrightarrow> (case ev of Listening _ \<Rightarrow> False | Serving \<Rightarrow> False | _ \<Rightarrow> True)"

definition starts_quietly :: "('t boot, report, 'a) act \<Rightarrow> bool" where
  "starts_quietly m \<longleftrightarrow> (\<forall>b r b'. m b = (r, b') \<longrightarrow> (\<exists>tr. bt_trace b' = bt_trace b @ tr \<and> list_all quiet tr))"

named_theorems quiet_rules \<open>steps of start-up before the server listens\<close>

lemma quietD: "starts_quietly m \<Longrightarrow> m b = (r, b') \<Longrightarrow> \<exists>tr. bt_trace b' = bt_trace b @ tr \<and> list_all quiet tr"
  by (simp add: starts_quietly_def)

lemma quiet_basic [quiet_rules]:
  "starts_quietly (returnA a)" "starts_quietly (failA e)" "starts_quietly (liftA r)" "starts_quietly (getA g)"
  by (simp_all add: starts_quietly_def returnA_def failA_def liftA_def getA_def)

lemma quiet_bind [quiet_rules]:
  assumes m: "starts_quietly m" and f: "\<And>a. starts_quietly (f a)"
  shows "starts_quietly (bindA m f)"
  unfolding starts_quietly_def
proof (intro allI impI)
  fix b r b'
  assume run: "bindA m f b = (r, b')"
  show "\<exists>tr. bt_trace b' = bt_trace b @ tr \<and> list_all quiet tr"
  proof (cases "m b")
    case (Pair x b1)
    from quietD [OF m Pair] obtain tr1 where t1: "bt_trace b1 = bt_trace b @ tr1" "list_all quiet tr1" by blast
    show ?thesis
    proof (cases x)
      case (Inl e)
      with Pair run t1 show ?thesis by (auto simp: bindA_def)
    next
      case (Inr a)
      with Pair run have "f a b1 = (r, b')" by (simp add: bindA_def)
      from quietD [OF f this] t1 show ?thesis by fastforce
    qed
  qed
qed

lemma quiet_note [quiet_rules]: "quiet ev \<Longrightarrow> starts_quietly (note_event ev)"
  by (simp add: starts_quietly_def note_event_def modifyA_def)

lemma quiet_call [quiet_rules]: "quiet ev \<Longrightarrow> starts_quietly (boot_call r ev)"
  unfolding boot_call_def by (intro quiet_rules)

lemma quiet_modify [quiet_rules]: "(\<And>b. bt_trace (g b) = bt_trace b) \<Longrightarrow> starts_quietly (modifyA g)"
  by (simp add: starts_quietly_def modifyA_def)

lemma quiet_steps [quiet_rules]:
  "starts_quietly (init_logging L config)" "starts_quietly metrics_handle"
  "starts_quietly (real_gcp_new L)" "starts_quietly (build_client L c)"
  by (auto simp: init_logging_def set_global_default_def metrics_handle_def real_gcp_new_def build_client_def
      quiet_def split: option.split intro!: quiet_rules)

lemma quiet_app_state_new [quiet_rules]: "starts_quietly (app_state_new L cfg store gcp)"
  unfolding app_state_new_def Let_def by (intro quiet_rules)

text \<open>Start-up up to the listener.\<close>

definition before_listening ::
  "('t, 's, 'c, 'p, 'u) boot_lib \<Rightarrow> args \<Rightarrow> ('t boot, report, ('s, 'p) app_state) act" where
  "before_listening L args =
     bindA (liftA (load_config L (args_config args))) (\<lambda>rc.
     bindA (note_event (FileRead (args_config args))) (\<lambda>_.
     bindA (init_logging L (st_log (rt_settings rc))) (\<lambda>_.
     bindA (boot_call (build_storage (bl_build_store L) (st_storage (rt_settings rc))) StorageBuilt) (\<lambda>storage.
     bindA (if needs_gcp rc then bindA (real_gcp_new L) (\<lambda>p. returnA (Some p)) else returnA None) (\<lambda>gcp_provider.
     bindA metrics_handle (\<lambda>_. app_state_new L rc storage gcp_provider))))))"

lemma quiet_before_listening: "starts_quietly (before_listening L args)"
  unfolding before_listening_def by (auto simp: quiet_def intro!: quiet_rules)

lemma app_state_new_Inr:
  assumes "app_state_new L cfg store gcp b = (Inr state, b')"
  shows "as_cfg state = cfg" "as_storage state = store" "as_gcp state = gcp"
    "as_http state = build_http (bl_build_env L)" "as_public_http state = build_public_http (bl_build_env L)"
    "as_token_http state = build_token_http (bl_build_env L)"
    "as_ephemeral state = ephemeral_new (ec_max_bytes (st_ephemeral_cache (rt_settings cfg)))
       (ec_ttl_secs (st_ephemeral_cache (rt_settings cfg)))"
    "as_index_cache state = index_cache_config (rt_settings cfg)"
  using assms by (auto simp: app_state_new_def Let_def bindA_Inr build_client_Inr returnA_def)

lemma before_listening_Inr:
  assumes "before_listening L args b = (Inr state, b')"
  obtains rc where "load_config L (args_config args) = Inr rc" "as_cfg state = rc"
    "bl_build_store L (store_client_of (st_storage (rt_settings rc))) = Inr (as_storage state)"
    "needs_gcp rc \<longleftrightarrow> as_gcp state \<noteq> None"
    "as_http state = build_http (bl_build_env L)" "as_public_http state = build_public_http (bl_build_env L)"
    "as_token_http state = build_token_http (bl_build_env L)"
    "as_ephemeral state = ephemeral_new (ec_max_bytes (st_ephemeral_cache (rt_settings rc)))
       (ec_ttl_secs (st_ephemeral_cache (rt_settings rc)))"
    "as_index_cache state = index_cache_config (rt_settings rc)"
proof -
  from assms obtain rc store gcp b1 b2 where s: "load_config L (args_config args) = Inr rc"
    "build_storage (bl_build_store L) (st_storage (rt_settings rc)) = Inr store"
    "app_state_new L rc store gcp b1 = (Inr state, b2)"
    "needs_gcp rc \<longleftrightarrow> gcp \<noteq> None"
    unfolding before_listening_def
    by (auto elim!: bindA_InrE simp: liftA_def boot_call_Inr returnA_def split: if_splits)
  with app_state_new_Inr [OF s(3)] that [of rc] show thesis
    by (simp add: build_storage_def)
qed

lemma bindA_assoc: "bindA (bindA m f) g = bindA m (\<lambda>a. bindA (f a) g)"
  by (auto simp: bindA_def fun_eq_iff split: prod.split sum.split)

lemma listen_as_configured:
  "bindA (app_state_new L rc store gcp) (\<lambda>state.
     bindA (boot_call (bl_bind L (st_listen (rt_settings (as_cfg state))))
              (Listening (st_listen (rt_settings (as_cfg state))))) (g state)) =
   bindA (app_state_new L rc store gcp) (\<lambda>state.
     bindA (boot_call (bl_bind L (st_listen (rt_settings rc))) (Listening (st_listen (rt_settings rc)))) (g state))"
  by (auto simp: bindA_def fun_eq_iff split: prod.split sum.split dest!: app_state_new_Inr(1))

lemma server_main_split:
  "server_main L args =
     bindA (before_listening L args) (\<lambda>state.
     bindA (boot_call (bl_bind L (st_listen (rt_settings (as_cfg state)))) (Listening (st_listen (rt_settings (as_cfg state))))) (\<lambda>_.
     bindA (note_event Serving) (\<lambda>_. returnA state)))"
  unfolding server_main_def before_listening_def Let_def bindA_assoc listen_as_configured by (rule refl)

lemma server_main_Inr:
  assumes "server_main L args b = (Inr state, b')"
  obtains b1 where "before_listening L args b = (Inr state, b1)"
    "bl_bind L (st_listen (rt_settings (as_cfg state))) = Inr ()"
    "bt_trace b' = bt_trace b1 @ [Listening (st_listen (rt_settings (as_cfg state))), Serving]"
  using assms unfolding server_main_split
  by (auto simp: bindA_Inr boot_call_Inr note_event_def modifyA_def returnA_def)

lemma server_main_Inl:
  assumes "server_main L args b = (Inl e, b')"
  shows "\<exists>tr. bt_trace b' = bt_trace b @ tr \<and> list_all quiet tr"
proof -
  from assms consider "before_listening L args b = (Inl e, b')"
    | state where "before_listening L args b = (Inr state, b')"
    unfolding server_main_split
    by (auto simp: bindA_Inl boot_call_Inr note_event_def modifyA_def returnA_def dest!: boot_call_Inl)
  then show ?thesis using quietD [OF quiet_before_listening] by cases blast+
qed

lemma load_config_Inr:
  assumes "load_config L path = Inr rc"
  obtains raw expanded missing s where "bl_read_file L path = Inr raw" "bl_expand L raw = Inr (expanded, missing)"
    "bl_read_yaml L expanded = Inr s"
    "validate (bl_url L) (bl_debug L) (bl_uni_alnum L) s missing = Inr rc"
  using assms by (auto simp: load_config_def parse_config_def bindE_Inr map_errE_def split: sum.splits prod.splits)

lemma load_config_Inl:
  assumes "load_config L path = Inl r"
  shows "hd r \<in> {''reading config file '' @ path, ''loading config file '' @ path}"
  using assms by (auto simp: load_config_def bindE_def map_errE_def split: sum.splits)

lemma needs_gcp_iff:
  assumes "validate U debug ua s missing = Inr rc"
  shows "needs_gcp rc \<longleftrightarrow> (\<exists>name al. map_of (rt_aliases rc) name = Some al \<and> al_auth al = AuthGcp)"
proof -
  from assms obtain aliases where b: "build_aliases U debug (st_aliases s) [] = Inr aliases" "rt_aliases rc = aliases"
    by (elim validate_Inr) simp
  from build_aliases_good [OF b(1)] have "distinct (map fst aliases)" by simp
  then show ?thesis
    by (auto simp: needs_gcp_def b(2) list_ex_iff map_of_eq_Some_iff)
qed

lemma index_cache_holds_one: "st_max_index_bytes s \<le> bc_max_capacity (index_cache_config s)"
proof -
  have "unat (st_max_index_bytes s) < 2 ^ 64" using unsigned_less [of "st_max_index_bytes s"] by simp
  then show ?thesis
    by (simp add: index_cache_config_def word_le_nat_alt unat_saturating_mul INDEX_CACHE_INDEXES_def)
qed

lemma started_env_simps [simp]:
  "e_cfg (started_env L J state E) = as_cfg state"
  "e_gcp (started_env L J state E) = map_option (real_gcp_access_token L) (as_gcp state)"
  "e_http (started_env L J state E) = e_http E" "e_url (started_env L J state E) = e_url E"
  by (simp_all add: started_env_def deploy_def)

lemma token_client_Inl: "token_client U target target_url realm_url = Inl e \<Longrightarrow> \<exists>m. e = Upstream m"
  by (auto simp: token_client_def Let_def validate_public_https_def res_simps split: upstream_auth_kind.splits if_splits)

lemma build_token_request_Inl:
  assumes "build_token_request E target challenge w = (Inl e, w')"
    and "ot_auth target = AuthGcp \<Longrightarrow> \<exists>gcp. e_gcp E = Some gcp \<and> (\<forall>now e. gcp now = Inl e \<longrightarrow> (\<exists>m. e = Upstream m))"
  shows "\<exists>m. e = Upstream m"
  using assms
  by (auto simp: build_token_request_def Let_def bindA_Inl bindA_Inr liftA_def failA_def returnA_def getA_def
      registry_url_def map_errE_def dest: token_client_Inl split: sum.splits if_splits option.splits)

lemma resolved_oci_auth:
  assumes "resolve_name hp name aliases = Some (ResOci target)"
  shows "\<exists>n al. map_of aliases n = Some al \<and> ot_auth target = al_auth al"
proof -
  let ?segs = "filter (\<lambda>s. s \<noteq> []) (split_on (CHR ''/'') name)"
  from assms obtain first rest where segs: "?segs = first # rest"
    by (auto simp: resolve_name_def Let_def split: list.splits)
  show ?thesis
  proof (cases "map_of aliases first")
    case None
    with assms segs have "resolve_host_path hp ?segs name = Some (ResOci target)"
      by (simp add: resolve_name_def)
    then show ?thesis by (rule resolve_host_path_Some) simp
  next
    case (Some al)
    with assms segs have "ot_auth target = al_auth al"
      by (auto simp: resolve_name_def Let_def split: alias_upstream.splits if_splits)
    with Some show ?thesis by blast
  qed
qed

section \<open>A process for the witnesses\<close>

definition sample_boot_lib ::
  "(unit, string \<Rightarrow> bytes option, string \<Rightarrow> entry option, string, sample_url) boot_lib" where
  "sample_boot_lib = \<lparr>
     bl_read_file = (\<lambda>path. if path = ''helmoci.yaml'' then Inr ''settings'' else Inl ''not found''),
     bl_expand = (\<lambda>raw. Inr (raw, [''VAR''])), bl_read_yaml = (\<lambda>_. Inr sample_settings),
     bl_url = sample_url_lib, bl_debug = quote, bl_uni_alnum = (\<lambda>_. False), bl_env = (\<lambda>_. None),
     bl_log = \<lparr>ll_level = (\<lambda>_. None), ll_targets = (\<lambda>_. Inl ''no targets''), ll_default = ()\<rparr>,
     bl_build_env = \<lparr>be_git_sha = None, be_build_time = None, be_pkg_version = ''1''\<rparr>,
     bl_build_store = (\<lambda>_. Inr memory_store), bl_build_cache = (\<lambda>_. sample_cache),
     bl_build_client = (\<lambda>_. Inr ()), bl_gcp_provider = Inr ''adc'', bl_gcp_token = (\<lambda>_ _ _. Inl ''expired''),
     bl_lookup_host = (\<lambda>_ _. Inr [V4 0x08080808]), bl_library_dns = (\<lambda>_. Inr []),
     bl_bind = (\<lambda>listen. if listen = default_listen then Inr () else Inl ''in use'')\<rparr>"

definition sample_boot :: "unit boot" where
  "sample_boot = \<lparr>bt_subscriber = None, bt_recorder = False, bt_trace = []\<rparr>"

definition sample_state :: "(string \<Rightarrow> bytes option, string) app_state" where
  "sample_state = \<lparr>as_cfg = sample_config, as_storage = memory_store, as_ephemeral = ephemeral_new 20 60,
     as_http = build_http (bl_build_env sample_boot_lib), as_public_http = build_public_http (bl_build_env sample_boot_lib),
     as_token_http = build_token_http (bl_build_env sample_boot_lib),
     as_index_cache = index_cache_config sample_settings, as_gcp = Some ''adc'',
     as_upstream_tokens = upstream_tokens_config\<rparr>"

lemma sample_load: "load_config sample_boot_lib ''helmoci.yaml'' = Inr sample_config"
  by (simp add: load_config_def parse_config_def sample_boot_lib_def sample_validate sample_config_def)

lemma sample_main:
  "\<exists>b'. server_main sample_boot_lib \<lparr>args_config = ''helmoci.yaml''\<rparr> sample_boot = (Inr sample_state, b')"
proof -
  have lib: "bl_build_store sample_boot_lib c = Inr memory_store" "bl_build_client sample_boot_lib k = Inr ()"
    "bl_gcp_provider sample_boot_lib = Inr ''adc''" "bl_bind sample_boot_lib default_listen = Inr ()" for c k
    by (simp_all add: sample_boot_lib_def)
  have gcp: "needs_gcp sample_config" "rt_settings sample_config = sample_settings"
    by (simp_all add: needs_gcp_def sample_config_def sample_aliases_def)
  have s: "st_listen sample_settings = default_listen" "st_ephemeral_cache sample_settings = \<lparr>ec_max_bytes = 20, ec_ttl_secs = 60\<rparr>"
    by (simp_all add: sample_settings_def)
  show ?thesis
    by (simp add: server_main_def sample_load gcp s init_logging_def set_global_default_def real_gcp_new_def
        boot_call_def metrics_handle_def app_state_new_def build_client_def build_storage_def lib note_event_def
        sample_boot_def sample_state_def bindA_def liftA_def returnA_def getA_def modifyA_def Let_def)
qed

section \<open>Properties\<close>

text \<open>C16. A server that starts runs on a configuration that was read and validated, on the store it
  names, and listens where it says as its last step; it has Google credentials exactly if an alias
  needs them; its caches hold at least one index and one chart of the permitted size, none of its
  clients follows redirects by itself, and its public client only ever connects to public
  addresses.\<close>
theorem started_server_configured:
  assumes "server_main L args b = (Inr state, b')"
  shows "\<exists>raw expanded missing s.
    bl_read_file L (args_config args) = Inr raw \<and> bl_expand L raw = Inr (expanded, missing) \<and>
    bl_read_yaml L expanded = Inr s \<and>
    validate (bl_url L) (bl_debug L) (bl_uni_alnum L) s missing = Inr (as_cfg state) \<and>
    bl_build_store L (store_client_of (st_storage s)) = Inr (as_storage state) \<and>
    (as_gcp state \<noteq> None \<longleftrightarrow> (\<exists>name al. map_of (rt_aliases (as_cfg state)) name = Some al \<and> al_auth al = AuthGcp)) \<and>
    st_max_index_bytes s \<le> bc_max_capacity (as_index_cache state) \<and>
    st_max_chart_bytes s \<le> cf_max_capacity (as_ephemeral state) \<and>
    \<not> cl_follows_redirects (as_http state) \<and> \<not> cl_follows_redirects (as_public_http state) \<and>
    \<not> cl_follows_redirects (as_token_http state) \<and>
    (\<forall>hostname addresses. client_resolve L (as_public_http state) hostname = Inr addresses \<longrightarrow>
       addresses \<noteq> [] \<and> list_all is_public_ip addresses) \<and>
    (\<exists>tr. bt_trace b' = bt_trace b @ tr @ [Listening (st_listen s), Serving] \<and> list_all quiet tr)"
proof -
  from assms obtain b1 where m: "before_listening L args b = (Inr state, b1)"
    "bt_trace b' = bt_trace b1 @ [Listening (st_listen (rt_settings (as_cfg state))), Serving]"
    by (rule server_main_Inr)
  from m(1) obtain rc where rc: "load_config L (args_config args) = Inr rc" "as_cfg state = rc"
    and store: "bl_build_store L (store_client_of (st_storage (rt_settings rc))) = Inr (as_storage state)"
    and gcp: "needs_gcp rc \<longleftrightarrow> as_gcp state \<noteq> None"
    and clients: "as_http state = build_http (bl_build_env L)" "as_public_http state = build_public_http (bl_build_env L)"
      "as_token_http state = build_token_http (bl_build_env L)"
    and sizes: "as_ephemeral state = ephemeral_new (ec_max_bytes (st_ephemeral_cache (rt_settings rc)))
         (ec_ttl_secs (st_ephemeral_cache (rt_settings rc)))"
      "as_index_cache state = index_cache_config (rt_settings rc)"
    by (rule before_listening_Inr)
  from rc(1) obtain raw expanded missing s where
    files: "bl_read_file L (args_config args) = Inr raw" "bl_expand L raw = Inr (expanded, missing)"
      "bl_read_yaml L expanded = Inr s" and
    val: "validate (bl_url L) (bl_debug L) (bl_uni_alnum L) s missing = Inr rc" by (rule load_config_Inr)
  have s: "rt_settings rc = s" "check_limits s = Inr ()"
    using val by (elim validate_Inr; simp)+
  have caches: "st_max_index_bytes s \<le> bc_max_capacity (as_index_cache state)"
    "st_max_chart_bytes s \<le> cf_max_capacity (as_ephemeral state)"
    using index_cache_holds_one check_limits_ok(4) [OF s(2)] by (simp_all add: sizes s ephemeral_new_def)
  have redirects: "\<not> cl_follows_redirects (as_http state)" "\<not> cl_follows_redirects (as_public_http state)"
    "\<not> cl_follows_redirects (as_token_http state)"
    by (simp_all add: clients build_http_def build_public_http_def build_token_http_def build_no_redirect_http_def)
  have public: "\<forall>hostname addresses. client_resolve L (as_public_http state) hostname = Inr addresses \<longrightarrow>
       addresses \<noteq> [] \<and> list_all is_public_ip addresses"
    by (auto simp: clients client_resolve_def build_public_http_def build_no_redirect_http_def public_dns_resolve_def
        bindE_Inr list_ex_iff list_all_iff split: if_splits)
  have trace: "\<exists>tr. bt_trace b' = bt_trace b @ tr @ [Listening (st_listen s), Serving] \<and> list_all quiet tr"
    using quietD [OF quiet_before_listening m(1)] m(2) by (auto simp: rc s)
  have "as_gcp state \<noteq> None \<longleftrightarrow> (\<exists>name al. map_of (rt_aliases (as_cfg state)) name = Some al \<and> al_auth al = AuthGcp)"
    using gcp needs_gcp_iff [OF val] by (simp add: rc(2))
  moreover have "bl_build_store L (store_client_of (st_storage s)) = Inr (as_storage state)"
    using store by (simp add: s)
  ultimately show ?thesis
    using files val caches redirects public trace unfolding rc(2)
    by (intro exI [of _ raw] exI [of _ expanded] exI [of _ missing] exI [of _ s] conjI)
qed

theorem started_server_configured_witness:
  "\<exists>b' tr. server_main sample_boot_lib \<lparr>args_config = ''helmoci.yaml''\<rparr> sample_boot = (Inr sample_state, b') \<and>
     bt_trace b' = tr @ [Listening default_listen, Serving] \<and> as_gcp sample_state = Some ''adc'' \<and>
     (\<exists>name al. map_of sample_aliases name = Some al \<and> al_auth al = AuthGcp)"
proof -
  from sample_main obtain b' where
    m: "server_main sample_boot_lib \<lparr>args_config = ''helmoci.yaml''\<rparr> sample_boot = (Inr sample_state, b')" by blast
  from started_server_configured [OF m] obtain raw expanded missing s tr where
    f: "bl_read_yaml sample_boot_lib expanded = Inr s" "bt_trace b' = bt_trace sample_boot @ tr @ [Listening (st_listen s), Serving]"
      "as_gcp sample_state \<noteq> None \<longleftrightarrow>
        (\<exists>name al. map_of (rt_aliases (as_cfg sample_state)) name = Some al \<and> al_auth al = AuthGcp)"
    by blast
  from f(1) have "s = sample_settings" by (simp add: sample_boot_lib_def)
  with f(2) have "bt_trace b' = tr @ [Listening default_listen, Serving]"
    by (simp add: sample_boot_def sample_settings_def)
  with m f(3) show ?thesis by (auto simp: sample_state_def sample_config_def)
qed

text \<open>C40. Start-up fails closed: when it fails nothing was listened on, and when the configuration
  cannot be read or is refused nothing at all was done and the report names the file.\<close>
theorem startup_fails_closed:
  assumes "server_main L args b = (Inl e, b')"
  shows "(\<exists>tr. bt_trace b' = bt_trace b @ tr \<and> Serving \<notin> set tr \<and> (\<forall>listen. Listening listen \<notin> set tr)) \<and>
    (\<forall>r. load_config L (args_config args) = Inl r \<longrightarrow> b' = b \<and> e = r \<and>
       hd e \<in> {''reading config file '' @ args_config args, ''loading config file '' @ args_config args})"
proof (intro conjI allI impI)
  show "\<exists>tr. bt_trace b' = bt_trace b @ tr \<and> Serving \<notin> set tr \<and> (\<forall>listen. Listening listen \<notin> set tr)"
    using server_main_Inl [OF assms] by (fastforce simp: list_all_iff quiet_def)
next
  fix r
  assume r: "load_config L (args_config args) = Inl r"
  with assms have "e = r" "b' = b" by (simp_all add: server_main_def bindA_def liftA_def)
  then show "b' = b" "e = r"
    "hd e \<in> {''reading config file '' @ args_config args, ''loading config file '' @ args_config args}"
    using load_config_Inl [OF r] by auto
qed

theorem startup_fails_closed_witness:
  "server_main sample_boot_lib \<lparr>args_config = ''x''\<rparr> sample_boot = (Inl [''reading config file x'', ''not found''], sample_boot)
   \<and> bt_trace sample_boot = []"
proof -
  have l: "load_config sample_boot_lib ''x'' = Inl [''reading config file x'', ''not found'']"
    by (simp add: load_config_def sample_boot_lib_def)
  obtain r b' where m: "server_main sample_boot_lib \<lparr>args_config = ''x''\<rparr> sample_boot = (Inl r, b')"
    by (simp add: server_main_def l bindA_def liftA_def)
  with startup_fails_closed [OF m] l show ?thesis by (simp add: sample_boot_def)
qed

text \<open>C39. In a started server the token request for a name that resolves to an OCI upstream never fails for want of
  credentials: an alias that authenticates with Google Cloud has its provider, and every error is a
  gateway error of the upstream, never an internal one.\<close>
theorem started_gcp_available:
  assumes "server_main L args b = (Inr state, b')"
    and "resolve_in (started_env L J state E) name = Some (ResOci target)"
    and "build_token_request (started_env L J state E) target challenge w = (Inl e, w')"
  shows "\<exists>m. e = Upstream m \<and> fst (error_parts e) = 502"
proof -
  from assms(1) obtain b1 where "before_listening L args b = (Inr state, b1)" by (rule server_main_Inr)
  then obtain rc where rc: "load_config L (args_config args) = Inr rc" "as_cfg state = rc"
    "needs_gcp rc \<longleftrightarrow> as_gcp state \<noteq> None" by (rule before_listening_Inr)
  from rc(1) obtain s missing where "validate (bl_url L) (bl_debug L) (bl_uni_alnum L) s missing = Inr rc"
    by (rule load_config_Inr)
  note gcp = needs_gcp_iff [OF this]
  have "\<exists>m. e = Upstream m"
  proof (rule build_token_request_Inl [OF assms(3)])
    assume "ot_auth target = AuthGcp"
    with resolved_oci_auth [of _ name "rt_aliases rc" target] assms(2) gcp rc obtain p where "as_gcp state = Some p"
      by (fastforce simp: resolve_in_def)
    then show "\<exists>gcp. e_gcp (started_env L J state E) = Some gcp \<and> (\<forall>now e. gcp now = Inl e \<longrightarrow> (\<exists>m. e = Upstream m))"
      by (auto simp: real_gcp_access_token_def map_errE_def split: sum.splits)
  qed
  then show ?thesis by auto
qed

definition sample_gcp_target :: oci_target where
  "sample_gcp_target = \<lparr>ot_registry = ''r.io'', ot_repo = ''p/app'', ot_full_name = ''priv/app'', ot_store = True,
     ot_auth = AuthGcp, ot_plain_http = False\<rparr>"

theorem started_gcp_available_witness:
  "\<exists>m. fst (build_token_request (started_env sample_boot_lib sample_pointer_json sample_state (sample_env silent_net))
       sample_gcp_target \<lparr>bc_realm = ''https://r.io/token'', bc_service = None, bc_scope = None\<rparr> sample_world)
     = Inl (Upstream m) \<and> m = ''failed to obtain GCP token: expired''"
proof -
  let ?E = "started_env sample_boot_lib sample_pointer_json sample_state (sample_env silent_net)"
  let ?t = "\<lparr>su_scheme = ''https'', su_host = ''r.io'', su_port = None, su_path = ''/'', su_query = None\<rparr>"
  let ?u = "\<lparr>su_scheme = ''https'', su_host = ''r.io'', su_port = None, su_path = ''/token'', su_query = None\<rparr>"
  let ?c = "\<lparr>bc_realm = ''https://r.io/token'', bc_service = None, bc_scope = None\<rparr>"
  from sample_main obtain b' where
    m: "server_main sample_boot_lib \<lparr>args_config = ''helmoci.yaml''\<rparr> sample_boot = (Inr sample_state, b')" by blast
  have e: "e_url (sample_env silent_net) = sample_url_lib" by (simp add: sample_env_def sample_helm_env_def)
  have gcp: "ot_auth sample_gcp_target = AuthGcp"
    "map_option (real_gcp_access_token sample_boot_lib) (as_gcp sample_state)
       = Some (\<lambda>_. Inl (Upstream ''failed to obtain GCP token: expired''))"
    by (simp_all add: sample_gcp_target_def sample_state_def fun_eq_iff real_gcp_access_token_def sample_boot_lib_def)
  have "resolve_name (\<lambda>s. Some (HostDomain s)) ''priv/app'' sample_aliases = Some (ResOci sample_gcp_target)"
    by code_simp
  then have r: "resolve_in ?E ''priv/app'' = Some (ResOci sample_gcp_target)"
    by (simp add: resolve_in_def sample_state_def sample_config_def sample_env_def sample_helm_env_def sample_url_lib_def)
  have "registry_url sample_url_lib sample_gcp_target = Inr ?t" by code_simp
  moreover have "sample_url_parse ''https://r.io/token'' = Inr ?u" by code_simp
  moreover have "token_client sample_url_lib sample_gcp_target ?t ?u = Inr Public" by code_simp
  ultimately have q: "build_token_request ?E sample_gcp_target ?c sample_world
      = (Inl (Upstream ''failed to obtain GCP token: expired''), sample_world)"
    by (simp add: build_token_request_def Let_def e gcp bindA_def)
  from started_gcp_available [OF m r q] q show ?thesis by auto
qed

end
