(* ===== verification/Write_Through.thy ===== *)
theory Write_Through
  imports Passthrough_Spec Credentials
begin

text \<open>
  What a pull through a storing alias leaves behind for the next one: the manifest, and for a tag
  its pointer, from which a repeated pull is answered without the upstream.
\<close>

section \<open>Reading back\<close>

text \<open>The documented behaviour of a healthy object store: an object it holds can be read to the end.\<close>

definition reads_back :: "'s object_store \<Rightarrow> ('s \<Rightarrow> string \<Rightarrow> bytes option) \<Rightarrow> bool" where
  "reads_back B contents \<longleftrightarrow> (\<forall>p s data. contents s p = Some data \<longrightarrow>
     (\<exists>g s'. os_get B p s = (Inr g, s') \<and> list_all is_ok (gr_chunks g)))"

text \<open>A pointer is three short fields, so its JSON is far below the bound for reading it.\<close>

definition pointer_json_short :: "pointer_json \<Rightarrow> bool" where
  "pointer_json_short J \<longleftrightarrow> (\<forall>p data. canonical (tp_digest p) \<longrightarrow> tp_media_type p \<in> set MANIFEST_MEDIA_TYPES \<longrightarrow>
     pj_to_vec J p = Inr data \<longrightarrow> length data \<le> MAX_TAG_POINTER_BYTES)"

lemma pointer_json_shortD:
  "pointer_json_short J \<Longrightarrow> pj_to_vec J p = Inr data \<Longrightarrow> canonical (tp_digest p) \<Longrightarrow>
   tp_media_type p \<in> set MANIFEST_MEDIA_TYPES \<Longrightarrow> length data \<le> MAX_TAG_POINTER_BYTES"
  unfolding pointer_json_short_def by blast

lemma read_pointer_bytes_all:
  "list_all is_ok cs \<Longrightarrow> length (acc @ delivered cs) \<le> MAX_TAG_POINTER_BYTES \<Longrightarrow>
   read_pointer_bytes acc cs = Inr (Some (acc @ delivered cs))"
  by (induction acc cs rule: read_pointer_bytes.induct) auto

lemma os_get_back:
  assumes "object_store_laws B contents" "reads_back B contents" "contents s p = Some data"
  obtains g s' where "os_get B p s = (Inr g, s')" "contents s' = contents s" "gr_size g = of_nat (length data)"
    "list_all is_ok (gr_chunks g)" "delivered (gr_chunks g) = data"
proof -
  from assms(2,3) obtain g s' where g: "os_get B p s = (Inr g, s')" "list_all is_ok (gr_chunks g)"
    unfolding reads_back_def by blast
  with os_get_laws [OF assms(1) g(1)] assms(3) show ?thesis
    by (intro that [OF g(1)]) (auto simp: streams_def)
qed

lemma get_blob_back:
  assumes "object_store_laws B contents" "reads_back B contents"
    and "os_path_parse B (blob_key d) = Inr path" "contents s path = Some data"
  obtains b s' where "objstore_get_blob B d s = (Inr (Some b), s')" "contents s' = contents s"
    "bm_size (bl_meta b) = of_nat (length data)" "list_all is_ok (bl_data b)" "delivered (bl_data b) = data"
proof -
  from os_get_back [OF assms(1,2,4)] obtain g s' where g: "os_get B path s = (Inr g, s')"
    "contents s' = contents s" "gr_size g = of_nat (length data)" "list_all is_ok (gr_chunks g)"
    "delivered (gr_chunks g) = data" by metis
  let ?b = "\<lparr>bl_meta = \<lparr>bm_size = gr_size g, bm_content_type = map_of (gr_attributes g) AttrContentType\<rparr>,
    bl_data = map (map_errE (\<lambda>e. Backend BlobRead (os_error_text B e))) (gr_chunks g)\<rparr>"
  have "objstore_get_blob B d s = (Inr (Some ?b), s')"
    using assms(3) g(1) by (simp add: objstore_get_blob_def bindA_def catchA_def os_path_def)
  with g show ?thesis
    by (intro that [of ?b s']) (simp_all add: delivered_map_err list.pred_map comp_def)
qed

lemma get_tag_back:
  assumes "object_store_laws B contents" "reads_back B contents"
    and "os_path_parse B (tag_key sc t) = Inr path" "contents s path = Some data"
    and "length data \<le> MAX_TAG_POINTER_BYTES"
  shows "\<exists>s'. objstore_get_tag_pointer B J sc t s = (Inr (pj_from_slice J data), s') \<and> contents s' = contents s"
proof -
  from os_get_back [OF assms(1,2,4)] obtain g s' where g: "os_get B path s = (Inr g, s')"
    "contents s' = contents s" "gr_size g = of_nat (length data)" "list_all is_ok (gr_chunks g)"
    "delivered (gr_chunks g) = data" by metis
  have "\<not> of_nat MAX_TAG_POINTER_BYTES < gr_size g"
    using assms(5) g(3) by (simp add: not_less word_le_nat_alt unat_of_nat MAX_TAG_POINTER_BYTES_def)
  moreover have "read_pointer_bytes [] (gr_chunks g) = Inr (Some data)"
    using read_pointer_bytes_all [OF g(4), of "[]"] assms(5) g(5) by simp
  ultimately have "objstore_get_tag_pointer B J sc t s = (Inr (pj_from_slice J data), s')"
    using assms(3) g(1) by (simp add: objstore_get_tag_pointer_def bindA_def catchA_def os_path_def map_errA_def)
  with g(2) show ?thesis by blast
qed

section \<open>Manifests that describe themselves\<close>

definition self_describing :: "('s, 'c, 'u) env \<Rightarrow> bytes \<Rightarrow> string \<Rightarrow> bool" where
  "self_describing E data mt \<longleftrightarrow> manifest_media_type (e_json_parse E) data None = Some mt"

lemma self_describing_type:
  assumes "self_describing E data mt"
  shows "manifest_media_type (e_json_parse E) data declared = Some mt"
  using assms by (auto simp: self_describing_def manifest_media_type_def bind_eq_Some_conv split: if_splits option.splits)

lemma cached_manifest_back:
  assumes "self_describing E data mt" "digest_sha256 (e_sha E) data = d" "length data \<le> unat MAX_MANIFEST_BYTES"
    and "bm_size (bl_meta b) = of_nat (length data)" "list_all is_ok (bl_data b)" "delivered (bl_data b) = data"
  shows "cached_manifest_response E d b head_only declared = Inr (bytes_response (e_http E) mt d data head_only)"
proof -
  have "of_nat (length data) \<le> MAX_MANIFEST_BYTES"
    using assms(3) by (simp add: word_le_nat_alt unat_of_nat)
  then have "read_cached_blob b MAX_MANIFEST_BYTES = Inr data"
    using assms(3-6) by (simp add: read_cached_blob_def read_bounded_iff)
  then show ?thesis
    using self_describing_type [OF assms(1)] assms(2) by (simp add: cached_manifest_response_def Let_def)
qed

section \<open>The deployed stores\<close>

lemma deployed_get_blob:
  "so_get_blob (storage_of (deploy B C J E)) d w =
     (case objstore_get_blob B d (w_store w) of (r, s) \<Rightarrow> (r, w\<lparr>w_store := s\<rparr>))"
  by (simp add: storage_of_def lift_ops_def on_part_def objstore_ops_def)

lemma deployed_get_tag:
  "so_get_tag_pointer (storage_of (deploy B C J E)) sc t w =
     (case objstore_get_tag_pointer B J sc t (w_store w) of (r, s) \<Rightarrow> (r, w\<lparr>w_store := s\<rparr>))"
  by (simp add: storage_of_def lift_ops_def on_part_def objstore_ops_def)

lemma deployed_put_blob:
  "so_put_blob (storage_of (deploy B C J E)) d ct data w =
     (case objstore_put_blob B d ct data (w_store w) of (r, s) \<Rightarrow> (r, w\<lparr>w_store := s\<rparr>))"
  by (simp add: storage_of_def lift_ops_def on_part_def objstore_ops_def)

lemma deployed_put_tag:
  "so_put_tag_pointer (storage_of (deploy B C J E)) sc t p w =
     (case objstore_put_tag_pointer B J sc t p (w_store w) of (r, s) \<Rightarrow> (r, w\<lparr>w_store := s\<rparr>))"
  by (simp add: storage_of_def lift_ops_def on_part_def objstore_ops_def)

lemmas deployed_ops = deployed_get_blob deployed_get_tag deployed_put_blob deployed_put_tag

text \<open>What the store holds for a reference: the blob, and the way from the reference to it.\<close>

definition holds_blob ::
  "'s object_store \<Rightarrow> ('s \<Rightarrow> string \<Rightarrow> bytes option) \<Rightarrow> digest \<Rightarrow> bytes \<Rightarrow> 's \<Rightarrow> bool" where
  "holds_blob B contents d data s \<longleftrightarrow>
     (\<exists>path. os_path_parse B (blob_key d) = Inr path \<and> contents s path = Some data)"

definition leads_to ::
  "'s object_store \<Rightarrow> pointer_json \<Rightarrow> ('s \<Rightarrow> string \<Rightarrow> bytes option) \<Rightarrow> tag_scope \<Rightarrow> string \<Rightarrow> string option \<Rightarrow>
   digest \<Rightarrow> 's \<Rightarrow> bool" where
  "leads_to B J contents sc reference accept d s \<longleftrightarrow>
     digest_parse reference = Some d \<or>
     digest_parse reference = None \<and>
     (\<exists>path ptr p mt. os_path_parse B (tag_key sc reference) = Inr path \<and> contents s path = Some ptr
        \<and> length ptr \<le> MAX_TAG_POINTER_BYTES \<and> pj_from_slice J ptr = Some p \<and> tp_digest p = d
        \<and> normalized_manifest_media_type (tp_media_type p) = Some mt \<and> accepts_media_type accept mt)"

lemma leads_same: "contents s' = contents s \<Longrightarrow> leads_to B J contents sc reference accept d s' \<longleftrightarrow> leads_to B J contents sc reference accept d s"
  by (simp add: leads_to_def)

lemma holds_same: "contents s' = contents s \<Longrightarrow> holds_blob B contents d data s' \<longleftrightarrow> holds_blob B contents d data s"
  by (simp add: holds_blob_def)

lemma found_in_store:
  assumes laws: "object_store_laws B contents" "reads_back B contents"
    and blob: "holds_blob B contents d data (w_store w)"
    and lead: "leads_to B J contents sc reference accept d (w_store w)"
    and m: "self_describing E data mt" "digest_sha256 (e_sha E) data = d" "length data \<le> unat MAX_MANIFEST_BYTES"
  obtains s where "find_cached_manifest (deploy B C J E) sc reference head_only accept w =
    (Inr (Some (Inr (bytes_response (e_http E) mt d data head_only))), w\<lparr>w_store := s\<rparr>)"
proof -
  let ?E = "deploy B C J E"
  have get: "\<exists>b s. so_get_blob (storage_of ?E) d v = (Inr (Some b), v\<lparr>w_store := s\<rparr>)
      \<and> (\<forall>declared. cached_manifest_response ?E d b head_only declared = Inr (bytes_response (e_http E) mt d data head_only))"
    if v: "holds_blob B contents d data (w_store v)" for v
  proof -
    from v obtain path where path: "os_path_parse B (blob_key d) = Inr path" "contents (w_store v) path = Some data"
      by (auto simp: holds_blob_def)
    from get_blob_back [OF laws path] obtain b s where b: "objstore_get_blob B d (w_store v) = (Inr (Some b), s)"
      "bm_size (bl_meta b) = of_nat (length data)" "list_all is_ok (bl_data b)" "delivered (bl_data b) = data" by metis
    have "self_describing ?E data mt" "digest_sha256 (e_sha ?E) data = d"
      using m by (simp_all add: self_describing_def deploy_def)
    from cached_manifest_back [OF this m(3) b(2-4)] b(1) show ?thesis by (auto simp: deployed_get_blob)
  qed
  from lead consider (digest) "digest_parse reference = Some d"
    | (tag) path ptr p pm where "digest_parse reference = None" "os_path_parse B (tag_key sc reference) = Inr path"
        "contents (w_store w) path = Some ptr" "length ptr \<le> MAX_TAG_POINTER_BYTES" "pj_from_slice J ptr = Some p"
        "tp_digest p = d" "normalized_manifest_media_type (tp_media_type p) = Some pm" "accepts_media_type accept pm"
    unfolding leads_to_def by blast
  then show ?thesis
  proof cases
    case digest
    with get [OF blob] show ?thesis
      by (auto simp: find_cached_manifest_def storage_try_def map_errA_def bindA_def intro: that)
  next
    case tag
    from get_tag_back [OF laws tag(2-4), of J] obtain s1 where
      "objstore_get_tag_pointer B J sc reference (w_store w) = (Inr (pj_from_slice J ptr), s1)"
      and same: "contents s1 = contents (w_store w)" by blast
    then have s1: "objstore_get_tag_pointer B J sc reference (w_store w) = (Inr (Some p), s1)"
      using tag(5) by simp
    have "holds_blob B contents d data (w_store (w\<lparr>w_store := s1\<rparr>))"
      using blob by (simp add: holds_same [OF same])
    from get [OF this] obtain b s where
      "so_get_blob (storage_of ?E) d (w\<lparr>w_store := s1\<rparr>) = (Inr (Some b), w\<lparr>w_store := s1\<rparr>\<lparr>w_store := s\<rparr>)"
      "\<forall>declared. cached_manifest_response ?E d b head_only declared = Inr (bytes_response (e_http E) mt d data head_only)"
      by blast
    then have "find_cached_manifest ?E sc reference head_only accept w =
        (Inr (Some (Inr (bytes_response (e_http E) mt d data head_only))), w\<lparr>w_store := s\<rparr>)"
      by (simp add: find_cached_manifest_def storage_try_def map_errA_def bindA_def deployed_get_tag s1 tag(1,6-8))
    then show ?thesis by (rule that)
  qed
qed

lemma served_from_store:
  assumes "object_store_laws B contents" "reads_back B contents" "ot_store target"
    and "holds_blob B contents d data (w_store w)"
    and "leads_to B J contents \<lparr>ts_proxy_host = host, ts_full_name = ot_full_name target\<rparr> reference accept d (w_store w)"
    and "self_describing E data mt" "digest_sha256 (e_sha E) data = d" "length data \<le> unat MAX_MANIFEST_BYTES"
  shows "\<exists>w'. passthrough_manifest (deploy B C J E) host target reference head_only accept w =
    (Inr (bytes_response (e_http E) mt d data head_only), w') \<and> w_sent w' = w_sent w"
proof -
  obtain s where "find_cached_manifest (deploy B C J E) \<lparr>ts_proxy_host = host, ts_full_name = ot_full_name target\<rparr>
      reference head_only accept w = (Inr (Some (Inr (bytes_response (e_http E) mt d data head_only))), w\<lparr>w_store := s\<rparr>)"
    using found_in_store [OF assms(1,2,4-8)] by metis
  with assms(3) show ?thesis
    by (simp add: passthrough_manifest_def bindA_def count_event_def record_event_def proxied_def)
qed

section \<open>The first pull\<close>

text \<open>A blob that is already there is not written again, whatever its bytes are.\<close>

lemma put_blob_keeps:
  assumes "object_store_laws B contents" "canonical d" "objstore_put_blob B d ct data s = (Inr u, s')"
  obtains kept where "holds_blob B contents d kept s'" "kept = data \<or> holds_blob B contents d kept s"
proof -
  from assms(3) obtain path where path: "os_path_parse B (blob_key d) = Inr path"
    by (auto simp: objstore_put_blob_def os_path_def res_simps)
  then have "path = blob_key d" using os_path_laws [OF assms(1) path] path_raw_blob_key [OF assms(2)] by simp
  moreover have "put_effect contents (blob_key d) data s (Inr u :: storage_error + unit) s'"
    using objstore_put_blob_effect [OF assms(1-3)] by simp
  ultimately obtain kept where "contents s' path = Some kept" "kept = data \<or> contents s path = Some kept"
    by (auto simp: put_effect_def)
  with path that show thesis unfolding holds_blob_def by blast
qed

lemma put_tag_leads:
  assumes "object_store_laws B contents" "pointer_json_roundtrip J" "pointer_json_short J" "plain_tag reference"
    and "objstore_put_tag_pointer B J sc reference \<lparr>tp_digest = d, tp_media_type = mt, tp_size = n\<rparr> s = (Inr u, s')"
    and "digest_parse reference = None" "canonical d" "mt \<in> set MANIFEST_MEDIA_TYPES" "accepts_media_type accept mt"
  shows "leads_to B J contents sc reference accept d s'" "contents s' (blob_key d') = contents s (blob_key d')"
proof -
  let ?p = "\<lparr>tp_digest = d, tp_media_type = mt, tp_size = n\<rparr>"
  from objstore_put_tag_ok [OF assms(1,4,5)] obtain ptr where
    ptr: "pj_to_vec J ?p = Inr ptr" "contents s' (tag_key sc reference) = Some ptr"
      "\<forall>k. k \<noteq> tag_key sc reference \<longrightarrow> contents s' k = contents s k" by blast
  from assms(5) obtain path where path: "os_path_parse B (tag_key sc reference) = Inr path"
    by (auto simp: objstore_put_tag_pointer_def os_path_def res_simps)
  then have key: "path = tag_key sc reference"
    using os_path_laws [OF assms(1) path] path_raw_tag_key [OF assms(4)] by simp
  have "length ptr \<le> MAX_TAG_POINTER_BYTES" "pj_from_slice J ptr = Some ?p"
    using pointer_json_shortD [OF assms(3) ptr(1)] assms(2,7,8) ptr(1) by (auto simp: pointer_json_roundtrip_def)
  with path key ptr(2) assms(6,9) known_fixed [OF assms(8)] show "leads_to B J contents sc reference accept d s'"
    by (auto simp: leads_to_def)
  have "tag_key sc reference \<noteq> blob_key d'"
    by (simp add: tag_key_def blob_key_def)
  with ptr(3) show "contents s' (blob_key d') = contents s (blob_key d')" by metis
qed

text \<open>What the store holds after a pull that delivered \<open>data\<close>: a way from the reference to the digest
  of \<open>data\<close>, and under it \<open>kept\<close>, which is \<open>data\<close> unless other bytes were there already.\<close>

definition left_behind ::
  "'s object_store \<Rightarrow> pointer_json \<Rightarrow> ('s \<Rightarrow> string \<Rightarrow> bytes option) \<Rightarrow> ('s, 'c, 'u) env \<Rightarrow> tag_scope \<Rightarrow> string \<Rightarrow>
   string option \<Rightarrow> bytes \<Rightarrow> bytes \<Rightarrow> 's \<Rightarrow> bool" where
  "left_behind B J contents E sc reference accept data kept s \<longleftrightarrow>
     (let d = digest_sha256 (e_sha E) data in
      holds_blob B contents d kept s \<and> leads_to B J contents sc reference accept d s
      \<and> length data \<le> unat MAX_MANIFEST_BYTES)"

lemma bytes_response_body:
  assumes "r = bytes_response H mt d data False" "rs_status r = 200"
  shows "rs_body r = [Inr data]"
  using bytes_response_cases [OF assms(1) [symmetric]] assms(2)
  by (auto simp: error_response_def text_response_def invalid_content_type_def)

lemma bytes_response_head:
  "rs_status (bytes_response H mt d data False :: 'm response) = 200 \<Longrightarrow>
   bytes_response H mt d data True = (bytes_response H mt d data False)\<lparr>rs_body := []\<rparr>"
  by (auto simp: bytes_response_def finish_def error_response_def text_response_def
      invalid_content_type_def split: sum.splits if_splits)

lemma cached_manifest_inv:
  assumes laws: "object_store_laws B contents"
    and get: "objstore_get_blob B d s = (Inr (Some b), s')"
    and c: "cached_manifest_response E d b False declared = Inr r" and st: "rs_status r = 200"
    and m: "self_describing E (delivered (rs_body r)) mt"
  shows "digest_sha256 (e_sha E) (delivered (rs_body r)) = d \<and> holds_blob B contents d (delivered (rs_body r)) s
    \<and> length (delivered (rs_body r)) \<le> unat MAX_MANIFEST_BYTES
    \<and> r = bytes_response (e_http E) mt d (delivered (rs_body r)) False"
proof -
  from c obtain x mt' stated where x: "read_cached_blob b MAX_MANIFEST_BYTES = Inr x" "digest_sha256 (e_sha E) x = d"
    and r: "r = bytes_response (e_http E) mt' d x False"
    and mt': "manifest_media_type (e_json_parse E) x stated = Some mt' \<or> manifest_media_type (e_json_parse E) x stated = None"
    by (fastforce simp: cached_manifest_response_def bindE_Inr Let_def split: if_splits option.splits)
  have body: "delivered (rs_body r) = x" using bytes_response_body [OF r st] by simp
  from objstore_get_blob_cases [OF laws get] obtain y where y: "object_blobs B contents s d = Some y" "serves b y"
    by blast
  from x(1) have "list_all is_ok (bl_data b)" "x = delivered (bl_data b)" "length x \<le> unat MAX_MANIFEST_BYTES"
    by (auto simp: read_cached_blob_def read_bounded_iff)
  with y have "x = y" "length x \<le> unat MAX_MANIFEST_BYTES" by (auto simp: serves_def streams_def)
  moreover have "mt' = mt" using mt' self_describing_type [OF m] by (auto simp: body)
  moreover have "holds_blob B contents d y s" using y(1) by (auto simp: object_blobs_def holds_blob_def split: sum.splits)
  ultimately show ?thesis unfolding body using x(2) r by simp
qed

lemma found_cached_inv:
  assumes laws: "object_store_laws B contents"
    and run: "find_cached_manifest (deploy B C J E) sc reference False accept w = (Inr (Some (Inr r)), w')"
    and st: "rs_status r = 200" and m: "self_describing E (delivered (rs_body r)) mt"
  shows "left_behind B J contents E sc reference accept (delivered (rs_body r)) (delivered (rs_body r)) (w_store w)
    \<and> contents (w_store w') = contents (w_store w)
    \<and> r = bytes_response (e_http E) mt (digest_sha256 (e_sha E) (delivered (rs_body r))) (delivered (rs_body r)) False"
proof -
  let ?E = "deploy B C J E"
  have env: "e_sha ?E = e_sha E" "e_http ?E = e_http E" "self_describing ?E (delivered (rs_body r)) mt"
    using m by (simp_all add: self_describing_def deploy_def)
  show ?thesis
  proof (cases "digest_parse reference")
    case (Some d)
    with run obtain b s where get: "objstore_get_blob B d (w_store w) = (Inr (Some b), s)" "w' = w\<lparr>w_store := s\<rparr>"
      and c: "cached_manifest_response ?E d b False None = Inr r"
      by (auto simp: find_cached_manifest_def storage_try_def map_errA_def map_errE_def bindA_Inr deployed_get_blob
          split: prod.splits sum.splits)
    from cached_manifest_inv [OF laws get(1) c st env(3)] Some objstore_get_blob_cases [OF laws get(1)] get(2)
    show ?thesis by (simp add: left_behind_def Let_def leads_to_def env)
  next
    case None
    with run obtain p s1 b s pm where
      tag: "objstore_get_tag_pointer B J sc reference (w_store w) = (Inr (Some p), s1)"
      and get: "objstore_get_blob B (tp_digest p) s1 = (Inr (Some b), s)" "w' = w\<lparr>w_store := s\<rparr>"
      and pm: "normalized_manifest_media_type (tp_media_type p) = Some pm" "accepts_media_type accept pm"
      and c: "cached_manifest_response ?E (tp_digest p) b False (Some pm) = Inr r"
      by (auto simp: find_cached_manifest_def storage_try_def map_errA_def map_errE_def bindA_Inr deployed_get_blob
          deployed_get_tag split: prod.splits sum.splits option.splits if_splits)
    from tag obtain path where path: "os_path_parse B (tag_key sc reference) = Inr path"
      by (auto simp: objstore_get_tag_pointer_def os_path_def res_simps)
    from objstore_get_tag_cases [OF laws tag] obtain ptr where same: "contents s1 = contents (w_store w)"
      and ptr: "contents (w_store w) path = Some ptr" "pj_from_slice J ptr = Some p" "length ptr \<le> MAX_TAG_POINTER_BYTES"
      using os_path_laws [OF laws path] by auto
    have "leads_to B J contents sc reference accept (tp_digest p) (w_store w)"
      using None path ptr pm by (auto simp: leads_to_def)
    with cached_manifest_inv [OF laws get(1) c st env(3)] objstore_get_blob_cases [OF laws get(1)] get(2) same
    show ?thesis by (simp add: left_behind_def Let_def env holds_same [OF same])
  qed
qed

lemma upstream_answer_left:
  assumes laws: "object_store_laws B contents" "pointer_json_roundtrip J" "pointer_json_short J" "sha_hex (e_sha E)"
    and store: "ot_store target" and tag: "plain_tag reference"
    and run: "upstream_manifest_answer (deploy B C J E) host target reference response declared w = (Inr r, w')"
    and st: "rs_status r = 200" and m: "self_describing E (delivered (rs_body r)) mt" "digest_parse reference = None \<Longrightarrow> accepts_media_type accept mt"
  obtains kept where
    "kept = delivered (rs_body r) \<or> holds_blob B contents (digest_sha256 (e_sha E) (delivered (rs_body r))) kept (w_store w)"
    "left_behind B J contents E \<lparr>ts_proxy_host = host, ts_full_name = ot_full_name target\<rparr> reference accept
      (delivered (rs_body r)) kept (w_store w')"
    "r = bytes_response (e_http E) mt (digest_sha256 (e_sha E) (delivered (rs_body r))) (delivered (rs_body r)) False"
proof -
  let ?E = "deploy B C J E" and ?sc = "\<lparr>ts_proxy_host = host, ts_full_name = ot_full_name target\<rparr>"
  from run store obtain data mt' w1 where read: "read_upstream_body response MAX_MANIFEST_BYTES ''manifest'' = Inr data"
    and other: "other_digest reference (digest_sha256 (e_sha E) data) = None"
    and mt': "manifest_media_type (e_json_parse ?E) data declared = Some mt'"
    and put: "store_manifest ?E ?sc reference (digest_sha256 (e_sha E) data) mt' data w = (Inr (), w1)"
    and w': "w_store w' = w_store w1"
    and r: "r = bytes_response (e_http E) mt' (digest_sha256 (e_sha E) data) data False"
    by (auto simp: upstream_manifest_answer_def Let_def bindA_Inr proxied_def record_event_def
        split: if_splits option.splits)
  have body: "delivered (rs_body r) = data" using bytes_response_body [OF r st] by simp
  have "self_describing ?E data mt" using m(1) by (simp add: body self_describing_def deploy_def)
  then have mt: "mt' = mt" "mt \<in> set MANIFEST_MEDIA_TYPES"
    using self_describing_type mt' manifest_media_type_known by (metis option.inject)+
  have len: "length data \<le> unat MAX_MANIFEST_BYTES"
    using read by (auto simp: read_upstream_body_def read_response_def read_bounded_iff)
  let ?d = "digest_sha256 (e_sha E) data"
  have canon: "canonical ?d" using laws(4) by (rule canonical_sha256)
  from put obtain s1 where blob: "objstore_put_blob B ?d mt' data (w_store w) = (Inr (), s1)"
    and rest: "(if digest_parse reference = None
        then storage_try (so_put_tag_pointer (storage_of ?E) ?sc reference
               \<lparr>tp_digest = ?d, tp_media_type = mt', tp_size = of_nat (length data)\<rparr>)
        else returnA ()) (w\<lparr>w_store := s1\<rparr>) = (Inr (), w1)"
    by (auto simp: store_manifest_def bindA_Inr storage_try_def map_errA_def map_errE_def deployed_put_blob
        split: prod.splits sum.splits)
  from put_blob_keeps [OF laws(1) canon blob] obtain kept where
    held: "holds_blob B contents ?d kept s1" "kept = data \<or> holds_blob B contents ?d kept (w_store w)" by blast
  have "holds_blob B contents ?d kept (w_store w1) \<and> leads_to B J contents ?sc reference accept ?d (w_store w1)"
  proof (cases "digest_parse reference")
    case (Some d)
    with other rest held show ?thesis by (auto simp: other_digest_def leads_to_def returnA_def split: if_splits)
  next
    case None
    with rest obtain s2 where ptr: "objstore_put_tag_pointer B J ?sc reference
        \<lparr>tp_digest = ?d, tp_media_type = mt', tp_size = of_nat (length data)\<rparr> s1 = (Inr (), s2)" "w_store w1 = s2"
      by (auto simp: storage_try_def map_errA_def map_errE_def deployed_put_tag split: prod.splits sum.splits)
    note lead = put_tag_leads [OF laws(1-3) tag ptr(1) None canon]
    have "os_path_parse B (blob_key ?d) = Inr p \<Longrightarrow> p = blob_key ?d" for p
      using os_path_laws [OF laws(1)] path_raw_blob_key [OF canon] by metis
    with held lead(2) [where d' = ?d] have "holds_blob B contents ?d kept s2"
      using mt m(2) [OF None] unfolding holds_blob_def by auto
    with lead(1) mt m(2) [OF None] ptr(2) show ?thesis by simp
  qed
  with len r mt(1) w' held(2) show thesis
    by (intro that [of kept, unfolded body]) (simp_all add: left_behind_def Let_def)
qed

lemma reads_keep_contents:
  assumes "object_store_laws B contents"
  shows "preserves (\<lambda>w. contents (w_store w) = c) (storage_try (so_get_blob (storage_of (deploy B C J E)) d))"
    and "preserves (\<lambda>w. contents (w_store w) = c) (storage_try (so_get_tag_pointer (storage_of (deploy B C J E)) sc t))"
proof -
  have "preserves (\<lambda>w. contents (w_store w) = c) (so_get_blob (storage_of (deploy B C J E)) d)"
  proof (rule preservesI)
    fix w r w'
    assume c: "contents (w_store w) = c" and run: "so_get_blob (storage_of (deploy B C J E)) d w = (r, w')"
    then obtain s where s: "objstore_get_blob B d (w_store w) = (r, s)" "w' = w\<lparr>w_store := s\<rparr>"
      by (simp add: deployed_get_blob split: prod.split_asm)
    with objstore_get_blob_cases [OF assms s(1)] c show "contents (w_store w') = c" by simp
  qed
  then show "preserves (\<lambda>w. contents (w_store w) = c) (storage_try (so_get_blob (storage_of (deploy B C J E)) d))"
    unfolding storage_try_def by (rule preserves_map_err)
next
  have "preserves (\<lambda>w. contents (w_store w) = c) (so_get_tag_pointer (storage_of (deploy B C J E)) sc t)"
  proof (rule preservesI)
    fix w r w'
    assume c: "contents (w_store w) = c" and run: "so_get_tag_pointer (storage_of (deploy B C J E)) sc t w = (r, w')"
    then obtain s where s: "objstore_get_tag_pointer B J sc t (w_store w) = (r, s)" "w' = w\<lparr>w_store := s\<rparr>"
      by (simp add: deployed_get_tag split: prod.split_asm)
    with objstore_get_tag_cases [OF assms s(1)] c show "contents (w_store w') = c" by simp
  qed
  then show "preserves (\<lambda>w. contents (w_store w) = c) (storage_try (so_get_tag_pointer (storage_of (deploy B C J E)) sc t))"
    unfolding storage_try_def by (rule preserves_map_err)
qed

lemma find_cached_keeps_contents:
  assumes "object_store_laws B contents"
    and "find_cached_manifest (deploy B C J E) sc reference head_only accept w = (r, w')"
  shows "contents (w_store w') = contents (w_store w)"
proof -
  have "preserves (\<lambda>v. contents (w_store v) = contents (w_store w))
      (find_cached_manifest (deploy B C J E) sc reference head_only accept)"
    unfolding find_cached_manifest_def
    by (auto split: option.split intro!: preserves_bind preserves_basic reads_keep_contents [OF assms(1)])
  from preservesD [OF this refl assms(2)] show ?thesis .
qed

lemma pull_left:
  assumes laws: "deployed_laws B contents C entries J E" "pointer_json_short J"
    and store: "ot_store target" and tag: "plain_tag reference"
    and run: "passthrough_manifest (deploy B C J E) host target reference False accept w = (Inr r, w1)"
    and st: "rs_status r = 200" and m: "self_describing E (delivered (rs_body r)) mt" "digest_parse reference = None \<Longrightarrow> accepts_media_type accept mt"
  obtains kept where
    "kept = delivered (rs_body r) \<or> holds_blob B contents (digest_sha256 (e_sha E) (delivered (rs_body r))) kept (w_store w)"
    "left_behind B J contents E \<lparr>ts_proxy_host = host, ts_full_name = ot_full_name target\<rparr> reference accept
      (delivered (rs_body r)) kept (w_store w1)"
    "r = bytes_response (e_http E) mt (digest_sha256 (e_sha E) (delivered (rs_body r))) (delivered (rs_body r)) False"
proof -
  let ?E = "deploy B C J E" and ?sc = "\<lparr>ts_proxy_host = host, ts_full_name = ot_full_name target\<rparr>"
  have os: "object_store_laws B contents" "pointer_json_roundtrip J" "sha_hex (e_sha E)"
    using laws(1) by (simp_all add: deployed_laws_def)
  from run store obtain found v where found: "find_cached_manifest ?E ?sc reference False accept w = (Inr found, v)"
    and rest: "(case found of
        Some (Inr response) \<Rightarrow>
          bindA (count_event ''helmoci_oci_manifest_cache_hits_total'') (\<lambda>_.
          bindA (proxied KindManifest PersistentCache) (\<lambda>_. returnA response))
      | Some (Inl e) \<Rightarrow> bindA (count_event ''helmoci_oci_manifest_cache_misses_total'') (\<lambda>_. failA e)
      | None \<Rightarrow>
          bindA (count_event ''helmoci_oci_manifest_cache_misses_total'') (\<lambda>_.
          upstream_manifest ?E host target reference False accept)) v = (Inr r, w1)"
    unfolding passthrough_manifest_def by (auto elim: bindA_InrE)
  then consider
    (cached) "find_cached_manifest ?E ?sc reference False accept w = (Inr (Some (Inr r)), v)" "w_store w1 = w_store v"
    | (upstream) "find_cached_manifest ?E ?sc reference False accept w = (Inr None, v)"
        "upstream_manifest ?E host target reference False accept
           (snd (count_event ''helmoci_oci_manifest_cache_misses_total'' v)) = (Inr r, w1)"
    by (cases found) (auto simp: bindA_def count_event_def record_event_def proxied_def split: sum.splits)
  then show thesis
  proof cases
    case cached
    note found = found_cached_inv [OF os(1) cached(1) st m(1)]
    then have same: "contents (w_store w1) = contents (w_store w)" using cached(2) by simp
    from found show thesis
      by (intro that [of "delivered (rs_body r)"])
         (simp_all add: left_behind_def Let_def holds_same [of contents "w_store w1", OF same]
           leads_same [of contents "w_store w1", OF same])
  next
    case upstream
    let ?v' = "snd (count_event ''helmoci_oci_manifest_cache_misses_total'' v)"
    have v': "w_store ?v' = w_store v" by (simp add: count_event_def record_event_def)
    from upstream(2) obtain response v1 declared where
      sent: "send_upstream ?E target GET (''manifests/'' @ reference)
          (Some (case accept of Some a \<Rightarrow> a | None \<Rightarrow> DEFAULT_MANIFEST_ACCEPT)) ?v' = (Inr response, v1)"
      and ans: "upstream_manifest_answer ?E host target reference response declared v1 = (Inr r, w1)"
      by (auto simp: upstream_manifest_def Let_def bindA_Inr split: if_splits)
    have "contents (w_store v) = contents (w_store w)"
      by (rule find_cached_keeps_contents [OF os(1) upstream(1)])
    moreover have "w_store v1 = w_store ?v'"
      using keepsD [OF keeps_send_upstream sent] by (simp add: stores_same_def)
    ultimately have same: "contents (w_store v1) = contents (w_store w)" using v' by simp
    from upstream_answer_left [OF os(1,2) laws(2) os(3) store tag ans st m] obtain kept where
      "kept = delivered (rs_body r) \<or>
         holds_blob B contents (digest_sha256 (e_sha E) (delivered (rs_body r))) kept (w_store v1)"
      "left_behind B J contents E ?sc reference accept (delivered (rs_body r)) kept (w_store w1)"
      "r = bytes_response (e_http E) mt (digest_sha256 (e_sha E) (delivered (rs_body r))) (delivered (rs_body r)) False"
      by blast
    then show thesis by (intro that [of kept]) (simp_all add: holds_same [of contents "w_store v1", OF same])
  qed
qed

section \<open>Manifests that do not describe themselves\<close>

text \<open>A store that keeps no attributes (the local file system) loses the media type the upstream
  declared. An image manifest is recognised from its body all the same; an image index is not: once
  stored, a pull by digest is answered 404 and never asks the upstream again.\<close>

definition drops_attributes :: "'s object_store \<Rightarrow> bool" where
  "drops_attributes B \<longleftrightarrow> (\<forall>p s g s'. os_get B p s = (Inr g, s') \<longrightarrow> gr_attributes g = [])"

lemma stored_index_lost:
  assumes laws: "object_store_laws B contents" "reads_back B contents" "drops_attributes B"
    and store: "ot_store target" and ref: "digest_parse reference = Some d"
    and blob: "holds_blob B contents d data (w_store w)" "digest_sha256 (e_sha E) data = d"
      "length data \<le> unat MAX_MANIFEST_BYTES"
    and index: "e_json_parse E data = Some value" "json_get ''mediaType'' value = None" "json_get ''config'' value = None"
  shows "\<exists>w'. passthrough_manifest (deploy B C J E) host target reference head_only accept w
      = (Inl (Passthrough.msg_manifest_unknown d), w') \<and> w_sent w' = w_sent w"
proof -
  let ?E = "deploy B C J E"
  from blob(1) obtain path where path: "os_path_parse B (blob_key d) = Inr path" "contents (w_store w) path = Some data"
    by (auto simp: holds_blob_def)
  from get_blob_back [OF laws(1,2) path] obtain b s where b: "objstore_get_blob B d (w_store w) = (Inr (Some b), s)"
    "bm_size (bl_meta b) = of_nat (length data)" "list_all is_ok (bl_data b)" "delivered (bl_data b) = data" by metis
  from b(1) path(1) obtain g where "os_get B path (w_store w) = (Inr g, s)"
    "bm_content_type (bl_meta b) = map_of (gr_attributes g) AttrContentType"
    by (auto simp: objstore_get_blob_def bindA_def catchA_def os_path_def
        split: prod.splits sum.splits os_error.splits)
  moreover from this(1) laws(3) have "gr_attributes g = []" unfolding drops_attributes_def by blast
  ultimately have untyped: "bm_content_type (bl_meta b) = None" by simp
  have "of_nat (length data) \<le> MAX_MANIFEST_BYTES" using blob(3) by (simp add: word_le_nat_alt unat_of_nat)
  then have "read_cached_blob b MAX_MANIFEST_BYTES = Inr data"
    using b(2-4) blob(3) by (simp add: read_cached_blob_def read_bounded_iff)
  moreover have "manifest_media_type (e_json_parse ?E) data None = None"
    "inferred_cached_manifest_media_type (e_json_parse ?E) data = None"
    using index by (simp_all add: deploy_def manifest_media_type_def inferred_cached_manifest_media_type_def)
  ultimately have "cached_manifest_response ?E d b head_only None = Inl (Passthrough.msg_manifest_unknown d)"
    using blob(2) untyped by (simp add: cached_manifest_response_def)
  with b(1) store ref show ?thesis
    by (simp add: passthrough_manifest_def find_cached_manifest_def storage_try_def map_errA_def bindA_def
        deployed_get_blob count_event_def record_event_def)
qed

section \<open>Other bytes under the digest\<close>

text \<open>Bytes that do not have the digest they are stored under are never served, but they are not
  replaced either: the next pull of a reference that leads to them is answered 404 from the store.\<close>

lemma foreign_bytes_found:
  assumes laws: "object_store_laws B contents" "reads_back B contents" and store: "ot_store target"
    and blob: "holds_blob B contents d kept (w_store w)"
    and lead: "leads_to B J contents \<lparr>ts_proxy_host = host, ts_full_name = ot_full_name target\<rparr> reference accept d (w_store w)"
    and foreign: "digest_sha256 (e_sha E) kept \<noteq> d" "length kept \<le> unat MAX_MANIFEST_BYTES"
  shows "\<exists>w'. passthrough_manifest (deploy B C J E) host target reference head_only accept w
      = (Inl (Passthrough.msg_manifest_unknown d), w') \<and> w_sent w' = w_sent w"
proof -
  let ?E = "deploy B C J E" and ?sc = "\<lparr>ts_proxy_host = host, ts_full_name = ot_full_name target\<rparr>"
  have get: "\<exists>b s. so_get_blob (storage_of ?E) d v = (Inr (Some b), v\<lparr>w_store := s\<rparr>)
      \<and> (\<forall>declared. cached_manifest_response ?E d b head_only declared = Inl (Passthrough.msg_manifest_unknown d))"
    if v: "holds_blob B contents d kept (w_store v)" for v
  proof -
    from v obtain path where path: "os_path_parse B (blob_key d) = Inr path" "contents (w_store v) path = Some kept"
      by (auto simp: holds_blob_def)
    from get_blob_back [OF laws path] obtain b s where b: "objstore_get_blob B d (w_store v) = (Inr (Some b), s)"
      "bm_size (bl_meta b) = of_nat (length kept)" "list_all is_ok (bl_data b)" "delivered (bl_data b) = kept" by metis
    have "of_nat (length kept) \<le> MAX_MANIFEST_BYTES"
      using foreign(2) by (simp add: word_le_nat_alt unat_of_nat)
    then have "read_cached_blob b MAX_MANIFEST_BYTES = Inr kept"
      using b(2-4) foreign(2) by (simp add: read_cached_blob_def read_bounded_iff)
    with b(1) foreign(1) show ?thesis by (auto simp: deployed_get_blob cached_manifest_response_def)
  qed
  have "\<exists>s. find_cached_manifest ?E ?sc reference head_only accept w
      = (Inr (Some (Inl (Passthrough.msg_manifest_unknown d))), w\<lparr>w_store := s\<rparr>)"
  proof (cases "digest_parse reference")
    case (Some d')
    with lead get [OF blob] show ?thesis
      by (auto simp: leads_to_def find_cached_manifest_def storage_try_def map_errA_def bindA_def)
  next
    case None
    with lead obtain path ptr p pm where tag: "os_path_parse B (tag_key ?sc reference) = Inr path"
      "contents (w_store w) path = Some ptr" "length ptr \<le> MAX_TAG_POINTER_BYTES" "pj_from_slice J ptr = Some p"
      "tp_digest p = d" "normalized_manifest_media_type (tp_media_type p) = Some pm" "accepts_media_type accept pm"
      unfolding leads_to_def by auto
    from get_tag_back [OF laws tag(1-3), of J] obtain s1 where
      s1: "objstore_get_tag_pointer B J ?sc reference (w_store w) = (Inr (Some p), s1)"
      and same: "contents s1 = contents (w_store w)" using tag(4) by metis
    have "holds_blob B contents d kept (w_store (w\<lparr>w_store := s1\<rparr>))"
      using blob by (simp add: holds_same [OF same])
    from get [OF this] obtain b s where
      "so_get_blob (storage_of ?E) d (w\<lparr>w_store := s1\<rparr>) = (Inr (Some b), w\<lparr>w_store := s1\<rparr>\<lparr>w_store := s\<rparr>)"
      "\<forall>declared. cached_manifest_response ?E d b head_only declared = Inl (Passthrough.msg_manifest_unknown d)"
      by blast
    then show ?thesis
      by (auto simp: find_cached_manifest_def storage_try_def map_errA_def bindA_def deployed_get_tag s1 None tag(5-7))
  qed
  with store show ?thesis
    by (auto simp: passthrough_manifest_def bindA_def count_event_def record_event_def)
qed

section \<open>Properties\<close>

text \<open>C7. On a healthy store, once a storing alias answered 200 with a manifest that states its media
  type, by tag with an Accept that admits it or by digest, the same pull again gets the same response
  (a HEAD its headers) and no request leaves the proxy. The exception is a bucket that already held
  other bytes under the manifest's digest: they are kept, and when they fit the size bound and do not
  have that digest the next pull is a 404 from the store, again without the upstream.\<close>
theorem pull_repeated_from_store:
  assumes laws: "deployed_laws B contents C entries J E" "reads_back B contents" "pointer_json_short J"
    and store: "ot_store target" and tag: "plain_tag reference"
    and run: "passthrough_manifest (deploy B C J E) host target reference False accept w = (Inr r, w1)"
    and st: "rs_status r = 200" and m: "self_describing E (delivered (rs_body r)) mt"
      "digest_parse reference = None \<Longrightarrow> accepts_media_type accept mt"
  shows "(\<exists>w2. passthrough_manifest (deploy B C J E) host target reference head_only accept w1
      = (Inr (if head_only then r\<lparr>rs_body := []\<rparr> else r), w2) \<and> w_sent w2 = w_sent w1)
    \<or> (\<exists>old. old \<noteq> delivered (rs_body r)
        \<and> holds_blob B contents (digest_sha256 (e_sha E) (delivered (rs_body r))) old (w_store w)
        \<and> holds_blob B contents (digest_sha256 (e_sha E) (delivered (rs_body r))) old (w_store w1)
        \<and> (digest_sha256 (e_sha E) old \<noteq> digest_sha256 (e_sha E) (delivered (rs_body r)) \<longrightarrow>
           length old \<le> unat MAX_MANIFEST_BYTES \<longrightarrow>
           (\<exists>w2. passthrough_manifest (deploy B C J E) host target reference head_only accept w1
              = (Inl (Passthrough.msg_manifest_unknown (digest_sha256 (e_sha E) (delivered (rs_body r)))), w2)
              \<and> w_sent w2 = w_sent w1)))"
proof -
  let ?data = "delivered (rs_body r)" and ?sc = "\<lparr>ts_proxy_host = host, ts_full_name = ot_full_name target\<rparr>"
  have os: "object_store_laws B contents" using laws(1) by (simp add: deployed_laws_def)
  from pull_left [OF laws(1,3) store tag run st m] obtain kept where
    kept: "kept = ?data \<or> holds_blob B contents (digest_sha256 (e_sha E) ?data) kept (w_store w)"
    and "left_behind B J contents E ?sc reference accept ?data kept (w_store w1)"
    and r: "r = bytes_response (e_http E) mt (digest_sha256 (e_sha E) ?data) ?data False" by blast
  then have left: "holds_blob B contents (digest_sha256 (e_sha E) ?data) kept (w_store w1)"
    "leads_to B J contents ?sc reference accept (digest_sha256 (e_sha E) ?data) (w_store w1)"
    "length ?data \<le> unat MAX_MANIFEST_BYTES" by (simp_all add: left_behind_def Let_def)
  show ?thesis
  proof (cases "kept = ?data")
    case True
    have "bytes_response (e_http E) mt (digest_sha256 (e_sha E) ?data) ?data True = r\<lparr>rs_body := []\<rparr>"
      using bytes_response_head r st by metis
    then have "bytes_response (e_http E) mt (digest_sha256 (e_sha E) ?data) ?data head_only
        = (if head_only then r\<lparr>rs_body := []\<rparr> else r)" using r by (cases head_only) simp_all
    with served_from_store [OF os laws(2) store left(1) [unfolded True] left(2) m(1) refl left(3), of C head_only]
    show ?thesis by auto
  next
    case False
    with kept left(1) foreign_bytes_found [OF os laws(2) store left(1,2)] show ?thesis by blast
  qed
qed

text \<open>An upstream that serves an image manifest, and an empty store.\<close>

definition bounded_pointer_json :: pointer_json where
  "bounded_pointer_json = sample_pointer_json\<lparr>pj_to_vec := (\<lambda>p. if unat (tp_size p) \<le> 100
     then pj_to_vec sample_pointer_json p else Inl ''too large'')\<rparr>"

definition sample_pull_env :: "(string \<Rightarrow> bytes option, string \<Rightarrow> entry option, sample_url) env" where
  "sample_pull_env = (sample_env serving_net)\<lparr>
     e_cfg := sample_config\<lparr>rt_aliases := [(''priv'', \<lparr>al_upstream = UpOci ''r.io'' ''p'', al_store = True,
       al_auth = AuthNone, al_plain_http = False\<rparr>)]\<rparr>,
     e_json_parse := (\<lambda>_. Some (JObj
     [(''schemaVersion'', JNum ''2''), (''mediaType'', JStr MEDIA_TYPE_MANIFEST)]))\<rparr>"

abbreviation sample_pull_deployment :: "(string \<Rightarrow> bytes option, string \<Rightarrow> entry option, sample_url) env" where
  "sample_pull_deployment \<equiv> deploy memory_store sample_cache bounded_pointer_json sample_pull_env"

lemma bounded_pointer_laws: "pointer_json_roundtrip bounded_pointer_json" "pointer_json_short bounded_pointer_json"
  using sample_pointer_roundtrip
  by (auto simp: pointer_json_roundtrip_def pointer_json_short_def bounded_pointer_json_def sample_pointer_json_def
      MAX_TAG_POINTER_BYTES_def split: if_splits)

lemma sample_self_describing: "self_describing sample_pull_env data MEDIA_TYPE_MANIFEST"
proof -
  have "normalized_manifest_media_type MEDIA_TYPE_MANIFEST = Some MEDIA_TYPE_MANIFEST"
    by (rule known_fixed) (simp add: MANIFEST_MEDIA_TYPES_def)
  then show ?thesis
    by (simp add: self_describing_def manifest_media_type_def sample_pull_env_def schema_version_2_def parse_unsigned_def
        is_ascii_digit_def byte_of_def u64_max_def)
qed

lemma sample_pull_sent:
  assumes "w_tokens w = (\<lambda>_. None)"
  shows "\<exists>w1. send_upstream sample_pull_deployment sample_target GET ''manifests/1'' (Some DEFAULT_MANIFEST_ACCEPT) w
     = (Inr \<lparr>an_status = 200, an_headers = [], an_content_length = None, an_chunks = [Inr ''gz'']\<rparr>, w1)
     \<and> w_store w1 = w_store w"
proof -
  let ?E = sample_pull_deployment
  let ?u = "\<lparr>su_scheme = ''https'', su_host = ''r.io'', su_port = None, su_path = ''/v2/p/c/manifests/1'', su_query = None\<rparr>"
  let ?a = "\<lparr>an_status = 200, an_headers = [], an_content_length = None, an_chunks = [Inr ''gz'']\<rparr>"
  let ?h = "[(''accept'', DEFAULT_MANIFEST_ACCEPT)]"
  have e: "e_url sample_pull_env = sample_url_lib" "e_http sample_pull_env = sample_http" "e_net sample_pull_env = serving_net"
    by (simp_all add: sample_pull_env_def sample_env_def sample_helm_env_def)
  have url: "upstream_url sample_url_lib sample_target ''manifests/1'' = Inr ?u" by code_simp
  have hs: "upstream_headers sample_http (Some DEFAULT_MANIFEST_ACCEPT) None = Inr ?h"
    by (simp add: upstream_headers_def header_insert_def sample_http_def)
  have st: "\<not> redirect_status 200" by (simp add: redirect_status_def)
  obtain w1 q where s: "upstream_send ?E GET ?u ?h Trusted True (upstream_kind_of ''manifests/1'') w = (Inr (q, ?a), w1)"
    "w_store w1 = w_store w"
    using sample_send_once [where E = ?E and a = ?a and w = w and m = GET and url = ?u and hs = ?h
        and client = Trusted and follow = True and kind = "upstream_kind_of ''manifests/1''"] st by (auto simp: e serving_net_def)
  have "ot_auth sample_target \<noteq> AuthGcp" by (simp add: sample_target_def)
  moreover have "token_cache_get ?E k w = (Inr None, w)" for k
    by (simp add: token_cache_get_def cache_lookup_def assms)
  ultimately have "send_upstream ?E sample_target GET ''manifests/1'' (Some DEFAULT_MANIFEST_ACCEPT) w
      = (Inr ?a, w1)"
    using s(1) by (simp add: send_upstream_def Let_def e url hs bindA_def)
  with s(2) show ?thesis by blast
qed

lemma bind_count_event: "bindA (count_event n) f w = f () (snd (count_event n w))"
  by (simp add: count_event_def record_event_def bindA_def)

lemma memory_puts:
  "\<exists>s'. objstore_put_blob memory_store d ct data s = (Inr (), s')"
  "pj_to_vec J p = Inr ptr \<Longrightarrow> \<exists>s'. objstore_put_tag_pointer memory_store J sc t p s = (Inr (), s')"
  by (simp_all add: objstore_put_blob_def objstore_put_tag_pointer_def
      memory_store_def bindA_def os_path_def already_stored_def catchA_def put_once_def blob_attribute_rungs_def
      memory_put_def map_errA_def split: option.split)

lemma sample_first_pull:
  "\<exists>r w1. passthrough_manifest sample_pull_deployment ''p'' sample_target ''1'' False None sample_world = (Inr r, w1)
     \<and> rs_status r = 200 \<and> rs_body r = [Inr ''gz'']"
proof -
  let ?E = sample_pull_deployment and ?sc = "\<lparr>ts_proxy_host = ''p'', ts_full_name = ot_full_name sample_target\<rparr>"
  let ?a = "\<lparr>an_status = 200, an_headers = [], an_content_length = None, an_chunks = [Inr ''gz'']\<rparr>"
  let ?d = "digest_sha256 sample_sha ''gz''"
  let ?r = "bytes_response sample_http MEDIA_TYPE_MANIFEST ?d ''gz'' False :: meter response"
  have e: "e_sha sample_pull_env = sample_sha" "e_http sample_pull_env = sample_http"
    by (simp_all add: sample_pull_env_def sample_env_def)
  have ref: "digest_parse ''1'' = None" by (simp add: digest_parse_def)
  have none: "find_cached_manifest ?E ?sc ''1'' False None sample_world = (Inr None, sample_world)"
    by (simp add: find_cached_manifest_def ref storage_try_def map_errA_def bindA_def deployed_get_tag
        objstore_get_tag_pointer_def memory_store_def os_path_def catchA_def sample_world_def)
  let ?w0 = "snd (count_event ''helmoci_oci_manifest_cache_misses_total'' sample_world)"
  have mt: "manifest_media_type (e_json_parse ?E) ''gz'' declared = Some MEDIA_TYPE_MANIFEST" for declared
    using self_describing_type [OF sample_self_describing] by (simp add: deploy_def)
  have "length (as_str ?d) = 71" using canonical_length [OF canonical_sha256 [OF sample_sha_hex]] .
  then obtain ptr where "pj_to_vec bounded_pointer_json
      \<lparr>tp_digest = ?d, tp_media_type = MEDIA_TYPE_MANIFEST, tp_size = 2\<rparr> = Inr ptr"
    by (simp add: bounded_pointer_json_def sample_pointer_json_def)
  then have put: "\<exists>w'. store_manifest ?E ?sc ''1'' ?d MEDIA_TYPE_MANIFEST ''gz'' w = (Inr (), w')" for w
  proof -
    obtain s1 where s1: "objstore_put_blob memory_store ?d MEDIA_TYPE_MANIFEST ''gz'' (w_store w) = (Inr (), s1)"
      using memory_puts(1) by blast
    obtain s2 where "objstore_put_tag_pointer memory_store bounded_pointer_json ?sc ''1''
        \<lparr>tp_digest = ?d, tp_media_type = MEDIA_TYPE_MANIFEST, tp_size = 2\<rparr> s1 = (Inr (), s2)"
      using memory_puts(2) \<open>pj_to_vec _ _ = _\<close> by blast
    with s1 have "store_manifest ?E ?sc ''1'' ?d MEDIA_TYPE_MANIFEST ''gz'' w = (Inr (), w\<lparr>w_store := s2\<rparr>)"
      by (simp add: store_manifest_def bindA_def storage_try_def map_errA_def deployed_put_blob deployed_put_tag ref)
    then show ?thesis by blast
  qed
  have "w_tokens ?w0 = (\<lambda>_. None)" by (simp add: count_event_def record_event_def sample_world_def)
  from sample_pull_sent [OF this] obtain w1 where sent: "send_upstream ?E sample_target GET ''manifests/1''
      (Some DEFAULT_MANIFEST_ACCEPT) ?w0 = (Inr ?a, w1)" by blast
  from put [of w1] obtain w2 where w2: "store_manifest ?E ?sc ''1'' ?d MEDIA_TYPE_MANIFEST ''gz'' w1 = (Inr (), w2)" by blast
  have read: "read_upstream_body ?a MAX_MANIFEST_BYTES ''manifest'' = Inr ''gz''"
    by (simp add: read_upstream_body_def read_response_def read_bounded_iff MAX_MANIFEST_BYTES_def)
  have "\<exists>w3. upstream_manifest_answer ?E ''p'' sample_target ''1'' ?a declared w1 = (Inr ?r, w3)" for declared
    using w2 by (simp add: upstream_manifest_answer_def bindA_def read e other_digest_def ref mt Let_def sample_target_def
        proxied_def record_event_def)
  then have "\<exists>w3. upstream_manifest ?E ''p'' sample_target ''1'' False None ?w0 = (Inr ?r, w3)"
    using sent by (simp add: upstream_manifest_def bindA_def is_success_def)
  moreover have "ot_store sample_target" by (simp add: sample_target_def)
  ultimately have "\<exists>w3. passthrough_manifest ?E ''p'' sample_target ''1'' False None sample_world = (Inr ?r, w3)"
    by (simp add: passthrough_manifest_def bind_count_event bindA_run [where m = "find_cached_manifest ?E ?sc ''1'' False None" and w = sample_world, OF none])
  moreover have "rs_status ?r = 200 \<and> rs_body ?r = [Inr ''gz'']"
    by (simp add: bytes_response_def respond_base_def finish_def builder_header_def builder_new_def sample_http_def)
  ultimately show ?thesis by blast
qed

theorem pull_repeated_from_store_witness:
  "\<exists>r w1 w2. passthrough_manifest sample_pull_deployment ''p'' sample_target ''1'' False None sample_world = (Inr r, w1)
     \<and> rs_body r = [Inr ''gz'']
     \<and> passthrough_manifest sample_pull_deployment ''p'' sample_target ''1'' False None w1 = (Inr r, w2)
     \<and> w_sent w2 = w_sent w1"
proof -
  obtain r w1 where run: "passthrough_manifest sample_pull_deployment ''p'' sample_target ''1'' False None sample_world
      = (Inr r, w1)" and r: "rs_status r = 200" "rs_body r = [Inr ''gz'']" using sample_first_pull by blast
  have laws: "deployed_laws memory_store id sample_cache id bounded_pointer_json sample_pull_env"
    by (simp add: deployed_laws_def memory_store_laws sample_cache_laws bounded_pointer_laws sample_sha_hex
        sample_pull_env_def sample_env_def)
  have healthy: "reads_back memory_store id" by (simp add: reads_back_def memory_store_def)
  have store: "ot_store sample_target" and tag: "plain_tag ''1''" by (simp_all add: sample_target_def plain_tag_def)
  have acc: "accepts_media_type None MEDIA_TYPE_MANIFEST" by (simp add: accepts_media_type_def)
  have "\<not> holds_blob memory_store id d old (w_store sample_world)" for d old
    by (simp add: holds_blob_def sample_world_def)
  with pull_repeated_from_store [OF laws healthy bounded_pointer_laws(2) store tag run r(1) sample_self_describing acc,
      of False] run r(2) show ?thesis by auto
qed

end
