(* ===== verification/Divergences.thy ===== *)
theory Divergences
  imports Startup Write_Through
begin

text \<open>
  Where modelling showed the code doing something else than it means to: what it does, stated on
  the model. The manifest's findings name these lemmas and the place in the source.
\<close>

text \<open>\<open>resolve_name\<close> drops empty segments of a name but keeps them in the full name, from which the
  key of a tag is made. Such a key is no valid object path, so the lookup is an internal error.\<close>

lemma empty_segment_resolves:
  "parse_oci_path Some ''/v2/a.io//c/manifests/1.0'' = Manifest ''a.io//c'' ''1.0''"
  "\<exists>chart. resolve_name (\<lambda>s. Some (HostDomain s)) ''a.io//c'' [] = Some (ResClassic chart) \<and> cc_full_name chart = ''a.io//c''"
proof -
  show "parse_oci_path Some ''/v2/a.io//c/manifests/1.0'' = Manifest ''a.io//c'' ''1.0''" by code_simp
  have "resolve_name (\<lambda>s. Some (HostDomain s)) ''a.io//c'' [] = Some (ResClassic \<lparr>cc_repo_url = ''https://a.io'',
      cc_chart_name = ''c'', cc_full_name = ''a.io//c'', cc_ephemeral = False, cc_source = HostPath\<rparr>)" by code_simp
  then show "\<exists>chart. resolve_name (\<lambda>s. Some (HostDomain s)) ''a.io//c'' [] = Some (ResClassic chart)
      \<and> cc_full_name chart = ''a.io//c''" by simp
qed

lemma invalid_key_is_internal:
  assumes "os_path_parse B (tag_key \<lparr>ts_proxy_host = host, ts_full_name = cc_full_name chart\<rparr> tag) = Inl e"
    and "digest_parse tag = None" "\<not> cc_ephemeral chart"
  shows "classic_manifest (deploy B C J E) host chart tag head_only w
    = (Inl (Internal (storage_error_display (Backend TagRead e))), w)"
  using assms
  by (simp add: classic_manifest_def Let_def classic_backend_def cached_tag_manifest_def bindA_def map_errA_def
      deployed_get_tag objstore_get_tag_pointer_def os_path_def from_storage_error_def)

text \<open>The length a HEAD reports is the client's \<open>content_length\<close>, the size of the response body as the
  client sees it, not the header the upstream sent.\<close>

lemma head_length_of_body:
  assumes "manifest_head_response H reference response (Some mt) = Inr r" "an_content_length response = Some n"
  shows "header_get ''content-length'' (rs_headers r) = Some (show_u64 n)"
  using assms
  by (auto simp: manifest_head_response_def Let_def header_get_def split: option.splits dest!: build_response_Inr)

text \<open>A quoted parameter value may contain a semicolon, and no space may stand before the equals sign.\<close>

lemma media_type_parameter_grammar:
  "\<not> valid_media_type_parameters (''a='' @ quote ''x;y'')" "valid_media_type_parameters ''a = b''"
  by code_simp+

text \<open>A corrupt cached blob ends one chunk short, but only a non-empty last chunk makes that short of
  what was promised: after an empty one every byte is delivered before the error.\<close>

lemma empty_last_chunk_delivers_all:
  assumes "''sha256:'' @ sha x \<noteq> expected"
  shows "verify_stream sha expected [] None [Inr x, Inr []] = [Inr x, Inl corrupt_cached_blob]"
  using assms by simp

end
