(* ===== verification/Store_Types.thy ===== *)
theory Store_Types
  imports Server
begin

text \<open>
  What lies in the two stores, whatever requests the server answered: blobs under the digest of
  their bytes, and pointers to manifests under the key of a tag, nothing else.
\<close>

section \<open>The types of what is stored\<close>

text \<open>An object under a key: the bytes of a blob, or the JSON of a pointer with the digest of a
  manifest and a known media type, under a canonical proxy host and a reference without slash.\<close>

definition is_proxy_host :: "string \<Rightarrow> bool" where
  "is_proxy_host h \<longleftrightarrow> (\<exists>v. normalize_proxy_host v = Some h)"

definition blob_object :: "(bytes \<Rightarrow> string) \<Rightarrow> string \<Rightarrow> bytes \<Rightarrow> bool" where
  "blob_object sha key data \<longleftrightarrow> key = blob_key (digest_sha256 sha data)"

definition tag_object :: "(bytes \<Rightarrow> string) \<Rightarrow> pointer_json \<Rightarrow> string \<Rightarrow> bytes \<Rightarrow> bool" where
  "tag_object sha J key data \<longleftrightarrow>
     (\<exists>sc t p. key = tag_key sc t \<and> is_proxy_host (ts_proxy_host sc) \<and> plain_tag t
        \<and> pj_from_slice J data = Some p \<and> pointer_typed sha p)"

definition object_typed :: "(bytes \<Rightarrow> string) \<Rightarrow> pointer_json \<Rightarrow> string \<Rightarrow> bytes \<Rightarrow> bool" where
  "object_typed sha J key data \<longleftrightarrow> blob_object sha key data \<or> tag_object sha J key data"

definition stores_typed ::
  "(bytes \<Rightarrow> string) \<Rightarrow> pointer_json \<Rightarrow> ('s \<Rightarrow> string \<Rightarrow> bytes option) \<Rightarrow> ('c \<Rightarrow> string \<Rightarrow> entry option) \<Rightarrow>
   ('s, 'c, 'u) world \<Rightarrow> bool" where
  "stores_typed sha J contents entries w \<longleftrightarrow>
     (\<forall>key data. contents (w_store w) key = Some data \<longrightarrow> object_typed sha J key data) \<and>
     (\<forall>key e. entries (w_ephemeral w) key = Some e \<longrightarrow> object_typed sha J key (en_data e))"

lemma blob_typed: "object_typed sha J (blob_key (digest_sha256 sha data)) data"
  by (simp add: object_typed_def blob_object_def)

lemma tag_typed:
  "is_proxy_host (ts_proxy_host sc) \<Longrightarrow> plain_tag t \<Longrightarrow> pj_from_slice J data = Some p \<Longrightarrow> pointer_typed sha p \<Longrightarrow>
   object_typed sha J (tag_key sc t) data"
  by (auto simp: object_typed_def tag_object_def)

lemma typed_shrink:
  assumes "stores_typed sha J contents entries w"
    and "contents (w_store w') \<subseteq>\<^sub>m contents (w_store w)" "entries (w_ephemeral w') \<subseteq>\<^sub>m entries (w_ephemeral w)"
  shows "stores_typed sha J contents entries w'"
  using assms(1) map_leD [OF assms(2)] map_leD [OF assms(3)] unfolding stores_typed_def by blast

section \<open>One write\<close>

text \<open>An operation on a store that leaves what it held and adds at most typed objects.\<close>

definition adds_typed ::
  "(bytes \<Rightarrow> string) \<Rightarrow> pointer_json \<Rightarrow> ('s \<Rightarrow> string \<Rightarrow> 'o option) \<Rightarrow> ('o \<Rightarrow> bytes) \<Rightarrow> ('s, 'e, 'a) act \<Rightarrow> bool" where
  "adds_typed sha J view bytes_of m \<longleftrightarrow>
     (\<forall>s r s' key x. m s = (r, s') \<longrightarrow> view s' key = Some x \<longrightarrow>
        view s key = Some x \<or> object_typed sha J key (bytes_of x))"

lemma adds_typedI:
  "(\<And>s r s' key x. m s = (r, s') \<Longrightarrow> view s' key = Some x \<Longrightarrow> view s key = Some x \<or> object_typed sha J key (bytes_of x)) \<Longrightarrow>
   adds_typed sha J view bytes_of m"
  unfolding adds_typed_def by blast

lemma adds_typed_reads:
  assumes "object_store_laws B contents"
  shows "adds_typed sha J contents id (objstore_get_blob B d)"
    and "adds_typed sha J contents id (objstore_head_blob B d)"
    and "adds_typed sha J contents id (objstore_get_tag_pointer B J sc t)"
  using objstore_get_blob_cases [OF assms] objstore_head_blob_cases [OF assms] objstore_get_tag_cases [OF assms]
  by (metis (no_types, lifting) adds_typedI)+

lemma adds_typed_objects:
  assumes laws: "object_store_laws B contents" "pointer_json_roundtrip J" "sha_hex sha"
  shows "d = digest_sha256 sha data \<Longrightarrow> adds_typed sha J contents id (objstore_put_blob B d ct data)"
    and "is_proxy_host (ts_proxy_host sc) \<Longrightarrow> plain_tag t \<Longrightarrow> pointer_typed sha p \<Longrightarrow>
      adds_typed sha J contents id (objstore_put_tag_pointer B J sc t p)"
proof (rule adds_typedI)
  fix s r s' key x
  assume d: "d = digest_sha256 sha data" and run: "objstore_put_blob B d ct data s = (r, s')" and x: "contents s' key = Some x"
  from d laws(3) have "canonical d" by (simp add: canonical_sha256)
  from objstore_put_blob_effect [OF laws(1) this run] x d
  show "contents s key = Some x \<or> object_typed sha J key (id x)"
    by (cases "key = blob_key d") (auto simp: put_effect_def blob_typed)
next
  assume t: "is_proxy_host (ts_proxy_host sc)" "plain_tag t" "pointer_typed sha p"
  show "adds_typed sha J contents id (objstore_put_tag_pointer B J sc t p)"
  proof (rule adds_typedI)
    fix s r s' key x
    assume run: "objstore_put_tag_pointer B J sc t p s = (r, s')" and x: "contents s' key = Some x"
    from objstore_put_tag_effect [OF laws(1) t(2) run] laws(2) x t
    show "contents s key = Some x \<or> object_typed sha J key (id x)"
      by (cases "key = tag_key sc t") (auto simp: pointer_json_roundtrip_def intro!: tag_typed)
  qed
qed

lemma adds_typed_entries:
  assumes laws: "cache_laws C entries" "pointer_json_roundtrip J"
  shows "adds_typed sha J entries en_data (ephemeral_get_blob C d)"
    and "adds_typed sha J entries en_data (ephemeral_head_blob C d)"
    and "adds_typed sha J entries en_data (ephemeral_get_tag_pointer C J sc t)"
    and "d = digest_sha256 sha data \<Longrightarrow> adds_typed sha J entries en_data (ephemeral_put_blob C d ct data)"
    and "is_proxy_host (ts_proxy_host sc) \<Longrightarrow> plain_tag t \<Longrightarrow> pointer_typed sha p \<Longrightarrow>
      adds_typed sha J entries en_data (ephemeral_put_tag_pointer C J sc t p)"
proof -
  have get: "ca_get C k c = (r, c') \<Longrightarrow> entries c' key = Some x \<Longrightarrow> entries c key = Some x" for k c r c' key x
    using cache_getD [OF laws(1)] map_leD by metis
  show "adds_typed sha J entries en_data (ephemeral_get_blob C d)"
    "adds_typed sha J entries en_data (ephemeral_head_blob C d)"
    "adds_typed sha J entries en_data (ephemeral_get_tag_pointer C J sc t)"
    by (rule adds_typedI, auto simp: ephemeral_get_blob_def ephemeral_head_blob_def ephemeral_get_tag_pointer_def
        split: prod.splits option.splits dest: get)+
  show "d = digest_sha256 sha data \<Longrightarrow> adds_typed sha J entries en_data (ephemeral_put_blob C d ct data)"
    by (rule adds_typedI) (auto simp: ephemeral_put_blob_def blob_typed dest!: cache_or_insertD [OF laws(1)])
  show "is_proxy_host (ts_proxy_host sc) \<Longrightarrow> plain_tag t \<Longrightarrow> pointer_typed sha p \<Longrightarrow>
      adds_typed sha J entries en_data (ephemeral_put_tag_pointer C J sc t p)"
  proof (rule adds_typedI)
    fix c r c' key x
    assume t: "is_proxy_host (ts_proxy_host sc)" "plain_tag t" "pointer_typed sha p"
      and run: "ephemeral_put_tag_pointer C J sc t p c = (r, c')" and x: "entries c' key = Some x"
    show "entries c key = Some x \<or> object_typed sha J key (en_data x)"
    proof (cases "pj_to_vec J p")
      case (Inl e)
      with run x show ?thesis by (auto simp: ephemeral_put_tag_pointer_def bindA_def map_errA_def)
    next
      case (Inr data)
      with laws(2) have "pj_from_slice J data = Some p" by (simp add: pointer_json_roundtrip_def)
      with Inr run x t show ?thesis
        by (auto simp: ephemeral_put_tag_pointer_def bindA_def map_errA_def
            dest!: cache_insertD [OF laws(1)] intro!: tag_typed)
    qed
  qed
qed

section \<open>The invariant\<close>

definition typed_server ::
  "'s object_store \<Rightarrow> 'c cache_ops \<Rightarrow> pointer_json \<Rightarrow> ('s, 'c, 'u) env \<Rightarrow> ('s \<Rightarrow> string \<Rightarrow> bytes option) \<Rightarrow>
   ('c \<Rightarrow> string \<Rightarrow> entry option) \<Rightarrow> ('s, 'c, 'u) world \<Rightarrow> bool" where
  "typed_server B C J E contents entries w \<longleftrightarrow>
     deployed_laws B contents C entries J E \<and> stores_typed (e_sha E) J contents entries w"

lemma typed_storage:
  assumes "deployed_laws B contents C entries J E \<Longrightarrow> adds_typed (e_sha E) J contents id m"
  shows "preserves (typed_server B C J E contents entries) (on_part w_store (\<lambda>s w. w\<lparr>w_store := s\<rparr>) m)"
  using assms
  by (intro preservesI) (fastforce simp: typed_server_def stores_typed_def on_part_eq adds_typed_def)

lemma typed_ephemeral:
  assumes "deployed_laws B contents C entries J E \<Longrightarrow> adds_typed (e_sha E) J entries en_data m"
  shows "preserves (typed_server B C J E contents entries) (on_part w_ephemeral (\<lambda>s w. w\<lparr>w_ephemeral := s\<rparr>) m)"
  using assms
  by (intro preservesI) (fastforce simp: typed_server_def stores_typed_def on_part_eq adds_typed_def)

interpretation typed_writes: handler_invariant "deploy B C J E" "typed_server B C J E contents entries" is_proxy_host
  for B :: "'s object_store" and C :: "'c cache_ops" and J and E :: "('s, 'c, 'u) env" and contents entries
proof (unfold_locales, goal_cases)
  case (1 w w')
  then show ?case by (simp add: typed_server_def stores_typed_def stores_same_def)
next
  case (2 S d)
  then show ?case
    by (auto simp: storage_of_def ephemeral_of_def lift_ops_def objstore_ops_def ephemeral_ops_def deployed_laws_def
        intro!: typed_storage typed_ephemeral adds_typed_reads adds_typed_entries)
next
  case (3 S d)
  then show ?case
    by (auto simp: storage_of_def ephemeral_of_def lift_ops_def objstore_ops_def ephemeral_ops_def deployed_laws_def
        intro!: typed_storage typed_ephemeral adds_typed_reads adds_typed_entries)
next
  case (4 S sc t)
  then show ?case
    by (auto simp: storage_of_def ephemeral_of_def lift_ops_def objstore_ops_def ephemeral_ops_def deployed_laws_def
        intro!: typed_storage typed_ephemeral adds_typed_reads adds_typed_entries)
next
  case (5 S d data ct)
  then show ?case
    by (auto simp: storage_of_def ephemeral_of_def lift_ops_def objstore_ops_def ephemeral_ops_def deployed_laws_def
        intro!: typed_storage typed_ephemeral adds_typed_objects adds_typed_entries)
next
  case (6 S sc t p)
  then show ?case
    by (auto simp: storage_of_def ephemeral_of_def lift_ops_def objstore_ops_def ephemeral_ops_def deployed_laws_def
        intro!: typed_storage typed_ephemeral adds_typed_objects adds_typed_entries)
qed

interpretation typed_runs: lossy_invariant "deploy B C J E" "typed_server B C J E contents entries" is_proxy_host contents entries
  for B :: "'s object_store" and C :: "'c cache_ops" and J and E :: "('s, 'c, 'u) env" and contents entries
proof (unfold_locales, goal_cases)
  case (1 req h)
  then show ?case by (auto simp: is_proxy_host_def elim: proxy_host_from_Some)
next
  case (2 w w')
  then show ?case by (auto simp: typed_server_def intro: typed_shrink)
qed

text \<open>What the type of an object means for the two kinds of key.\<close>

lemma object_typed_blob: "object_typed sha J (blob_key d) data \<Longrightarrow> d = digest_sha256 sha data"
  by (simp add: object_typed_def blob_object_def tag_object_def)

lemma object_typed_tag:
  "object_typed sha J (tag_key sc t) data \<Longrightarrow> \<exists>p. pj_from_slice J data = Some p \<and> pointer_typed sha p"
  by (auto simp: object_typed_def blob_object_def tag_object_def)

section \<open>Properties\<close>

text \<open>C4. The bucket and the cache are well typed in every state the server reaches from a well-typed one,
  the empty one for instance, whatever was requested and whatever the upstreams answered: under a
  blob key lie bytes with that digest, under a tag key the JSON of a pointer to the digest and
  length of some bytes with a known manifest media type, the proxy host in the key is canonical and the
  reference has no slash, and there is no object under any other key.\<close>
theorem stores_well_typed:
  assumes laws: "deployed_laws B contents C entries J E"
    and run: "server_runs (deploy B C J E) P contents entries w0 tr w"
    and init: "stores_typed (e_sha E) J contents entries w0"
  shows "stores_typed (e_sha E) J contents entries w
    \<and> (\<forall>d data. contents (w_store w) (blob_key d) = Some data \<longrightarrow> d = digest_sha256 (e_sha E) data)
    \<and> (\<forall>sc t data. contents (w_store w) (tag_key sc t) = Some data \<longrightarrow>
         (\<exists>p. pj_from_slice J data = Some p \<and> pointer_typed (e_sha E) p))"
proof -
  have "stores_typed (e_sha E) J contents entries w"
    using typed_runs.inv_runs [OF run] laws init by (simp add: typed_server_def)
  then show ?thesis
    using object_typed_blob object_typed_tag unfolding stores_typed_def by blast
qed

lemma holding_typed: "stores_typed sample_sha sample_pointer_json id id (holding ''hi'')"
  by (auto simp: stores_typed_def holding_def sample_world_def sample_digest_def intro: blob_typed split: if_splits)

theorem stores_well_typed_witness:
  "\<exists>r w. server_runs (sample_classic_env silent_net) sample_pages id id (holding ''hi'') [Background, Served sample_request r] w
     \<and> stores_typed sample_sha sample_pointer_json id id w"
proof -
  let ?E = "sample_classic_env silent_net"
  obtain r w where run: "server_runs ?E sample_pages id id (holding ''hi'') [Background, Served sample_request r] w"
    using sample_run by blast
  have e: "e_sha ?E = sample_sha" by (simp add: sample_classic_env_def sample_env_def)
  from run have run': "server_runs (deploy memory_store sample_cache sample_pointer_json ?E) sample_pages id id
      (holding ''hi'') [Background, Served sample_request r] w" unfolding sample_deploy .
  from stores_well_typed [OF sample_deployed run', unfolded e, OF holding_typed] run show ?thesis by blast
qed

end
