(* ===== verification/Linked_Tags.thy ===== *)
theory Linked_Tags
  imports Store_Types Write_Through
begin

text \<open>
  The order of the writes: a pointer is written after the manifest it names. In a bucket from which
  nothing is deleted every tag therefore leads to a stored manifest, also after requests that
  failed halfway.
\<close>

section \<open>Pointers that lead to a blob\<close>

definition pointers_linked ::
  "pointer_json \<Rightarrow> ('s \<Rightarrow> string \<Rightarrow> bytes option) \<Rightarrow> 's \<Rightarrow> bool" where
  "pointers_linked J contents s \<longleftrightarrow>
     (\<forall>sc t data p. contents s (tag_key sc t) = Some data \<longrightarrow> pj_from_slice J data = Some p \<longrightarrow>
        contents s (blob_key (tp_digest p)) \<noteq> None)"

definition linked_server ::
  "'s object_store \<Rightarrow> 'c cache_ops \<Rightarrow> pointer_json \<Rightarrow> ('s, 'c, 'u) env \<Rightarrow> ('s \<Rightarrow> string \<Rightarrow> bytes option) \<Rightarrow>
   ('c \<Rightarrow> string \<Rightarrow> entry option) \<Rightarrow> ('s, 'c, 'u) world \<Rightarrow> bool" where
  "linked_server B C J E contents entries w \<longleftrightarrow>
     deployed_laws B contents C entries J E \<and> pointers_linked J contents (w_store w)"

text \<open>A write of a blob, or of a pointer to a blob that is there.\<close>

lemma linked_put_blob:
  assumes "put_effect contents (blob_key d) data s u s'" "pointers_linked J contents s"
  shows "pointers_linked J contents s'"
proof -
  have "contents s' (tag_key sc t) = contents s (tag_key sc t)" for sc t
    using assms(1) by (simp add: put_effect_def)
  moreover have "contents s' (blob_key e) \<noteq> None" if "contents s (blob_key e) \<noteq> None" for e
    using assms(1) that by (cases "blob_key e = blob_key d") (auto simp: put_effect_def)
  ultimately show ?thesis using assms(2) unfolding pointers_linked_def by metis
qed

lemma linked_put_tag:
  assumes laws: "object_store_laws B contents" "pointer_json_roundtrip J" and tag: "plain_tag t"
    and run: "objstore_put_tag_pointer B J sc t p s = (u, s')"
    and linked: "pointers_linked J contents s" and there: "contents s (blob_key (tp_digest p)) \<noteq> None"
  shows "pointers_linked J contents s'"
proof -
  from objstore_put_tag_effect [OF laws(1) tag run]
  consider "contents s' = contents s" | data where "pj_to_vec J p = Inr data" "contents s' (tag_key sc t) = Some data"
    "\<forall>k. k \<noteq> tag_key sc t \<longrightarrow> contents s' k = contents s k" by blast
  then show ?thesis
  proof cases
    case 1
    with linked show ?thesis by (simp add: pointers_linked_def)
  next
    case 2
    from 2(1) laws(2) have p: "pj_from_slice J data = Some p" by (simp add: pointer_json_roundtrip_def)
    have blobs: "contents s' (blob_key d) = contents s (blob_key d)" for d using 2(3) by simp
    show ?thesis
      unfolding pointers_linked_def blobs
    proof (intro allI impI)
      fix sc' t' data' p'
      assume k: "contents s' (tag_key sc' t') = Some data'" "pj_from_slice J data' = Some p'"
      show "contents s (blob_key (tp_digest p')) \<noteq> None"
      proof (cases "tag_key sc' t' = tag_key sc t")
        case True
        with k 2(2) p there show ?thesis by simp
      next
        case False
        with k 2(3) linked show ?thesis by (simp add: pointers_linked_def)
      qed
    qed
  qed
qed

section \<open>The handlers\<close>

lemma linked_ephemeral:
  "preserves (linked_server B C J E contents entries) (on_part w_ephemeral (\<lambda>s w. w\<lparr>w_ephemeral := s\<rparr>) m)"
  by (rule preservesI) (auto simp: linked_server_def on_part_eq)

lemma linked_storage:
  assumes "\<And>s r s'. deployed_laws B contents C entries J E \<Longrightarrow> m s = (r, s') \<Longrightarrow> pointers_linked J contents s \<Longrightarrow>
    pointers_linked J contents s'"
  shows "preserves (linked_server B C J E contents entries) (on_part w_store (\<lambda>s w. w\<lparr>w_store := s\<rparr>) m)"
  using assms by (intro preservesI) (fastforce simp: linked_server_def on_part_eq)

lemma linked_same: "contents s' = contents s \<Longrightarrow> pointers_linked J contents s \<Longrightarrow> pointers_linked J contents s'"
  by (simp add: pointers_linked_def)

lemma linked_ops:
  "preserves (linked_server B C J E contents entries) (on_part w_store (\<lambda>s w. w\<lparr>w_store := s\<rparr>) (objstore_get_blob B d))"
  "preserves (linked_server B C J E contents entries) (on_part w_store (\<lambda>s w. w\<lparr>w_store := s\<rparr>) (objstore_head_blob B d))"
  "preserves (linked_server B C J E contents entries)
     (on_part w_store (\<lambda>s w. w\<lparr>w_store := s\<rparr>) (objstore_get_tag_pointer B J sc t))"
  "d = digest_sha256 (e_sha E) data \<Longrightarrow> preserves (linked_server B C J E contents entries)
     (on_part w_store (\<lambda>s w. w\<lparr>w_store := s\<rparr>) (objstore_put_blob B d ct data))"
proof -
  show "preserves (linked_server B C J E contents entries) (on_part w_store (\<lambda>s w. w\<lparr>w_store := s\<rparr>) (objstore_get_blob B d))"
    by (rule linked_storage, rule linked_same) (auto simp: deployed_laws_def dest: objstore_get_blob_cases)
  show "preserves (linked_server B C J E contents entries) (on_part w_store (\<lambda>s w. w\<lparr>w_store := s\<rparr>) (objstore_head_blob B d))"
    by (rule linked_storage, rule linked_same) (auto simp: deployed_laws_def dest: objstore_head_blob_cases)
  show "preserves (linked_server B C J E contents entries)
     (on_part w_store (\<lambda>s w. w\<lparr>w_store := s\<rparr>) (objstore_get_tag_pointer B J sc t))"
    by (rule linked_storage, rule linked_same) (auto simp: deployed_laws_def dest: objstore_get_tag_cases)
next
  assume d: "d = digest_sha256 (e_sha E) data"
  show "preserves (linked_server B C J E contents entries)
     (on_part w_store (\<lambda>s w. w\<lparr>w_store := s\<rparr>) (objstore_put_blob B d ct data))"
  proof (rule linked_storage)
    fix s r s'
    assume laws: "deployed_laws B contents C entries J E" and run: "objstore_put_blob B d ct data s = (r, s')"
      and linked: "pointers_linked J contents s"
    from laws d have "object_store_laws B contents" "canonical d" by (simp_all add: deployed_laws_def canonical_sha256)
    from linked_put_blob [OF objstore_put_blob_effect [OF this run] linked] show "pointers_linked J contents s'" .
  qed
qed

interpretation linked: store_reads "deploy B C J E" "linked_server B C J E contents entries"
  for B :: "'s object_store" and C :: "'c cache_ops" and J and E :: "('s, 'c, 'u) env" and contents entries
proof (unfold_locales, goal_cases)
  case (1 w w')
  then show ?case by (simp add: linked_server_def stores_same_def)
next
  case (2 S d)
  then show ?case
    by (auto simp: storage_of_def ephemeral_of_def lift_ops_def objstore_ops_def intro: linked_ops linked_ephemeral)
next
  case (3 S d)
  then show ?case
    by (auto simp: storage_of_def ephemeral_of_def lift_ops_def objstore_ops_def intro: linked_ops linked_ephemeral)
next
  case (4 S sc t)
  then show ?case
    by (auto simp: storage_of_def ephemeral_of_def lift_ops_def objstore_ops_def intro: linked_ops linked_ephemeral)
next
  case (5 S d data ct)
  then show ?case
    by (auto simp: storage_of_def ephemeral_of_def lift_ops_def objstore_ops_def intro: linked_ops linked_ephemeral)
qed

text \<open>Both writes of the handlers end in a pointer to what they stored before.\<close>

lemma linked_put_pointer:
  assumes "linked_server B C J E contents entries w" "plain_tag t"
    and "contents (w_store w) (blob_key (tp_digest p)) \<noteq> None"
    and "so_put_tag_pointer (storage_of (deploy B C J E)) sc t p w = (r, w')"
  shows "linked_server B C J E contents entries w'"
proof -
  from assms(4) obtain s' where s': "objstore_put_tag_pointer B J sc t p (w_store w) = (r, s')" "w' = w\<lparr>w_store := s'\<rparr>"
    by (auto simp: storage_of_def lift_ops_def on_part_eq objstore_ops_def)
  from assms(1) have laws: "object_store_laws B contents" "pointer_json_roundtrip J"
    by (simp_all add: linked_server_def deployed_laws_def)
  from linked_put_tag [OF laws assms(2) s'(1) _ assms(3)] assms(1) s'(2) show ?thesis
    by (simp add: linked_server_def)
qed

lemma stored_there:
  "object_store_laws B contents \<Longrightarrow> canonical d \<Longrightarrow> stored B contents d w \<Longrightarrow> contents (w_store w) (blob_key d) \<noteq> None"
  using os_path_laws [of B contents] path_raw_blob_key
  by (fastforce simp: stored_def object_blobs_def split: sum.splits)

lemma linked_store_built_chart:
  assumes b: "build_chart (deploy B C J E) proxy_host tgz = Inr b" and tag: "plain_tag reference"
  shows "preserves (linked_server B C J E contents entries)
    (store_built_chart (deploy B C J E) (classic_backend (deploy B C J E) eph) scope reference b)"
proof (cases eph)
  case True
  have "preserves (linked_server B C J E contents entries)
      (so_put_tag_pointer (ephemeral_of (deploy B C J E)) scope reference (bc_pointer b))"
    by (simp add: ephemeral_of_def lift_ops_def linked_ephemeral)
  then show ?thesis
    unfolding store_built_chart_def
    by (intro preserves_bind preserves_rules linked.inv_join_blobs [OF b]) (simp add: classic_backend_def True)
next
  case False
  let ?E = "deploy B C J E" and ?I = "linked_server B C J E contents entries"
  have st: "classic_backend ?E eph = storage_of ?E" by (simp add: classic_backend_def False)
  show ?thesis
    unfolding st
  proof (rule preservesI)
    fix w r w'
    assume w: "?I w" and run: "store_built_chart ?E (storage_of ?E) scope reference b w = (r, w')"
    obtain r1 w1 where join: "try_join3 ?E
      [put_blob_as (storage_of ?E) (bc_config_digest b) MEDIA_TYPE_HELM_CONFIG (bc_config_bytes b),
       put_blob_as (storage_of ?E) (bc_layer_digest b) MEDIA_TYPE_HELM_CHART (bc_layer_bytes b),
       put_blob_as (storage_of ?E) (bc_manifest_digest b) MEDIA_TYPE_MANIFEST (bc_manifest_bytes b)] w = (r1, w1)"
      by fastforce
    have w1: "?I w1" using preservesD [OF linked.inv_join_blobs [OF b, where eph = eph] w] join unfolding st by blast
    show "?I w'"
    proof (cases r1)
      case (Inl e)
      with run join w1 show ?thesis by (simp add: store_built_chart_def bindA_def)
    next
      case (Inr u)
      with run join obtain r2 where put: "so_put_tag_pointer (storage_of ?E) scope reference (bc_pointer b) w1 = (r2, w')"
        by (auto simp: store_built_chart_def bindA_def map_errA_def split: prod.split_asm)
      from w have laws: "object_store_laws B contents" "sha_hex (e_sha E)"
        by (simp_all add: linked_server_def deployed_laws_def)
      note dig = build_chart_digests [OF b]
      from laws(2) have canon: "canonical (bc_config_digest b)" "canonical (bc_layer_digest b)" "canonical (bc_manifest_digest b)"
        by (simp_all add: dig(1-3) canonical_sha256)
      from join_blobs_stored [OF laws(1) canon] join Inr have "stored B contents (bc_manifest_digest b) w1" by blast
      from stored_there [OF laws(1) canon(3) this] have "contents (w_store w1) (blob_key (tp_digest (bc_pointer b))) \<noteq> None"
        by (simp add: dig(4))
      from linked_put_pointer [OF w1 tag this put] show ?thesis .
    qed
  qed
qed

lemma linked_store_manifest:
  assumes "plain_tag reference"
  shows "preserves (linked_server B C J E contents entries)
    (store_manifest (deploy B C J E) scope reference (digest_sha256 (e_sha E) bytes) media_type bytes)"
proof (rule preservesI)
  let ?E = "deploy B C J E" and ?I = "linked_server B C J E contents entries" and ?d = "digest_sha256 (e_sha E) bytes"
  fix w r w'
  assume w: "?I w" and run: "store_manifest ?E scope reference ?d media_type bytes w = (r, w')"
  obtain r1 w1 where put: "so_put_blob (storage_of ?E) ?d media_type bytes w = (r1, w1)" by fastforce
  have w1: "?I w1" using preservesD [OF linked.inv_put_blob w put] by simp
  show "?I w'"
  proof (cases r1)
    case (Inl e)
    with run put w1 show ?thesis by (simp add: store_manifest_def bindA_def storage_try_def map_errA_def)
  next
    case (Inr u)
    from w have laws: "object_store_laws B contents" "canonical ?d"
      by (simp_all add: linked_server_def deployed_laws_def canonical_sha256)
    have "put_blob_as (storage_of ?E) ?d media_type bytes w = (Inr u, w1)"
      using put Inr by (simp add: put_blob_as_def map_errA_def)
    with put_blob_as_stored [OF laws] have "stored B contents ?d w1" by blast
    note there = stored_there [OF laws this]
    have "w' = w1 \<or> (\<exists>r2. so_put_tag_pointer (storage_of ?E) scope reference
        \<lparr>tp_digest = ?d, tp_media_type = media_type, tp_size = of_nat (length bytes)\<rparr> w1 = (r2, w'))"
      using run put Inr
      by (auto simp: store_manifest_def bindA_def storage_try_def map_errA_def returnA_def split: prod.split_asm if_split_asm)
    then show ?thesis
    proof (elim disjE exE)
      fix r2
      assume "so_put_tag_pointer (storage_of ?E) scope reference
        \<lparr>tp_digest = ?d, tp_media_type = media_type, tp_size = of_nat (length bytes)\<rparr> w1 = (r2, w')"
      from linked_put_pointer [OF w1 assms _ this] there show ?thesis by simp
    qed (simp add: w1)
  qed
qed

section \<open>A server whose bucket only grows\<close>

inductive durable_step ::
  "('s, 'c, 'u) env \<Rightarrow> pages \<Rightarrow> ('c \<Rightarrow> string \<Rightarrow> entry option) \<Rightarrow>
   ('s, 'c, 'u) world \<Rightarrow> event \<Rightarrow> ('s, 'c, 'u) world \<Rightarrow> bool"
  for E P entries
where
  durable_serve: "build_router E P req w = (r, w') \<Longrightarrow> durable_step E P entries w (Served req r) w'"
| durable_tick: "w_now w \<le> t \<Longrightarrow> durable_step E P entries w Background (w\<lparr>w_now := t\<rparr>)"
| durable_expire: "entries c \<subseteq>\<^sub>m entries (w_ephemeral w) \<Longrightarrow>
    durable_step E P entries w Background (w\<lparr>w_ephemeral := c\<rparr>)"

inductive durable_runs ::
  "('s, 'c, 'u) env \<Rightarrow> pages \<Rightarrow> ('c \<Rightarrow> string \<Rightarrow> entry option) \<Rightarrow>
   ('s, 'c, 'u) world \<Rightarrow> event list \<Rightarrow> ('s, 'c, 'u) world \<Rightarrow> bool"
  for E P entries
where
  durable_start: "durable_runs E P entries w [] w"
| durable_next: "durable_runs E P entries w tr w1 \<Longrightarrow> durable_step E P entries w1 ev w2 \<Longrightarrow>
    durable_runs E P entries w (tr @ [ev]) w2"
| durable_poll: "durable_runs E P entries w tr w1 \<Longrightarrow> next_item tr k = Some (r, i) \<Longrightarrow>
    durable_runs E P entries w (tr @ [Polled k]) (poll_item r i w1)"

lemma durable_step_is_step: "durable_step E P entries w ev w' \<Longrightarrow> server_step E P contents entries w ev w'"
  by (auto elim!: durable_step.cases intro: server_step.intros)

lemma durable_runs_are_runs: "durable_runs E P entries w tr w' \<Longrightarrow> server_runs E P contents entries w tr w'"
  by (induction rule: durable_runs.induct) (auto intro: server_runs.intros durable_step_is_step)

locale durable_invariant = server_invariant E I hosts
  for E :: "('s, 'c, 'u) env" and I :: "('s, 'c, 'u) world \<Rightarrow> bool" and hosts :: "string \<Rightarrow> bool" +
  fixes entries :: "'c \<Rightarrow> string \<Rightarrow> entry option"
  assumes inv_time: "I w \<Longrightarrow> I (w\<lparr>w_now := t\<rparr>)"
    and inv_metrics: "I w \<Longrightarrow> I (w\<lparr>w_metrics := ms\<rparr>)"
    and inv_expire: "I w \<Longrightarrow> entries c \<subseteq>\<^sub>m entries (w_ephemeral w) \<Longrightarrow> I (w\<lparr>w_ephemeral := c\<rparr>)"
begin

lemma inv_durable_step:
  assumes "durable_step E P entries w ev w'" "I w"
  shows "I w'"
  using assms(1)
proof cases
  case (durable_serve req r)
  with inv_build_router [OF assms(2), of P req] show ?thesis by simp
qed (auto intro: inv_time inv_expire assms(2))

lemma inv_durable_runs: "durable_runs E P entries w tr w' \<Longrightarrow> I w \<Longrightarrow> I w'"
  by (induction rule: durable_runs.induct) (auto intro: inv_durable_step inv_metrics simp: poll_item_def)

end

interpretation linked_runs: durable_invariant "deploy B C J E" "linked_server B C J E contents entries" "\<lambda>_. True" entries
  for B :: "'s object_store" and C :: "'c cache_ops" and J and E :: "('s, 'c, 'u) env" and contents entries
proof (unfold_locales, goal_cases)
  case (1 proxy_host tgz b reference host eph full_name)
  then show ?case by (simp add: linked_store_built_chart)
next
  case (2 reference host media_type full_name bytes)
  with linked_store_manifest show ?case by simp
qed (simp_all add: linked_server_def)

section \<open>Properties\<close>

text \<open>C5. A tag never dangles: in every state that a server reaches from a well-typed bucket in which no
  tag dangles to begin with (an empty one, say) and from which nothing is deleted, and whatever requests failed halfway in any order of their concurrent
  writes, each tag pointer in the bucket names a manifest that is stored there with the digest the
  pointer has, and its media type is known.\<close>
theorem tags_never_dangle:
  assumes laws: "deployed_laws B contents C entries J E"
    and run: "durable_runs (deploy B C J E) P entries w0 tr w"
    and init: "stores_typed (e_sha E) J contents entries w0" "pointers_linked J contents (w_store w0)"
    and tag: "contents (w_store w) (tag_key sc t) = Some data"
  shows "\<exists>p bytes. pj_from_slice J data = Some p
    \<and> contents (w_store w) (blob_key (tp_digest p)) = Some bytes \<and> tp_digest p = digest_sha256 (e_sha E) bytes
    \<and> tp_media_type p \<in> set MANIFEST_MEDIA_TYPES"
proof -
  have "stores_typed (e_sha E) J contents entries w"
    using typed_runs.inv_runs [OF durable_runs_are_runs [OF run]] laws init(1) by (simp add: typed_server_def)
  then have typed: "\<And>key data. contents (w_store w) key = Some data \<Longrightarrow> object_typed (e_sha E) J key data"
    by (simp add: stores_typed_def)
  have linked: "pointers_linked J contents (w_store w)"
    using linked_runs.inv_durable_runs [OF run] laws init(2) by (simp add: linked_server_def)
  from object_typed_tag [OF typed [OF tag]] obtain p where p: "pj_from_slice J data = Some p" "pointer_typed (e_sha E) p"
    by blast
  with linked tag obtain bytes where bytes: "contents (w_store w) (blob_key (tp_digest p)) = Some bytes"
    unfolding pointers_linked_def by blast
  from object_typed_blob [OF typed [OF bytes]] p bytes show ?thesis by (auto simp: pointer_typed_def)
qed

definition sample_pull_request :: server_request where
  "sample_pull_request = sample_request\<lparr>sr_path := ''/v2/priv/c/manifests/1''\<rparr>"

lemma sample_pull_answered:
  "\<exists>r v w1. build_router sample_pull_deployment sample_pages sample_pull_request sample_world = (r, v)
     \<and> passthrough_manifest sample_pull_deployment ''p'' sample_target ''1'' False None sample_world = (Inr r, w1)
     \<and> rs_status r = 200 \<and> rs_body r = [Inr ''gz''] \<and> w_store v = w_store w1"
proof -
  let ?E = sample_pull_deployment
  obtain r w1 where pull: "passthrough_manifest ?E ''p'' sample_target ''1'' False None sample_world = (Inr r, w1)"
    and r: "rs_status r = 200" "rs_body r = [Inr ''gz'']" using sample_first_pull by blast
  have e: "e_decode ?E = Some" "e_b64 ?E = (\<lambda>_. None)" "ac_tokens (st_auth (e_settings ?E)) = [''t0ken'']"
    by (simp_all add: deploy_def sample_pull_env_def sample_env_def sample_config_def sample_settings_def)
  have "resolve_name (\<lambda>s. Some (HostDomain s)) ''priv/c'' [(''priv'', \<lparr>al_upstream = UpOci ''r.io'' ''p'', al_store = True,
       al_auth = AuthNone, al_plain_http = False\<rparr>)] = Some (ResOci sample_target)" by code_simp
  then have "resolve_in ?E ''priv/c'' = Some (ResOci sample_target)"
    by (simp add: resolve_in_def deploy_def sample_pull_env_def sample_env_def sample_helm_env_def sample_url_lib_def)
  moreover have "parse_oci_path Some ''/v2/priv/c/manifests/1'' = Manifest ''priv/c'' ''1''" by code_simp
  moreover have "request_header ''accept'' sample_pull_request = None"
    by (simp add: request_header_def sample_pull_request_def sample_request_def)
  ultimately have "route_entry ?E ''p'' sample_pull_request False
      (parse_oci_path (e_decode ?E) (sr_path sample_pull_request)) sample_world = (Inr r, w1)"
    using pull by (simp add: sample_pull_request_def e manifest_entry_def)
  moreover have "sr_headers sample_pull_request = sr_headers sample_request" "sr_method sample_pull_request = GET"
    "starts_with ''/v2/'' (sr_path sample_pull_request)"
    by (simp_all add: sample_pull_request_def sample_request_get starts_with_iff)
  ultimately have "\<exists>v. build_router ?E sample_pages sample_pull_request sample_world = (r, v) \<and> w_store v = w_store w1"
    by (intro router_answers [OF _ r(1) _ _ sample_host] sample_accepted e)
  with pull r show ?thesis by blast
qed

theorem tags_never_dangle_witness:
  "\<exists>r w data p bytes. durable_runs sample_pull_deployment sample_pages id sample_world [Served sample_pull_request r] w
     \<and> w_store w (tag_key \<lparr>ts_proxy_host = ''p'', ts_full_name = ''priv/c''\<rparr> ''1'') = Some data
     \<and> pj_from_slice bounded_pointer_json data = Some p \<and> w_store w (blob_key (tp_digest p)) = Some bytes"
proof -
  let ?E = sample_pull_deployment and ?sc = "\<lparr>ts_proxy_host = ''p'', ts_full_name = ''priv/c''\<rparr>"
  obtain r v w1 where router: "build_router ?E sample_pages sample_pull_request sample_world = (r, v)"
    and pull: "passthrough_manifest ?E ''p'' sample_target ''1'' False None sample_world = (Inr r, w1)"
    and r: "rs_status r = 200" "rs_body r = [Inr ''gz'']" "w_store v = w_store w1" using sample_pull_answered by blast
  have laws: "deployed_laws memory_store id sample_cache id bounded_pointer_json sample_pull_env"
    by (simp add: deployed_laws_def memory_store_laws sample_cache_laws bounded_pointer_laws sample_sha_hex
        sample_pull_env_def sample_env_def)
  have tag: "plain_tag ''1''" "ot_store sample_target" "accepts_media_type None MEDIA_TYPE_MANIFEST"
    by (simp_all add: sample_target_def plain_tag_def accepts_media_type_def)
  from pull_left [OF laws bounded_pointer_laws(2) tag(2,1) pull r(1) sample_self_describing tag(3)]
  obtain kept where "left_behind memory_store bounded_pointer_json id sample_pull_env
      \<lparr>ts_proxy_host = ''p'', ts_full_name = ot_full_name sample_target\<rparr> ''1'' None (delivered (rs_body r)) kept (w_store w1)"
    by blast
  then have "\<exists>data. w_store w1 (tag_key ?sc ''1'') = Some data"
    by (auto simp: left_behind_def Let_def leads_to_def sample_target_def digest_parse_def memory_store_def
        path_raw_tag_key [OF tag(1)])
  then obtain data where data: "w_store v (tag_key ?sc ''1'') = Some data" using r(3) by auto
  have "durable_runs ?E sample_pages id sample_world ([] @ [Served sample_pull_request r]) v"
    by (rule durable_next [OF durable_start durable_serve [OF router]])
  then have run: "durable_runs ?E sample_pages id sample_world [Served sample_pull_request r] v" by simp
  have init: "stores_typed (e_sha sample_pull_env) bounded_pointer_json id id sample_world"
    "pointers_linked bounded_pointer_json id (w_store sample_world)"
    by (simp_all add: stores_typed_def pointers_linked_def sample_world_def)
  from tags_never_dangle [OF laws run init, of ?sc "''1''" data] data obtain p bytes where
    "pj_from_slice bounded_pointer_json data = Some p" "w_store v (blob_key (tp_digest p)) = Some bytes" by auto
  with data run show ?thesis by blast
qed

end
