(* ===== verification/Meters.thy ===== *)
theory Meters
  imports Answers
begin

text \<open>
  Which responses are metered: every blob a route answers with status 200 carries the label of the
  kind of upstream its name resolves to, and no other response carries one. The label is set where the
  body is built (\<open>respond.rs\<close>, \<open>metered_blob_stream\<close> of \<open>passthrough.rs\<close>); the bytes are counted as the body
  is produced.
\<close>

section \<open>The result of a handler\<close>

definition yields :: "('a \<Rightarrow> bool) \<Rightarrow> ('w, 'e, 'a) act \<Rightarrow> bool" where
  "yields Q m \<longleftrightarrow> (\<forall>w a w'. m w = (Inr a, w') \<longrightarrow> Q a)"

named_theorems yields_rules \<open>what the steps of a handler can return\<close>

lemma yieldsD: "yields Q m \<Longrightarrow> m w = (Inr a, w') \<Longrightarrow> Q a"
  by (auto simp: yields_def)

lemma yields_basic [yields_rules]:
  "Q a \<Longrightarrow> yields Q (returnA a)" "yields Q (failA e)" "(\<And>a. r = Inr a \<Longrightarrow> Q a) \<Longrightarrow> yields Q (liftA r)"
  by (auto simp: yields_def)

lemma yields_bind [yields_rules]: "(\<And>a. yields Q (f a)) \<Longrightarrow> yields Q (bindA m f)"
  by (auto simp: yields_def bindA_Inr)

lemma yields_bind_lift: "(\<And>a. r = Inr a \<Longrightarrow> yields Q (f a)) \<Longrightarrow> yields Q (bindA (liftA r) f)"
  by (auto simp: yields_def bindA_Inr)

lemma yields_bind_of: "yields R m \<Longrightarrow> (\<And>a. R a \<Longrightarrow> yields Q (f a)) \<Longrightarrow> yields Q (bindA m f)"
  by (simp add: yields_def bindA_Inr) blast

section \<open>Meters\<close>

definition unmetered :: "meter response \<Rightarrow> bool" where
  "unmetered r \<longleftrightarrow> rs_meter r = None"

text \<open>The response of a blob route to an upstream of kind \<open>u\<close>.\<close>

definition metered_as :: "proxy_upstream \<Rightarrow> meter response \<Rightarrow> bool" where
  "metered_as u r \<longleftrightarrow>
     (case rs_meter r of
        None \<Rightarrow> rs_status r = 200 \<longrightarrow> rs_body r = []
      | Some (u', _, broken) \<Rightarrow> rs_status r = 200 \<and> u' = u \<and> broken \<in> {[], [record_cached_blob_corruption]})"

lemma meter_error [yields_rules]: "unmetered (error_response H e)" "metered_as u (error_response H e)"
  using error_not_success [of H e] by (simp_all add: unmetered_def metered_as_def)

lemma meter_bytes [yields_rules]: "unmetered (bytes_response H ct d data head_only)"
  by (auto simp: bytes_response_def finish_def unmetered_def split: sum.split)

lemma meter_finish:
  "respond_base H ct d n = Inr b \<Longrightarrow> meter = Some (u, s, []) \<or> meter = None \<and> body = [] \<Longrightarrow>
   metered_as u (finish H b body meter)"
  using respond_base_ok [of H ct d n b] meter_error(2) [of u H invalid_content_type]
  by (auto simp: finish_def metered_as_def)

lemma meter_blobs [yields_rules]:
  "metered_as u (blob_response H ct d b head_only u s)"
  "metered_as u (blob_bytes_response H ct d data head_only u s)"
  by (auto simp: blob_response_def blob_bytes_response_def split: sum.split intro: meter_error meter_finish)

lemma meter_broken:
  "metered_as u r \<Longrightarrow> es \<in> {[], [record_cached_blob_corruption]} \<Longrightarrow> metered_as u (when_broken es r)"
  by (auto simp: metered_as_def when_broken_def split: option.splits)

lemma meter_built:
  "build_response b body meter = Inr r \<Longrightarrow> rs_meter r = meter \<and> rs_body r = body \<and> rs_status r = bd_status b"
  by (auto simp: build_response_def split: if_splits)

section \<open>The handlers\<close>

lemma meter_cached_blob:
  "cached_blob_response H sha d b head_only = Some r \<Longrightarrow> metered_as ProxyOci r"
  by (auto simp: cached_blob_response_def Let_def bind_eq_Some_conv verify_records_iff split: if_splits
      intro!: meter_broken meter_blobs)

lemma meter_unverified:
  assumes "unverified_blob_response H d ct response body meter = Inr r"
    and "meter = Some metered_blob_stream \<or> meter = None \<and> body = []"
  shows "metered_as ProxyOci r"
proof -
  have s: "bd_status (builder_header H n v b) = bd_status b" "bd_status (builder_opt H n v' b) = bd_status b" for n v v' b
    by (simp_all add: builder_header_def builder_opt_def split: option.split)
  show ?thesis
    using assms meter_built [OF assms(1) [unfolded unverified_blob_response_def Let_def]]
    by (auto simp: metered_as_def metered_blob_stream_def s builder_new_def)
qed

lemma meter_passthrough_blob: "yields (metered_as ProxyOci) (passthrough_blob E target digest_str head_only)"
proof -
  have unverified: "yields (metered_as ProxyOci)
      (bindA (liftA (unverified_blob_response (e_http E) d ct response body meter)) (\<lambda>r.
       bindA (proxied KindBlob FromUpstream) (\<lambda>_. returnA r)))"
    if "meter = Some metered_blob_stream \<or> meter = None \<and> body = []" for d ct response body meter
    by (rule yields_bind_lift, rule yields_bind, rule yields_basic, erule meter_unverified, rule that)
  note steps = yields_bind [where m = "liftA (read_upstream_blob response n)" for response n]
    yields_bind [where m = "record_blob_cache_skip reason" for reason] yields_bind [where m = "storage_try m" for m]
    yields_bind [where m = "proxied kind source" for kind source]
  have "yields (metered_as ProxyOci) (upstream_blob_answer E target d head_only response)" for d response
    by (auto simp: upstream_blob_answer_def Let_def split: option.split upstream_blob.split
        intro!: unverified steps yields_basic(1,2) meter_blobs)
  then have "yields (metered_as ProxyOci) (upstream_blob_request E target d head_only)" for d
    by (auto simp: upstream_blob_request_def intro!: yields_rules)
  then show ?thesis
    by (auto simp: passthrough_blob_def bind_eq_Some_conv split: option.split
        intro!: yields_rules dest: meter_cached_blob)
qed

lemma meter_classic_blob: "yields (metered_as ProxyClassic) (classic_blob E digest_str head_only)"
  by (auto simp: classic_blob_def Let_def split: option.split intro!: yields_rules)

definition unmetered_option :: "meter response option \<Rightarrow> bool" where
  "unmetered_option c \<longleftrightarrow> (\<forall>r. c = Some r \<longrightarrow> unmetered r)"

lemma unmetered_option_simps [simp]: "unmetered_option None" "unmetered_option (Some r) \<longleftrightarrow> unmetered r"
  by (simp_all add: unmetered_option_def)

lemma unmetered_classic_manifest: "yields unmetered (classic_manifest E host chart reference head_only)"
proof -
  have d: "digest_manifest_response E d b head_only n = Inr r \<Longrightarrow> unmetered r" for d b n r
    by (auto simp: digest_manifest_response_def Let_def split: sum.splits app_error.splits if_splits intro: meter_bytes)
  then have c: "yields unmetered_option (cached_tag_manifest E store scope reference head_only n)" for store scope n
    by (auto simp: cached_tag_manifest_def split: option.split sum.split app_error.split intro!: yields_rules)
  have "yields unmetered (classic_manifest_by_digest E d head_only)" for d
    by (auto simp: classic_manifest_by_digest_def split: option.split intro!: yields_basic(1,2) yields_bind_lift
        yields_bind [where m = "find_blob E d"] yields_bind [where m = "record_event e" for e] dest: d)
  moreover have "yields unmetered (classic_build_manifest E host chart reference head_only)"
    by (auto simp: classic_build_manifest_def intro!: yields_rules)
  ultimately show ?thesis
    by (auto simp: classic_manifest_def Let_def split: option.split intro!: yields_rules yields_bind_of [OF c])
qed

lemma unmetered_classic_tags: "yields unmetered (classic_tags E chart query head_only)"
  by (auto simp: classic_tags_def tags_response_def unmetered_def panicked_def Let_def split: prod.split
      intro!: yields_rules)

lemma unmetered_passthrough_manifest:
  "yields unmetered (passthrough_manifest E host target reference head_only accept)"
proof -
  have h: "manifest_head_response H reference response declared = Inr r \<Longrightarrow> unmetered r" for H response declared r
    by (auto simp: manifest_head_response_def Let_def unmetered_def split: option.splits dest: meter_built)
  have "yields unmetered (upstream_manifest_answer E host target reference response declared)" for response declared
    by (auto simp: upstream_manifest_answer_def Let_def split: option.split intro!: yields_rules)
  then have u: "yields unmetered (upstream_manifest E host target reference head_only accept)"
    by (auto simp: upstream_manifest_def Let_def intro!: yields_basic(1,2) yields_bind_lift
        yields_bind [where m = "send_upstream E t m sfx a" for t m sfx a]
        yields_bind [where m = "proxied kind source" for kind source] dest: h)
  have "cached_manifest_response E d b head_only declared = Inr r \<Longrightarrow> unmetered r" for d b declared r
    by (auto simp: cached_manifest_response_def bindE_Inr Let_def split: if_splits option.splits intro: meter_bytes)
  then have c: "yields (\<lambda>c. \<forall>r. c = Some (Inr r) \<longrightarrow> unmetered r)
      (find_cached_manifest E scope reference head_only accept)" for scope
    by (auto simp: find_cached_manifest_def split: option.split intro!: yields_rules)
  show ?thesis
    by (auto simp: passthrough_manifest_def split: option.split sum.split intro!: u yields_basic(1,2)
        yields_bind_of [OF c] yields_bind [where m = "count_event n" for n]
        yields_bind [where m = "proxied kind source" for kind source])
qed

lemma unmetered_passthrough_tags: "yields unmetered (passthrough_tags E target query head_only)"
proof -
  have b: "build_response b body None = Inr r \<Longrightarrow> unmetered r" for b body r
    by (auto simp: unmetered_def dest: meter_built)
  then have "yields unmetered (bindA (liftA (build_response b body None)) (\<lambda>r. bindA (proxied k src) (\<lambda>_. returnA r)))"
    for b body k src
    by (intro yields_bind_lift yields_bind [where m = "proxied k src"] yields_basic(1))
  then show ?thesis
    unfolding passthrough_tags_def Let_def
    by (auto split: prod.split option.split intro!: yields_basic(2) yields_bind [where m = "send_upstream E t m sfx a" for t m sfx a]
        yields_bind [where m = "count_tag_link_drops drops" for drops] yields_bind [where m = "liftA (read_upstream_body r n z)" for r n z]
        yields_bind [where m = "liftA (ok_or e x)" for e x] yields_bind [where m = "returnA b" for b]
        yields_bind [where m = "bindA (count_tag_link_drop z) f" for z f])
qed

section \<open>The server\<close>

text \<open>The kind of upstream whose blobs a request asks for.\<close>

definition blob_upstream :: "('s, 'c, 'u) env \<Rightarrow> server_request \<Rightarrow> proxy_upstream option" where
  "blob_upstream E req =
     (if sr_path req \<noteq> ''/v2'' \<and> \<not> starts_with ''/v2/'' (sr_path req) then None
      else case parse_oci_path (e_decode E) (sr_path req) of
        Blob name _ \<Rightarrow>
          map_option (\<lambda>t. case t of ResClassic _ \<Rightarrow> ProxyClassic | ResOci _ \<Rightarrow> ProxyOci) (resolve_in E name)
      | _ \<Rightarrow> None)"

definition well_metered :: "('s, 'c, 'u) env \<Rightarrow> server_request \<Rightarrow> meter response \<Rightarrow> bool" where
  "well_metered E req r \<longleftrightarrow> (case blob_upstream E req of Some u \<Rightarrow> metered_as u r | None \<Rightarrow> unmetered r)"

lemma well_metered_error: "well_metered E req (error_response H e)"
  using meter_error by (simp add: well_metered_def split: option.split)

lemma well_metered_route:
  assumes "sr_path req = ''/v2'' \<or> starts_with ''/v2/'' (sr_path req)"
  shows "yields (well_metered E req) (route_entry E host req head_only (parse_oci_path (e_decode E) (sr_path req)))"
proof (cases "parse_oci_path (e_decode E) (sr_path req)")
  case (Blob name d)
  have m: "yields (metered_as ProxyClassic) (classic_blob E d head_only)"
    "yields (metered_as ProxyOci) (passthrough_blob E t d head_only)" for t
    by (rule meter_classic_blob meter_passthrough_blob)+
  show ?thesis
    using assms m by (auto simp: Blob blob_entry_def well_metered_def blob_upstream_def yields_def
        split: option.split resolved.split)
next
  case (Manifest name reference)
  then have "well_metered E req = unmetered"
    by (auto simp: fun_eq_iff well_metered_def blob_upstream_def)
  then show ?thesis
    by (simp add: Manifest manifest_entry_def unmetered_classic_manifest unmetered_passthrough_manifest yields_basic
        split: option.split resolved.split)
next
  case (Tags name)
  then have "well_metered E req = unmetered"
    by (auto simp: fun_eq_iff well_metered_def blob_upstream_def)
  then show ?thesis
    by (simp add: Tags tags_entry_def unmetered_classic_tags unmetered_passthrough_tags yields_basic
        split: option.split resolved.split)
qed (auto simp: well_metered_def blob_upstream_def unmetered_def api_response_def intro!: yields_basic)

lemma well_metered_router:
  assumes "build_router E P req w = (r, w')"
  shows "well_metered E req r"
proof -
  have page: "blob_upstream E req = None" if "sr_path req \<in> {''/'', ''/healthz'', ''/metrics''}"
    using that by (auto simp: blob_upstream_def starts_with_iff)
  have page': "unmetered (page E r0 req)" if "unmetered r0" for r0
    using that meter_error by (auto simp: page_def method_not_allowed_def unmetered_def split: option.split)
  have "well_metered E req (fst (oci_dispatch E req w))"
  proof (cases "sr_path req = ''/v2'' \<or> starts_with ''/v2/'' (sr_path req)")
    case True
    have "well_metered E req (fst (into_response E
        (route_entry E host req head_only (parse_oci_path (e_decode E) (sr_path req))) w))" for host head_only
      using yieldsD [OF well_metered_route [OF True]] well_metered_error
      by (auto simp: into_response_def split: prod.split sum.split)
    with True show ?thesis by (auto simp: oci_dispatch_def well_metered_error split: option.split)
  qed (simp add: oci_dispatch_def well_metered_def blob_upstream_def unmetered_def text_response_def)
  then have "well_metered E req (fst (routes E P req w))"
    using page page' by (auto simp: routes_def well_metered_def home_def healthz_def text_response_def unmetered_def)
  moreover have "well_metered E req (unauthorized (e_http E))"
    using well_metered_error [of E req "e_http E" Unauthorized]
    by (auto simp: unauthorized_def Let_def well_metered_def metered_as_def unmetered_def split: option.split)
  ultimately have "well_metered E req (fst (require_pull_auth (e_http E) (e_b64 E) auth path hs (routes E P req) w))"
    for auth path hs
    by (simp add: require_pull_auth_def)
  then show ?thesis using assms by (auto simp: build_router_def split: prod.splits if_splits) (metis fst_conv)+
qed

lemma runs_well_metered:
  "server_runs E P contents entries w0 tr w \<Longrightarrow> Served req r \<in> set tr \<Longrightarrow> well_metered E req r"
  using runs_served well_metered_router by blast

lemma polled_events:
  assumes "well_metered E req r" "e \<in> set (item_events (rs_meter r) item)"
  shows "(\<exists>u s n. e = blob_bytes_event u s n) \<or> e = record_cached_blob_corruption"
proof (cases "rs_meter r")
  case None
  with assms(2) show ?thesis by simp
next
  case (Some m)
  obtain u s broken where m: "m = (u, s, broken)" by (cases m)
  with Some assms(1) have "broken \<in> {[], [record_cached_blob_corruption]}"
    by (auto simp: well_metered_def metered_as_def unmetered_def split: option.splits)
  with assms(2) Some m have "e \<in> {blob_bytes_event u s (length (projr item)), record_cached_blob_corruption}"
    by (cases item) auto
  then show ?thesis by blast
qed

end
