(* ===== verification/Series.thy ===== *)
theory Series
  imports Meters
begin

text \<open>
  The time series of the metrics page: a fixed list, so that nothing a client or an upstream sends,
  a path, a name, a header or a credential, can become a label or make the recorder grow.
\<close>

section \<open>The label types are enumerations\<close>

instantiation upstream_kind :: enum
begin

definition "enum_upstream_kind = [ClassicIndex, ClassicChart, OciManifest, OciBlob, OciTags, OciToken]"
definition "enum_all_upstream_kind P \<longleftrightarrow> list_all P (enum_class.enum :: upstream_kind list)"
definition "enum_ex_upstream_kind P \<longleftrightarrow> list_ex P (enum_class.enum :: upstream_kind list)"

instance
proof
  show univ: "UNIV = set (enum_class.enum :: upstream_kind list)"
    using upstream_kind.exhaust by (auto simp: enum_upstream_kind_def)
  show "distinct (enum_class.enum :: upstream_kind list)" by (simp add: enum_upstream_kind_def)
  show "enum_class.enum_all P \<longleftrightarrow> Ball UNIV P" "enum_class.enum_ex P \<longleftrightarrow> Bex UNIV P" for P :: "upstream_kind \<Rightarrow> bool"
    unfolding enum_all_upstream_kind_def enum_ex_upstream_kind_def list_all_iff list_ex_iff univ by simp_all
qed

end

instantiation proxy_kind :: enum
begin

definition "enum_proxy_kind = [KindManifest, KindBlob, KindTags]"
definition "enum_all_proxy_kind P \<longleftrightarrow> list_all P (enum_class.enum :: proxy_kind list)"
definition "enum_ex_proxy_kind P \<longleftrightarrow> list_ex P (enum_class.enum :: proxy_kind list)"

instance
proof
  show univ: "UNIV = set (enum_class.enum :: proxy_kind list)"
    using proxy_kind.exhaust by (auto simp: enum_proxy_kind_def)
  show "distinct (enum_class.enum :: proxy_kind list)" by (simp add: enum_proxy_kind_def)
  show "enum_class.enum_all P \<longleftrightarrow> Ball UNIV P" "enum_class.enum_ex P \<longleftrightarrow> Bex UNIV P" for P :: "proxy_kind \<Rightarrow> bool"
    unfolding enum_all_proxy_kind_def enum_ex_proxy_kind_def list_all_iff list_ex_iff univ by simp_all
qed

end

instantiation proxy_upstream :: enum
begin

definition "enum_proxy_upstream = [ProxyClassic, ProxyOci]"
definition "enum_all_proxy_upstream P \<longleftrightarrow> list_all P (enum_class.enum :: proxy_upstream list)"
definition "enum_ex_proxy_upstream P \<longleftrightarrow> list_ex P (enum_class.enum :: proxy_upstream list)"

instance
proof
  show univ: "UNIV = set (enum_class.enum :: proxy_upstream list)"
    using proxy_upstream.exhaust by (auto simp: enum_proxy_upstream_def)
  show "distinct (enum_class.enum :: proxy_upstream list)" by (simp add: enum_proxy_upstream_def)
  show "enum_class.enum_all P \<longleftrightarrow> Ball UNIV P" "enum_class.enum_ex P \<longleftrightarrow> Bex UNIV P" for P :: "proxy_upstream \<Rightarrow> bool"
    unfolding enum_all_proxy_upstream_def enum_ex_proxy_upstream_def list_all_iff list_ex_iff univ
    by simp_all
qed

end

instantiation proxy_source :: enum
begin

definition "enum_proxy_source = [FromUpstream, PersistentCache, EphemeralCache]"
definition "enum_all_proxy_source P \<longleftrightarrow> list_all P (enum_class.enum :: proxy_source list)"
definition "enum_ex_proxy_source P \<longleftrightarrow> list_ex P (enum_class.enum :: proxy_source list)"

instance
proof
  show univ: "UNIV = set (enum_class.enum :: proxy_source list)"
    using proxy_source.exhaust by (auto simp: enum_proxy_source_def)
  show "distinct (enum_class.enum :: proxy_source list)" by (simp add: enum_proxy_source_def)
  show "enum_class.enum_all P \<longleftrightarrow> Ball UNIV P" "enum_class.enum_ex P \<longleftrightarrow> Bex UNIV P" for P :: "proxy_source \<Rightarrow> bool"
    unfolding enum_all_proxy_source_def enum_ex_proxy_source_def list_all_iff list_ex_iff univ by simp_all
qed

end

section \<open>The series\<close>

type_synonym series = "string \<times> (string \<times> string) list"

definition series_of :: "metric_event \<Rightarrow> series" where
  "series_of e = (me_name e, me_labels e)"

definition plain_counters :: "string list" where
  "plain_counters = [''helmoci_index_cache_hits_total'', ''helmoci_index_cache_misses_total'',
     ''helmoci_manifest_cache_hits_total'', ''helmoci_manifest_cache_misses_total'',
     ''helmoci_oci_manifest_cache_hits_total'', ''helmoci_oci_manifest_cache_misses_total'',
     ''helmoci_oci_blob_cache_hits_total'', ''helmoci_oci_blob_cache_misses_total'']"

definition skip_reasons :: "string list" where
  "skip_reasons = [''advertised_over_limit'', ''streamed_over_limit'']"

definition drop_reasons :: "string list" where
  "drop_reasons = [''no_next_relation'', ''ambiguous_next_relation'', ''unparsable_field'', ''unsafe_reference'',
     ''undecodable_field'', ''invalid_header_value'']"

definition route_label_list :: "string list" where
  "route_label_list = [''home'', ''healthz'', ''metrics'', ''api'', ''manifest'', ''blob'', ''tags'', ''other'']"

definition status_list :: "nat list" where
  "status_list = [200, 400, 401, 404, 405, 413, 500, 502]"

definition proxy_series :: "series list" where
  "proxy_series = [series_of (proxy_response_event k u s).
     k \<leftarrow> enum_class.enum, u \<leftarrow> enum_class.enum, s \<leftarrow> enum_class.enum]"

definition bytes_series :: "series list" where
  "bytes_series = [series_of (blob_bytes_event u s 0). u \<leftarrow> enum_class.enum, s \<leftarrow> enum_class.enum]"

text \<open>What the handlers record while they answer, and the rest: what the bodies record as they leave, and
  the metrics layer for each request.\<close>

definition handler_series :: "series list" where
  "handler_series =
     [(n, []). n \<leftarrow> plain_counters]
     @ proxy_series
     @ [series_of (upstream_duration_event k 0). k \<leftarrow> enum_class.enum]
     @ [(''helmoci_oci_blob_cache_skips_total'', [(''reason'', reason)]). reason \<leftarrow> skip_reasons]
     @ [(''helmoci_oci_tag_link_drops_total'', [(''reason'', reason)]). reason \<leftarrow> drop_reasons]"

definition body_series :: "series list" where
  "body_series = series_of record_cached_blob_corruption # bytes_series"

definition http_series :: "series list" where
  "http_series =
     [(''helmoci_http_requests_total'', [(''route'', route), (''status'', show_nat status)]).
          route \<leftarrow> route_label_list, status \<leftarrow> status_list]
     @ [(''helmoci_http_request_duration_seconds'', [(''route'', route)]). route \<leftarrow> route_label_list]"

definition known_series :: "series list" where
  "known_series = handler_series @ body_series @ http_series"

lemma length_known_series: "length known_series = 119"
  by code_simp

lemma handler_proxy: "series_of (proxy_response_event k u s) \<in> set handler_series"
proof -
  have "k \<in> set enum_class.enum" "u \<in> set enum_class.enum" "s \<in> set enum_class.enum"
    using UNIV_enum by auto
  then have "series_of (proxy_response_event k u s) \<in> set proxy_series"
    by (fastforce simp: proxy_series_def)
  then show ?thesis by (simp add: handler_series_def)
qed

lemma handler_upstream: "series_of (upstream_duration_event k n) \<in> set handler_series"
proof -
  have "k \<in> set enum_class.enum" using UNIV_enum by auto
  then show ?thesis unfolding handler_series_def by (auto simp: series_of_def upstream_duration_event_def)
qed

lemma known_bytes: "series_of (blob_bytes_event u s n) \<in> set body_series"
proof -
  have "u \<in> set enum_class.enum" "s \<in> set enum_class.enum" using UNIV_enum by auto
  then have "series_of (blob_bytes_event u s n) \<in> set bytes_series"
    by (fastforce simp: bytes_series_def series_of_def blob_bytes_event_def)
  then show ?thesis by (simp add: body_series_def)
qed

lemma known_http:
  assumes "status \<in> set status_list"
  shows "series_of (http_event path status) \<in> set http_series"
    "series_of (http_duration_event path n) \<in> set http_series"
proof -
  have "route_kind path \<in> set route_label_list"
    using route_kind_closed [of path] by (simp add: route_labels_def route_label_list_def)
  with assms show "series_of (http_event path status) \<in> set http_series"
    "series_of (http_duration_event path n) \<in> set http_series"
    unfolding http_series_def by (auto simp: series_of_def http_event_def http_duration_event_def)
qed

section \<open>What the handlers record\<close>

text \<open>Since the metrics were \<open>m0\<close>, only handler series have been recorded.\<close>

definition handler_only :: "metric_event list \<Rightarrow> ('s, 'c, 'u) world \<Rightarrow> bool" where
  "handler_only m0 w \<longleftrightarrow> (\<exists>es. w_metrics w = m0 @ es \<and> (\<forall>e\<in>set es. series_of e \<in> set handler_series))"

named_theorems series_rules \<open>operations that record handler series only\<close>

declare preserves_bind [series_rules] preserves_rules [series_rules]

lemma handler_only_refl: "w_metrics w = m0 \<Longrightarrow> handler_only m0 w"
  by (simp add: handler_only_def)

lemma handler_only_more:
  assumes "handler_only m0 w" "w_metrics w' = w_metrics w @ [e]" "series_of e \<in> set handler_series"
  shows "handler_only m0 w'"
proof -
  from assms(1) obtain es where "w_metrics w = m0 @ es" "\<forall>e\<in>set es. series_of e \<in> set handler_series"
    by (auto simp: handler_only_def)
  with assms(2,3) show ?thesis unfolding handler_only_def by (intro exI [of _ "es @ [e]"]) auto
qed

lemma known_record: "series_of e \<in> set handler_series \<Longrightarrow> preserves (handler_only m0) (record_event e)"
  by (intro preservesI) (auto simp: record_event_def elim: handler_only_more)

lemma known_count [series_rules]: "n \<in> set plain_counters \<Longrightarrow> preserves (handler_only m0) (count_event n)"
  unfolding count_event_def by (rule known_record) (auto simp: series_of_def handler_series_def)

lemma known_world [series_rules]:
  "preserves (handler_only m0) (record_event (proxy_response_event k u s))"
  "preserves (handler_only m0) (index_cache_get E key)" "preserves (handler_only m0) (index_cache_insert key txt)"
  "preserves (handler_only m0) (token_cache_get E key)" "preserves (handler_only m0) (token_cache_insert key c)"
  "preserves (handler_only m0) (token_cache_invalidate key)"
  by (rule known_record [OF handler_proxy],
      auto intro!: preservesI simp: handler_only_def index_cache_get_def index_cache_insert_def
        token_cache_get_def token_cache_insert_def token_cache_invalidate_def)

lemma known_timed_request [series_rules]: "preserves (handler_only m0) (timed_request E kind q)"
  by (rule preservesI) (auto simp: timed_request_eq intro: handler_only_more [OF _ _ handler_upstream])

lemma known_on_part:
  "preserves (handler_only m0) (on_part w_store (\<lambda>s w. w\<lparr>w_store := s\<rparr>) m)"
  "preserves (handler_only m0) (on_part w_ephemeral (\<lambda>s w. w\<lparr>w_ephemeral := s\<rparr>) m)"
  by (auto intro!: preservesI simp: on_part_eq handler_only_def)

lemma known_stores [series_rules]:
  assumes "S \<in> handler_stores E"
  shows "preserves (handler_only m0) (so_get_blob S d)" "preserves (handler_only m0) (so_head_blob S d)"
    "preserves (handler_only m0) (so_put_blob S d ct data)" "preserves (handler_only m0) (so_get_tag_pointer S sc t)"
    "preserves (handler_only m0) (so_put_tag_pointer S sc t p)"
  using assms by (auto simp: storage_of_def ephemeral_of_def lift_ops_def known_on_part)

lemma classic_backend_store: "classic_backend E eph \<in> handler_stores E"
  by (simp add: classic_backend_def)

lemma known_try [series_rules]: "preserves (handler_only m0) m \<Longrightarrow> preserves (handler_only m0) (storage_try m)"
  unfolding storage_try_def by (rule preserves_map_err)

subsection \<open>Requests upstream\<close>

lemma known_send_loop [series_rules]: "preserves (handler_only m0) (send_loop E m url hs client follow kind left)"
proof (induction left arbitrary: url hs client)
  case 0
  show ?case
    by (subst send_loop.simps) (auto simp: Let_def intro!: series_rules)
next
  case (Suc left)
  then show ?case
    by (subst send_loop.simps) (auto simp: Let_def split: prod.splits intro!: series_rules)
qed

lemma known_upstream_send [series_rules]: "preserves (handler_only m0) (upstream_send E m url hs client follow kind)"
  by (auto simp: upstream_send_def intro!: series_rules)

lemma known_token [series_rules]:
  "preserves (handler_only m0) (build_token_request E target challenge)" "preserves (handler_only m0) (fetch_token E target challenge)"
proof -
  show b: "preserves (handler_only m0) (build_token_request E target challenge)"
    by (auto simp: build_token_request_def Let_def split: option.split intro!: series_rules)
  show "preserves (handler_only m0) (fetch_token E target challenge)"
    by (auto simp: fetch_token_def Let_def split: prod.split intro!: series_rules b)
qed

lemma known_send_upstream [series_rules]: "preserves (handler_only m0) (send_upstream E target m sfx accept)"
  by (auto simp: send_upstream_def Let_def split: prod.split option.split intro!: series_rules)

subsection \<open>The classic handlers\<close>

lemma known_index [series_rules]:
  "preserves (handler_only m0) (fetch_index_text_with_source E repo source)"
  "preserves (handler_only m0) (fetch_index_text E repo source)"
  "preserves (handler_only m0) (download_chart E curl repo source)"
proof -
  show f: "preserves (handler_only m0) (fetch_index_text_with_source E repo source)"
    by (auto simp: fetch_index_text_with_source_def send_classic_def plain_counters_def Let_def
        split: prod.splits option.splits intro!: series_rules)
  show "preserves (handler_only m0) (fetch_index_text E repo source)"
    by (auto simp: fetch_index_text_def split: prod.splits intro!: series_rules f)
  show "preserves (handler_only m0) (download_chart E curl repo source)"
    by (auto simp: download_chart_def Let_def split: prod.splits intro!: series_rules)
qed

lemma known_classic_stores [series_rules]:
  "preserves (handler_only m0) (find_blob E d)"
  "preserves (handler_only m0) (cached_tag_manifest E (classic_backend E eph) scope reference head_only max_bytes)"
  "preserves (handler_only m0) (store_built_chart E (classic_backend E eph) scope reference b)"
proof -
  show "preserves (handler_only m0) (find_blob E d)"
    by (auto simp: find_blob_def classic_get_blob_def split: option.splits intro!: series_rules)
  show "preserves (handler_only m0) (cached_tag_manifest E (classic_backend E eph) scope reference head_only max_bytes)"
    by (auto simp: cached_tag_manifest_def classic_get_blob_def split: option.splits sum.splits app_error.splits
        intro!: series_rules known_stores [OF classic_backend_store])
  show "preserves (handler_only m0) (store_built_chart E (classic_backend E eph) scope reference b)"
    unfolding store_built_chart_def put_blob_as_def
    by (intro series_rules preserves_try_join3 known_stores [OF classic_backend_store])
qed

lemma known_classic [series_rules]:
  "preserves (handler_only m0) (classic_manifest E host chart reference head_only)"
  "preserves (handler_only m0) (classic_blob E digest_str head_only)"
  "preserves (handler_only m0) (classic_tags E chart query head_only)"
proof -
  have "preserves (handler_only m0) (classic_manifest_by_digest E d head_only)" for d
    by (auto simp: classic_manifest_by_digest_def split: option.splits intro!: series_rules)
  moreover have "preserves (handler_only m0) (classic_build_manifest E host chart reference head_only)"
    unfolding classic_build_manifest_def by (intro series_rules) (simp add: plain_counters_def)
  ultimately show "preserves (handler_only m0) (classic_manifest E host chart reference head_only)"
    by (auto simp: classic_manifest_def Let_def plain_counters_def split: option.splits intro!: series_rules)
  show "preserves (handler_only m0) (classic_blob E digest_str head_only)"
    by (auto simp: classic_blob_def Let_def split: option.splits intro!: series_rules)
  show "preserves (handler_only m0) (classic_tags E chart query head_only)"
    by (auto simp: classic_tags_def Let_def split: prod.splits option.splits intro!: series_rules)
qed

subsection \<open>The passthrough handlers\<close>

lemma known_proxied [series_rules]: "preserves (handler_only m0) (proxied kind source)"
  unfolding proxied_def by (rule series_rules)

lemma known_skip [series_rules]: "reason \<in> set skip_reasons \<Longrightarrow> preserves (handler_only m0) (record_blob_cache_skip reason)"
  unfolding record_blob_cache_skip_def by (rule known_record) (auto simp: series_of_def handler_series_def)

lemma known_drop [series_rules]: "reason \<in> set drop_reasons \<Longrightarrow> preserves (handler_only m0) (count_tag_link_drop reason)"
  unfolding count_tag_link_drop_def by (rule known_record) (auto simp: series_of_def handler_series_def)

lemma known_drops [series_rules]: "set reasons \<subseteq> set drop_reasons \<Longrightarrow> preserves (handler_only m0) (count_tag_link_drops reasons)"
  by (induction reasons) (auto intro!: series_rules)

lemma link_drops_known: "rewrite_upstream_tag_link U response target = (link, drops) \<Longrightarrow> set drops \<subseteq> set drop_reasons"
  by (auto simp: rewrite_upstream_tag_link_def rewrite_tag_links_def select_next_link_def drop_reasons_def Let_def
      split: if_splits option.splits list.splits)

lemma known_manifest [series_rules]: "preserves (handler_only m0) (passthrough_manifest E host target reference head_only accept)"
proof -
  have "preserves (handler_only m0) (store_manifest E scope reference d mt bytes)" for scope d mt bytes
    by (auto simp: store_manifest_def intro!: series_rules)
  then have "preserves (handler_only m0) (upstream_manifest_answer E host target reference response declared)" for response declared
    by (auto simp: upstream_manifest_answer_def Let_def split: option.split intro!: series_rules)
  then have "preserves (handler_only m0) (upstream_manifest E host target reference head_only accept)"
    by (auto simp: upstream_manifest_def Let_def intro!: series_rules)
  moreover have "preserves (handler_only m0) (find_cached_manifest E scope reference head_only accept)" for scope
    by (auto simp: find_cached_manifest_def split: option.split intro!: series_rules)
  ultimately show ?thesis
    by (auto simp: passthrough_manifest_def plain_counters_def split: option.split sum.split intro!: series_rules)
qed

lemma known_blob [series_rules]: "preserves (handler_only m0) (passthrough_blob E target digest_str head_only)"
proof -
  have "preserves (handler_only m0) (upstream_blob_answer E target d head_only response)" for d response
    by (auto simp: upstream_blob_answer_def Let_def skip_reasons_def split: option.split upstream_blob.split
        intro!: series_rules)
  then have "preserves (handler_only m0) (upstream_blob_request E target d head_only)" for d
    by (auto simp: upstream_blob_request_def intro!: series_rules)
  then show ?thesis
    by (auto simp: passthrough_blob_def plain_counters_def split: option.split intro!: series_rules)
qed

lemma known_tags [series_rules]: "preserves (handler_only m0) (passthrough_tags E target query head_only)"
proof -
  have "''invalid_header_value'' \<in> set drop_reasons" by (simp add: drop_reasons_def)
  then show ?thesis
    unfolding passthrough_tags_def Let_def
    by (auto split: prod.split option.split dest: link_drops_known [THEN subsetD] intro!: series_rules)
qed

section \<open>The server\<close>

lemma known_route_entry: "preserves (handler_only m0) (route_entry E host req head_only route)"
  by (cases route)
     (auto simp: manifest_entry_def blob_entry_def tags_entry_def split: option.split resolved.split
       intro!: series_rules)

lemma handler_routes: "handler_only (w_metrics w) (snd (routes E P req w))"
proof -
  have w: "handler_only (w_metrics w) w" by (rule handler_only_refl [OF refl])
  have "handler_only (w_metrics w) (snd (into_response E (route_entry E host req head_only route) w))"
    for host head_only route
    using w preservesD [OF known_route_entry] by (fastforce simp: into_response_def split: prod.split sum.split)
  with w show ?thesis by (simp add: routes_def oci_dispatch_def split: option.split)
qed

text \<open>A request records handler series and then exactly one request with its route and status.\<close>

lemma router_records:
  assumes "validate U debug ua s missing_vars = Inr (e_cfg E)" "header_value_law (e_http E)" "form_encode_law E"
    and "build_router E P req w = (r, w')"
  shows "rs_status r \<in> set status_list \<and> (\<exists>es t. (\<forall>e\<in>set es. series_of e \<in> set handler_series) \<and>
    w_metrics w' = w_metrics w @ es @ [http_event (sr_path req) (rs_status r), http_duration_event (sr_path req) t])"
proof -
  let ?m = "require_pull_auth (e_http E) (e_b64 E) (st_auth (e_settings E)) (sr_path req)
      (map snd (filter (\<lambda>(n, v). n = ''authorization'') (sr_headers req))) (routes E P req) w"
  obtain r1 w1 where m: "?m = (r1, w1)" by fastforce
  have "handler_only (w_metrics w) (snd ?m)"
    using handler_routes [of w E P req] handler_only_refl [OF refl, of w] by (simp add: require_pull_auth_def)
  then obtain es where es: "w_metrics w1 = w_metrics w @ es" "\<forall>e\<in>set es. series_of e \<in> set handler_series"
    by (auto simp: m handler_only_def)
  have "rs_status r1 \<in> set status_list"
    using well_answered_router [OF assms(1-3), of "st_auth (e_settings E)" "sr_path req"
        "map snd (filter (\<lambda>(n, v). n = ''authorization'') (sr_headers req))" P req w] m
    by (auto simp: well_answered_def answer_statuses_def status_list_def)
  moreover from this have "r = r1" "w' = w1\<lparr>w_metrics := w_metrics w1 @
      [http_event (sr_path req) (rs_status r1), http_duration_event (sr_path req) (w_now w1 - w_now w)]\<rparr>"
    using assms(4) m by (auto simp: build_router_def panicked_def status_list_def split: if_splits)
  ultimately show ?thesis using es by auto
qed

definition known_only :: "('s, 'c, 'u) world \<Rightarrow> bool" where
  "known_only w \<longleftrightarrow> (\<forall>e\<in>set (w_metrics w). series_of e \<in> set known_series)"

lemma known_runs:
  assumes "validate U debug ua s missing_vars = Inr (e_cfg E)" "header_value_law (e_http E)" "form_encode_law E"
  shows "server_runs E P contents entries w tr w' \<Longrightarrow> known_only w \<Longrightarrow> known_only w'"
proof (induction rule: server_runs.induct)
  case (step w tr w1 ev w2)
  from step.hyps(2) step.IH [OF step.prems] show ?case
  proof cases
    case (serve req r)
    with router_records [OF assms serve(2)] step.IH [OF step.prems] known_http show ?thesis
      by (fastforce simp: known_only_def known_series_def)
  qed (simp_all add: known_only_def)
next
  case (poll w tr w1 k r i)
  from poll.hyps(2) obtain req where "Served req r \<in> set tr" by (elim next_item_Some) (metis nth_mem)
  then have "well_metered E req r" by (rule runs_well_metered [OF poll.hyps(1)])
  then have "series_of e \<in> set body_series" if "e \<in> set (item_events (rs_meter r) (rs_body r ! i))" for e
    using polled_events [OF _ that] known_bytes by (fastforce simp: body_series_def)
  with poll.IH [OF poll.prems] show ?case by (auto simp: known_only_def poll_item_def known_series_def)
qed simp

section \<open>Properties\<close>

text \<open>C19. The metrics are bounded and disclose nothing: in every state that a server with a validated
  configuration reaches, by requests served and by bodies produced later, each recorded event belongs to
  one of at most 119 series that are fixed in advance, so no label is a path, name, header, host or
  credential of a request or an upstream.\<close>
theorem metric_series_fixed:
  assumes "validate U debug ua s missing_vars = Inr (e_cfg E)" "header_value_law (e_http E)" "form_encode_law E"
    and "server_runs E P contents entries w0 tr w" "w_metrics w0 = []"
  shows "series_of ` set (w_metrics w) \<subseteq> set known_series \<and> card (series_of ` set (w_metrics w)) \<le> 119"
proof -
  have "known_only w" using known_runs [OF assms(1-4)] assms(5) by (simp add: known_only_def)
  then have sub: "series_of ` set (w_metrics w) \<subseteq> set known_series" by (auto simp: known_only_def)
  have "card (set known_series) \<le> 119" using card_length [of known_series] by (simp add: length_known_series)
  with sub card_mono [OF finite_set sub] show ?thesis by auto
qed

theorem metric_series_fixed_witness:
  "\<exists>E r w. server_runs E sample_pages id id sample_world [Served sample_post r] w
     \<and> e_cfg E = sample_config \<and> w_metrics w \<noteq> [] \<and> series_of ` set (w_metrics w) \<subseteq> set known_series"
proof -
  let ?E = "(sample_env silent_net)\<lparr>e_form_encode := (\<lambda>_. [])\<rparr>"
  have cfg: "validate sample_url_lib quote (\<lambda>_. False) sample_settings [''VAR''] = Inr (e_cfg ?E)" "e_cfg ?E = sample_config"
    by (simp_all add: sample_validate sample_env_def sample_config_def)
  have laws: "header_value_law (e_http ?E)" "form_encode_law ?E"
    by (simp_all add: header_value_law_def form_encode_law_def sample_env_def sample_http_def)
  obtain r w where b: "build_router ?E sample_pages sample_post sample_world = (r, w)" by fastforce
  have "server_runs ?E sample_pages id id sample_world ([] @ [Served sample_post r]) w"
    by (rule step [OF start serve [OF b]])
  then have run: "server_runs ?E sample_pages id id sample_world [Served sample_post r] w" by simp
  have "w_metrics w \<noteq> []"
    using b by (auto simp: build_router_def require_pull_auth_def PUBLIC_PATHS_def sample_post_def routes_def page_def
        sample_env_def method_not_allowed_def unsupported_method_def panicked_def)
  moreover have "w_metrics sample_world = []" by (simp add: sample_world_def)
  ultimately show ?thesis
    using metric_series_fixed [OF cfg(1) laws run] run cfg(2) by blast
qed

end
