(* ===== verification/Accounting.thy ===== *)
theory Accounting
  imports Series
begin

text \<open>
  What the counters of the metrics page add up to: in every reachable state the requests counted are the
  requests served, and the blob bytes counted are the bytes of blob bodies that have been produced.
\<close>

section \<open>Sums of a counter\<close>

definition counted :: "(metric_event \<Rightarrow> bool) \<Rightarrow> metric_event list \<Rightarrow> nat" where
  "counted p es = sum_list (map me_amount (filter p es))"

lemma counted_append [simp]: "counted p (es @ fs) = counted p es + counted p fs"
  by (simp add: counted_def)

lemma counted_none: "\<forall>e\<in>set es. \<not> p e \<Longrightarrow> counted p es = 0"
  by (simp add: counted_def)

definition request_event :: "string \<Rightarrow> nat \<Rightarrow> metric_event \<Rightarrow> bool" where
  "request_event path status e \<longleftrightarrow> series_of e = series_of (http_event path status)"

definition blob_event :: "proxy_upstream \<Rightarrow> metric_event \<Rightarrow> bool" where
  "blob_event u e \<longleftrightarrow> (\<exists>s. series_of e = series_of (blob_bytes_event u s 0))"

definition corruption_event :: "metric_event \<Rightarrow> bool" where
  "corruption_event e \<longleftrightarrow> series_of e = series_of record_cached_blob_corruption"

lemma show_nat_inject [simp]: "show_nat m = show_nat n \<longleftrightarrow> m = n"
  using digits_val_show_nat by (metis option.inject)

lemma upstream_label_inject [simp]: "proxy_upstream_label u = proxy_upstream_label v \<longleftrightarrow> u = v"
  by (cases u; cases v) simp_all

lemma request_event_http [simp]:
  "request_event path status (http_event path' status') \<longleftrightarrow> route_kind path' = route_kind path \<and> status' = status"
  "\<not> request_event path status (http_duration_event path' t)"
  "\<not> request_event path status (blob_bytes_event u s n)" "\<not> request_event path status record_cached_blob_corruption"
  by (auto simp: request_event_def series_of_def http_event_def http_duration_event_def blob_bytes_event_def
      record_cached_blob_corruption_def)

lemma blob_event_of [simp]:
  "blob_event u (blob_bytes_event u' s n) \<longleftrightarrow> u' = u"
  "\<not> blob_event u (http_event path status)" "\<not> blob_event u (http_duration_event path t)"
  "\<not> blob_event u record_cached_blob_corruption"
  by (auto simp: blob_event_def series_of_def http_event_def http_duration_event_def blob_bytes_event_def
      record_cached_blob_corruption_def)

lemma corruption_event_of [simp]:
  "corruption_event record_cached_blob_corruption" "\<not> corruption_event (blob_bytes_event u s n)"
  "\<not> corruption_event (http_event path status)" "\<not> corruption_event (http_duration_event path t)"
  by (auto simp: corruption_event_def series_of_def http_event_def http_duration_event_def blob_bytes_event_def
      record_cached_blob_corruption_def)

text \<open>The handlers record none of these.\<close>

definition traffic_names :: "string list" where
  "traffic_names = [''helmoci_http_requests_total'', ''helmoci_blob_bytes_served_total'',
     ''helmoci_oci_blob_cache_corruptions_total'']"

lemma handler_names: "list_all (\<lambda>s. fst s \<notin> set traffic_names) handler_series"
  by code_simp

lemma handler_no_traffic:
  assumes "series_of e \<in> set handler_series"
  shows "\<not> request_event path status e" "\<not> blob_event u e" "\<not> corruption_event e"
proof -
  from assms handler_names have "fst (series_of e) \<notin> set traffic_names" by (auto simp: list_all_iff)
  then show "\<not> request_event path status e" "\<not> blob_event u e" "\<not> corruption_event e"
    by (auto simp: traffic_names_def request_event_def blob_event_def corruption_event_def series_of_def http_event_def
        blob_bytes_event_def record_cached_blob_corruption_def)
qed

section \<open>What a trace has sent\<close>

text \<open>The items of the body of entry \<open>k\<close> that have been produced.\<close>

definition items_sent :: "event list \<Rightarrow> nat \<Rightarrow> (string + bytes) list" where
  "items_sent tr k = (case tr ! k of Served req r \<Rightarrow> take (count_list tr (Polled k)) (rs_body r) | _ \<Rightarrow> [])"

text \<open>Whether entry \<open>k\<close> is a blob answered from an upstream of kind \<open>u\<close>.\<close>

definition served_blob :: "('s, 'c, 'u) env \<Rightarrow> proxy_upstream \<Rightarrow> event \<Rightarrow> bool" where
  "served_blob E u ev \<longleftrightarrow>
     (case ev of Served req r \<Rightarrow> rs_status r = 200 \<and> blob_upstream E req = Some u | _ \<Rightarrow> False)"

definition blob_bytes_sent :: "('s, 'c, 'u) env \<Rightarrow> proxy_upstream \<Rightarrow> event list \<Rightarrow> nat" where
  "blob_bytes_sent E u tr =
     (\<Sum>k<length tr. if served_blob E u (tr ! k) then length (delivered (items_sent tr k)) else 0)"

definition bodies_broken :: "event list \<Rightarrow> nat" where
  "bodies_broken tr = (\<Sum>k<length tr. if list_all is_ok (items_sent tr k) then 0 else 1)"

definition requests_served :: "string \<Rightarrow> nat \<Rightarrow> event list \<Rightarrow> nat" where
  "requests_served path status tr =
     length (filter (\<lambda>ev. case ev of
        Served req r \<Rightarrow> route_kind (sr_path req) = route_kind path \<and> rs_status r = status | _ \<Rightarrow> False) tr)"

lemma delivered_snoc: "list_all is_ok xs \<Longrightarrow> delivered (xs @ [x]) = delivered xs @ delivered [x]"
  by (induction xs rule: delivered.induct) auto

lemma polled_before: "server_runs E P contents entries w tr w' \<Longrightarrow> Polled k \<in> set tr \<Longrightarrow> k < length tr"
proof (induction rule: server_runs.induct)
  case (step w tr w1 ev w2)
  from step.hyps(2) step.prems have "Polled k \<in> set tr" by cases auto
  with step.IH show ?case by simp
next
  case (poll w tr w1 j r i)
  then show ?case by (auto elim: next_item_Some)
qed simp

text \<open>An entry that is no poll adds nothing, and a poll adds its item.\<close>

lemma items_sent_step:
  assumes "server_runs E P contents entries w tr w'" "\<And>k. ev \<noteq> Polled k"
  shows "k < length tr \<Longrightarrow> items_sent (tr @ [ev]) k = items_sent tr k" "items_sent (tr @ [ev]) (length tr) = []"
proof -
  have "count_list tr (Polled (length tr)) = 0" using polled_before [OF assms(1)] by (auto simp: count_list_0_iff)
  with assms(2) show "items_sent (tr @ [ev]) (length tr) = []"
    by (auto simp: items_sent_def split: event.split)
qed (use assms(2) in \<open>auto simp: items_sent_def nth_append split: event.split\<close>)

lemma items_sent_poll:
  assumes "next_item tr k = Some (r, i)"
  shows "j < length tr \<Longrightarrow> items_sent (tr @ [Polled k]) j = items_sent tr j @ (if j = k then [rs_body r ! i] else [])"
    "items_sent (tr @ [Polled k]) (length tr) = []" "list_all is_ok (items_sent tr k)"
proof -
  from assms obtain req where k: "k < length tr" "tr ! k = Served req r" "i = count_list tr (Polled k)"
    "i < length (rs_body r)" "list_all is_ok (take i (rs_body r))"
    by (rule next_item_Some)
  show "list_all is_ok (items_sent tr k)" using k by (simp add: items_sent_def)
  show "items_sent (tr @ [Polled k]) (length tr) = []" by (simp add: items_sent_def)
  show "items_sent (tr @ [Polled k]) j = items_sent tr j @ (if j = k then [rs_body r ! i] else [])" if "j < length tr"
    using that k by (auto simp: items_sent_def nth_append take_Suc_conv_app_nth split: event.split)
qed

lemma sums_step:
  assumes "server_runs E P contents entries w tr w'" "\<And>k. ev \<noteq> Polled k"
  shows "blob_bytes_sent E u (tr @ [ev]) = blob_bytes_sent E u tr" "bodies_broken (tr @ [ev]) = bodies_broken tr"
  using items_sent_step [OF assms] by (auto simp: blob_bytes_sent_def bodies_broken_def nth_append intro!: sum.cong)

lemma sum_one_more:
  fixes f :: "nat \<Rightarrow> nat"
  assumes "k < n" "\<And>j. j < n \<Longrightarrow> f' j = f j + (if j = k then d else 0)" "f' n = 0"
  shows "(\<Sum>j<Suc n. f' j) = (\<Sum>j<n. f j) + d"
  using assms by (simp add: sum.distrib)

lemma sums_poll:
  assumes "next_item tr k = Some (r, i)"
  shows "blob_bytes_sent E u (tr @ [Polled k]) = blob_bytes_sent E u tr
      + (if served_blob E u (tr ! k) then length (delivered [rs_body r ! i]) else 0)"
    "bodies_broken (tr @ [Polled k]) = bodies_broken tr + (if is_ok (rs_body r ! i) then 0 else 1)"
proof -
  from assms have k: "k < length tr" by (rule next_item_Some)
  note i = items_sent_poll [OF assms]
  show "blob_bytes_sent E u (tr @ [Polled k]) = blob_bytes_sent E u tr
      + (if served_blob E u (tr ! k) then length (delivered [rs_body r ! i]) else 0)"
    unfolding blob_bytes_sent_def length_append_singleton
    by (rule sum_one_more [OF k]) (auto simp: i(1,2) nth_append delivered_snoc [OF i(3)])
  show "bodies_broken (tr @ [Polled k]) = bodies_broken tr + (if is_ok (rs_body r ! i) then 0 else 1)"
    unfolding bodies_broken_def length_append_singleton
    by (rule sum_one_more [OF k]) (use i(3) in \<open>auto simp: i(1,2)\<close>)
qed

section \<open>The accounts of a run\<close>

lemma amounts [simp]:
  "me_amount (blob_bytes_event u s n) = n" "me_amount record_cached_blob_corruption = 1"
  "me_amount (http_event path status) = 1"
  by (simp_all add: blob_bytes_event_def record_cached_blob_corruption_def http_event_def)

lemma item_counted:
  assumes "well_metered E req r" "i < length (rs_body r)"
  shows "counted (blob_event u) (item_events (rs_meter r) (rs_body r ! i))
      = (if served_blob E u (Served req r) then length (delivered [rs_body r ! i]) else 0)"
    "counted corruption_event (item_events (rs_meter r) (rs_body r ! i)) \<le> (if is_ok (rs_body r ! i) then 0 else 1)"
    "counted (request_event path status) (item_events (rs_meter r) (rs_body r ! i)) = 0"
  using assms
  by (cases "rs_body r ! i"; auto simp: well_metered_def metered_as_def unmetered_def served_blob_def counted_def
      split: option.splits)+

definition accounts :: "('s, 'c, 'u) env \<Rightarrow> event list \<Rightarrow> ('s, 'c, 'u) world \<Rightarrow> bool" where
  "accounts E tr w \<longleftrightarrow>
     (\<forall>path status. counted (request_event path status) (w_metrics w) = requests_served path status tr)
     \<and> (\<forall>u. counted (blob_event u) (w_metrics w) = blob_bytes_sent E u tr)
     \<and> counted corruption_event (w_metrics w) \<le> bodies_broken tr"

lemma accounts_step:
  assumes "validate U debug ua s missing_vars = Inr (e_cfg E)" "header_value_law (e_http E)" "form_encode_law E"
    and run: "server_runs E P contents entries w0 tr w" and "server_step E P contents entries w ev w'" "accounts E tr w"
  shows "accounts E (tr @ [ev]) w'"
  using assms(5)
proof cases
  case (serve req r)
  from router_records [OF assms(1-3) serve(2)] obtain es t where
    es: "\<forall>e\<in>set es. series_of e \<in> set handler_series"
    and w': "w_metrics w' = w_metrics w @ es @ [http_event (sr_path req) (rs_status r), http_duration_event (sr_path req) t]"
    by blast
  have none: "counted (request_event path status) es = 0" "counted (blob_event u) es = 0" "counted corruption_event es = 0"
    for path status u
    using es handler_no_traffic by (auto intro: counted_none)
  have "counted (request_event path status) [http_event (sr_path req) (rs_status r), http_duration_event (sr_path req) t]
      = (if route_kind (sr_path req) = route_kind path \<and> rs_status r = status then 1 else 0)" for path status
    by (simp add: counted_def)
  moreover have "counted (blob_event u) [http_event (sr_path req) (rs_status r), http_duration_event (sr_path req) t] = 0"
    "counted corruption_event [http_event (sr_path req) (rs_status r), http_duration_event (sr_path req) t] = 0" for u
    by (simp_all add: counted_def)
  ultimately show ?thesis
    using assms(6) sums_step [OF run, of ev] serve(1) by (simp add: accounts_def w' none requests_served_def)
qed (use assms(6) sums_step [OF run, of ev] in \<open>simp_all add: accounts_def requests_served_def\<close>)

lemma accounts_poll:
  assumes run: "server_runs E P contents entries w0 tr w" and n: "next_item tr k = Some (r, i)" and "accounts E tr w"
  shows "accounts E (tr @ [Polled k]) (poll_item r i w)"
proof -
  from n obtain req where k: "k < length tr" "tr ! k = Served req r" "i < length (rs_body r)"
    by (rule next_item_Some)
  then have "Served req r \<in> set tr" by (metis nth_mem)
  from item_counted [OF runs_well_metered [OF run this] k(3)] assms(3) show ?thesis
    by (simp add: accounts_def poll_item_def sums_poll [OF n] k requests_served_def add_mono)
qed

lemma accounts_runs:
  assumes "validate U debug ua s missing_vars = Inr (e_cfg E)" "header_value_law (e_http E)" "form_encode_law E"
  shows "server_runs E P contents entries w tr w' \<Longrightarrow> w_metrics w = [] \<Longrightarrow> accounts E tr w'"
proof (induction rule: server_runs.induct)
  case (start w)
  then show ?case by (simp add: accounts_def counted_def requests_served_def blob_bytes_sent_def)
qed (auto intro: accounts_step [OF assms] accounts_poll)

section \<open>Property\<close>

text \<open>C18. The counters are honest: in every state that a server with a validated configuration reaches from
  start-up, the requests counted under a route and status are exactly the requests answered so, those
  refused by the authentication included; the blob bytes counted for a kind of upstream are exactly the
  bytes of blob bodies of that kind that were produced for clients, neither those of HEAD requests nor of
  other routes; and no more corruptions are counted than bodies broke off.\<close>
theorem traffic_accounted:
  assumes "validate U debug ua s missing_vars = Inr (e_cfg E)" "header_value_law (e_http E)" "form_encode_law E"
    and "server_runs E P contents entries w0 tr w" "w_metrics w0 = []"
  shows "counted (request_event path status) (w_metrics w) = requests_served path status tr
    \<and> counted (blob_event u) (w_metrics w) = blob_bytes_sent E u tr
    \<and> counted corruption_event (w_metrics w) \<le> bodies_broken tr"
  using accounts_runs [OF assms] by (simp add: accounts_def)

definition sample_blob_request :: server_request where
  "sample_blob_request = sample_request\<lparr>sr_path := ''/v2/a.io/c/blobs/'' @ as_str sample_digest\<rparr>"

definition sample_traffic_env ::
  "(string \<Rightarrow> bytes option, string \<Rightarrow> entry option, sample_url) env" where
  "sample_traffic_env = (sample_classic_env silent_net)\<lparr>e_form_encode := (\<lambda>_. [])\<rparr>"

lemma sample_blob_found:
  "\<exists>r w'. classic_blob sample_traffic_env (as_str sample_digest) False (holding ''hi'') = (Inr r, w')
     \<and> rs_status r = 200 \<and> rs_body r = [Inr ''hi'']"
proof -
  have raw: "path_raw (blob_key sample_digest) = blob_key sample_digest"
    by (rule path_raw_blob_key [OF canonical_sample_digest])
  show ?thesis
    by (simp add: sample_traffic_env_def sample_classic_env_def sample_env_def classic_blob_def sample_digest_parse
        find_blob_def classic_get_blob_def storage_of_def lift_ops_def on_part_def objstore_ops_def holding_def
        sample_world_def objstore_get_blob_def record_event_def memory_store_def os_path_def raw bindA_def map_errA_def
        catchA_def Let_def blob_response_def respond_base_def finish_def builder_header_def builder_new_def sample_http_def)
qed

lemma sample_blob_route:
  "parse_oci_path Some (sr_path sample_blob_request) = Blob ''a.io/c'' (as_str sample_digest)"
  unfolding sample_blob_request_def by code_simp

lemma sample_blob_entry: "\<exists>chart. resolve_in sample_traffic_env ''a.io/c'' = Some (ResClassic chart)"
  using sample_resolves
  by (auto simp: resolve_in_def sample_traffic_env_def sample_classic_env_def sample_env_def sample_config_def
      sample_helm_env_def sample_url_lib_def)

lemma sample_blob_upstream: "blob_upstream sample_traffic_env sample_blob_request = Some ProxyClassic"
proof -
  have "e_decode sample_traffic_env = Some"
    by (simp add: sample_traffic_env_def sample_classic_env_def sample_env_def)
  with sample_blob_entry show ?thesis
    by (auto simp: blob_upstream_def sample_blob_route) (simp_all add: sample_blob_request_def starts_with_iff)
qed

lemma sample_blob_answered:
  "\<exists>r w. build_router sample_traffic_env sample_pages sample_blob_request (holding ''hi'') = (r, w)
     \<and> rs_status r = 200 \<and> rs_body r = [Inr ''hi'']"
proof -
  let ?E = sample_traffic_env
  obtain r w1 where c: "classic_blob ?E (as_str sample_digest) False (holding ''hi'') = (Inr r, w1)"
    and r: "rs_status r = 200" "rs_body r = [Inr ''hi'']" using sample_blob_found by blast
  have e: "e_decode ?E = Some" "e_b64 ?E = (\<lambda>_. None)" "ac_tokens (st_auth (e_settings ?E)) = [''t0ken'']"
    by (simp_all add: sample_traffic_env_def sample_classic_env_def sample_env_def sample_config_def sample_settings_def)
  from c sample_blob_entry have "route_entry ?E ''p'' sample_blob_request False
      (parse_oci_path (e_decode ?E) (sr_path sample_blob_request)) (holding ''hi'') = (Inr r, w1)"
    by (auto simp: e sample_blob_route blob_entry_def)
  moreover have "sr_headers sample_blob_request = sr_headers sample_request" "sr_method sample_blob_request = GET"
    "starts_with ''/v2/'' (sr_path sample_blob_request)"
    by (simp_all add: sample_blob_request_def sample_request_get starts_with_iff)
  ultimately have "\<exists>v. build_router ?E sample_pages sample_blob_request (holding ''hi'') = (r, v) \<and> w_store v = w_store w1"
    by (intro router_answers [OF _ r(1) _ _ sample_host] sample_accepted e)
  with r show ?thesis by blast
qed

text \<open>A blob of two bytes is requested and its body produced: the counter is 2.\<close>

theorem traffic_accounted_witness:
  "\<exists>r w. server_runs sample_traffic_env sample_pages id id (holding ''hi'') [Served sample_blob_request r, Polled 0] w
     \<and> counted (blob_event ProxyClassic) (w_metrics w) = 2"
proof -
  let ?E = sample_traffic_env
  obtain r v where b: "build_router ?E sample_pages sample_blob_request (holding ''hi'') = (r, v)"
    and r: "rs_status r = 200" "rs_body r = [Inr ''hi'']" using sample_blob_answered by blast
  let ?tr = "[Served sample_blob_request r]"
  have run1: "server_runs ?E sample_pages id id (holding ''hi'') ?tr v"
    using step [OF start serve [OF b]] by simp
  moreover have "next_item ?tr 0 = Some (r, 0)" by (simp add: next_item_def r)
  ultimately have "server_runs ?E sample_pages id id (holding ''hi'') (?tr @ [Polled 0]) (poll_item r 0 v)"
    by (rule poll)
  then have run: "server_runs ?E sample_pages id id (holding ''hi'') [Served sample_blob_request r, Polled 0] (poll_item r 0 v)"
    by simp
  have cfg: "validate sample_url_lib quote (\<lambda>_. False) sample_settings [''VAR''] = Inr (e_cfg ?E)"
    by (simp add: sample_validate sample_traffic_env_def sample_classic_env_def sample_env_def sample_config_def)
  have laws: "header_value_law (e_http ?E)" "form_encode_law ?E" "w_metrics (holding ''hi'') = []"
    by (simp_all add: header_value_law_def form_encode_law_def sample_traffic_env_def sample_classic_env_def
        sample_env_def sample_http_def holding_def sample_world_def)
  have "blob_bytes_sent ?E ProxyClassic [Served sample_blob_request r, Polled 0] = 2"
    by (simp add: blob_bytes_sent_def served_blob_def sample_blob_upstream items_sent_def r)
  with traffic_accounted [OF cfg laws(1,2) run laws(3), of "[]" 0 ProxyClassic] run show ?thesis by auto
qed

end
