(* ===== verification/Spec2Isabelle.thy ===== *)
theory Spec2Isabelle
  imports Startup Divergences Linked_Tags Accounting
begin

text \<open>
  A model of \<open>helmoci\<close>, a read-only OCI registry in front of classic Helm repositories and of OCI
  upstreams, with the properties that make it correct. Bytes and Rust strings are lists of
  characters of 8 bits, \<open>u64\<close>, \<open>u32\<close> and \<open>u16\<close> are words of that width with the checked and
  saturating operations of the source written out, a \<open>HashMap\<close> is its entries in iteration order.
  A fallible function returns a sum whose left side is the error; a fallible operation on the state
  is an \<open>act\<close> (theory \<open>Prelude\<close>): it returns a result or an error together with the state it leaves, because
  a \<open>?\<close> does not undo what was written before it. Where the program panics the model has a
  response of its own (\<open>panicked\<close>), which \<open>every_request_answered\<close> shows is never reached.

  \<^bold>\<open>Parts and theories.\<close> The theories follow the crates, each after those it calls.

  \<^item> \<open>Prelude\<close>, \<open>Utf8\<close>, \<open>Std_Net\<close>, \<open>Std_Float\<close>: what the sources use of Rust's standard library
    (\<open>str\<close>, integers, UTF-8, addresses and their parsers, \<open>f32\<close> and \<open>f64\<close> parsing) and the error monads with
    their Hoare rules. \<open>Ext_Lib\<close>, \<open>Http\<close>: the \<open>url\<close> crate and the HTTP vocabulary.
  \<^item> \<open>crates/helmoci-core\<close>: \<open>Oci\<close> (\<open>oci/mod.rs\<close>, \<open>oci/digest.rs\<close>), \<open>Oci_Route\<close> (\<open>oci/route.rs\<close>),
    \<open>Hostname\<close> and \<open>Resolver\<close> (\<open>resolver\<close>), \<open>Helm_Index\<close> (\<open>helm/index.rs\<close>), \<open>Tgz\<close> (\<open>helm/tgz.rs\<close>), \<open>Helm_Rewrite\<close>
    (\<open>helm/rewrite.rs\<close>, \<open>helm/chart.rs\<close>), \<open>Oci_Build\<close> (\<open>oci/build.rs\<close>).
  \<^item> \<open>crates/helmoci-storage\<close>: \<open>Storage\<close> (\<open>lib.rs\<close>: the trait as the record \<open>storage_ops\<close>, its
    contract as the locale \<open>storage\<close>, the key layout), \<open>Ephemeral\<close> (\<open>ephemeral.rs\<close>) and \<open>Objstore\<close>
    (\<open>objstore.rs\<close>), each with an interpretation of the locale. \<open>crates/helmoci-info\<close>: \<open>Info\<close>.
  \<^item> \<open>bins/helmoci\<close>, the server: \<open>App_Error\<close> (\<open>error.rs\<close>), \<open>Metrics\<close>, \<open>Respond\<close>, \<open>Config\<close>, \<open>Auth\<close>, \<open>State\<close> and \<open>Public_Ip\<close>
    (\<open>state.rs\<close>), \<open>Upstream\<close>, \<open>Classic\<close>, then \<open>passthrough.rs\<close> in five theories, \<open>Media_Type\<close>, \<open>Tag_Link\<close>,
    \<open>Bearer\<close>, \<open>Blob_Stream\<close> and \<open>Passthrough\<close>, then \<open>Routes\<close> (\<open>routes.rs\<close>) and \<open>Startup\<close> (\<open>main.rs\<close>, \<open>gcp.rs\<close>).
    \<open>World\<close> is the state the handlers run in: \<open>world\<close> holds the two stores, the index and token
    caches, the clock, the log of upstream requests and the metric events (\<open>AppState\<close> and the global recorder);
    \<open>env\<close> holds the configuration and everything outside the process.
  \<^item> Properties that span components: \<open>Integrity\<close> (the locale \<open>backends\<close>, the content-addressing
    invariant and its interpretation on the deployed stores), \<open>Classic_Spec\<close>, \<open>Passthrough_Spec\<close>,
    \<open>Credentials\<close> (where tokens may go), \<open>Server\<close> (the runs of the server), \<open>Store_Types\<close> (what lies in
    the stores), \<open>Linked_Tags\<close> (no tag dangles), \<open>Answers\<close> (totality), \<open>Meters\<close> (which bodies are counted),
    \<open>Series\<close> (the metrics are bounded) and \<open>Accounting\<close> (what the counters add up to),
    \<open>Write_Through\<close> (what a pull leaves behind for the next one), \<open>Startup\<close>. \<open>Divergences\<close> states where the code
    does something else than it means to.

  \<^bold>\<open>Invariants of the stores.\<close> A chain of locales proves once that every handler keeps an invariant of the two
    stores: \<open>store_reads\<close> (\<open>Integrity\<close>: reads and writes of bytes under their own digest), \<open>classic_invariant\<close> and
    \<open>registry_invariant\<close> (the two writes that end in a tag pointer, as wholes), \<open>server_invariant\<close> (requests), and
    \<open>lossy_invariant\<close> and \<open>durable_invariant\<close> (runs); \<open>handler_invariant\<close> gives all of them where each
    single write keeps the invariant. It has three interpretations on the deployed stores: content
    addressing (\<open>Server\<close>), the types of the objects (\<open>Store_Types\<close>) and pointers that lead to blobs (\<open>Linked_Tags\<close>).

  \<^bold>\<open>How the parts interact.\<close> \<open>server_main\<close> loads and validates the configuration, builds the stores and
  clients and serves \<open>build_router\<close>, which authenticates, routes with \<open>parse_oci_path\<close>, resolves the name with \<open>resolve_name\<close>
  and dispatches to the classic handlers (index, download, rewrite, build, store) or to the
  passthrough handlers (token exchange, fetch, verify, write through). A run of the server (\<open>server_runs\<close>) is an inductive
  sequence of served requests, background steps (time passes, cache entries expire, objects
  disappear from the bucket) and polls: the body of a response leaves item by item after the handler has returned,
  interleaved with everything else and perhaps never to its end, and records its metrics then.

  \<^bold>\<open>What the lemmas show.\<close> Per component: round trips (digests, paths, names, PAX records), exactness or soundness of
  the parsers, bounds on everything that is read or expanded, confinement of redirects, links and credentials,
  and the error each failure becomes. Across components: every reachable state keeps both stores content
  addressed and every 200 answer is authentic (\<open>server_runs_authentic\<close>), nothing but blobs under their digest and
  pointers under tag keys is ever stored (\<open>stores_well_typed\<close>), no tag dangles (\<open>tags_never_dangle\<close>), the
  metrics have a fixed set of series (\<open>metric_series_fixed\<close>) and count exactly the requests answered and the blob
  bytes sent (\<open>traffic_accounted\<close>), every request is answered
  with a status of a closed set, a built chart is stored before it is announced, a pull through a
  storing alias is repeated from the store (unless the bucket already held other bytes under the manifest's
  digest, which are neither served nor replaced), and a server that starts has what its configuration needs.

  \<^bold>\<open>Parameters and their laws.\<close> Third-party code is a parameter, and what is documented of it a named hypothesis:
  SHA-256 has 64 hexadecimal digits (\<open>sha_hex\<close>; that it has no collisions is never assumed);
  \<open>object_store_laws\<close> (a failed write may or may not have taken effect), \<open>cache_laws\<close> (the cache may evict
  at any time), \<open>pointer_json_roundtrip\<close>, \<open>url_edit_law\<close>, \<open>header_value_law\<close> and their like. The
  network is any function of the requests sent so far. Every property with such a hypothesis has a witness that
  instantiates the parameters with the sample functions declared beside them.

  \<^bold>\<open>Bounds and fuel.\<close> Loops are structural recursion or carry a measure; \<open>send_loop\<close> counts down from
  \<open>MAX_REDIRECTS\<close> as the source does. The only fuel is that of \<open>tag_walk\<close>, a client that follows
  the \<open>next\<close> links of a tag list: it is \<open>None\<close> when the fuel runs out, and any fuel above the number of
  tags reads the whole list in one request per page (\<open>tag_pages_complete\<close>).

  \<^bold>\<open>Not modelled.\<close> The bytes of gzip, tar, YAML and JSON (their decoded values are), TLS and the HTTP wire
  format; the concurrency of requests (a request is one step; the three concurrent writes of a
  chart are modelled in every completion order); cancellation of a handler by its client; log lines; the text of the
  metrics page; wall-clock time
  beyond the instants the code compares.
\<close>

end
